(* ===== verification/Gateway_Prelude.thy ===== *)
theory Gateway_Prelude
  imports Main "HOL-Library.AList"
begin

text \<open>
  Shared material of the development: the lemma collections that the component
  theories fill, the result type of fallible Go functions, Go maps as association
  lists, and generic list lemmas.

  A Go function that returns \<open>(T, error)\<close> is a function into \<open>'e + 'a\<close>:
  \<open>Inl\<close> carries the error of the early return, \<open>Inr\<close> the result.
  A Go map \<open>map[K]V\<close> is an association list read through \<^const>\<open>map_of\<close>,
  written through \<^const>\<open>AList.update\<close> and \<^const>\<open>AList.delete\<close>.
\<close>

named_theorems go_string_simps \<open>rewriting of Go string operations\<close>
named_theorems http_simps \<open>evaluation of requests, headers and response writers\<close>
named_theorems mw_enforces \<open>contracts of middlewares\<close>

section \<open>Results\<close>

definition res_bind :: "'e + 'a \<Rightarrow> ('a \<Rightarrow> 'e + 'b) \<Rightarrow> 'e + 'b" where
  "res_bind m f = (case m of Inl e \<Rightarrow> Inl e | Inr x \<Rightarrow> f x)"

lemma res_bind_simps [simp]:
  "res_bind (Inl e) f = Inl e"
  "res_bind (Inr x) f = f x"
  by (simp_all add: res_bind_def)

lemma res_bind_Inr_iff:
  "res_bind m f = Inr y \<longleftrightarrow> (\<exists>x. m = Inr x \<and> f x = Inr y)"
  by (cases m) auto

lemma list_all2_set_right:
  "list_all2 P xs ys \<Longrightarrow> y \<in> set ys \<Longrightarrow> \<exists>x \<in> set xs. P x y"
  by (induction rule: list_all2_induct) auto

text \<open>A loop that stops at the first error and collects the results otherwise.\<close>

fun traverse :: "('a \<Rightarrow> 'e + 'b) \<Rightarrow> 'a list \<Rightarrow> 'e + 'b list" where
  "traverse f [] = Inr []"
| "traverse f (x # xs) =
     (case f x of Inl e \<Rightarrow> Inl e
      | Inr y \<Rightarrow> (case traverse f xs of Inl e \<Rightarrow> Inl e | Inr ys \<Rightarrow> Inr (y # ys)))"

lemma traverse_Inr_iff:
  "traverse f xs = Inr ys \<longleftrightarrow> list_all2 (\<lambda>x y. f x = Inr y) xs ys"
proof (induction xs arbitrary: ys)
  case (Cons x xs)
  show ?case
    by (cases ys; cases "f x"; cases "traverse f xs") (auto simp: Cons.IH [symmetric])
qed auto

lemma traverse_Inr_length: "traverse f xs = Inr ys \<Longrightarrow> length ys = length xs"
  by (simp add: traverse_Inr_iff list_all2_lengthD)

lemma traverse_Inr_all:
  assumes "traverse f xs = Inr ys" and "\<And>x y. x \<in> set xs \<Longrightarrow> f x = Inr y \<Longrightarrow> P y"
  shows "\<forall>y \<in> set ys. P y"
proof
  fix y
  assume "y \<in> set ys"
  with assms(1) obtain x where "x \<in> set xs" "f x = Inr y"
    by (auto simp: traverse_Inr_iff dest: list_all2_set_right)
  thus "P y" by (rule assms(2))
qed

lemma traverse_Inl_iff:
  "(\<exists>e. traverse f xs = Inl e) \<longleftrightarrow> (\<exists>x \<in> set xs. \<exists>e. f x = Inl e)"
  by (induction xs) (auto split: sum.splits)

lemma traverse_total:
  "(\<And>x. x \<in> set xs \<Longrightarrow> f x = Inr (g x)) \<Longrightarrow> traverse f xs = Inr (map g xs)"
  by (induction xs) auto

section \<open>Lists\<close>

lemma find_Some_set: "List.find P xs = Some x \<Longrightarrow> x \<in> set xs \<and> P x"
  by (induction xs) (auto split: if_splits)

lemma find_None_set: "List.find P xs = None \<longleftrightarrow> (\<forall>x \<in> set xs. \<not> P x)"
  by (induction xs) auto

lemma foldr_comp_append:
  "foldr (\<circ>) (xs @ ys) id = foldr (\<circ>) xs id \<circ> foldr (\<circ>) ys id"
  by (induction xs) (simp_all add: comp_assoc)

end
