(* ===== verification/Go_Strings.thy ===== *)
theory Go_Strings
  imports Gateway_Prelude "HOL-Library.Sublist"
begin

text \<open>
  The operations of Go's \<open>strings\<close>, \<open>strconv\<close>, \<open>regexp\<close> (\<open>QuoteMeta\<close>) and
  \<open>net/textproto\<close> packages that the gateway uses.  A Go string is a byte
  sequence; it is a \<^typ>\<open>string\<close> here, one \<^typ>\<open>char\<close> per byte.
\<close>

section \<open>Splitting and joining\<close>

text \<open>\<open>strings.Split(s, sep)\<close> for a separator of one byte: never empty.\<close>

fun split_on :: "char \<Rightarrow> string \<Rightarrow> string list" where
  "split_on c [] = [[]]"
| "split_on c (x # xs) =
     (if x = c then [] # split_on c xs
      else (case split_on c xs of [] \<Rightarrow> [[x]] | y # ys \<Rightarrow> (x # y) # ys))"

text \<open>\<open>strings.Join(xs, sep)\<close>.\<close>

fun join :: "string \<Rightarrow> string list \<Rightarrow> string" where
  "join sep [] = []"
| "join sep [x] = x"
| "join sep (x # y # ys) = x @ sep @ join sep (y # ys)"

section \<open>White space\<close>

text \<open>
  The UTF-8 encodings of the runes for which \<open>unicode.IsSpace\<close> holds:
  the six ASCII ones, U+0085, U+00A0, U+1680, U+2000 to U+200A, U+2028, U+2029, U+202F,
  U+205F and U+3000.
\<close>

definition space_encodings :: "string list" where
  "space_encodings =
     [[CHR 0x09], [CHR 0x0A], [CHR 0x0B], [CHR 0x0C], [CHR 0x0D], [CHR 0x20],
      [CHR 0xC2, CHR 0x85], [CHR 0xC2, CHR 0xA0],
      [CHR 0xE1, CHR 0x9A, CHR 0x80],
      [CHR 0xE2, CHR 0x80, CHR 0x80], [CHR 0xE2, CHR 0x80, CHR 0x81],
      [CHR 0xE2, CHR 0x80, CHR 0x82], [CHR 0xE2, CHR 0x80, CHR 0x83],
      [CHR 0xE2, CHR 0x80, CHR 0x84], [CHR 0xE2, CHR 0x80, CHR 0x85],
      [CHR 0xE2, CHR 0x80, CHR 0x86], [CHR 0xE2, CHR 0x80, CHR 0x87],
      [CHR 0xE2, CHR 0x80, CHR 0x88], [CHR 0xE2, CHR 0x80, CHR 0x89],
      [CHR 0xE2, CHR 0x80, CHR 0x8A], [CHR 0xE2, CHR 0x80, CHR 0xA8],
      [CHR 0xE2, CHR 0x80, CHR 0xA9], [CHR 0xE2, CHR 0x80, CHR 0xAF],
      [CHR 0xE2, CHR 0x81, CHR 0x9F], [CHR 0xE3, CHR 0x80, CHR 0x80]]"

fun strip_prefixes :: "string list \<Rightarrow> string \<Rightarrow> string" where
  "strip_prefixes ps [] = []"
| "strip_prefixes ps (c # s) =
     (case List.find (\<lambda>p. p \<noteq> [] \<and> prefix p (c # s)) ps of
        None \<Rightarrow> c # s
      | Some p \<Rightarrow> strip_prefixes ps (drop (length p - 1) s))"

definition trim_space :: "string \<Rightarrow> string" where
  "trim_space s =
     rev (strip_prefixes (map rev space_encodings) (rev (strip_prefixes space_encodings s)))"

section \<open>Prefixes, suffixes and substrings\<close>

definition trim_prefix :: "string \<Rightarrow> string \<Rightarrow> string" where
  "trim_prefix s p = (if prefix p s then drop (length p) s else s)"

definition trim_suffix :: "string \<Rightarrow> string \<Rightarrow> string" where
  "trim_suffix s p = (if suffix p s then take (length s - length p) s else s)"

text \<open>\<open>strings.TrimLeft(s, cutset)\<close> removes leading characters of the cut set.\<close>

definition trim_left :: "string \<Rightarrow> string \<Rightarrow> string" where
  "trim_left s cutset = dropWhile (\<lambda>c. c \<in> set cutset) s"

text \<open>\<open>strings.Index\<close>: the first position of the pattern.\<close>

fun index_of :: "string \<Rightarrow> string \<Rightarrow> nat option" where
  "index_of [] p = (if p = [] then Some 0 else None)"
| "index_of (c # s) p = (if prefix p (c # s) then Some 0 else map_option Suc (index_of s p))"

definition contains :: "string \<Rightarrow> string \<Rightarrow> bool" where
  "contains s p = (index_of s p \<noteq> None)"

text \<open>\<open>strings.Replace(s, old, new, 1)\<close>.\<close>

definition replace_first :: "string \<Rightarrow> string \<Rightarrow> string \<Rightarrow> string" where
  "replace_first s old new =
     (case index_of s old of None \<Rightarrow> s
      | Some i \<Rightarrow> take i s @ new @ drop (i + length old) s)"

section \<open>Characters\<close>

definition is_lower :: "char \<Rightarrow> bool" where
  "is_lower c = (97 \<le> (of_char c :: nat) \<and> (of_char c :: nat) \<le> 122)"

definition is_upper :: "char \<Rightarrow> bool" where
  "is_upper c = (65 \<le> (of_char c :: nat) \<and> (of_char c :: nat) \<le> 90)"

definition is_digit :: "char \<Rightarrow> bool" where
  "is_digit c = (48 \<le> (of_char c :: nat) \<and> (of_char c :: nat) \<le> 57)"

definition to_upper :: "char \<Rightarrow> char" where
  "to_upper c = (if is_lower c then char_of (of_char c - 32 :: nat) else c)"

definition to_lower :: "char \<Rightarrow> char" where
  "to_lower c = (if is_upper c then char_of (of_char c + 32 :: nat) else c)"

section \<open>Regular expression quoting\<close>

definition regex_meta :: string where
  "regex_meta = CHR 0x5C # ''.+*?()|[]{}^$''"

text \<open>\<open>regexp.QuoteMeta\<close>.\<close>

fun quote_meta :: "string \<Rightarrow> string" where
  "quote_meta [] = []"
| "quote_meta (c # s) =
     (if c \<in> set regex_meta then CHR 0x5C # c # quote_meta s else c # quote_meta s)"

section \<open>Decimal numbers\<close>

text \<open>\<open>strconv.Itoa\<close> on non-negative numbers, and on integers.\<close>

definition digit_char :: "nat \<Rightarrow> char" where
  "digit_char d = char_of (48 + d)"

fun itoa_nat :: "nat \<Rightarrow> string" where
  "itoa_nat n = (if n < 10 then [digit_char n] else itoa_nat (n div 10) @ [digit_char (n mod 10)])"

declare itoa_nat.simps [simp del]

definition itoa :: "int \<Rightarrow> string" where
  "itoa i = (if i < 0 then ''-'' @ itoa_nat (nat (- i)) else itoa_nat (nat i))"

definition atoi_nat :: "string \<Rightarrow> nat option" where
  "atoi_nat s =
     (if s \<noteq> [] \<and> list_all is_digit s
      then Some (foldl (\<lambda>n c. 10 * n + (of_char c - 48)) 0 s) else None)"

section \<open>Header keys\<close>

text \<open>
  \<open>textproto.CanonicalMIMEHeaderKey\<close>: a key made of token characters gets an
  upper case letter at the start and after every hyphen, lower case elsewhere;
  any other key is left alone.
\<close>

definition is_token_char :: "char \<Rightarrow> bool" where
  "is_token_char c =
     (is_lower c \<or> is_upper c \<or> is_digit c \<or>
      c \<in> set (''!#$%&*+-.^_|~'' @ [CHR 0x27, CHR 0x60]))"

fun canonical_from :: "bool \<Rightarrow> string \<Rightarrow> string" where
  "canonical_from up [] = []"
| "canonical_from up (c # s) =
     (if up then to_upper c else to_lower c) # canonical_from (c = CHR ''-'') s"

definition canonical_key :: "string \<Rightarrow> string" where
  "canonical_key k = (if list_all is_token_char k then canonical_from True k else k)"

lemmas char_eval =
  is_lower_def is_upper_def is_digit_def to_upper_def to_lower_def is_token_char_def
  char_of_eq_iff take_bit_eq_mod

section \<open>Lemmas\<close>

subsection \<open>Split and join\<close>

lemma split_on_not_Nil [simp]: "split_on c s \<noteq> []"
  by (induction s) (auto split: list.splits)

lemma split_on_no_sep: "c \<notin> set s \<Longrightarrow> split_on c s = [s]"
  by (induction s) auto

lemma split_on_parts: "p \<in> set (split_on c s) \<Longrightarrow> c \<notin> set p"
proof (induction s arbitrary: p)
  case (Cons x s)
  then show ?case by (cases "split_on c s") (auto split: if_splits)
qed simp

lemma split_on_append_sep:
  "c \<notin> set x \<Longrightarrow> split_on c (x @ c # s) = x # split_on c s"
  by (induction x) auto

lemma join_Cons: "xs \<noteq> [] \<Longrightarrow> join sep (x # xs) = x @ sep @ join sep xs"
  by (cases xs) auto

lemma join_split_on [simp]: "join [c] (split_on c s) = s"
proof (induction s)
  case (Cons x s)
  then show ?case
    by (cases "split_on c s") (auto simp: join_Cons split: list.splits, (cases "tl (split_on c s)"; simp)+)
qed simp

lemma split_on_join:
  assumes "xs \<noteq> []" and "\<And>x. x \<in> set xs \<Longrightarrow> c \<notin> set x"
  shows "split_on c (join [c] xs) = xs"
  using assms
proof (induction xs)
  case (Cons x xs)
  then show ?case
    by (cases xs) (auto simp: split_on_no_sep split_on_append_sep)
qed simp

lemma split_on_concat_sub: "p \<in> set (split_on c s) \<Longrightarrow> set p \<subseteq> set s"
  by (induction s arbitrary: p) (auto split: list.splits if_splits, fastforce+)

lemma set_join: "set (join sep xs) \<subseteq> set sep \<union> \<Union> (set ` set xs)"
  by (induction sep xs rule: join.induct) auto

subsection \<open>White space\<close>

lemma strip_prefixes_suffix: "suffix (strip_prefixes ps s) s"
proof (induction ps s rule: strip_prefixes.induct)
  case (2 ps c s)
  show ?case
  proof (cases "List.find (\<lambda>p. p \<noteq> [] \<and> prefix p (c # s)) ps")
    case (Some p)
    have "suffix (strip_prefixes ps (drop (length p - 1) s)) (drop (length p - 1) s)"
      by (rule 2 [OF Some])
    hence "suffix (strip_prefixes ps (drop (length p - 1) s)) (c # s)"
      by (meson suffix_ConsI suffix_drop suffix_order.trans)
    thus ?thesis by (simp add: Some)
  qed simp
qed simp

lemma strip_prefixes_id:
  "(\<And>p. p \<in> set ps \<Longrightarrow> p \<noteq> [] \<Longrightarrow> \<not> prefix p s) \<Longrightarrow> strip_prefixes ps s = s"
  by (cases s) (auto split: option.splits dest: find_Some_set)

lemma strip_prefixes_stuck: "p \<in> set ps \<Longrightarrow> p \<noteq> [] \<Longrightarrow> \<not> prefix p (strip_prefixes ps s)"
  by (induction ps s rule: strip_prefixes.induct) (auto split: option.splits simp: find_None_set)

lemma set_trim_space: "set (trim_space s) \<subseteq> set s"
proof -
  have "set (strip_prefixes ps t) \<subseteq> set t" for ps t
    by (rule set_mono_suffix [OF strip_prefixes_suffix])
  thus ?thesis unfolding trim_space_def by (metis (no_types, lifting) set_rev subset_trans)
qed

text \<open>The last byte of every white-space encoding, and the first.\<close>

definition space_bytes :: "char set" where
  "space_bytes = hd ` set space_encodings \<union> last ` set space_encodings"

lemma trim_space_id:
  assumes "set s \<inter> space_bytes = {}"
  shows "trim_space s = s"
proof -
  have ne: "[] \<notin> set space_encodings" by (simp add: space_encodings_def)
  have "strip_prefixes space_encodings s = s"
    using assms ne
    by (intro strip_prefixes_id)
       (force simp: space_bytes_def prefix_def neq_Nil_conv)
  moreover have "strip_prefixes (map rev space_encodings) (rev s) = rev s"
  proof (rule strip_prefixes_id)
    fix p assume "p \<in> set (map rev space_encodings)" "p \<noteq> []"
    then obtain e where e: "e \<in> set space_encodings" "p = rev e" "e \<noteq> []" by auto
    show "\<not> prefix p (rev s)"
    proof
      assume "prefix p (rev s)"
      hence "last e \<in> set s" using e by (metis hd_rev last_in_set prefix_def set_rev suffix_to_prefix set_mono_suffix subsetD)
      thus False using e assms by (auto simp: space_bytes_def)
    qed
  qed
  ultimately show ?thesis by (simp add: trim_space_def)
qed

end
