(* ===== verification/Go_JSON.thy ===== *)
theory Go_JSON
  imports Go_Strings
begin

text \<open>
  JSON as \<open>encoding/json\<close> writes and reads it: the value tree, the encoder's
  string escaping (HTML escaping on, invalid UTF-8 replaced), the printer used by
  \<open>Marshal\<close> and \<open>Encoder.Encode\<close>, a parser for the grammar that \<open>Unmarshal\<close>
  accepts, the lookup of struct fields in an object, and the round trip
  of printing and parsing.
\<close>

datatype json =
    JNull
  | JBool bool
  | JNum string
  | JStr string
  | JArr "json list"
  | JObj "(string \<times> json) list"

section \<open>UTF-8\<close>

abbreviation byte_of :: "char \<Rightarrow> nat" where
  "byte_of c \<equiv> of_char c"

definition between :: "nat \<Rightarrow> nat \<Rightarrow> char \<Rightarrow> bool" where
  "between lo hi c = (lo \<le> byte_of c \<and> byte_of c \<le> hi)"

text \<open>
  The number of continuation bytes a leading byte asks for, with the range of the first one, and
  the length of the valid encoding at the head of a byte string, 0 when
  there is none (\<open>utf8.DecodeRune\<close> then returns \<open>RuneError\<close> with size 1).
\<close>

definition utf8_head :: "char \<Rightarrow> (nat \<times> nat \<times> nat) option" where
  "utf8_head a =
     (if byte_of a < 0x80 then Some (0, 0x80, 0xBF)
      else if between 0xC2 0xDF a then Some (1, 0x80, 0xBF)
      else if byte_of a = 0xE0 then Some (2, 0xA0, 0xBF)
      else if byte_of a = 0xED then Some (2, 0x80, 0x9F)
      else if between 0xE1 0xEF a then Some (2, 0x80, 0xBF)
      else if byte_of a = 0xF0 then Some (3, 0x90, 0xBF)
      else if between 0xF1 0xF3 a then Some (3, 0x80, 0xBF)
      else if byte_of a = 0xF4 then Some (3, 0x80, 0x8F)
      else None)"

fun utf8_len :: "string \<Rightarrow> nat" where
  "utf8_len [] = 0"
| "utf8_len (a # s) =
     (case utf8_head a of None \<Rightarrow> 0
      | Some (k, lo, hi) \<Rightarrow>
          if k \<le> length s \<and> (k = 0 \<or> between lo hi (hd s)) \<and> list_all (between 0x80 0xBF) (take k s)
          then Suc k else 0)"

declare utf8_len.simps [simp del]

fun utf8_valid :: "string \<Rightarrow> bool" where
  "utf8_valid [] = True"
| "utf8_valid (c # s) =
     (utf8_len (c # s) \<noteq> 0 \<and> utf8_valid (drop (utf8_len (c # s) - 1) s))"

definition utf8_encode :: "nat \<Rightarrow> string" where
  "utf8_encode r =
     (if r < 0x80 then [char_of r]
      else if r < 0x800 then [char_of (0xC0 + r div 64), char_of (0x80 + r mod 64)]
      else if r < 0x10000 then
        [char_of (0xE0 + r div 4096), char_of (0x80 + r div 64 mod 64), char_of (0x80 + r mod 64)]
      else
        [char_of (0xF0 + r div 262144), char_of (0x80 + r div 4096 mod 64),
         char_of (0x80 + r div 64 mod 64), char_of (0x80 + r mod 64)])"

definition replacement_rune :: string where
  "replacement_rune = [CHR 0xEF, CHR 0xBF, CHR 0xBD]"

section \<open>Printing\<close>

definition hex_digit :: "nat \<Rightarrow> char" where
  "hex_digit d = (if d < 10 then char_of (48 + d) else char_of (87 + d))"

definition json_escape_ascii :: "char \<Rightarrow> string" where
  "json_escape_ascii c =
     (if c = CHR 0x22 \<or> c = CHR 0x5C then [CHR 0x5C, c]
      else if c = CHR 0x08 then CHR 0x5C # ''b''
      else if c = CHR 0x0C then CHR 0x5C # ''f''
      else if c = CHR 0x0A then CHR 0x5C # ''n''
      else if c = CHR 0x0D then CHR 0x5C # ''r''
      else if c = CHR 0x09 then CHR 0x5C # ''t''
      else if byte_of c < 0x20 \<or> c \<in> set ''<>&'' then
        CHR 0x5C # ''u00'' @ [hex_digit (byte_of c div 16), hex_digit (byte_of c mod 16)]
      else [c])"

fun json_escape :: "string \<Rightarrow> string" where
  "json_escape [] = []"
| "json_escape (c # s) =
     (let n = utf8_len (c # s) in
      if n = 0 then CHR 0x5C # ''ufffd'' @ json_escape s
      else if n = 1 then json_escape_ascii c @ json_escape s
      else if prefix [CHR 0xE2, CHR 0x80, CHR 0xA8] (c # s) then
        CHR 0x5C # ''u2028'' @ json_escape (drop 2 s)
      else if prefix [CHR 0xE2, CHR 0x80, CHR 0xA9] (c # s) then
        CHR 0x5C # ''u2029'' @ json_escape (drop 2 s)
      else take n (c # s) @ json_escape (drop (n - 1) s))"

declare json_escape.simps(2) [simp del]

definition json_quote :: "string \<Rightarrow> string" where
  "json_quote s = CHR 0x22 # json_escape s @ [CHR 0x22]"

fun json_print :: "json \<Rightarrow> string" where
  "json_print JNull = ''null''"
| "json_print (JBool b) = (if b then ''true'' else ''false'')"
| "json_print (JNum n) = n"
| "json_print (JStr s) = json_quote s"
| "json_print (JArr xs) = ''['' @ join '','' (map json_print xs) @ '']''"
| "json_print (JObj ms) =
     ''{'' @ join '','' (map (\<lambda>(k, v). json_quote k @ '':'' @ json_print v) ms) @ ''}''"

section \<open>Parsing\<close>

definition is_json_space :: "char \<Rightarrow> bool" where
  "is_json_space c = (c \<in> set [CHR 0x20, CHR 0x09, CHR 0x0D, CHR 0x0A])"

abbreviation skip_ws :: "string \<Rightarrow> string" where
  "skip_ws s \<equiv> dropWhile is_json_space s"

definition hex_val :: "char \<Rightarrow> nat option" where
  "hex_val c =
     (if is_digit c then Some (byte_of c - 48)
      else if between 97 102 c then Some (byte_of c - 87)
      else if between 65 70 c then Some (byte_of c - 55) else None)"

fun hex4 :: "string \<Rightarrow> nat option" where
  "hex4 (a # b # c # d # _) =
     (case (hex_val a, hex_val b, hex_val c, hex_val d) of
        (Some x, Some y, Some z, Some w) \<Rightarrow> Some (((x * 16 + y) * 16 + z) * 16 + w)
      | _ \<Rightarrow> None)"
| "hex4 _ = None"

definition prepend :: "string \<Rightarrow> (string \<times> string) option \<Rightarrow> (string \<times> string) option" where
  "prepend p r = map_option (\<lambda>(a, b). (p @ a, b)) r"

definition simple_escape :: "char \<Rightarrow> char option" where
  "simple_escape c =
     map_of [(CHR 0x22, CHR 0x22), (CHR 0x5C, CHR 0x5C), (CHR ''/'', CHR ''/''),
             (CHR ''b'', CHR 0x08), (CHR ''f'', CHR 0x0C), (CHR ''n'', CHR 0x0A),
             (CHR ''r'', CHR 0x0D), (CHR ''t'', CHR 0x09)] c"

text \<open>The low half of a surrogate pair, when the input continues with one.\<close>

definition low_surrogate :: "string \<Rightarrow> nat option" where
  "low_surrogate s =
     (if prefix [CHR 0x5C, CHR ''u''] s then
        (case hex4 (drop 2 s) of
           Some v \<Rightarrow> if 0xDC00 \<le> v \<and> v < 0xE000 then Some v else None
         | None \<Rightarrow> None)
      else None)"

fun parse_str :: "string \<Rightarrow> (string \<times> string) option" where
  "parse_str [] = None"
| "parse_str (c # s) =
     (if c = CHR 0x22 then Some ([], s)
      else if c = CHR 0x5C then
        (case s of [] \<Rightarrow> None
         | e # t \<Rightarrow>
             if e = CHR ''u'' then
               (case hex4 t of None \<Rightarrow> None
                | Some u \<Rightarrow>
                    if u < 0xD800 \<or> 0xE000 \<le> u then prepend (utf8_encode u) (parse_str (drop 4 t))
                    else (case (if u < 0xDC00 then low_surrogate (drop 4 t) else None) of
                            Some v \<Rightarrow> prepend (utf8_encode (0x10000 + (u - 0xD800) * 1024 + (v - 0xDC00)))
                                       (parse_str (drop 10 t))
                          | None \<Rightarrow> prepend replacement_rune (parse_str (drop 4 t))))
             else (case simple_escape e of None \<Rightarrow> None | Some d \<Rightarrow> prepend [d] (parse_str t)))
      else if byte_of c < 0x20 then None
      else if utf8_len (c # s) = 0 then prepend replacement_rune (parse_str s)
      else prepend (take (utf8_len (c # s)) (c # s)) (parse_str (drop (utf8_len (c # s) - 1) s)))"

declare parse_str.simps(2) [simp del]

text \<open>Numbers: an optional minus, an integer part without leading zeros, a fraction, an exponent.\<close>

definition json_number :: "string \<Rightarrow> bool" where
  "json_number s =
     (let s1 = (if prefix ''-'' s then tl s else s);
          ip = takeWhile is_digit s1; s2 = dropWhile is_digit s1;
          fp = takeWhile is_digit (tl s2);
          s3 = (if prefix ''.'' s2 then dropWhile is_digit (tl s2) else s2);
          ex = (if s3 \<noteq> [] \<and> hd s3 \<in> set ''eE'' then tl s3 else []);
          ed = (if ex \<noteq> [] \<and> hd ex \<in> set ''+-'' then tl ex else ex)
      in ip \<noteq> [] \<and> (hd ip = CHR ''0'' \<longrightarrow> length ip = 1)
         \<and> (prefix ''.'' s2 \<longrightarrow> fp \<noteq> [])
         \<and> (s3 = [] \<or> hd s3 \<in> set ''eE'' \<and> ed \<noteq> [] \<and> list_all is_digit ed))"

definition is_num_char :: "char \<Rightarrow> bool" where
  "is_num_char c = (is_digit c \<or> c \<in> set ''+-.eE'')"

fun parse_value :: "nat \<Rightarrow> string \<Rightarrow> (json \<times> string) option"
  and parse_elems :: "nat \<Rightarrow> string \<Rightarrow> (json list \<times> string) option"
  and parse_members :: "nat \<Rightarrow> string \<Rightarrow> ((string \<times> json) list \<times> string) option" where
  "parse_value 0 s = None"
| "parse_value (Suc n) s =
     (case skip_ws s of [] \<Rightarrow> None
      | c # r \<Rightarrow>
          if c = CHR ''{'' then
            (if prefix ''}'' (skip_ws r) then Some (JObj [], tl (skip_ws r))
             else (case parse_members n r of None \<Rightarrow> None | Some (ms, t) \<Rightarrow> Some (JObj ms, t)))
          else if c = CHR ''['' then
            (if prefix '']'' (skip_ws r) then Some (JArr [], tl (skip_ws r))
             else (case parse_elems n r of None \<Rightarrow> None | Some (xs, t) \<Rightarrow> Some (JArr xs, t)))
          else if c = CHR 0x22 then map_option (\<lambda>(a, t). (JStr a, t)) (parse_str r)
          else if prefix ''null'' (c # r) then Some (JNull, drop 3 r)
          else if prefix ''true'' (c # r) then Some (JBool True, drop 3 r)
          else if prefix ''false'' (c # r) then Some (JBool False, drop 4 r)
          else if json_number (takeWhile is_num_char (c # r)) then
            Some (JNum (takeWhile is_num_char (c # r)), dropWhile is_num_char (c # r))
          else None)"
| "parse_elems 0 s = None"
| "parse_elems (Suc n) s =
     (case parse_value n s of None \<Rightarrow> None
      | Some (x, t) \<Rightarrow>
          (case skip_ws t of [] \<Rightarrow> None
           | c # r \<Rightarrow>
               if c = CHR '']'' then Some ([x], r)
               else if c = CHR '','' then
                 (case parse_elems n r of None \<Rightarrow> None | Some (xs, u) \<Rightarrow> Some (x # xs, u))
               else None))"
| "parse_members 0 s = None"
| "parse_members (Suc n) s =
     (case skip_ws s of [] \<Rightarrow> None
      | q # s1 \<Rightarrow>
          if q \<noteq> CHR 0x22 then None else
          (case parse_str s1 of None \<Rightarrow> None
           | Some (k, s2) \<Rightarrow>
               if \<not> prefix '':'' (skip_ws s2) then None else
               (case parse_value n (tl (skip_ws s2)) of None \<Rightarrow> None
                | Some (v, t) \<Rightarrow>
                    (case skip_ws t of [] \<Rightarrow> None
                     | c # r \<Rightarrow>
                         if c = CHR ''}'' then Some ([(k, v)], r)
                         else if c = CHR '','' then
                           (case parse_members n r of None \<Rightarrow> None
                            | Some (ms, u) \<Rightarrow> Some ((k, v) # ms, u))
                         else None))))"

text \<open>
  \<open>json.Unmarshal\<close>: one value and nothing but white space after it.  Every
  nested call consumes a byte or follows one that did, so twice the length
  is fuel enough.
\<close>

definition json_parse :: "string \<Rightarrow> json option" where
  "json_parse s =
     (case parse_value (2 * length s + 2) s of
        Some (j, t) \<Rightarrow> if skip_ws t = [] then Some j else None
      | None \<Rightarrow> None)"

section \<open>Struct fields\<close>

text \<open>
  The decoder matches object keys to struct fields without regard to case
  (the Kelvin sign and the long s fold to ASCII letters), and a later member
  overrides an earlier one; JSON \<open>null\<close> leaves the field alone.
\<close>

fun fold_name :: "string \<Rightarrow> string" where
  "fold_name [] = []"
| "fold_name (c # s) =
     (if prefix [CHR 0xE2, CHR 0x84, CHR 0xAA] (c # s) then CHR ''K'' # fold_name (drop 2 s)
      else if prefix [CHR 0xC5, CHR 0xBF] (c # s) then CHR ''S'' # fold_name (drop 1 s)
      else to_upper c # fold_name s)"

definition json_field :: "string \<Rightarrow> (string \<times> json) list \<Rightarrow> json option" where
  "json_field k ms =
     map_option snd (List.find (\<lambda>(k', v). fold_name k' = fold_name k \<and> v \<noteq> JNull) (rev ms))"


section \<open>Round trip\<close>

fun json_ok :: "json \<Rightarrow> bool" where
  "json_ok JNull = True"
| "json_ok (JBool b) = True"
| "json_ok (JNum n) = (n \<noteq> [] \<and> list_all is_num_char n \<and> json_number n)"
| "json_ok (JStr s) = utf8_valid s"
| "json_ok (JArr xs) = list_all json_ok xs"
| "json_ok (JObj ms) = list_all (\<lambda>(k, v). utf8_valid k \<and> json_ok v) ms"

subsection \<open>Strings\<close>

lemma utf8_len_le: "utf8_len s \<le> length s"
  by (cases s) (auto simp: utf8_len.simps split: option.splits)

lemma utf8_len_take:
  assumes "utf8_len s = n" "n \<noteq> 0"
  shows "utf8_len (take n s @ t) = n"
proof -
  obtain a s' k lo hi where s: "s = a # s'" and h: "utf8_head a = Some (k, lo, hi)"
    using assms by (cases s) (auto simp: utf8_len.simps split: option.splits)
  have k: "n = Suc k" "k \<le> length s'" "k = 0 \<or> between lo hi (hd s')"
    "list_all (between 0x80 0xBF) (take k s')"
    using assms by (auto simp: s h utf8_len.simps split: if_splits)
  have "k \<noteq> 0 \<Longrightarrow> hd (take k s' @ t) = hd s'" using k(2) by (cases s'; cases k) auto
  thus ?thesis using k by (cases "k = 0") (auto simp: s h utf8_len.simps)
qed

lemma utf8_head_0: "utf8_head a = Some (0, lo, hi) \<Longrightarrow> byte_of a < 0x80"
  by (auto simp: utf8_head_def split: if_splits)

lemma utf8_len_eq_1: "utf8_len (c # s) = 1 \<longleftrightarrow> byte_of c < 0x80"
proof
  assume "utf8_len (c # s) = 1"
  thus "byte_of c < 0x80"
    by (auto simp: utf8_len.simps utf8_head_0 split: option.splits if_splits)
qed (simp add: utf8_len.simps utf8_head_def)

lemma hex_val_digit: "d < 16 \<Longrightarrow> hex_val (hex_digit d) = Some d"
proof -
  assume "d < 16"
  hence "d \<in> set [0..<16]" by simp
  thus ?thesis by (auto simp: upt_rec hex_val_def hex_digit_def is_digit_def between_def)
qed

lemma char_eqI: "byte_of c = byte_of d \<Longrightarrow> c = d"
  by simp

lemma parse_str_ascii:
  assumes "byte_of c < 0x80"
  shows "parse_str (json_escape_ascii c @ t) = prepend [c] (parse_str t)"
proof -
  have "byte_of c div 16 < 16" "byte_of c mod 16 < 16" using assms by simp_all
  hence hex: "hex_val (hex_digit (byte_of c div 16)) = Some (byte_of c div 16)"
    "hex_val (hex_digit (byte_of c mod 16)) = Some (byte_of c mod 16)"
    by (simp_all only: hex_val_digit)
  have z: "hex_val (CHR ''0'') = Some 0" by (simp add: hex_val_def is_digit_def)
  have "byte_of c div 16 * 16 + byte_of c mod 16 = byte_of c" by simp
  moreover have "utf8_len (c # t) = Suc 0" using assms utf8_len_eq_1 [of c t] by simp
  ultimately show ?thesis using assms
    by (simp add: json_escape_ascii_def simple_escape_def hex z utf8_encode_def parse_str.simps(2))
qed

lemma parse_str_multi:
  assumes "utf8_len (c # s) = n" "2 \<le> n"
  shows "parse_str (take n (c # s) @ t) = prepend (take n (c # s)) (parse_str t)"
proof -
  obtain k where k: "n = Suc k" using assms(2) by (cases n) auto
  have big: "\<not> byte_of c < 0x80" using assms by (metis utf8_len_eq_1 Suc_1 not_less_eq_eq order_refl)
  hence ne: "c \<noteq> CHR 0x22" "c \<noteq> CHR 0x5C" "\<not> byte_of c < 0x20" by auto
  have len: "utf8_len (c # take k s @ t) = Suc k"
    using utf8_len_take [OF assms(1)] assms(2) k by simp
  have "length (take k s) = k" using utf8_len_le [of "c # s"] assms(1) k by simp
  thus ?thesis using ne by (simp add: k len parse_str.simps(2))
qed

lemma prepend_Some [simp]: "prepend p (Some (a, b)) = Some (p @ a, b)"
  by (simp add: prepend_def)

lemma parse_str_u:
  assumes "hex4 (h @ t) = Some u" "length h = 4" "u < 0xD800"
  shows "parse_str (CHR 0x5C # CHR ''u'' # h @ t) = prepend (utf8_encode u) (parse_str t)"
  using assms by (simp add: parse_str.simps(2))

lemma separators:
  "utf8_len (CHR 0xE2 # CHR 0x80 # CHR 0xA8 # s) = 3"
  "utf8_len (CHR 0xE2 # CHR 0x80 # CHR 0xA9 # s) = 3"
  "hex4 (''2028'' @ t) = Some 0x2028"
  "hex4 (''2029'' @ t) = Some 0x2029"
  "utf8_encode 0x2028 = [CHR 0xE2, CHR 0x80, CHR 0xA8]"
  "utf8_encode 0x2029 = [CHR 0xE2, CHR 0x80, CHR 0xA9]"
  by (simp add: utf8_len.simps utf8_head_def between_def,
      simp add: utf8_len.simps utf8_head_def between_def,
      simp add: hex_val_def is_digit_def, simp add: hex_val_def is_digit_def,
      simp add: utf8_encode_def char_of_eq_iff take_bit_eq_mod,
      simp add: utf8_encode_def char_of_eq_iff take_bit_eq_mod)

lemma json_escape_cases:
  assumes "utf8_len (c # s) = n" "n \<noteq> 0"
  obtains (ascii) "n = 1" "byte_of c < 0x80" "json_escape (c # s) = json_escape_ascii c @ json_escape s"
  | (ls8) s' where "n = 3" "c # s = CHR 0xE2 # CHR 0x80 # CHR 0xA8 # s'"
      "json_escape (c # s) = CHR 0x5C # CHR ''u'' # ''2028'' @ json_escape s'"
  | (ls9) s' where "n = 3" "c # s = CHR 0xE2 # CHR 0x80 # CHR 0xA9 # s'"
      "json_escape (c # s) = CHR 0x5C # CHR ''u'' # ''2029'' @ json_escape s'"
  | (multi) "2 \<le> n" "json_escape (c # s) = take n (c # s) @ json_escape (drop (n - 1) s)"
proof (cases "n = 1")
  case True
  have "byte_of c < 0x80" using True assms(1) utf8_len_eq_1 [of c s] by simp
  moreover have "json_escape (c # s) = json_escape_ascii c @ json_escape s"
    using True assms(1) by (simp add: json_escape.simps(2))
  ultimately show ?thesis by (rule ascii [OF True])
next
  case False
  hence n2: "2 \<le> n" using assms(2) by linarith
  have pfx: "prefix [a, b, d] (c # s) \<Longrightarrow> \<exists>s'. c # s = a # b # d # s'" for a b d
    by (auto simp: prefix_def)
  show ?thesis
  proof (cases "prefix [CHR 0xE2, CHR 0x80, CHR 0xA8] (c # s)")
    case True
    then obtain s' where s': "c # s = CHR 0xE2 # CHR 0x80 # CHR 0xA8 # s'" using pfx by blast
    have n3: "n = 3" using assms(1) unfolding s' separators(1) by simp
    show ?thesis by (rule ls8 [OF n3 s']) (simp add: s' json_escape.simps(2) separators(1))
  next
    case n8: False
    show ?thesis
    proof (cases "prefix [CHR 0xE2, CHR 0x80, CHR 0xA9] (c # s)")
      case True
      then obtain s' where s': "c # s = CHR 0xE2 # CHR 0x80 # CHR 0xA9 # s'" using pfx by blast
      have n3: "n = 3" using assms(1) unfolding s' separators(2) by simp
      show ?thesis by (rule ls9 [OF n3 s']) (simp add: s' json_escape.simps(2) separators(2))
    next
      case n9: False
      show ?thesis using False n8 n9 assms(2)
        by (intro multi [OF n2]) (simp only: json_escape.simps(2) assms(1) Let_def if_False simp_thms)
    qed
  qed
qed

lemma parse_str_escape:
  "utf8_valid s \<Longrightarrow> parse_str (json_escape s @ CHR 0x22 # r) = Some (s, r)"
proof (induction s rule: utf8_valid.induct)
  case (2 c s)
  define n where "n = utf8_len (c # s)"
  have n0: "n \<noteq> 0" and IH: "parse_str (json_escape (drop (n - 1) s) @ CHR 0x22 # r) = Some (drop (n - 1) s, r)"
    using 2 by (auto simp: n_def)
  show ?case using n_def [symmetric] n0
  proof (cases rule: json_escape_cases)
    case ascii
    with IH show ?thesis by (simp add: parse_str_ascii)
  next
    case (ls8 s')
    have "parse_str (CHR 0x5C # CHR ''u'' # ''2028'' @ json_escape s' @ CHR 0x22 # r)
          = prepend (utf8_encode 0x2028) (parse_str (json_escape s' @ CHR 0x22 # r))"
      by (rule parse_str_u [OF separators(3)]) simp_all
    with ls8 IH show ?thesis by (simp add: separators(5))
  next
    case (ls9 s')
    have "parse_str (CHR 0x5C # CHR ''u'' # ''2029'' @ json_escape s' @ CHR 0x22 # r)
          = prepend (utf8_encode 0x2029) (parse_str (json_escape s' @ CHR 0x22 # r))"
      by (rule parse_str_u [OF separators(4)]) simp_all
    with ls9 IH show ?thesis by (simp add: separators(6))
  next
    case multi
    have "take n (c # s) @ drop (n - 1) s = c # s" using multi(1) by (cases n) auto
    thus ?thesis
      using parse_str_multi [OF n_def [symmetric] multi(1), of "json_escape (drop (n - 1) s) @ CHR 0x22 # r"]
        IH multi(2) by simp
  qed
qed (simp add: parse_str.simps(2))

lemma parse_str_quote:
  "utf8_valid s \<Longrightarrow> parse_str (tl (json_quote s) @ r) = Some (s, r)"
  by (simp add: json_quote_def parse_str_escape)

subsection \<open>Values\<close>

definition num_end :: "string \<Rightarrow> bool" where
  "num_end r = (r = [] \<or> \<not> is_num_char (hd r))"

definition json_rt :: "json \<Rightarrow> bool" where
  "json_rt j = (\<forall>n r. 2 * length (json_print j) \<le> n \<longrightarrow> num_end r \<longrightarrow>
                  parse_value n (json_print j @ r) = Some (j, r))"

lemma json_rtD:
  "json_rt j \<Longrightarrow> 2 * length (json_print j) \<le> n \<Longrightarrow> num_end r \<Longrightarrow>
   parse_value n (json_print j @ r) = Some (j, r)"
  by (simp add: json_rt_def)

lemma num_end_sep [simp]:
  "num_end []" "num_end (CHR '','' # r)" "num_end (CHR '']'' # r)" "num_end (CHR ''}'' # r)"
  by (simp_all add: num_end_def is_num_char_def is_digit_def)

lemma is_num_char_not_delim:
  "is_num_char c \<Longrightarrow> \<not> is_json_space c \<and> c \<notin> {CHR ''{'', CHR ''['', CHR '']'', CHR ''}'', CHR 0x22, CHR ''n'', CHR ''t'', CHR ''f''}"
  by (auto simp: is_num_char_def is_json_space_def is_digit_def)

lemma json_print_hd:
  "json_ok j \<Longrightarrow> \<exists>c t. json_print j = c # t \<and> \<not> is_json_space c \<and> c \<noteq> CHR '']'' \<and> c \<noteq> CHR ''}''"
proof (cases j)
  case (JNum n)
  assume "json_ok j"
  then obtain c t where "n = c # t" "is_num_char c" using JNum by (cases n) auto
  thus ?thesis using is_num_char_not_delim [of c] JNum by simp
qed (simp_all add: is_json_space_def json_quote_def)

lemma parse_elems_print:
  assumes "xs \<noteq> []" "\<And>x. x \<in> set xs \<Longrightarrow> json_rt x"
    "2 * length (join '','' (map json_print xs)) + 1 \<le> n"
  shows "parse_elems n (join '','' (map json_print xs) @ '']'' @ r) = Some (xs, r)"
  using assms
proof (induction xs arbitrary: n)
  case (Cons x xs)
  obtain m where n: "n = Suc m" using Cons.prems(3) by (cases n) auto
  have x: "json_rt x" using Cons.prems(2) by simp
  show ?case
  proof (cases "xs = []")
    case True
    have "parse_value m (json_print x @ CHR '']'' # r) = Some (x, CHR '']'' # r)"
      by (rule json_rtD [OF x]) (use Cons.prems(3) True n in auto)
    thus ?thesis using True by (simp add: n is_json_space_def)
  next
    case False
    have j: "join '','' (map json_print (x # xs)) = json_print x @ '','' @ join '','' (map json_print xs)"
      using False by (simp add: join_Cons)
    let ?t = "CHR '','' # join '','' (map json_print xs) @ '']'' @ r"
    have "parse_value m (json_print x @ ?t) = Some (x, ?t)"
      by (rule json_rtD [OF x]) (use Cons.prems(3) n j in auto)
    moreover have "parse_elems m (join '','' (map json_print xs) @ '']'' @ r) = Some (xs, r)"
      by (rule Cons.IH [OF False]) (use Cons.prems n j in auto)
    ultimately show ?thesis unfolding j by (simp add: n is_json_space_def)
  qed
qed simp

abbreviation print_member :: "string \<times> json \<Rightarrow> string" where
  "print_member \<equiv> \<lambda>(k, v). json_quote k @ '':'' @ json_print v"

lemma parse_member_print:
  assumes "utf8_valid k" "json_rt v" "2 * length (json_print v) \<le> m" "num_end t"
  shows "parse_members (Suc m) (print_member (k, v) @ t) =
     (case skip_ws t of [] \<Rightarrow> None
      | c # r \<Rightarrow> if c = CHR ''}'' then Some ([(k, v)], r)
                 else if c = CHR '','' then
                   (case parse_members m r of None \<Rightarrow> None | Some (ms, u) \<Rightarrow> Some ((k, v) # ms, u))
                 else None)"
proof -
  have "parse_value m (json_print v @ t) = Some (v, t)"
    by (rule json_rtD) (use assms in auto)
  moreover have "parse_str (json_escape k @ CHR 0x22 # CHR '':'' # json_print v @ t)
                 = Some (k, CHR '':'' # json_print v @ t)"
    using assms(1) by (rule parse_str_escape)
  ultimately show ?thesis
    by (simp add: json_quote_def is_json_space_def cong: list.case_cong)
qed

lemma parse_members_print:
  assumes "ms \<noteq> []" "\<And>k v. (k, v) \<in> set ms \<Longrightarrow> utf8_valid k \<and> json_rt v"
    "2 * length (join '','' (map print_member ms)) + 1 \<le> n"
  shows "parse_members n (join '','' (map print_member ms) @ ''}'' @ r) = Some (ms, r)"
  using assms
proof (induction ms arbitrary: n)
  case (Cons kv ms)
  obtain k v where kv: "kv = (k, v)" by (cases kv)
  obtain m where n: "n = Suc m" using Cons.prems(3) by (cases n) auto
  have ok: "utf8_valid k" "json_rt v" using Cons.prems(2) [of k v] kv by auto
  show ?case
  proof (cases "ms = []")
    case True
    have "2 * length (json_print v) \<le> m" using Cons.prems(3) True n kv by simp
    from parse_member_print [OF ok this, of "CHR ''}'' # r"] True
    show ?thesis by (simp add: n kv is_json_space_def del: parse_members.simps)
  next
    case False
    have j: "join '','' (map print_member (kv # ms)) = print_member (k, v) @ '','' @ join '','' (map print_member ms)"
      using False by (simp add: join_Cons kv)
    have "2 * length (json_print v) \<le> m" using Cons.prems(3) n j by simp
    from parse_member_print [OF ok this, of "CHR '','' # join '','' (map print_member ms) @ ''}'' @ r"]
    have "parse_members n ((print_member (k, v) @ '','' @ join '','' (map print_member ms)) @ ''}'' @ r) =
      (case parse_members m (join '','' (map print_member ms) @ ''}'' @ r) of
         None \<Rightarrow> None | Some (ms, u) \<Rightarrow> Some ((k, v) # ms, u))"
      by (simp add: n is_json_space_def del: parse_members.simps)
    moreover have "parse_members m (join '','' (map print_member ms) @ ''}'' @ r) = Some (ms, r)"
      by (rule Cons.IH [OF False]) (use Cons.prems n j in auto)
    ultimately show ?thesis unfolding j by (simp add: kv)
  qed
qed simp

lemma prefix_hd_neq: "c \<noteq> d \<Longrightarrow> \<not> prefix (c # p) (d # s)"
  by simp

lemma join_print_hd:
  assumes "xs \<noteq> []" "\<And>x. x \<in> set xs \<Longrightarrow> \<exists>c t. f x = c # t \<and> \<not> is_json_space c \<and> c \<noteq> d"
  shows "\<not> prefix [d] (skip_ws (join '','' (map f xs) @ t))"
proof -
  obtain x xs' where xs: "xs = x # xs'" using assms(1) by (cases xs) auto
  obtain c u where "f x = c # u" "\<not> is_json_space c" "c \<noteq> d" using assms(2) [of x] xs by auto
  thus ?thesis by (cases xs') (auto simp: xs)
qed

lemma json_rt: "json_ok j \<Longrightarrow> json_rt j"
proof (induction j)
  case (JNum n)
  obtain c t where n: "n = c # t" using JNum by (cases n) auto
  have num: "list_all is_num_char n" "json_number n" using JNum by auto
  have c: "is_num_char c" using num n by simp
  have cut: "num_end r \<Longrightarrow> takeWhile is_num_char (n @ r) = n \<and> dropWhile is_num_char (n @ r) = r" for r
    using num(1) by (cases r) (auto simp: num_end_def list_all_iff takeWhile_append2 dropWhile_append2)
  show ?case unfolding json_rt_def
  proof (intro allI impI)
    fix k r assume "2 * length (json_print (JNum n)) \<le> k" and r: "num_end r"
    then obtain k' where k: "k = Suc k'" using n by (cases k) auto
    show "parse_value k (json_print (JNum n) @ r) = Some (JNum n, r)"
      using cut [OF r] num(2) is_num_char_not_delim [OF c] by (auto simp: k n)
  qed
next
  case (JArr xs)
  have ok: "x \<in> set xs \<Longrightarrow> json_ok x" for x using JArr.prems by (auto simp: list_all_iff)
  have rt: "x \<in> set xs \<Longrightarrow> json_rt x" for x using JArr.IH ok by blast
  have hd: "xs \<noteq> [] \<Longrightarrow> \<not> prefix '']'' (skip_ws (join '','' (map json_print xs) @ '']'' @ r))" for r
    by (rule join_print_hd) (use json_print_hd [OF ok] in blast)+
  show ?case unfolding json_rt_def
  proof (intro allI impI)
    fix n r assume n: "2 * length (json_print (JArr xs)) \<le> n"
    then obtain m where m: "n = Suc m" by (cases n) auto
    show "parse_value n (json_print (JArr xs) @ r) = Some (JArr xs, r)"
    proof (cases "xs = []")
      case False
      have "parse_elems m (join '','' (map json_print xs) @ '']'' @ r) = Some (xs, r)"
        by (rule parse_elems_print [OF False rt]) (use n m in auto)
      thus ?thesis using hd [OF False, of r] by (simp add: m is_json_space_def)
    qed (simp add: m is_json_space_def)
  qed
next
  case (JObj ms)
  have ok: "(k, v) \<in> set ms \<Longrightarrow> utf8_valid k \<and> json_ok v" for k v
    using JObj.prems by (auto simp: list_all_iff)
  have rt: "(k, v) \<in> set ms \<Longrightarrow> utf8_valid k \<and> json_rt v" for k v
    using JObj.IH [of "(k, v)" v] ok by auto
  have hd: "ms \<noteq> [] \<Longrightarrow> \<not> prefix ''}'' (skip_ws (join '','' (map print_member ms) @ ''}'' @ r))" for r
    by (rule join_print_hd) (auto simp: json_quote_def is_json_space_def)
  show ?case unfolding json_rt_def
  proof (intro allI impI)
    fix n r assume n: "2 * length (json_print (JObj ms)) \<le> n"
    then obtain m where m: "n = Suc m" by (cases n) auto
    show "parse_value n (json_print (JObj ms) @ r) = Some (JObj ms, r)"
    proof (cases "ms = []")
      case False
      have "parse_members m (join '','' (map print_member ms) @ ''}'' @ r) = Some (ms, r)"
        by (rule parse_members_print [OF False rt]) (use n m in auto)
      thus ?thesis using hd [OF False, of r] by (simp add: m is_json_space_def)
    qed (simp add: m is_json_space_def)
  qed
next
  case (JStr s)
  show ?case unfolding json_rt_def
  proof (intro allI impI)
    fix n r assume "2 * length (json_print (JStr s)) \<le> n"
    then obtain m where m: "n = Suc m" by (cases n) (auto simp: json_quote_def)
    show "parse_value n (json_print (JStr s) @ r) = Some (JStr s, r)"
      using JStr by (simp add: m json_quote_def is_json_space_def parse_str_escape)
  qed
next
  case (JBool b)
  show ?case unfolding json_rt_def
  proof (intro allI impI)
    fix n r assume "2 * length (json_print (JBool b)) \<le> n"
    then obtain m where "n = Suc m" by (cases n) (auto split: if_splits)
    thus "parse_value n (json_print (JBool b) @ r) = Some (JBool b, r)"
      by (simp add: is_json_space_def)
  qed
next
  case JNull
  show ?case unfolding json_rt_def
  proof (intro allI impI)
    fix n r assume "2 * length (json_print JNull) \<le> n"
    then obtain m where "n = Suc m" by (cases n) auto
    thus "parse_value n (json_print JNull @ r) = Some (JNull, r)"
      by (simp add: is_json_space_def)
  qed
qed

lemma json_parse_print [simp]: "json_ok j \<Longrightarrow> json_parse (json_print j) = Some j"
  using json_rtD [OF json_rt, of j "2 * length (json_print j) + 2" "[]"]
  by (simp add: json_parse_def del: parse_value.simps)

end
