(* ===== verification/Label_Matchers.thy ===== *)
theory Label_Matchers
  imports Go_JSON
begin

text \<open>
  Label matchers (\<open>labels.Matcher\<close> of the Prometheus library), the authorization
  data that carries them through a request context (\<open>authorization/authz.go\<close>) with
  its JSON codec, and the interface of the regular expression engine the
  matchers are compiled with.
\<close>

section \<open>Matchers\<close>

datatype match_type = MatchEqual | MatchNotEqual | MatchRegexp | MatchNotRegexp

record matcher =
  mtype :: match_type
  mname :: string
  mvalue :: string

record AuthzResponseData =
  Matchers :: "matcher list"
  MatcherOp :: string

fun match_type_string :: "match_type \<Rightarrow> string" where
  "match_type_string MatchEqual = ''=''"
| "match_type_string MatchNotEqual = ''!=''"
| "match_type_string MatchRegexp = ''=~''"
| "match_type_string MatchNotRegexp = ''!~''"

text \<open>
  The compiled form of a pattern is the set of label values it matches in
  full; compilation of an ill-formed pattern gives \<open>None\<close>.
\<close>

type_synonym regex = "string \<Rightarrow> (string \<Rightarrow> bool) option"

text \<open>\<open>labels.NewMatcher\<close> fails exactly when a regular expression does not compile.\<close>

definition new_matcher :: "regex \<Rightarrow> match_type \<Rightarrow> string \<Rightarrow> string \<Rightarrow> string + matcher" where
  "new_matcher rx t n v =
     (if t \<in> {MatchRegexp, MatchNotRegexp} \<and> rx v = None then Inl ''error parsing regexp''
      else Inr \<lparr>mtype = t, mname = n, mvalue = v\<rparr>)"

text \<open>\<open>Matcher.Matches\<close>.\<close>

definition matches :: "regex \<Rightarrow> matcher \<Rightarrow> string \<Rightarrow> bool" where
  "matches rx m s =
     (case mtype m of
        MatchEqual \<Rightarrow> s = mvalue m
      | MatchNotEqual \<Rightarrow> s \<noteq> mvalue m
      | MatchRegexp \<Rightarrow> (case rx (mvalue m) of Some p \<Rightarrow> p s | None \<Rightarrow> False)
      | MatchNotRegexp \<Rightarrow> (case rx (mvalue m) of Some p \<Rightarrow> \<not> p s | None \<Rightarrow> False))"

text \<open>A stream or series with labels \<open>ls\<close> (absent labels are empty) is selected by all matchers.\<close>

definition selects :: "regex \<Rightarrow> matcher list \<Rightarrow> (string \<Rightarrow> string) \<Rightarrow> bool" where
  "selects rx ms ls = list_all (\<lambda>m. matches rx m (ls (mname m))) ms"

lemma selects_append [simp]:
  "selects rx (xs @ ys) ls \<longleftrightarrow> selects rx xs ls \<and> selects rx ys ls"
  by (simp add: selects_def)

lemma selects_Cons [simp]:
  "selects rx (m # ms) ls \<longleftrightarrow> matches rx m (ls (mname m)) \<and> selects rx ms ls"
  by (simp add: selects_def)

lemma selects_mem: "selects rx ms ls \<Longrightarrow> m \<in> set ms \<Longrightarrow> matches rx m (ls (mname m))"
  by (simp add: selects_def list_all_iff)

section \<open>The JSON codec of the authorization data\<close>

definition match_type_code :: "match_type \<Rightarrow> string" where
  "match_type_code t =
     (case t of MatchEqual \<Rightarrow> ''0'' | MatchNotEqual \<Rightarrow> ''1'' | MatchRegexp \<Rightarrow> ''2'' | MatchNotRegexp \<Rightarrow> ''3'')"

definition match_type_decode :: "string \<Rightarrow> match_type option" where
  "match_type_decode =
     map_of [(''0'', MatchEqual), (''1'', MatchNotEqual), (''2'', MatchRegexp), (''3'', MatchNotRegexp)]"

definition matcher_json :: "matcher \<Rightarrow> json" where
  "matcher_json m =
     JObj [(''Type'', JNum (match_type_code (mtype m))), (''Name'', JStr (mname m)),
           (''Value'', JStr (mvalue m))]"

text \<open>Both fields carry \<open>omitempty\<close>.\<close>

definition authz_json :: "AuthzResponseData \<Rightarrow> json" where
  "authz_json d =
     JObj ((if Matchers d = [] then [] else [(''matchers'', JArr (map matcher_json (Matchers d)))])
         @ (if MatcherOp d = [] then [] else [(''matcherOp'', JStr (MatcherOp d))]))"

definition decode_string :: "string \<Rightarrow> (string \<times> json) list \<Rightarrow> string option" where
  "decode_string k ms =
     (case json_field k ms of None \<Rightarrow> Some [] | Some (JStr s) \<Rightarrow> Some s | Some _ \<Rightarrow> None)"

definition decode_matcher :: "json \<Rightarrow> matcher option" where
  "decode_matcher j =
     (case j of
        JObj ms \<Rightarrow>
          (case (case json_field ''Type'' ms of None \<Rightarrow> Some MatchEqual
                 | Some (JNum n) \<Rightarrow> match_type_decode n | Some _ \<Rightarrow> None) of
             None \<Rightarrow> None
           | Some t \<Rightarrow>
               (case (decode_string ''Name'' ms, decode_string ''Value'' ms) of
                  (Some n, Some v) \<Rightarrow> Some \<lparr>mtype = t, mname = n, mvalue = v\<rparr>
                | _ \<Rightarrow> None))
      | _ \<Rightarrow> None)"

definition decode_authz :: "json \<Rightarrow> AuthzResponseData option" where
  "decode_authz j =
     (case j of
        JObj ms \<Rightarrow>
          (case ((case json_field ''matchers'' ms of None \<Rightarrow> Some []
                  | Some (JArr xs) \<Rightarrow> those (map decode_matcher xs) | Some _ \<Rightarrow> None),
                 decode_string ''matcherOp'' ms) of
             (Some xs, Some oper) \<Rightarrow> Some \<lparr>Matchers = xs, MatcherOp = oper\<rparr>
           | _ \<Rightarrow> None)
      | JNull \<Rightarrow> Some \<lparr>Matchers = [], MatcherOp = []\<rparr>
      | _ \<Rightarrow> None)"

definition marshal_authz :: "AuthzResponseData \<Rightarrow> string" where
  "marshal_authz d = json_print (authz_json d)"

definition unmarshal_authz :: "string \<Rightarrow> AuthzResponseData option" where
  "unmarshal_authz s = (case json_parse s of None \<Rightarrow> None | Some j \<Rightarrow> decode_authz j)"

definition matcher_utf8 :: "matcher \<Rightarrow> bool" where
  "matcher_utf8 m = (utf8_valid (mname m) \<and> utf8_valid (mvalue m))"

lemma matcher_json_ok [simp]: "matcher_utf8 m \<Longrightarrow> json_ok (matcher_json m)"
  by (cases "mtype m")
     (simp_all add: matcher_json_def matcher_utf8_def match_type_code_def is_num_char_def
        is_digit_def json_number_def utf8_len.simps utf8_head_def)

lemma fold_name_ascii_field:
  "json_field ''Type'' [(''Type'', a), (''Name'', JStr b), (''Value'', JStr c)] = (if a = JNull then None else Some a)"
  "json_field ''Name'' [(''Type'', a), (''Name'', JStr b), (''Value'', JStr c)] = Some (JStr b)"
  "json_field ''Value'' [(''Type'', a), (''Name'', JStr b), (''Value'', JStr c)] = Some (JStr c)"
  by (simp_all add: json_field_def to_upper_def is_lower_def char_of_eq_iff take_bit_eq_mod)

lemma decode_matcher_json [simp]: "decode_matcher (matcher_json m) = Some m"
  by (cases "mtype m")
     (simp_all add: decode_matcher_def matcher_json_def fold_name_ascii_field decode_string_def
        match_type_code_def match_type_decode_def)

lemma those_map_Some: "(\<And>x. x \<in> set xs \<Longrightarrow> f x = Some (g x)) \<Longrightarrow> those (map f xs) = Some (map g xs)"
  by (induction xs) auto

lemma authz_json_ok:
  "list_all matcher_utf8 (Matchers d) \<Longrightarrow> utf8_valid (MatcherOp d) \<Longrightarrow> json_ok (authz_json d)"
  by (auto simp: authz_json_def list_all_iff utf8_len.simps utf8_head_def)

lemma authz_fields:
  "json_field ''matchers'' [(''matchers'', JArr xs)] = Some (JArr xs)"
  "json_field ''matcherOp'' [(''matchers'', JArr xs)] = None"
  "json_field ''matchers'' [(''matcherOp'', JStr oper)] = None"
  "json_field ''matcherOp'' [(''matcherOp'', JStr oper)] = Some (JStr oper)"
  "json_field ''matchers'' [(''matchers'', JArr xs), (''matcherOp'', JStr oper)] = Some (JArr xs)"
  "json_field ''matcherOp'' [(''matchers'', JArr xs), (''matcherOp'', JStr oper)] = Some (JStr oper)"
  "json_field k [] = None"
  by (simp_all add: json_field_def to_upper_def is_lower_def char_of_eq_iff take_bit_eq_mod)

lemma decode_authz_json: "decode_authz (authz_json d) = Some d"
  by (simp add: decode_authz_def authz_json_def authz_fields decode_string_def o_def
        those_map_Some [where g = "\<lambda>x. x"])

lemma unmarshal_marshal_authz [simp]:
  "list_all matcher_utf8 (Matchers d) \<Longrightarrow> utf8_valid (MatcherOp d) \<Longrightarrow>
   unmarshal_authz (marshal_authz d) = Some d"
  by (simp add: unmarshal_authz_def marshal_authz_def authz_json_ok decode_authz_json)

section \<open>The regular expression engine\<close>

text \<open>
  The engine is library code; what the gateway relies on is that a
  disjunction of quoted literals matches exactly those literals
  (\<open>QuoteMeta\<close> is documented to give a pattern for its literal argument).
\<close>

locale regex_engine =
  fixes rx :: regex
  assumes quoted_alternatives:
    "\<And>xs. xs \<noteq> [] \<Longrightarrow> list_all utf8_valid xs \<Longrightarrow>
       rx (join ''|'' (map quote_meta xs)) = Some (\<lambda>s. s \<in> set xs)"
begin

lemma quoted_literal: "utf8_valid s \<Longrightarrow> rx (quote_meta s) = Some (\<lambda>t. t = s)"
  using quoted_alternatives [of "[s]"] by simp

lemma matches_alternatives:
  "xs \<noteq> [] \<Longrightarrow> list_all utf8_valid xs \<Longrightarrow>
   matches rx \<lparr>mtype = MatchRegexp, mname = n, mvalue = join ''|'' (map quote_meta xs)\<rparr> s \<longleftrightarrow> s \<in> set xs"
  by (simp add: matches_def quoted_alternatives)

end

text \<open>
  A concrete engine for the fragment of patterns made of literals, quoted
  characters and alternation.
\<close>

fun literal_alts :: "string \<Rightarrow> string list option" where
  "literal_alts [] = Some [[]]"
| "literal_alts (c # s) =
     (if c = CHR 0x5C then
        (case s of [] \<Rightarrow> None
         | d # t \<Rightarrow>
             (if d \<in> set regex_meta then
                (case literal_alts t of Some (x # xs) \<Rightarrow> Some ((d # x) # xs) | _ \<Rightarrow> None)
              else None))
      else if c = CHR ''|'' then
        (case literal_alts s of Some xs \<Rightarrow> Some ([] # xs) | None \<Rightarrow> None)
      else if c \<in> set regex_meta then None
      else (case literal_alts s of Some (x # xs) \<Rightarrow> Some ((c # x) # xs) | _ \<Rightarrow> None))"

definition literal_regex :: regex where
  "literal_regex p = map_option (\<lambda>xs s. s \<in> set xs) (literal_alts p)"

lemma literal_alts_quote:
  "literal_alts t = Some (x # xs) \<Longrightarrow> literal_alts (quote_meta s @ t) = Some ((s @ x) # xs)"
proof (induction s)
  case (Cons c s)
  thus ?case by (cases "c \<in> set regex_meta") (auto simp: regex_meta_def)
qed simp

lemma literal_alts_join:
  "xs \<noteq> [] \<Longrightarrow> literal_alts (join ''|'' (map quote_meta xs)) = Some xs"
proof (induction xs)
  case (Cons x xs)
  show ?case
  proof (cases "xs = []")
    case True
    thus ?thesis using literal_alts_quote [of "[]" "[]" "[]" x] by simp
  next
    case False
    with Cons have "literal_alts (''|'' @ join ''|'' (map quote_meta xs)) = Some ([] # xs)" by simp
    from literal_alts_quote [OF this, of x] show ?thesis using False by (simp add: join_Cons)
  qed
qed simp

interpretation literal: regex_engine literal_regex
  by unfold_locales (simp add: literal_regex_def literal_alts_join)

end
