(* ===== verification/Net_URL.thy ===== *)
theory Net_URL
  imports Go_Strings "HOL-Library.Char_ord" "HOL-Library.List_Lexorder"
begin

text \<open>
  Query strings and paths of \<open>net/url\<close> and \<open>path\<close>: \<open>QueryEscape\<close>, \<open>QueryUnescape\<close>,
  \<open>Values\<close> with \<open>ParseQuery\<close> and \<open>Encode\<close>, \<open>path.Clean\<close> and \<open>path.Join\<close>, with the
  round trips of escaping and of encoding.
\<close>

section \<open>Escaping\<close>

definition upper_hex :: "nat \<Rightarrow> char" where
  "upper_hex d = (if d < 10 then char_of (48 + d) else char_of (55 + d))"

definition is_unreserved :: "char \<Rightarrow> bool" where
  "is_unreserved c = (is_lower c \<or> is_upper c \<or> is_digit c \<or> c \<in> set ''-_.~'')"

fun query_escape :: "string \<Rightarrow> string" where
  "query_escape [] = []"
| "query_escape (c # s) =
     (if is_unreserved c then [c]
      else if c = CHR '' '' then ''+''
      else [CHR ''%'', upper_hex (of_char c div 16), upper_hex (of_char c mod 16)]) @ query_escape s"

definition unhex :: "char \<Rightarrow> nat option" where
  "unhex c =
     (let n = of_char c :: nat in
      if 48 \<le> n \<and> n \<le> 57 then Some (n - 48)
      else if 97 \<le> n \<and> n \<le> 102 then Some (n - 87)
      else if 65 \<le> n \<and> n \<le> 70 then Some (n - 55) else None)"

fun query_unescape :: "string \<Rightarrow> string option" where
  "query_unescape [] = Some []"
| "query_unescape (c # s) =
     (if c = CHR ''%'' then
        (case s of a # b # t \<Rightarrow>
           (case (unhex a, unhex b) of
              (Some x, Some y) \<Rightarrow> map_option ((#) (char_of (16 * x + y))) (query_unescape t)
            | _ \<Rightarrow> None) | _ \<Rightarrow> None)
      else map_option ((#) (if c = CHR ''+'' then CHR '' '' else c)) (query_unescape s))"

section \<open>Values\<close>

type_synonym url_values = "(string \<times> string list) list"

definition values_of :: "url_values \<Rightarrow> string \<Rightarrow> string list" where
  "values_of v k = (case map_of v k of None \<Rightarrow> [] | Some xs \<Rightarrow> xs)"

definition values_get :: "url_values \<Rightarrow> string \<Rightarrow> string" where
  "values_get v k = (case values_of v k of [] \<Rightarrow> [] | x # _ \<Rightarrow> x)"

definition values_add :: "string \<Rightarrow> string \<Rightarrow> url_values \<Rightarrow> url_values" where
  "values_add k x v = AList.update k (values_of v k @ [x]) v"

definition values_set :: "string \<Rightarrow> string \<Rightarrow> url_values \<Rightarrow> url_values" where
  "values_set k x v = AList.update k [x] v"

definition values_put :: "string \<Rightarrow> string list \<Rightarrow> url_values \<Rightarrow> url_values" where
  "values_put k xs v = AList.update k xs v"

definition values_del :: "string \<Rightarrow> url_values \<Rightarrow> url_values" where
  "values_del k v = AList.delete k v"

text \<open>\<open>strings.Cut\<close> at the first occurrence of a byte.\<close>

definition cut_at :: "char \<Rightarrow> string \<Rightarrow> string \<times> string" where
  "cut_at c s = (takeWhile (\<lambda>x. x \<noteq> c) s, drop 1 (dropWhile (\<lambda>x. x \<noteq> c) s))"

text \<open>One setting of a query string: skipped when empty, an error when it has a semicolon or a bad escape.\<close>

definition parse_setting :: "string \<Rightarrow> (string + string \<times> string) option" where
  "parse_setting s =
     (if CHR '';'' \<in> set s then Some (Inl ''invalid semicolon separator in query'')
      else if s = [] then None
      else (case cut_at (CHR ''='') s of
              (k, x) \<Rightarrow>
                (case (query_unescape k, query_unescape x) of
                   (Some k', Some x') \<Rightarrow> Some (Inr (k', x'))
                 | _ \<Rightarrow> Some (Inl ''invalid URL escape''))))"

text \<open>The settings that parse are kept even when others do not; the first error is reported.\<close>

fun parse_settings :: "string list \<Rightarrow> url_values \<Rightarrow> string option \<Rightarrow> url_values \<times> string option" where
  "parse_settings [] v e = (v, e)"
| "parse_settings (s # ss) v e =
     (case parse_setting s of
        None \<Rightarrow> parse_settings ss v e
      | Some (Inl err) \<Rightarrow> parse_settings ss v (case e of None \<Rightarrow> Some err | Some _ \<Rightarrow> e)
      | Some (Inr (k, x)) \<Rightarrow> parse_settings ss (values_add k x v) e)"

definition parse_query :: "string \<Rightarrow> url_values \<times> string option" where
  "parse_query s = parse_settings (split_on (CHR ''&'') s) [] None"

text \<open>\<open>Values.Encode\<close>: sorted by key.\<close>

definition encode_setting :: "string \<times> string \<Rightarrow> string" where
  "encode_setting kx = query_escape (fst kx) @ ''='' @ query_escape (snd kx)"

definition value_pairs :: "url_values \<Rightarrow> (string \<times> string) list" where
  "value_pairs v = concat (map (\<lambda>k. map (Pair k) (values_of v k)) (sort (remdups (map fst v))))"

definition values_encode :: "url_values \<Rightarrow> string" where
  "values_encode v = join ''&'' (map encode_setting (value_pairs v))"

section \<open>Paths\<close>

fun clean_parts :: "bool \<Rightarrow> string list \<Rightarrow> string list \<Rightarrow> string list" where
  "clean_parts rooted acc [] = rev acc"
| "clean_parts rooted acc (p # ps) =
     (if p = [] \<or> p = ''.'' then clean_parts rooted acc ps
      else if p = ''..'' then
        (case acc of
           [] \<Rightarrow> clean_parts rooted (if rooted then [] else [''..'']) ps
         | x # xs \<Rightarrow> clean_parts rooted (if x = ''..'' then ''..'' # acc else xs) ps)
      else clean_parts rooted (p # acc) ps)"

definition path_clean :: "string \<Rightarrow> string" where
  "path_clean p =
     (let rooted = prefix ''/'' p; out = join ''/'' (clean_parts rooted [] (split_on (CHR ''/'') p)) in
      if rooted then CHR ''/'' # out else if out = [] then ''.'' else out)"

definition path_join :: "string list \<Rightarrow> string" where
  "path_join es =
     (case dropWhile (\<lambda>e. e = []) es of [] \<Rightarrow> [] | fs \<Rightarrow> path_clean (join ''/'' fs))"

section \<open>Lemmas\<close>

lemma unhex_upper: "d < 16 \<Longrightarrow> unhex (upper_hex d) = Some d"
proof -
  assume "d < 16"
  hence "d \<in> set [0..<16]" by simp
  thus ?thesis by (auto simp: upt_rec unhex_def upper_hex_def)
qed

lemma query_unescape_escape [simp]: "query_unescape (query_escape s) = Some s"
proof (induction s)
  case (Cons c s)
  have "(of_char c :: nat) < 256" by simp
  hence d: "(of_char c :: nat) div 16 < 16" "(of_char c :: nat) mod 16 < 16" by linarith+
  have "16 * (of_char c div 16) + of_char c mod 16 = (of_char c :: nat)" by simp
  hence c: "char_of (16 * (of_char c div 16) + of_char c mod 16 :: nat) = c" by (simp only: char_of_char)
  show ?case
    using Cons unhex_upper [OF d(1)] unhex_upper [OF d(2)] c
    by (auto simp: is_unreserved_def is_lower_def is_upper_def is_digit_def char_of_eq_iff take_bit_eq_mod)
qed simp

lemma hex_char_plain: "d < 16 \<Longrightarrow> upper_hex d \<notin> set ''&=;+%''"
proof -
  assume "d < 16"
  hence "d \<in> set [0..<16]" by simp
  thus ?thesis by (auto simp: upt_rec upper_hex_def char_of_eq_iff take_bit_eq_mod)
qed

lemma query_escape_plain: "c \<in> set (query_escape s) \<Longrightarrow> c \<notin> set ''&=;''"
proof (induction s)
  case (Cons a s)
  have "(of_char a :: nat) < 256" by simp
  hence d: "(of_char a :: nat) div 16 < 16" "(of_char a :: nat) mod 16 < 16" by linarith+
  show ?case using Cons hex_char_plain [OF d(1)] hex_char_plain [OF d(2)]
    by (auto simp: is_unreserved_def is_lower_def is_upper_def is_digit_def split: if_splits)
qed simp

lemma cut_at_first: "c \<notin> set a \<Longrightarrow> cut_at c (a @ c # b) = (a, b)"
proof -
  assume "c \<notin> set a"
  hence "\<And>x. x \<in> set a \<Longrightarrow> x \<noteq> c" by blast
  thus ?thesis by (simp add: cut_at_def)
qed

lemma parse_encode_setting: "parse_setting (encode_setting (k, x)) = Some (Inr (k, x))"
proof -
  have "CHR '';'' \<notin> set (encode_setting (k, x))"
    using query_escape_plain by (fastforce simp: encode_setting_def)
  moreover have "cut_at (CHR ''='') (encode_setting (k, x)) = (query_escape k, query_escape x)"
    unfolding encode_setting_def fst_conv snd_conv append_Cons append_Nil
    by (rule cut_at_first) (use query_escape_plain in fastforce)
  moreover have "encode_setting (k, x) \<noteq> []" by (simp add: encode_setting_def)
  ultimately show ?thesis by (simp add: parse_setting_def)
qed

lemma values_of_simps [simp]:
  "values_of [] k = []"
  "values_of (values_add k x v) k' = (if k' = k then values_of v k' @ [x] else values_of v k')"
  "values_of (values_set k x v) k' = (if k' = k then [x] else values_of v k')"
  "values_of (values_put k xs v) k' = (if k' = k then xs else values_of v k')"
  "values_of (values_del k v) k' = (if k' = k then [] else values_of v k')"
  by (simp_all add: values_of_def values_add_def values_set_def values_put_def values_del_def
        update_conv' delete_conv' split: option.split)

lemma parse_settings_encoded:
  "\<exists>v'. parse_settings (map encode_setting ps) v e = (v', e)
      \<and> (\<forall>k. values_of v' k = values_of v k @ map snd (filter (\<lambda>p. fst p = k) ps))"
proof (induction ps arbitrary: v)
  case (Cons p ps)
  obtain k x where p: "p = (k, x)" by (cases p)
  from Cons [of "values_add k x v"] show ?case
    by (auto simp: p parse_encode_setting)
qed simp

lemma filter_value_pairs: "map snd (filter (\<lambda>p. fst p = k) (value_pairs v)) = values_of v k"
proof -
  have one: "map snd (filter (\<lambda>p. fst p = k) (map (Pair k') xs)) = (if k' = k then xs else [])"
    for k' :: string and xs :: "string list"
    by (induction xs) auto
  have "distinct ks \<Longrightarrow> map snd (filter (\<lambda>p. fst p = k) (concat (map (\<lambda>k. map (Pair k) (values_of v k)) ks)))
        = (if k \<in> set ks then values_of v k else [])" for ks
    by (induction ks) (auto simp: one)
  from this [of "sort (remdups (map fst v))"]
  have "map snd (filter (\<lambda>p. fst p = k) (value_pairs v)) = (if k \<in> fst ` set v then values_of v k else [])"
    by (simp add: value_pairs_def)
  moreover have "k \<notin> fst ` set v \<Longrightarrow> values_of v k = []"
    by (simp add: values_of_def map_of_eq_None_iff [THEN iffD2])
  ultimately show ?thesis by simp
qed

text \<open>Encoding and parsing gives the same values for every key, without an error.\<close>

lemma parse_query_encode:
  obtains v' where "parse_query (values_encode v) = (v', None)" "\<And>k. values_of v' k = values_of v k"
proof (cases "value_pairs v = []")
  case True
  have "values_of v k = []" for k using filter_value_pairs [of k v] True by simp
  thus ?thesis using True that [of "[]"]
    by (simp add: parse_query_def values_encode_def parse_setting_def)
next
  case False
  have "CHR ''&'' \<notin> set s" if "s \<in> set (map encode_setting (value_pairs v))" for s
    using that query_escape_plain by (fastforce simp: encode_setting_def)
  hence "split_on (CHR ''&'') (values_encode v) = map encode_setting (value_pairs v)"
    unfolding values_encode_def by (intro split_on_join) (use False in auto)
  thus ?thesis using that parse_settings_encoded [of "value_pairs v" "[]" None]
    by (auto simp: parse_query_def filter_value_pairs)
qed

end
