(* ===== verification/Http_Model.thy ===== *)
theory Http_Model
  imports Label_Matchers Net_URL
begin

text \<open>
  Requests, response writers, handlers and middlewares of \<open>net/http\<close> as the gateway
  uses them, the error responses of \<open>httperr/httperr.go\<close>, and the contract that
  middlewares meet: a middleware either answers itself or calls the next
  handler once, with a request that it vouches for.
\<close>

section \<open>Headers\<close>

type_synonym header = "(string \<times> string list) list"

definition header_values :: "header \<Rightarrow> string \<Rightarrow> string list" where
  "header_values h k = (case map_of h (canonical_key k) of None \<Rightarrow> [] | Some vs \<Rightarrow> vs)"

definition header_get :: "header \<Rightarrow> string \<Rightarrow> string" where
  "header_get h k = (case header_values h k of [] \<Rightarrow> [] | v # _ \<Rightarrow> v)"

definition header_set :: "string \<Rightarrow> string \<Rightarrow> header \<Rightarrow> header" where
  "header_set k v h = AList.update (canonical_key k) [v] h"

definition header_add :: "string \<Rightarrow> string \<Rightarrow> header \<Rightarrow> header" where
  "header_add k v h = AList.update (canonical_key k) (header_values h k @ [v]) h"

definition header_del :: "string \<Rightarrow> header \<Rightarrow> header" where
  "header_del k h = AList.delete (canonical_key k) h"

lemma header_values_set [simp]:
  "header_values (header_set k v h) k' =
     (if canonical_key k' = canonical_key k then [v] else header_values h k')"
  by (simp add: header_values_def header_set_def update_conv')

lemma header_get_set [simp]:
  "header_get (header_set k v h) k' =
     (if canonical_key k' = canonical_key k then v else header_get h k')"
  by (simp add: header_get_def)

lemma header_values_del [simp]:
  "header_values (header_del k h) k' =
     (if canonical_key k' = canonical_key k then [] else header_values h k')"
  by (simp add: header_values_def header_del_def delete_conv')

lemma header_values_add [simp]:
  "header_values (header_add k v h) k' =
     (if canonical_key k' = canonical_key k then header_values h k' @ [v] else header_values h k')"
  by (simp add: header_values_def header_add_def update_conv' split: option.splits)

section \<open>Requests\<close>

record url =
  Scheme :: string
  Host :: string
  Path :: string
  RawQuery :: string

text \<open>The fields of a verified leaf certificate that the gateway reads; URIs and addresses in text form.\<close>

record certificate =
  EmailAddresses :: "string list"
  URIs :: "string list"
  DNSNames :: "string list"
  IPAddresses :: "string list"
  CommonName :: string
  OrganizationalUnit :: "string list"

text \<open>
  The request context: one field per context key that the gateway stores
  under, \<open>None\<close> when the key is not set.  \<open>urlParams\<close> are the parameters
  of chi's route context, which is nil outside a router.
\<close>

record ctx =
  tenantKey :: "string option"
  subjectKey :: "string option"
  groupsKey :: "string list option"
  accessTokenKey :: "string option"
  dataKey :: "string option"
  prefixKey :: "string option"
  matchersKey :: "AuthzResponseData option"
  urlParams :: "(string \<times> string) list option"

definition background :: ctx where
  "background = \<lparr>tenantKey = None, subjectKey = None, groupsKey = None, accessTokenKey = None,
     dataKey = None, prefixKey = None, matchersKey = None, urlParams = None\<rparr>"

text \<open>A request body delivers its bytes, or an error when it is read.\<close>

datatype body = Body_ok string | Body_err string

record request =
  Method :: string
  URL :: url
  Header :: header
  Body :: body
  ContentLength :: int
  TLS :: "certificate list option"
  Ctx :: ctx

text \<open>A request for \<open>/\<close> with nothing set, the starting point of concrete examples.\<close>

definition plain_request :: request where
  "plain_request = \<lparr>Method = ''GET'', URL = \<lparr>Scheme = ''https'', Host = ''gateway'', Path = ''/'', RawQuery = []\<rparr>,
     Header = [], Body = Body_ok [], ContentLength = 0, TLS = None, Ctx = background\<rparr>"

definition with_ctx :: "(ctx \<Rightarrow> ctx) \<Rightarrow> request \<Rightarrow> request" where
  "with_ctx f r = r\<lparr>Ctx := f (Ctx r)\<rparr>"

definition with_header :: "(header \<Rightarrow> header) \<Rightarrow> request \<Rightarrow> request" where
  "with_header f r = r\<lparr>Header := f (Header r)\<rparr>"

lemma with_simps [simp]:
  "Ctx (with_ctx f r) = f (Ctx r)" "Ctx (with_header g r) = Ctx r"
  "Header (with_ctx f r) = Header r" "Header (with_header g r) = g (Header r)"
  "URL (with_ctx f r) = URL r" "URL (with_header g r) = URL r"
  "Method (with_ctx f r) = Method r" "Method (with_header g r) = Method r"
  "Body (with_ctx f r) = Body r" "Body (with_header g r) = Body r"
  "TLS (with_ctx f r) = TLS r" "TLS (with_header g r) = TLS r"
  "ContentLength (with_ctx f r) = ContentLength r" "ContentLength (with_header g r) = ContentLength r"
  by (simp_all add: with_ctx_def with_header_def)

text \<open>\<open>chi.URLParam\<close>: the empty string for a parameter the route does not have.\<close>

definition url_param :: "request \<Rightarrow> string \<Rightarrow> string" where
  "url_param r k =
     (case urlParams (Ctx r) of
        None \<Rightarrow> []
      | Some ps \<Rightarrow> (case map_of ps k of None \<Rightarrow> [] | Some v \<Rightarrow> v))"

text \<open>
  \<open>Request.Cookie\<close>: the first cookie of that name in the \<open>Cookie\<close> headers whose
  name is a token and whose value, quotes removed, has only legal bytes.
\<close>

definition ascii_trim :: "string \<Rightarrow> string" where
  "ascii_trim s =
     (let sp = (\<lambda>c. c \<in> set [CHR 0x20, CHR 0x09, CHR 0x0A, CHR 0x0D]) in
      rev (dropWhile sp (rev (dropWhile sp s))))"

definition valid_cookie_byte :: "char \<Rightarrow> bool" where
  "valid_cookie_byte c =
     (0x20 \<le> byte_of c \<and> byte_of c < 0x7F \<and> c \<notin> set [CHR 0x22, CHR '';'', CHR 0x5C])"

definition parse_cookie_value :: "string \<Rightarrow> string option" where
  "parse_cookie_value raw =
     (let v = (if length raw > 1 \<and> hd raw = CHR 0x22 \<and> last raw = CHR 0x22
               then butlast (tl raw) else raw)
      in if list_all valid_cookie_byte v then Some v else None)"

definition parse_cookie :: "string \<Rightarrow> (string \<times> string) option" where
  "parse_cookie part =
     (case cut_at (CHR ''='') (ascii_trim part) of
        (n, v) \<Rightarrow>
          let name = ascii_trim n in
          if name \<noteq> [] \<and> list_all is_token_char name
          then map_option (Pair name) (parse_cookie_value v) else None)"

definition request_cookies :: "request \<Rightarrow> (string \<times> string) list" where
  "request_cookies r =
     List.map_filter parse_cookie
       (concat (map (\<lambda>l. split_on (CHR '';'') (ascii_trim l)) (header_values (Header r) ''Cookie'')))"

definition request_cookie :: "request \<Rightarrow> string \<Rightarrow> string option" where
  "request_cookie r name = (if name = [] then None else map_of (request_cookies r) name)"

text \<open>\<open>URL.Query\<close>: the settings that parse.\<close>

definition url_query :: "url \<Rightarrow> url_values" where
  "url_query u = fst (parse_query (RawQuery u))"

section \<open>Responses\<close>

text \<open>
  \<open>wstatus\<close> is \<open>None\<close> until the header is written; the header map as it was then
  is what the client gets.
\<close>

record writer =
  wheader :: header
  wstatus :: "nat option"
  wsent :: header
  wbody :: string

definition new_writer :: writer where
  "new_writer = \<lparr>wheader = [], wstatus = None, wsent = [], wbody = []\<rparr>"

definition write_header :: "nat \<Rightarrow> writer \<Rightarrow> writer" where
  "write_header code w =
     (case wstatus w of None \<Rightarrow> w\<lparr>wstatus := Some code, wsent := wheader w\<rparr> | Some _ \<Rightarrow> w)"

definition write_body :: "string \<Rightarrow> writer \<Rightarrow> writer" where
  "write_body s w = (let w' = write_header 200 w in w'\<lparr>wbody := wbody w' @ s\<rparr>)"

definition set_wheader :: "string \<Rightarrow> string \<Rightarrow> writer \<Rightarrow> writer" where
  "set_wheader k v w = w\<lparr>wheader := header_set k v (wheader w)\<rparr>"

text \<open>The status the client sees when the handler has returned.\<close>

definition final_status :: "writer \<Rightarrow> nat" where
  "final_status w = (case wstatus w of None \<Rightarrow> 200 | Some c \<Rightarrow> c)"

definition PrometheusAPIError :: "writer \<Rightarrow> string \<Rightarrow> nat \<Rightarrow> writer" where
  "PrometheusAPIError w errorMessage code =
     (let w1 = set_wheader ''Content-Type'' ''application/json; charset=utf-8'' w;
          w2 = write_header code w1;
          res = JObj [(''error'', JStr errorMessage), (''errorType'', JStr ''mcoa-gateway''),
                      (''status'', JStr ''error'')]
      in write_body (json_print res @ [CHR 0x0A]) w2)"

text \<open>\<open>http.Error\<close>.\<close>

definition http_error :: "writer \<Rightarrow> string \<Rightarrow> nat \<Rightarrow> writer" where
  "http_error w msg code =
     (let w1 = w\<lparr>wheader := header_del ''Content-Length'' (wheader w)\<rparr>;
          w2 = set_wheader ''Content-Type'' ''text/plain; charset=utf-8'' w1;
          w3 = set_wheader ''X-Content-Type-Options'' ''nosniff'' w2
      in write_body (msg @ [CHR 0x0A]) (write_header code w3))"

lemma PrometheusAPIError_status:
  "wstatus w = None \<Longrightarrow> wstatus (PrometheusAPIError w msg code) = Some code"
  by (simp add: PrometheusAPIError_def set_wheader_def write_header_def write_body_def Let_def)

lemma PrometheusAPIError_committed:
  "wstatus w = Some c \<Longrightarrow> wstatus (PrometheusAPIError w msg code) = Some c"
  by (simp add: PrometheusAPIError_def set_wheader_def write_header_def write_body_def Let_def)

lemma http_error_status: "wstatus w = None \<Longrightarrow> wstatus (http_error w msg code) = Some code"
  by (simp add: http_error_def set_wheader_def write_header_def write_body_def Let_def)

text \<open>
  How a middleware answers by itself.  \<open>Abort\<close> is a panic, which the server
  turns into a closed connection.
\<close>

datatype reply =
    ApiError string nat
  | HttpError string nat
  | LocationError string string nat
  | StatusOnly nat
  | NoReply
  | Abort

fun send_reply :: "reply \<Rightarrow> writer \<Rightarrow> writer" where
  "send_reply (ApiError msg code) w = PrometheusAPIError w msg code"
| "send_reply (HttpError msg code) w = http_error w msg code"
| "send_reply (LocationError loc msg code) w = PrometheusAPIError (set_wheader ''Location'' loc w) msg code"
| "send_reply (StatusOnly code) w = write_header code w"
| "send_reply NoReply w = w"
| "send_reply Abort w = w"

fun reply_status :: "reply \<Rightarrow> nat" where
  "reply_status (ApiError msg code) = code"
| "reply_status (HttpError msg code) = code"
| "reply_status (LocationError loc msg code) = code"
| "reply_status (StatusOnly code) = code"
| "reply_status NoReply = 200"
| "reply_status Abort = 0"

lemma final_status_send_reply:
  "wstatus w = None \<Longrightarrow> e \<noteq> Abort \<Longrightarrow> final_status (send_reply e w) = reply_status e"
  by (cases e)
     (simp_all add: final_status_def PrometheusAPIError_status http_error_status set_wheader_def write_header_def)

section \<open>Handlers and middlewares\<close>

text \<open>
  A handler takes the request, the writer and the state of the server
  (\<open>'s\<close>: rate limiters, registered providers) and ends in an answer of the
  gateway itself or in a request handed to the reverse proxy.
\<close>

datatype outcome = Responded writer | Forwarded request writer

type_synonym 's handler = "request \<Rightarrow> writer \<Rightarrow> 's \<Rightarrow> outcome \<times> 's"

type_synonym 's middleware = "'s handler \<Rightarrow> 's handler"

text \<open>The end of a chain: the reverse proxy takes over.\<close>

definition forward :: "'s handler" where
  "forward r w s = (Forwarded r w, s)"

text \<open>The common shape: checks with early returns, then the next handler.\<close>

definition guard_mw :: "(request \<Rightarrow> reply + request) \<Rightarrow> 's middleware" where
  "guard_mw chk nxt r w s =
     (case chk r of Inl e \<Rightarrow> (Responded (send_reply e w), s) | Inr r' \<Rightarrow> nxt r' w s)"

lemma guard_mw_simps [simp]:
  "chk r = Inl e \<Longrightarrow> guard_mw chk nxt r w s = (Responded (send_reply e w), s)"
  "chk r = Inr r' \<Longrightarrow> guard_mw chk nxt r w s = nxt r' w s"
  by (simp_all add: guard_mw_def)

lemma guard_mw_forward:
  "guard_mw chk forward r w s = (Forwarded r' w', s') \<longleftrightarrow> chk r = Inr r' \<and> w' = w \<and> s' = s"
  by (auto simp: guard_mw_def forward_def split: sum.splits)

text \<open>\<open>chain [m1, ..., mk]\<close> runs \<open>m1\<close> first, as \<open>r.Use\<close> and \<open>chi.With\<close> compose them.\<close>

definition chain :: "'s middleware list \<Rightarrow> 's middleware" where
  "chain ms = foldr (\<circ>) ms id"

lemma chain_simps [simp]:
  "chain [] = id" "chain (m # ms) = m \<circ> chain ms" "chain (ms @ ns) = chain ms \<circ> chain ns"
  by (simp add: chain_def, simp add: chain_def, simp only: chain_def foldr_comp_append)

section \<open>Middleware contracts\<close>

text \<open>
  \<open>Q r r'\<close> relates the request that arrives to the one the next handler is
  called with.  Since \<open>nxt\<close> is arbitrary, a middleware that meets the
  contract cannot call it in any other way.
\<close>

definition enforces :: "(request \<Rightarrow> request \<Rightarrow> bool) \<Rightarrow> 's middleware \<Rightarrow> bool" where
  "enforces Q mw \<longleftrightarrow>
     (\<forall>nxt r w s. (\<exists>w' s'. mw nxt r w s = (Responded w', s'))
                   \<or> (\<exists>r' w' s'. Q r r' \<and> mw nxt r w s = nxt r' w' s'))"

locale middleware_contract =
  fixes mw :: "'s middleware" and Q :: "request \<Rightarrow> request \<Rightarrow> bool"
  assumes contract: "enforces Q mw"
begin

lemma forwarded: "mw forward r w s = (Forwarded r' w', s') \<Longrightarrow> Q r r'"
proof -
  assume f: "mw forward r w s = (Forwarded r' w', s')"
  have "(\<exists>w' s'. mw forward r w s = (Responded w', s'))
        \<or> (\<exists>r' w' s'. Q r r' \<and> mw forward r w s = forward r' w' s')"
    using contract unfolding enforces_def by (elim allE)
  thus ?thesis using f by (auto simp: forward_def)
qed

lemma weaken: "(\<And>r r'. Q r r' \<Longrightarrow> P r r') \<Longrightarrow> enforces P mw"
  using contract unfolding enforces_def by blast

end

lemma guard_mw_enforces:
  "(\<And>r r'. chk r = Inr r' \<Longrightarrow> Q r r') \<Longrightarrow> enforces Q (guard_mw chk)"
proof -
  assume Q: "\<And>r r'. chk r = Inr r' \<Longrightarrow> Q r r'"
  have "(\<exists>w' s'. guard_mw chk nxt r w s = (Responded w', s'))
        \<or> (\<exists>r' w' s'. Q r r' \<and> guard_mw chk nxt r w s = nxt r' w' s')" for nxt r w s
  proof (cases "chk r")
    case (Inr b)
    hence "Q r b" "guard_mw chk nxt r w s = nxt b w s" by (simp_all add: Q)
    thus ?thesis by blast
  qed simp
  thus ?thesis unfolding enforces_def by blast
qed

text \<open>Middlewares that answer in one case and call the next handler in the other.\<close>

lemma enforcesI:
  "(\<And>nxt r w s. (\<exists>w' s'. mw nxt r w s = (Responded w', s'))
               \<or> (\<exists>r' w' s'. Q r r' \<and> mw nxt r w s = nxt r' w' s')) \<Longrightarrow> enforces Q mw"
  by (simp add: enforces_def)

lemma enforces_pass:
  assumes "\<And>nxt r w s. mw nxt r w s = nxt (f r) w s" "\<And>r. Q r (f r)"
  shows "enforces Q mw"
  unfolding enforces_def assms(1) using assms(2) by blast

lemma enforces_id: "enforces (\<lambda>r r'. r' = r) id"
  by (auto simp: enforces_def)

lemma enforces_comp:
  assumes "enforces Q mw" "enforces P mw'"
  shows "enforces (\<lambda>r r'. \<exists>r1. Q r r1 \<and> P r1 r') (mw \<circ> mw')"
proof -
  have "(\<exists>w' s'. mw (mw' nxt) r w s = (Responded w', s'))
        \<or> (\<exists>r' w' s'. (\<exists>r1. Q r r1 \<and> P r1 r') \<and> mw (mw' nxt) r w s = nxt r' w' s')" for nxt r w s
  proof -
    consider w' s' where "mw (mw' nxt) r w s = (Responded w', s')"
      | r1 w1 s1 where "Q r r1" "mw (mw' nxt) r w s = mw' nxt r1 w1 s1"
      using assms(1) unfolding enforces_def by blast
    thus ?thesis
    proof cases
      case 2
      have "(\<exists>w' s'. mw' nxt r1 w1 s1 = (Responded w', s'))
            \<or> (\<exists>r' w' s'. P r1 r' \<and> mw' nxt r1 w1 s1 = nxt r' w' s')"
        using assms(2) unfolding enforces_def by (elim allE)
      then show ?thesis using 2(1) unfolding 2(2) by blast
    qed blast
  qed
  thus ?thesis by (simp add: enforces_def)
qed

text \<open>Two middlewares in sequence meet the composed contract.\<close>

locale middleware_pair =
  first: middleware_contract mw Q + second: middleware_contract mw' P
  for mw :: "'s middleware" and Q and mw' :: "'s middleware" and P

sublocale middleware_pair \<subseteq> both: middleware_contract "mw \<circ> mw'" "\<lambda>r r'. \<exists>r1. Q r r1 \<and> P r1 r'"
  by unfold_locales (rule enforces_comp [OF first.contract second.contract])

lemma enforces_forwarded:
  "enforces Q mw \<Longrightarrow> mw forward r w s = (Forwarded r' w', s') \<Longrightarrow> Q r r'"
  by (rule middleware_contract.forwarded [OF middleware_contract.intro])

end
