(* ===== verification/Tenant_Header.thy ===== *)
theory Tenant_Header
  imports Http_Model
begin

text \<open>
  Tenant extraction from request headers and the HTTP side of the
  \<open>authentication\<close> package: \<open>authentication/tenant_header.go\<close> and \<open>authentication/http.go\<close>.
\<close>

section \<open>Definitions\<close>

definition maxTenantNameLength :: nat where
  "maxTenantNameLength = 256"

definition maxTenants :: nat where
  "maxTenants = 100"

definition is_tenant_char :: "char \<Rightarrow> bool" where
  "is_tenant_char c = (is_lower c \<or> is_upper c \<or> is_digit c \<or> c = CHR ''_'' \<or> c = CHR ''-'')"

definition tenantNameRegex :: "string \<Rightarrow> bool" where
  "tenantNameRegex s = (s \<noteq> [] \<and> list_all is_tenant_char s)"

definition collect_tenants :: "string list \<Rightarrow> string list" where
  "collect_tenants values =
     concat (map (\<lambda>v. filter (\<lambda>t. t \<noteq> []) (map trim_space (split_on (CHR ''|'') v))) values)"

fun validate_tenants :: "string list \<Rightarrow> string list \<Rightarrow> reply option" where
  "validate_tenants seen [] = None"
| "validate_tenants seen (t # ts) =
     (if length t > maxTenantNameLength then
        Some (ApiError (''tenant name too long (max '' @ itoa_nat maxTenantNameLength
                        @ '' characters): '' @ t) 400)
      else if \<not> tenantNameRegex t then
        Some (ApiError (''invalid tenant name '' @ [CHR 0x27] @ t @ [CHR 0x27]
                        @ '' (allowed: a-z, A-Z, 0-9, _, -)'') 400)
      else if t \<in> set seen then Some (ApiError (''duplicate tenant name: '' @ t) 400)
      else validate_tenants (t # seen) ts)"

definition set_tenant :: "string \<Rightarrow> request \<Rightarrow> request" where
  "set_tenant t = with_ctx (\<lambda>c. c\<lparr>tenantKey := Some t\<rparr>)"

definition tenant_from_header :: "string \<Rightarrow> request \<Rightarrow> reply + request" where
  "tenant_from_header tenantHeader r =
     (let values = header_values (Header r) tenantHeader; tenants = collect_tenants values in
      if values = [] then
        Inl (ApiError (''tenant header '' @ [CHR 0x27] @ tenantHeader @ [CHR 0x27] @ '' is required'') 400)
      else if tenants = [] then Inl (ApiError ''empty tenant name not allowed'' 400)
      else if length tenants > maxTenants then
        Inl (ApiError (''too many tenants (max '' @ itoa_nat maxTenants @ '')'') 400)
      else (case validate_tenants [] tenants of
              Some e \<Rightarrow> Inl e
            | None \<Rightarrow> Inr (set_tenant (join ''|'' tenants) r)))"

definition WithTenantFromHeader :: "string \<Rightarrow> 's middleware" where
  "WithTenantFromHeader tenantHeader = guard_mw (tenant_from_header tenantHeader)"

definition WithTenantFromURLParam :: "string \<Rightarrow> string \<Rightarrow> 's middleware" where
  "WithTenantFromURLParam paramName tenantHeader nxt =
     guard_mw (\<lambda>r. if url_param r paramName = [] then Inl (ApiError ''tenant is required'' 400)
                    else Inr (with_header (header_set tenantHeader (url_param r paramName)) r))
       (WithTenantFromHeader tenantHeader nxt)"

definition WithOptionalTenantFromHeader :: "string \<Rightarrow> 's middleware" where
  "WithOptionalTenantFromHeader tenantHeader nxt r w s =
     (let tenant = header_get (Header r) tenantHeader in
      nxt (if tenant \<noteq> [] then set_tenant tenant r else r) w s)"

definition WithTenant :: "'s middleware" where
  "WithTenant nxt r w s = nxt (set_tenant (url_param r ''tenant'') r) w s"

definition WithAccessToken :: "'s middleware" where
  "WithAccessToken nxt r w s =
     (let rawToken = header_get (Header r) ''Authorization'';
          proxyToken = header_get (Header r) ''X-Forwarded-Access-Token'';
          forwarded = (rawToken = [] \<and> proxyToken \<noteq> []);
          r1 = (if forwarded then with_header (header_set ''Authorization'' (''Bearer '' @ proxyToken)) r else r);
          token = (if forwarded then proxyToken else trim_prefix rawToken ''Bearer '')
      in nxt (with_ctx (\<lambda>c. c\<lparr>accessTokenKey := Some token\<rparr>) r1) w s)"

definition GetTenant :: "ctx \<Rightarrow> string \<times> bool" where
  "GetTenant c = (case tenantKey c of Some t \<Rightarrow> (t, True) | None \<Rightarrow> ([], False))"

definition GetSubject :: "ctx \<Rightarrow> string \<times> bool" where
  "GetSubject c = (case subjectKey c of Some t \<Rightarrow> (t, True) | None \<Rightarrow> ([], False))"

definition GetGroups :: "ctx \<Rightarrow> string list \<times> bool" where
  "GetGroups c = (case groupsKey c of Some t \<Rightarrow> (t, True) | None \<Rightarrow> ([], False))"

definition GetAccessToken :: "ctx \<Rightarrow> string \<times> bool" where
  "GetAccessToken c = (case accessTokenKey c of Some t \<Rightarrow> (t, True) | None \<Rightarrow> ([], False))"

text \<open>A \<open>MiddlewareFunc\<close> gives the middleware of a tenant, or nothing.\<close>

type_synonym 's MiddlewareFunc = "string \<Rightarrow> 's middleware option"

fun first_middleware :: "'s MiddlewareFunc list \<Rightarrow> string \<Rightarrow> 's middleware option" where
  "first_middleware [] tenant = None"
| "first_middleware (mwFn # mwFns) tenant =
     (case mwFn tenant of Some m \<Rightarrow> Some m | None \<Rightarrow> first_middleware mwFns tenant)"

definition WithTenantMiddlewares :: "'s MiddlewareFunc list \<Rightarrow> 's middleware" where
  "WithTenantMiddlewares mwFns nxt r w s =
     (case GetTenant (Ctx r) of
        (tenant, ok) \<Rightarrow>
          if \<not> ok then (Responded (PrometheusAPIError w ''error finding tenant'' 400), s)
          else (case first_middleware mwFns tenant of
                  Some m \<Rightarrow> m nxt r w s
                | None \<Rightarrow> (Responded (PrometheusAPIError w ''tenant not found, have you registered it?'' 401), s)))"

definition EnforceAccessTokenPresentOnSignalWrite :: "string set \<Rightarrow> 's middleware" where
  "EnforceAccessTokenPresentOnSignalWrite oidcTenants =
     guard_mw (\<lambda>r.
       (let tenant = url_param r ''tenant'' in
        if tenant = [] then Inr r
        else if tenant \<notin> oidcTenants then Inr r
        else if header_get (Header r) ''Authorization'' = [] then
          Inl (ApiError (''couldn'' @ [CHR 0x27] @ ''t find the authorization header'') 400)
        else Inr r))"

section \<open>Validation\<close>

definition valid_tenant :: "string \<Rightarrow> bool" where
  "valid_tenant t = (tenantNameRegex t \<and> length t \<le> maxTenantNameLength)"

lemma validate_tenants_None:
  "validate_tenants seen ts = None \<longleftrightarrow>
     list_all valid_tenant ts \<and> distinct ts \<and> set ts \<inter> set seen = {}"
  by (induction seen ts rule: validate_tenants.induct) (auto simp: valid_tenant_def)

lemma validate_tenants_400:
  "validate_tenants seen ts = Some e \<Longrightarrow> \<exists>msg. e = ApiError msg 400"
  by (induction seen ts rule: validate_tenants.induct) (auto split: if_splits)

lemma tenant_char_no_space: "is_tenant_char c \<Longrightarrow> c \<notin> space_bytes"
  unfolding space_bytes_def space_encodings_def
  by (auto simp: is_tenant_char_def is_lower_def is_upper_def is_digit_def)

lemma tenant_char_no_pipe: "is_tenant_char c \<Longrightarrow> c \<noteq> CHR ''|''"
  by (auto simp: is_tenant_char_def is_lower_def is_upper_def is_digit_def)

lemma tenant_char_no_meta: "is_tenant_char c \<Longrightarrow> c \<notin> set regex_meta"
  by (auto simp: is_tenant_char_def is_lower_def is_upper_def is_digit_def regex_meta_def)

lemma tenant_char_ascii: "is_tenant_char c \<Longrightarrow> byte_of c < 0x80"
  by (auto simp: is_tenant_char_def is_lower_def is_upper_def is_digit_def)

lemma tenant_no_pipe: "tenantNameRegex t \<Longrightarrow> CHR ''|'' \<notin> set t"
  using tenant_char_no_pipe by (auto simp: tenantNameRegex_def list_all_iff)

lemma tenant_trim [simp]: "tenantNameRegex t \<Longrightarrow> trim_space t = t"
  by (rule trim_space_id) (use tenant_char_no_space in \<open>auto simp: tenantNameRegex_def list_all_iff\<close>)

lemma utf8_valid_ascii: "list_all (\<lambda>c. byte_of c < 0x80) s \<Longrightarrow> utf8_valid s"
  by (induction s) (auto simp: utf8_len.simps utf8_head_def)

lemma tenant_utf8: "tenantNameRegex t \<Longrightarrow> utf8_valid t"
  by (rule utf8_valid_ascii) (use tenant_char_ascii in \<open>auto simp: tenantNameRegex_def list_all_iff\<close>)

lemma collect_tenants_nonempty: "t \<in> set (collect_tenants vs) \<Longrightarrow> t \<noteq> []"
  by (auto simp: collect_tenants_def)

text \<open>Several header lines or one line with bars: the same tenants.\<close>

lemma collect_tenants_join:
  assumes "vs \<noteq> []" "\<And>v. v \<in> set vs \<Longrightarrow> CHR ''|'' \<notin> set v"
  shows "collect_tenants [join ''|'' vs] = collect_tenants vs"
proof -
  have "split_on (CHR ''|'') (join ''|'' vs) = vs" by (rule split_on_join) (use assms in auto)
  moreover have "concat (map (\<lambda>v. filter (\<lambda>t. t \<noteq> []) (map trim_space [v])) ws)
                 = filter (\<lambda>t. t \<noteq> []) (map trim_space ws)" for ws
    by (induction ws) auto
  moreover have "map (\<lambda>v. filter (\<lambda>t. t \<noteq> []) (map trim_space (split_on (CHR ''|'') v))) vs
                 = map (\<lambda>v. filter (\<lambda>t. t \<noteq> []) (map trim_space [v])) vs"
    using assms(2) by (simp add: split_on_no_sep)
  ultimately show ?thesis by (simp only: collect_tenants_def list.map concat.simps append_Nil2)
qed

section \<open>Contracts\<close>

text \<open>
  What the read path may assume behind the header middleware: the context
  tenant is a bar-separated list of distinct valid names.
\<close>

definition tenant_list :: "string \<Rightarrow> string list \<Rightarrow> bool" where
  "tenant_list t ts \<longleftrightarrow>
     t = join ''|'' ts \<and> ts \<noteq> [] \<and> length ts \<le> maxTenants \<and> list_all valid_tenant ts \<and> distinct ts"

lemma tenant_from_header_Inr:
  "tenant_from_header h r = Inr r' \<longleftrightarrow>
     (\<exists>t. tenant_list t (collect_tenants (header_values (Header r) h)) \<and> r' = set_tenant t r)"
proof -
  define ts where "ts = collect_tenants (header_values (Header r) h)"
  have ne: "header_values (Header r) h = [] \<Longrightarrow> ts = []" by (simp add: ts_def collect_tenants_def)
  have v: "validate_tenants [] ts = None \<longleftrightarrow> list_all valid_tenant ts \<and> distinct ts"
    by (simp add: validate_tenants_None)
  show ?thesis using ne v
    by (auto simp: tenant_from_header_def tenant_list_def Let_def ts_def [symmetric] split: option.splits)
qed

lemma tenant_list_split:
  "tenant_list t ts \<Longrightarrow> split_on (CHR ''|'') t = ts"
  unfolding tenant_list_def
  by (auto simp: list_all_iff valid_tenant_def intro!: split_on_join tenant_no_pipe)

interpretation tenant_header:
  middleware_contract "WithTenantFromHeader h :: 's middleware"
    "\<lambda>r r'. \<exists>t ts. tenant_list t ts \<and> r' = set_tenant t r"
  by unfold_locales
     (unfold WithTenantFromHeader_def, rule guard_mw_enforces, unfold tenant_from_header_Inr, blast)

interpretation url_param_tenant:
  middleware_contract "WithTenantFromURLParam p h :: 's middleware"
    "\<lambda>r r'. \<exists>t ts. tenant_list t ts \<and>
       r' = set_tenant t (with_header (header_set h (url_param r p)) r)"
proof unfold_locales
  have eq: "WithTenantFromURLParam p h = guard_mw (\<lambda>r. if url_param r p = [] then Inl (ApiError ''tenant is required'' 400)
      else Inr (with_header (header_set h (url_param r p)) r)) \<circ> WithTenantFromHeader h"
    by (simp add: WithTenantFromURLParam_def fun_eq_iff)
  have "enforces (\<lambda>r r'. \<exists>r1. r1 = with_header (header_set h (url_param r p)) r \<and>
      (\<exists>t ts. tenant_list t ts \<and> r' = set_tenant t r1)) (WithTenantFromURLParam p h :: 's middleware)"
    unfolding eq
    by (rule enforces_comp [OF guard_mw_enforces tenant_header.contract]) (auto split: if_splits)
  thus "enforces (\<lambda>r r'. \<exists>t ts. tenant_list t ts \<and>
       r' = set_tenant t (with_header (header_set h (url_param r p)) r))
     (WithTenantFromURLParam p h :: 's middleware)" by simp
qed

interpretation access_token:
  middleware_contract "WithAccessToken :: 's middleware"
    "\<lambda>r r'. tenantKey (Ctx r') = tenantKey (Ctx r) \<and> accessTokenKey (Ctx r') \<noteq> None"
  by unfold_locales (rule enforces_pass, unfold WithAccessToken_def Let_def, rule refl, simp)

interpretation token_present:
  middleware_contract "EnforceAccessTokenPresentOnSignalWrite tenants :: 's middleware"
    "\<lambda>r r'. r' = r \<and> (url_param r ''tenant'' \<in> tenants \<longrightarrow> url_param r ''tenant'' \<noteq> [] \<longrightarrow>
                     header_get (Header r) ''Authorization'' \<noteq> [])"
  by unfold_locales
     (auto simp: EnforceAccessTokenPresentOnSignalWrite_def Let_def split: if_splits
           intro!: guard_mw_enforces)

lemma WithTenantMiddlewares_enforces:
  assumes "\<And>f t m. f \<in> set mwFns \<Longrightarrow> f t = Some m \<Longrightarrow> enforces Q m"
  shows "enforces Q (WithTenantMiddlewares mwFns)"
proof (rule enforcesI)
  have first: "first_middleware mwFns t = Some m \<Longrightarrow> enforces Q m" for t m
    using assms by (induction mwFns) (auto split: option.splits)
  fix nxt r w s
  show "(\<exists>w' s'. WithTenantMiddlewares mwFns nxt r w s = (Responded w', s')) \<or>
        (\<exists>r' w' s'. Q r r' \<and> WithTenantMiddlewares mwFns nxt r w s = nxt r' w' s')"
  proof (cases "snd (GetTenant (Ctx r)) \<and> first_middleware mwFns (fst (GetTenant (Ctx r))) \<noteq> None")
    case True
    then obtain m where m: "first_middleware mwFns (fst (GetTenant (Ctx r))) = Some m" by auto
    hence "WithTenantMiddlewares mwFns nxt r w s = m nxt r w s"
      using True by (simp add: WithTenantMiddlewares_def case_prod_beta)
    thus ?thesis using first [OF m] unfolding enforces_def by simp
  next
    case False
    thus ?thesis by (auto simp: WithTenantMiddlewares_def case_prod_beta split: option.splits)
  qed
qed

section \<open>Properties\<close>

text \<open>
  C4. \<open>WithTenantFromHeader\<close> lets a request pass exactly when the header values,
  split at bars and trimmed, give between 1 and 100 distinct names, each of at most 256
  bytes over the tenant alphabet; the next handler then sees the names joined by bars as context
  tenant and an otherwise unchanged request.  Every other request is answered
  with status 400.
\<close>

theorem tenant_header_decides:
  "let ts = collect_tenants (header_values (Header r) h) in
   if ts \<noteq> [] \<and> length ts \<le> 100 \<and> distinct ts \<and>
      list_all (\<lambda>t. t \<noteq> [] \<and> length t \<le> 256 \<and> list_all is_tenant_char t) ts
   then WithTenantFromHeader h nxt r w s = nxt (set_tenant (join ''|'' ts) r) w s
   else \<exists>msg. WithTenantFromHeader h nxt r w s = (Responded (PrometheusAPIError w msg 400), s)"
proof -
  define ts where "ts = collect_tenants (header_values (Header r) h)"
  have valid: "list_all (\<lambda>t. t \<noteq> [] \<and> length t \<le> 256 \<and> list_all is_tenant_char t) ts = list_all valid_tenant ts"
    by (auto simp: list_all_iff valid_tenant_def tenantNameRegex_def maxTenantNameLength_def)
  show ?thesis
  proof (cases "tenant_list (join ''|'' ts) ts")
    case True
    hence "tenant_from_header h r = Inr (set_tenant (join ''|'' ts) r)"
      unfolding tenant_from_header_Inr ts_def by blast
    moreover have "ts \<noteq> [] \<and> length ts \<le> 100 \<and> distinct ts \<and> list_all valid_tenant ts"
      using True by (simp add: tenant_list_def maxTenants_def)
    ultimately show ?thesis
      by (simp add: Let_def WithTenantFromHeader_def ts_def [symmetric] valid)
  next
    case False
    then obtain e where e: "tenant_from_header h r = Inl e"
      by (cases "tenant_from_header h r") (auto simp: tenant_from_header_Inr ts_def tenant_list_def)
    moreover obtain msg where "e = ApiError msg 400"
      using e validate_tenants_400 [of "[]"]
      by (auto simp: tenant_from_header_def Let_def split: if_splits option.splits)
    moreover have "\<not> (ts \<noteq> [] \<and> length ts \<le> 100 \<and> distinct ts \<and> list_all valid_tenant ts)"
      using False by (auto simp: tenant_list_def maxTenants_def)
    ultimately show ?thesis
      by (auto simp: Let_def WithTenantFromHeader_def ts_def [symmetric] valid)
  qed
qed

text \<open>
  Sending several header lines and sending one line with the values
  joined by bars are the same: the middleware accepts the one when it
  accepts the other, with the same tenants, and answers with the same error otherwise.
\<close>

theorem tenant_header_formats_agree:
  assumes "vs \<noteq> []" "\<forall>v \<in> set vs. CHR ''|'' \<notin> set v"
  shows "map_sum id (\<lambda>r'. tenantKey (Ctx r')) (tenant_from_header h (r\<lparr>Header := [(canonical_key h, vs)]\<rparr>))
       = map_sum id (\<lambda>r'. tenantKey (Ctx r')) (tenant_from_header h (r\<lparr>Header := [(canonical_key h, [join ''|'' vs])]\<rparr>))"
proof -
  have "collect_tenants [join ''|'' vs] = collect_tenants vs"
    by (rule collect_tenants_join) (use assms in auto)
  thus ?thesis using assms(1)
    by (simp add: tenant_from_header_def header_values_def Let_def set_tenant_def split: option.split)
qed

theorem tenant_header_formats_agree_witness:
  "map_sum id (\<lambda>r'. tenantKey (Ctx r'))
     (tenant_from_header ''X-Scope-OrgID'' (plain_request\<lparr>Header := [(canonical_key ''X-Scope-OrgID'', [''a'', ''b''])]\<rparr>))
   = map_sum id (\<lambda>r'. tenantKey (Ctx r'))
     (tenant_from_header ''X-Scope-OrgID'' (plain_request\<lparr>Header := [(canonical_key ''X-Scope-OrgID'', [''a|b''])]\<rparr>))"
  using tenant_header_formats_agree [of "[''a'', ''b'']" "''X-Scope-OrgID''" plain_request] by simp

text \<open>
  C22. Behind \<open>WithTenantFromURLParam\<close> the tenant header the client sent plays no
  part: the next handler sees the header overwritten with the route parameter
  and the context tenant made of the names in that parameter.
\<close>

theorem url_param_tenant_decides:
  assumes "WithTenantFromURLParam p h forward r w s = (Forwarded r' w', s')"
  shows "header_values (Header r') h = [url_param r p]
       \<and> tenantKey (Ctx r') = Some (join ''|'' (collect_tenants [url_param r p]))
       \<and> (\<forall>t \<in> set (collect_tenants [url_param r p]). tenantNameRegex t)"
proof -
  let ?r = "with_header (header_set h (url_param r p)) r"
  have "tenant_from_header h ?r = Inr r'"
    using assms by (auto simp: WithTenantFromURLParam_def WithTenantFromHeader_def guard_mw_forward
        guard_mw_def [of _ "guard_mw (tenant_from_header h) forward"] split: if_splits)
  then obtain t where "tenant_list t (collect_tenants [url_param r p])" "r' = set_tenant t ?r"
    by (auto simp: tenant_from_header_Inr)
  thus ?thesis by (auto simp: set_tenant_def tenant_list_def list_all_iff valid_tenant_def)
qed

theorem url_param_tenant_decides_witness:
  "let r = with_ctx (\<lambda>c. c\<lparr>urlParams := Some [(''tenant'', ''a|b'')]\<rparr>) plain_request in
   \<exists>r'. WithTenantFromURLParam ''tenant'' ''X-Scope-OrgID'' forward r new_writer () = (Forwarded r' new_writer, ())
      \<and> tenantKey (Ctx r') = Some (join ''|'' (collect_tenants [''a|b'']))
      \<and> length (collect_tenants [''a|b'']) = 2"
proof -
  let ?r = "with_ctx (\<lambda>c. c\<lparr>urlParams := Some [(''tenant'', ''a|b'')]\<rparr>) plain_request"
  have u: "url_param ?r ''tenant'' = ''a|b''" by (simp add: url_param_def)
  have c: "collect_tenants [''a|b''] = [''a'', ''b'']" by code_simp
  have "\<exists>r'. WithTenantFromURLParam ''tenant'' ''X-Scope-OrgID'' forward ?r new_writer () = (Forwarded r' new_writer, ())"
    by (simp add: WithTenantFromURLParam_def WithTenantFromHeader_def guard_mw_def u
        tenant_from_header_def c maxTenants_def maxTenantNameLength_def tenantNameRegex_def
        is_tenant_char_def is_lower_def forward_def)
  with url_param_tenant_decides [of "''tenant''" "''X-Scope-OrgID''" ?r new_writer "()"]
  show ?thesis by (auto simp: u c)
qed

end
