(* ===== verification/Grpc_Model.thy ===== *)
theory Grpc_Model
  imports Tenant_Header
begin

text \<open>
  gRPC streams as the interceptors of the gateway see them (context, peer,
  incoming metadata), the interceptors of \<open>authentication/grpc.go\<close>, and
  the contract of interceptors.
\<close>

section \<open>Streams\<close>

datatype auth_info = TLSInfo "certificate list" | OtherAuthInfo

text \<open>Metadata keys are lower case; \<open>None\<close> when the context carries no metadata.\<close>

record stream =
  sctx :: ctx
  speer :: "auth_info option"
  smd :: "(string \<times> string list) list option"

definition new_stream :: stream where
  "new_stream = \<lparr>sctx = background, speer = None, smd = None\<rparr>"

datatype grpc_code =
  Unknown | InvalidArgument | PermissionDenied | Internal | Unimplemented | Unauthenticated

text \<open>
  The stream ends in a status error or a panic of an interceptor, or the
  handler is called on it.
\<close>

datatype stream_outcome = StreamError grpc_code string | StreamPanic string | Handled stream

fun stream_rejected :: "stream_outcome \<Rightarrow> bool" where
  "stream_rejected (Handled ss) = False"
| "stream_rejected _ = True"

type_synonym stream_handler = "stream \<Rightarrow> stream_outcome"

type_synonym interceptor = "stream_handler \<Rightarrow> stream_handler"

definition md_lookup :: "(string \<times> string list) list \<Rightarrow> string \<Rightarrow> string list" where
  "md_lookup md k = (case map_of md k of None \<Rightarrow> [] | Some vs \<Rightarrow> vs)"

text \<open>\<open>MD.Get\<close> and \<open>MD.Set\<close> lower the key; indexing the map does not.\<close>

definition md_get :: "(string \<times> string list) list \<Rightarrow> string \<Rightarrow> string list" where
  "md_get md k = md_lookup md (map to_lower k)"

definition md_set :: "string \<Rightarrow> string \<Rightarrow> (string \<times> string list) list \<Rightarrow> (string \<times> string list) list" where
  "md_set k v md = AList.update (map to_lower k) [v] md"

lemma md_get_set [simp]:
  "md_get (md_set k v md) k' = (if map to_lower k' = map to_lower k then [v] else md_get md k')"
  by (auto simp: md_get_def md_set_def md_lookup_def update_conv')

text \<open>
  \<open>grpc_middleware_auth.StreamServerInterceptor\<close>: the authentication function
  gives the new context, or a status error that ends the stream.
\<close>

definition auth_interceptor :: "(stream \<Rightarrow> (grpc_code \<times> string) + ctx) \<Rightarrow> interceptor" where
  "auth_interceptor f handler ss =
     (case f ss of Inl (c, msg) \<Rightarrow> StreamError c msg | Inr c \<Rightarrow> handler (ss\<lparr>sctx := c\<rparr>))"

section \<open>Interceptors\<close>

text \<open>\<open>s[strings.LastIndex(s, " ")+1:]\<close>: what follows the last blank.\<close>

definition after_last_blank :: "string \<Rightarrow> string" where
  "after_last_blank s = last (split_on (CHR '' '') s)"

definition WithGRPCAccessToken :: interceptor where
  "WithGRPCAccessToken = auth_interceptor (\<lambda>ss.
     (case smd ss of
        None \<Rightarrow> Inl (Internal, ''metadata error'')
      | Some md \<Rightarrow>
          (let rawTokens = md_lookup md ''authorization'' in
           if rawTokens = [] then Inl (Unauthenticated, ''error no access token'')
           else Inr ((sctx ss)\<lparr>accessTokenKey := Some (after_last_blank (last rawTokens))\<rparr>))))"

type_synonym GRPCMiddlewareFunc = "string \<Rightarrow> interceptor option"

fun first_interceptor :: "GRPCMiddlewareFunc list \<Rightarrow> string \<Rightarrow> interceptor option" where
  "first_interceptor [] tenant = None"
| "first_interceptor (mwFn # mwFns) tenant =
     (case mwFn tenant of Some m \<Rightarrow> Some m | None \<Rightarrow> first_interceptor mwFns tenant)"

definition WithGRPCTenantInterceptors :: "GRPCMiddlewareFunc list \<Rightarrow> interceptor" where
  "WithGRPCTenantInterceptors mwFns handler ss =
     (case GetTenant (sctx ss) of
        (tenant, ok) \<Rightarrow>
          if \<not> ok then StreamError InvalidArgument ''error finding tenant''
          else (case first_interceptor mwFns tenant of
                  Some m \<Rightarrow> m handler ss
                | None \<Rightarrow> StreamError PermissionDenied ''tenant not found, have you registered it?''))"

section \<open>Contracts\<close>

definition intercepts :: "(stream \<Rightarrow> stream \<Rightarrow> bool) \<Rightarrow> interceptor \<Rightarrow> bool" where
  "intercepts Q m \<longleftrightarrow>
     (\<forall>h ss. stream_rejected (m h ss) \<or> (\<exists>ss'. Q ss ss' \<and> m h ss = h ss'))"

locale interceptor_contract =
  fixes m :: interceptor and Q :: "stream \<Rightarrow> stream \<Rightarrow> bool"
  assumes contract: "intercepts Q m"
begin

lemma handled: "m Handled ss = Handled ss' \<Longrightarrow> Q ss ss'"
proof -
  assume h: "m Handled ss = Handled ss'"
  have "stream_rejected (m Handled ss) \<or> (\<exists>ss'. Q ss ss' \<and> m Handled ss = Handled ss')"
    using contract unfolding intercepts_def by (elim allE)
  thus ?thesis using h by auto
qed

end

lemma interceptsI:
  "(\<And>h ss. stream_rejected (m h ss) \<or> (\<exists>ss'. Q ss ss' \<and> m h ss = h ss')) \<Longrightarrow> intercepts Q m"
  by (simp add: intercepts_def)

lemma auth_interceptor_intercepts:
  "(\<And>ss c. f ss = Inr c \<Longrightarrow> Q ss (ss\<lparr>sctx := c\<rparr>)) \<Longrightarrow> intercepts Q (auth_interceptor f)"
proof (rule interceptsI)
  fix h ss
  assume Q: "\<And>ss c. f ss = Inr c \<Longrightarrow> Q ss (ss\<lparr>sctx := c\<rparr>)"
  show "stream_rejected (auth_interceptor f h ss) \<or>
        (\<exists>ss'. Q ss ss' \<and> auth_interceptor f h ss = h ss')"
  proof (cases "f ss")
    case (Inr c)
    hence "auth_interceptor f h ss = h (ss\<lparr>sctx := c\<rparr>)" "Q ss (ss\<lparr>sctx := c\<rparr>)"
      by (simp_all add: auth_interceptor_def Q)
    thus ?thesis by blast
  qed (auto simp: auth_interceptor_def split: prod.splits)
qed

lemma intercepts_comp:
  assumes "intercepts Q m" "intercepts P m'"
  shows "intercepts (\<lambda>ss ss'. \<exists>s1. Q ss s1 \<and> P s1 ss') (m \<circ> m')"
proof (rule interceptsI)
  fix h ss
  consider "stream_rejected (m (m' h) ss)"
    | s1 where "Q ss s1" "m (m' h) ss = m' h s1"
    using assms(1) unfolding intercepts_def by blast
  thus "stream_rejected ((m \<circ> m') h ss) \<or>
        (\<exists>ss'. (\<exists>s1. Q ss s1 \<and> P s1 ss') \<and> (m \<circ> m') h ss = h ss')"
  proof cases
    case 2
    have "stream_rejected (m' h s1) \<or> (\<exists>ss'. P s1 ss' \<and> m' h s1 = h ss')"
      using assms(2) unfolding intercepts_def by (elim allE)
    thus ?thesis using 2(1) unfolding comp_apply 2(2) by blast
  qed simp
qed

lemma WithGRPCTenantInterceptors_intercepts:
  assumes "\<And>f t m. f \<in> set mwFns \<Longrightarrow> f t = Some m \<Longrightarrow> intercepts Q m"
  shows "intercepts Q (WithGRPCTenantInterceptors mwFns)"
proof (rule interceptsI)
  have first: "first_interceptor mwFns t = Some m \<Longrightarrow> intercepts Q m" for t m
    using assms by (induction mwFns) (auto split: option.splits)
  fix h ss
  show "stream_rejected (WithGRPCTenantInterceptors mwFns h ss) \<or>
        (\<exists>ss'. Q ss ss' \<and> WithGRPCTenantInterceptors mwFns h ss = h ss')"
  proof (cases "snd (GetTenant (sctx ss)) \<and> first_interceptor mwFns (fst (GetTenant (sctx ss))) \<noteq> None")
    case True
    then obtain m where m: "first_interceptor mwFns (fst (GetTenant (sctx ss))) = Some m" by auto
    hence "WithGRPCTenantInterceptors mwFns h ss = m h ss"
      using True by (simp add: WithGRPCTenantInterceptors_def case_prod_beta)
    thus ?thesis using first [OF m] unfolding intercepts_def by simp
  next
    case False
    thus ?thesis by (auto simp: WithGRPCTenantInterceptors_def case_prod_beta split: option.splits)
  qed
qed

interpretation grpc_token:
  interceptor_contract WithGRPCAccessToken
    "\<lambda>ss ss'. accessTokenKey (sctx ss') \<noteq> None \<and> tenantKey (sctx ss') = tenantKey (sctx ss)"
  by unfold_locales
     (auto simp: WithGRPCAccessToken_def Let_def split: option.splits if_splits
           intro!: auth_interceptor_intercepts)

end
