(* ===== verification/MTLS.thy ===== *)
theory MTLS
  imports Grpc_Model
begin

text \<open>
  Authentication by client certificate: \<open>authentication/mtls.go\<close>,
  \<open>authentication/mtls_tenant.go\<close> and \<open>authentication/mtls_grpc.go\<close>.
\<close>

section \<open>Definitions\<close>

text \<open>The subject is the first of email address, URI, DNS name, IP address, and common name.\<close>

definition cert_subject :: "certificate \<Rightarrow> string option" where
  "cert_subject cert =
     (if length (EmailAddresses cert) > 0 then Some (EmailAddresses cert ! 0)
      else if length (URIs cert) > 0 then Some (URIs cert ! 0)
      else if length (DNSNames cert) > 0 then Some (DNSNames cert ! 0)
      else if length (IPAddresses cert) > 0 then Some (IPAddresses cert ! 0)
      else if CommonName cert \<noteq> [] then Some (CommonName cert)
      else None)"

definition mtls_check :: "request \<Rightarrow> reply + request" where
  "mtls_check r =
     (case TLS r of
        None \<Rightarrow> Inl (ApiError ''TLS connection required'' 401)
      | Some [] \<Rightarrow> Inl (ApiError ''client certificate required'' 401)
      | Some (cert # _) \<Rightarrow>
          (case cert_subject cert of
             None \<Rightarrow> Inl (ApiError ''could not determine subject from certificate'' 400)
           | Some sub \<Rightarrow>
               Inr (with_ctx (\<lambda>c. c\<lparr>subjectKey := Some sub, groupsKey := Some (OrganizationalUnit cert)\<rparr>) r)))"

definition MTLSAuthenticator_Middleware :: "'s middleware" where
  "MTLSAuthenticator_Middleware = guard_mw mtls_check"

definition MTLSAuthenticator_GRPCMiddleware :: interceptor where
  "MTLSAuthenticator_GRPCMiddleware =
     auth_interceptor (\<lambda>ss. Inl (Unimplemented, ''mTLS authentication not implemented for gRPC''))"

definition mtls_tenant_check :: "string \<Rightarrow> request \<Rightarrow> reply + request" where
  "mtls_tenant_check tenantHeader r =
     (case TLS r of
        None \<Rightarrow> Inl (ApiError ''TLS connection required'' 401)
      | Some [] \<Rightarrow> Inl (ApiError ''client certificate required'' 401)
      | Some (cert # _) \<Rightarrow>
          (case OrganizationalUnit cert of
             [] \<Rightarrow> Inl (ApiError ''tenant not found in certificate OU'' 400)
           | tenant # _ \<Rightarrow> Inr (set_tenant tenant (with_header (header_set tenantHeader tenant) r))))"

definition WithMTLSTenantExtraction :: "string \<Rightarrow> 's middleware" where
  "WithMTLSTenantExtraction tenantHeader = guard_mw (mtls_tenant_check tenantHeader)"

definition WithGRPCMTLSTenantExtraction :: "string \<Rightarrow> interceptor" where
  "WithGRPCMTLSTenantExtraction tenantHeader handler ss =
     (case speer ss of
        None \<Rightarrow> StreamError Unauthenticated ''no peer information''
      | Some OtherAuthInfo \<Rightarrow> StreamError Unauthenticated ''TLS connection required''
      | Some (TLSInfo []) \<Rightarrow> StreamError Unauthenticated ''client certificate required''
      | Some (TLSInfo (cert # _)) \<Rightarrow>
          (case OrganizationalUnit cert of
             [] \<Rightarrow> StreamError InvalidArgument ''tenant not found in certificate OU''
           | tenant # _ \<Rightarrow>
               (let md = (case smd ss of None \<Rightarrow> [] | Some md \<Rightarrow> md) in
                handler (ss\<lparr>sctx := (sctx ss)\<lparr>tenantKey := Some tenant\<rparr>,
                           smd := Some (md_set tenantHeader tenant md)\<rparr>))))"

section \<open>Contracts\<close>

text \<open>The tenant a connection is entitled to write as: the first organizational unit of its certificate.\<close>

definition cert_tenant :: "certificate list option \<Rightarrow> string option" where
  "cert_tenant tls =
     (case tls of Some (cert # _) \<Rightarrow>
        (case OrganizationalUnit cert of t # _ \<Rightarrow> Some t | [] \<Rightarrow> None) | _ \<Rightarrow> None)"

lemma mtls_tenant_check_Inr:
  "mtls_tenant_check h r = Inr r' \<longleftrightarrow>
     (\<exists>t. cert_tenant (TLS r) = Some t \<and> r' = set_tenant t (with_header (header_set h t) r))"
  by (auto simp: mtls_tenant_check_def cert_tenant_def split: option.splits list.splits)

interpretation mtls_tenant:
  middleware_contract "WithMTLSTenantExtraction h :: 's middleware"
    "\<lambda>r r'. \<exists>t. cert_tenant (TLS r) = Some t \<and> r' = set_tenant t (with_header (header_set h t) r)"
  by unfold_locales
     (auto simp: WithMTLSTenantExtraction_def mtls_tenant_check_Inr intro!: guard_mw_enforces)

lemma mtls_check_Inr:
  "mtls_check r = Inr r' \<longleftrightarrow>
     (\<exists>cert certs sub. TLS r = Some (cert # certs) \<and> cert_subject cert = Some sub \<and>
        r' = with_ctx (\<lambda>c. c\<lparr>subjectKey := Some sub, groupsKey := Some (OrganizationalUnit cert)\<rparr>) r)"
  by (auto simp: mtls_check_def split: option.splits list.splits)

lemma grpc_mtls_tenant_intercepts:
  "intercepts (\<lambda>ss ss'. \<exists>cert certs t us. speer ss = Some (TLSInfo (cert # certs))
      \<and> OrganizationalUnit cert = t # us \<and> tenantKey (sctx ss') = Some t
      \<and> (\<exists>md. smd ss' = Some md \<and> md_get md h = [t]))
     (WithGRPCMTLSTenantExtraction h)"
proof (rule interceptsI)
  fix k :: stream_handler and ss
  show "stream_rejected (WithGRPCMTLSTenantExtraction h k ss) \<or>
     (\<exists>ss'. (\<exists>cert certs t us. speer ss = Some (TLSInfo (cert # certs))
      \<and> OrganizationalUnit cert = t # us \<and> tenantKey (sctx ss') = Some t
      \<and> (\<exists>md. smd ss' = Some md \<and> md_get md h = [t]))
      \<and> WithGRPCMTLSTenantExtraction h k ss = k ss')"
  proof (cases "\<exists>cert certs t us. speer ss = Some (TLSInfo (cert # certs)) \<and> OrganizationalUnit cert = t # us")
    case True
    then obtain cert certs t us where c: "speer ss = Some (TLSInfo (cert # certs))" "OrganizationalUnit cert = t # us"
      by blast
    define ss' where "ss' = ss\<lparr>sctx := (sctx ss)\<lparr>tenantKey := Some t\<rparr>,
      smd := Some (md_set h t (case smd ss of None \<Rightarrow> [] | Some md \<Rightarrow> md))\<rparr>"
    have "WithGRPCMTLSTenantExtraction h k ss = k ss'"
      by (simp add: WithGRPCMTLSTenantExtraction_def c ss'_def Let_def)
    moreover have "tenantKey (sctx ss') = Some t" "\<exists>md. smd ss' = Some md \<and> md_get md h = [t]"
      by (simp_all add: ss'_def)
    ultimately show ?thesis using c by blast
  next
    case False
    thus ?thesis
      by (auto simp: WithGRPCMTLSTenantExtraction_def Let_def split: option.splits auth_info.splits list.splits)
  qed
qed

interpretation grpc_mtls_tenant:
  interceptor_contract "WithGRPCMTLSTenantExtraction h"
    "\<lambda>ss ss'. \<exists>cert certs t us. speer ss = Some (TLSInfo (cert # certs))
      \<and> OrganizationalUnit cert = t # us \<and> tenantKey (sctx ss') = Some t
      \<and> (\<exists>md. smd ss' = Some md \<and> md_get md h = [t])"
  by unfold_locales (rule grpc_mtls_tenant_intercepts)

end
