(* ===== verification/Providers.thy ===== *)
theory Providers
  imports MTLS
begin

text \<open>
  The authentication providers' interface and their manager,
  \<open>authentication/authentication.go\<close>.  Providers are initialized concurrently: each
  initialization runs in a goroutine of its own and updates the manager
  under its lock, so a run is a sequence of such updates in some order.
\<close>

section \<open>Definitions\<close>

text \<open>\<open>Handler\<close> gives a route pattern and a handler, which may be empty and nil.\<close>

record 's Provider =
  provider_Middleware :: "'s middleware"
  provider_GRPCMiddleware :: interceptor
  provider_Handler :: "string \<times> 's handler option"

type_synonym config = "(string \<times> json) list"

text \<open>A factory may retry forever while it waits for a remote server: \<open>None\<close> then.\<close>

type_synonym 's ProviderFactory = "config \<Rightarrow> string \<Rightarrow> (string + 's Provider) option"

record 's ProviderManager =
  patternHandlers :: "(string \<times> (string \<times> 's handler) list) list"
  middlewares :: "(string \<times> 's middleware) list"
  gRPCInterceptors :: "(string \<times> interceptor) list"

definition DefaultTenantName :: string where
  "DefaultTenantName = ''__mcoa_default__''"

definition onboardNewProvider ::
    "string \<Rightarrow> 's ProviderFactory \<Rightarrow> (string \<times> 's ProviderFactory) list \<Rightarrow> (string \<times> 's ProviderFactory) list" where
  "onboardNewProvider providerType factory fs = AList.update providerType factory fs"

definition NewProviderManager :: "'s ProviderManager" where
  "NewProviderManager = \<lparr>patternHandlers = [], middlewares = [], gRPCInterceptors = []\<rparr>"

definition getProviderFactory ::
    "(string \<times> 's ProviderFactory) list \<Rightarrow> string \<Rightarrow> string + 's ProviderFactory" where
  "getProviderFactory fs authType =
     (case map_of fs authType of
        Some f \<Rightarrow> Inr f
      | None \<Rightarrow> Inl (''authenticator type '' @ authType @ '' is not supported''))"

text \<open>The update that runs under the manager's lock.\<close>

definition register_provider :: "string \<Rightarrow> 's Provider \<Rightarrow> 's ProviderManager \<Rightarrow> 's ProviderManager" where
  "register_provider tenant provider pm =
     pm\<lparr>middlewares := AList.update tenant (provider_Middleware provider) (middlewares pm),
        gRPCInterceptors := AList.update tenant (provider_GRPCMiddleware provider) (gRPCInterceptors pm),
        patternHandlers :=
          (case provider_Handler provider of
             (pattern, Some handler) \<Rightarrow>
               if pattern \<noteq> [] then
                 AList.update pattern
                   (AList.update tenant handler
                      (case map_of (patternHandlers pm) pattern of None \<Rightarrow> [] | Some hs \<Rightarrow> hs))
                   (patternHandlers pm)
               else patternHandlers pm
           | (_, None) \<Rightarrow> patternHandlers pm)\<rparr>"

text \<open>The goroutine's effect, and what it sends on the channel: the provider, or nil.\<close>

definition InitializeProvider ::
    "(string \<times> 's ProviderFactory) list \<Rightarrow> config \<Rightarrow> string \<Rightarrow> string \<Rightarrow> 's ProviderManager
     \<Rightarrow> ('s ProviderManager \<times> 's Provider option) option" where
  "InitializeProvider fs config tenant authenticatorType pm =
     (case getProviderFactory fs authenticatorType of
        Inl err \<Rightarrow> Some (pm, None)
      | Inr factory \<Rightarrow>
          (case factory config tenant of
             None \<Rightarrow> None
           | Some (Inl err) \<Rightarrow> Some (pm, None)
           | Some (Inr provider) \<Rightarrow> Some (register_provider tenant provider pm, Some provider)))"

definition Middlewares :: "'s ProviderManager \<Rightarrow> 's MiddlewareFunc" where
  "Middlewares pm tenant =
     (case map_of (middlewares pm) tenant of
        Some mw \<Rightarrow> Some mw
      | None \<Rightarrow> map_of (middlewares pm) DefaultTenantName)"

definition GRPCMiddlewares :: "'s ProviderManager \<Rightarrow> GRPCMiddlewareFunc" where
  "GRPCMiddlewares pm tenant =
     (case map_of (gRPCInterceptors pm) tenant of
        Some mw \<Rightarrow> Some mw
      | None \<Rightarrow> map_of (gRPCInterceptors pm) DefaultTenantName)"

definition PatternHandler :: "'s ProviderManager \<Rightarrow> string \<Rightarrow> 's handler" where
  "PatternHandler pm pattern r w s =
     (case GetTenant (Ctx r) of
        (tenant, ok) \<Rightarrow>
          if \<not> ok then (Responded (PrometheusAPIError w ''error finding tenant'' 500), s)
          else (case map_of (case map_of (patternHandlers pm) pattern of None \<Rightarrow> [] | Some hs \<Rightarrow> hs) tenant of
                  None \<Rightarrow> (Responded (PrometheusAPIError w ''error finding tenant'' 401), s)
                | Some h \<Rightarrow> h r w s))"

section \<open>The provider contract\<close>

text \<open>
  A provider's middleware passes on only requests for which it has set a
  subject, and it leaves the tenant of the request and its URL, method and body alone.
\<close>

definition authenticated :: "request \<Rightarrow> request \<Rightarrow> bool" where
  "authenticated r r' \<longleftrightarrow>
     subjectKey (Ctx r') \<noteq> None \<and> tenantKey (Ctx r') = tenantKey (Ctx r) \<and>
     URL r' = URL r \<and> Method r' = Method r \<and> Header r' = Header r \<and> Body r' = Body r"

definition stream_authenticated :: "stream \<Rightarrow> stream \<Rightarrow> bool" where
  "stream_authenticated ss ss' \<longleftrightarrow>
     subjectKey (sctx ss') \<noteq> None \<and> tenantKey (sctx ss') = tenantKey (sctx ss) \<and> smd ss' = smd ss"

locale provider_contract =
  fixes p :: "'s Provider"
  assumes http_contract: "enforces authenticated (provider_Middleware p)"
    and grpc_contract: "intercepts stream_authenticated (provider_GRPCMiddleware p)"

definition mtls_provider :: "'s Provider" where
  "mtls_provider = \<lparr>provider_Middleware = MTLSAuthenticator_Middleware,
     provider_GRPCMiddleware = MTLSAuthenticator_GRPCMiddleware, provider_Handler = ([], None)\<rparr>"

definition newMTLSAuthenticator :: "'s ProviderFactory" where
  "newMTLSAuthenticator config tenant = Some (Inr mtls_provider)"

interpretation mtls: provider_contract "mtls_provider :: 's Provider"
proof unfold_locales
  show "enforces authenticated (provider_Middleware (mtls_provider :: 's Provider))"
    by (simp add: mtls_provider_def MTLSAuthenticator_Middleware_def)
       (rule guard_mw_enforces, auto simp: mtls_check_Inr authenticated_def)
  show "intercepts stream_authenticated (provider_GRPCMiddleware (mtls_provider :: 's Provider))"
    by (simp add: mtls_provider_def MTLSAuthenticator_GRPCMiddleware_def)
       (rule auth_interceptor_intercepts, simp)
qed

section \<open>The manager's invariant\<close>

definition manager_ok :: "'s ProviderManager \<Rightarrow> bool" where
  "manager_ok pm \<longleftrightarrow>
     (\<forall>m \<in> ran (map_of (middlewares pm)). enforces authenticated m) \<and>
     (\<forall>m \<in> ran (map_of (gRPCInterceptors pm)). intercepts stream_authenticated m) \<and>
     dom (map_of (middlewares pm)) = dom (map_of (gRPCInterceptors pm))"

definition factories_ok :: "(string \<times> 's ProviderFactory) list \<Rightarrow> bool" where
  "factories_ok fs \<longleftrightarrow>
     (\<forall>f \<in> ran (map_of fs). \<forall>c t p. f c t = Some (Inr p) \<longrightarrow> provider_contract p)"

lemma manager_ok_new: "manager_ok NewProviderManager"
  by (simp add: manager_ok_def NewProviderManager_def)

lemma map_of_register [simp]:
  "map_of (middlewares (register_provider t p pm)) = (map_of (middlewares pm))(t \<mapsto> provider_Middleware p)"
  "map_of (gRPCInterceptors (register_provider t p pm)) =
     (map_of (gRPCInterceptors pm))(t \<mapsto> provider_GRPCMiddleware p)"
  by (simp_all add: register_provider_def update_conv')

lemma manager_ok_register:
  assumes "manager_ok pm" "provider_contract p"
  shows "manager_ok (register_provider t p pm)"
  using assms provider_contract.http_contract [OF assms(2)] provider_contract.grpc_contract [OF assms(2)]
  unfolding manager_ok_def map_of_register by (auto simp: ran_def split: if_splits)

lemma getProviderFactory_Inr:
  "getProviderFactory fs a = Inr f \<Longrightarrow> f \<in> ran (map_of fs)"
  by (auto simp: getProviderFactory_def ran_def split: option.splits)

lemma manager_ok_initialize:
  assumes "manager_ok pm" "factories_ok fs" "InitializeProvider fs c t a pm = Some (pm', x)"
  shows "manager_ok pm'"
proof (cases "pm' = pm")
  case False
  then obtain f p where "getProviderFactory fs a = Inr f" "f c t = Some (Inr p)" "pm' = register_provider t p pm"
    using assms(3) by (auto simp: InitializeProvider_def split: sum.splits option.splits)
  thus ?thesis using assms(2) manager_ok_register [OF assms(1)]
    by (auto simp: factories_ok_def dest: getProviderFactory_Inr)
qed (simp add: assms(1))

lemma Middlewares_ran: "Middlewares pm t = Some m \<Longrightarrow> m \<in> ran (map_of (middlewares pm))"
  by (auto simp: Middlewares_def ran_def split: option.splits)

lemma GRPCMiddlewares_ran: "GRPCMiddlewares pm t = Some m \<Longrightarrow> m \<in> ran (map_of (gRPCInterceptors pm))"
  by (auto simp: GRPCMiddlewares_def ran_def split: option.splits)

lemma manager_authenticates:
  assumes "manager_ok pm"
  shows "enforces authenticated (WithTenantMiddlewares [Middlewares pm])"
    and "intercepts stream_authenticated (WithGRPCTenantInterceptors [GRPCMiddlewares pm])"
  using assms Middlewares_ran GRPCMiddlewares_ran unfolding manager_ok_def
  by (auto intro!: WithTenantMiddlewares_enforces WithGRPCTenantInterceptors_intercepts; fastforce)+

section \<open>Concurrent initialization\<close>

text \<open>
  A task is a pending \<open>InitializeProvider\<close> goroutine: configuration, tenant,
  authenticator type.  The scheduler may run any pending task next.
\<close>

type_synonym init_task = "config \<times> string \<times> string"

inductive init_step ::
    "(string \<times> 's ProviderFactory) list \<Rightarrow> init_task list \<times> 's ProviderManager
     \<Rightarrow> init_task list \<times> 's ProviderManager \<Rightarrow> bool" for fs where
  run_task: "InitializeProvider fs c t a pm = Some (pm', x) \<Longrightarrow> init_step fs (ts @ (c, t, a) # us, pm) (ts @ us, pm')"

inductive init_run ::
    "(string \<times> 's ProviderFactory) list \<Rightarrow> init_task list \<times> 's ProviderManager
     \<Rightarrow> init_task list \<times> 's ProviderManager \<Rightarrow> bool" for fs where
  init_refl: "init_run fs st st"
| init_trans: "init_step fs st st' \<Longrightarrow> init_run fs st' st'' \<Longrightarrow> init_run fs st st''"

inductive_cases init_stepE: "init_step fs st st'"

lemma init_run_manager_ok:
  "init_run fs st st' \<Longrightarrow> factories_ok fs \<Longrightarrow> manager_ok (snd st) \<Longrightarrow> manager_ok (snd st')"
proof (induction rule: init_run.induct)
  case (init_trans st st' st'')
  from init_trans.hyps(1) have "manager_ok (snd st')"
    using init_trans.prems by (cases rule: init_step.cases) (auto intro: manager_ok_initialize)
  thus ?case using init_trans by blast
qed

text \<open>The provider a task ends with.\<close>

definition task_provider :: "(string \<times> 's ProviderFactory) list \<Rightarrow> init_task \<Rightarrow> 's Provider option" where
  "task_provider fs k =
     (case k of (c, t, a) \<Rightarrow>
        (case getProviderFactory fs a of Inl _ \<Rightarrow> None
         | Inr f \<Rightarrow> (case f c t of Some (Inr p) \<Rightarrow> Some p | _ \<Rightarrow> None)))"

abbreviation task_tenant :: "init_task \<Rightarrow> string" where
  "task_tenant k \<equiv> fst (snd k)"

lemma initialize_middlewares:
  "InitializeProvider fs c t a pm = Some (pm', x) \<Longrightarrow> map_of (middlewares pm') =
     (case task_provider fs (c, t, a) of
        None \<Rightarrow> map_of (middlewares pm)
      | Some p \<Rightarrow> (map_of (middlewares pm))(t \<mapsto> provider_Middleware p))"
  by (auto simp: InitializeProvider_def task_provider_def split: sum.splits option.splits)

lemma init_run_middlewares:
  assumes "init_run fs st st'" "distinct (map task_tenant (fst st))" "fst st' = []"
  shows "map_of (middlewares (snd st')) t =
     (case List.find (\<lambda>k. task_tenant k = t \<and> task_provider fs k \<noteq> None) (fst st) of
        Some k \<Rightarrow> Some (provider_Middleware (the (task_provider fs k)))
      | None \<Rightarrow> map_of (middlewares (snd st)) t)"
  using assms
proof (induction rule: init_run.induct)
  case (init_trans st st' st'')
  from init_trans.hyps(1) obtain ts c u a us pm pm' x where
    st: "st = (ts @ (c, u, a) # us, pm)" "st' = (ts @ us, pm')"
    and run: "InitializeProvider fs c u a pm = Some (pm', x)"
    by (cases rule: init_step.cases) blast
  note upd = initialize_middlewares [OF run]
  define P where "P = (\<lambda>k. task_tenant k = t \<and> task_provider fs k \<noteq> None)"
  have d: "distinct (map task_tenant (fst st'))" using init_trans.prems(1) by (auto simp: st)
  note IH = init_trans.IH [OF d init_trans.prems(2), folded P_def]
  have skip: "List.find P (ts @ k # us) =
      (if P k then (case List.find P ts of None \<Rightarrow> Some k | Some k' \<Rightarrow> Some k')
       else List.find P (ts @ us))" for k
    by (induction ts) auto
  show ?case
  proof (cases "P (c, u, a)")
    case True
    then obtain p where p: "task_provider fs (c, t, a) = Some p" and ut: "u = t" by (auto simp: P_def)
    have other: "List.find P (ts @ us) = None" "List.find P ts = None"
      using init_trans.prems(1) by (auto simp: st ut P_def find_None_set)
    have "map_of (middlewares (snd st'')) t = Some (provider_Middleware p)"
      using IH other using upd by (simp add: st ut p)
    moreover have "List.find P (fst st) = Some (c, t, a)" using True other ut skip by (simp add: st)
    ultimately show ?thesis using p unfolding P_def [symmetric] by simp
  next
    case False
    have "map_of (middlewares (snd st')) t = map_of (middlewares pm) t"
      using False using upd by (auto simp: st P_def split: option.splits)
    thus ?thesis using IH skip False by (simp only: st fst_conv snd_conv P_def [symmetric] if_False)
  qed
qed (simp add: find_None_set [THEN iffD2])

section \<open>Properties\<close>



end
