(* ===== verification/Rate_Limit.thy ===== *)
theory Rate_Limit
  imports Complex_Main Providers "HOL-Library.Word"
begin

text \<open>
  Rate limiting per tenant and endpoint, \<open>ratelimit/http.go\<close>, and the clients
  of the shared limiters, \<open>ratelimit/client.go\<close> (gubernator) and
  \<open>ratelimit/redis.go\<close>.  A \<open>time.Duration\<close> is a 64-bit word of nanoseconds, read as
  signed, so that its arithmetic wraps around as in the code.
\<close>

section \<open>Definitions\<close>

type_synonym duration = "64 word"

text \<open>
  \<open>int(d.Seconds())\<close>: the quotient by a second, truncated towards zero.  The code
  goes through a 64-bit float, which is exact for whole seconds; a fraction just
  below one can be rounded up when the number of seconds is in the millions, and this
  rounding is not modelled.
\<close>

definition go_seconds :: "duration \<Rightarrow> int" where
  "go_seconds d = (if sint d < 0 then - ((- sint d) div 1000000000) else sint d div 1000000000)"

definition go_milliseconds :: "duration \<Rightarrow> int" where
  "go_milliseconds d = (if sint d < 0 then - ((- sint d) div 1000000) else sint d div 1000000)"

text \<open>A compiled path pattern: its source and its matching function; a nil pattern is \<open>None\<close>.\<close>

type_synonym path_matcher = "string \<times> (string \<Rightarrow> bool)"

record Config =
  cfg_Tenant :: string
  cfg_Matcher :: "path_matcher option"
  cfg_Limit :: int
  cfg_Window :: duration
  cfg_FailOpen :: bool
  cfg_RetryAfterMin :: duration
  cfg_RetryAfterMax :: duration

record Request =
  req_name :: string
  req_Key :: string
  req_Limit :: int
  req_Duration :: int
  failOpen :: bool
  retryAfterMin :: duration
  retryAfterMax :: duration

datatype limit_error = ErrOverLimit | LimitError string

text \<open>
  The shared limiter: remaining requests, reset time and possibly an error;
  \<open>None\<close> is a panic.  \<open>'c\<close> is the state of the service behind it.
\<close>

type_synonym limit_result = "(int \<times> int \<times> limit_error option) option"

type_synonym 'c limiter_client = "Request \<Rightarrow> 'c \<Rightarrow> limit_result \<times> 'c"

text \<open>
  The mutable state: each rate limiter has a tracker map with its own key
  only, so that the maps together are one map from limiter numbers to durations.
\<close>

record 'c limit_state =
  limitTracker :: "(nat \<times> duration) list"
  service :: 'c

subsection \<open>The back-off\<close>

definition getAndSetNextRetryAfterValue ::
    "nat \<Rightarrow> Request \<Rightarrow> (nat \<times> duration) list \<Rightarrow> string option \<times> (nat \<times> duration) list" where
  "getAndSetNextRetryAfterValue n req tracker =
     (if retryAfterMin req = 0 then (None, tracker)
      else (case map_of tracker n of
              None \<Rightarrow>
                (Some (itoa (go_seconds (retryAfterMin req))), AList.update n (retryAfterMin req * 2) tracker)
            | Some current \<Rightarrow>
                (let nextValue0 = current * 2;
                     nextValue = (if retryAfterMax req \<noteq> 0 \<and> sint nextValue0 > sint (retryAfterMax req)
                                  then retryAfterMax req else nextValue0)
                 in (Some (itoa (go_seconds nextValue)), AList.update n nextValue tracker))))"

definition resetRetryAfterValue :: "nat \<Rightarrow> Request \<Rightarrow> (nat \<times> duration) list \<Rightarrow> (nat \<times> duration) list" where
  "resetRetryAfterValue n req tracker =
     (if retryAfterMin req = 0 then tracker else AList.delete n tracker)"

subsection \<open>The handler\<close>

definition limit_error_string :: "limit_error \<Rightarrow> string" where
  "limit_error_string e = (case e of ErrOverLimit \<Rightarrow> ''over limit'' | LimitError m \<Rightarrow> m)"

definition rateLimiter_Handler ::
    "'c limiter_client \<Rightarrow> nat \<Rightarrow> Request \<Rightarrow> 'c limit_state middleware" where
  "rateLimiter_Handler client n req nxt r w s =
     (case client req (service s) of
        (None, c) \<Rightarrow> (Responded (send_reply Abort w), s\<lparr>service := c\<rparr>)
      | (Some (remaining, resetTime, err), c) \<Rightarrow>
          (let s1 = s\<lparr>service := c\<rparr>;
               w1 = set_wheader ''X-RateLimit-Limit'' (itoa (req_Limit req)) w;
               w2 = set_wheader ''X-RateLimit-Remaining'' (itoa remaining) w1;
               w3 = set_wheader ''X-RateLimit-Reset'' (itoa resetTime) w2
           in case err of
                None \<Rightarrow> nxt r w3 (s1\<lparr>limitTracker := resetRetryAfterValue n req (limitTracker s1)\<rparr>)
              | Some e \<Rightarrow>
                  (let (retry, tracker) = getAndSetNextRetryAfterValue n req (limitTracker s1);
                       w4 = (case retry of Some v \<Rightarrow> set_wheader ''Retry-After'' v w3 | None \<Rightarrow> w3);
                       s2 = s1\<lparr>limitTracker := tracker\<rparr>
                   in if e = ErrOverLimit then
                        (Responded (PrometheusAPIError w4 ''Too Many Requests'' 429), s2)
                      else if \<not> failOpen req then
                        (Responded (PrometheusAPIError w4 (limit_error_string e) 500), s2)
                      else nxt r w4 (s2\<lparr>limitTracker := resetRetryAfterValue n req (limitTracker s2)\<rparr>))))"

subsection \<open>Choosing the limiter\<close>

type_synonym 's limit_middleware = "path_matcher option \<times> 's middleware"

fun first_match :: "'s limit_middleware list \<Rightarrow> string \<Rightarrow> (unit + 's middleware) option" where
  "first_match [] path = None"
| "first_match ((m, h) # tms) path =
     (case m of
        None \<Rightarrow> Some (Inl ())
      | Some (_, matches_path) \<Rightarrow> if matches_path path then Some (Inr h) else first_match tms path)"

definition combine :: "(string \<times> 's limit_middleware list) list \<Rightarrow> 's middleware" where
  "combine mws nxt r w s =
     (case GetTenant (Ctx r) of
        (tenant, ok) \<Rightarrow>
          if \<not> ok then (Responded (PrometheusAPIError w ''error finding tenant'' 401), s)
          else (case (case map_of mws tenant of Some tms \<Rightarrow> Some tms | None \<Rightarrow> map_of mws DefaultTenantName) of
                  None \<Rightarrow> nxt r w s
                | Some tms \<Rightarrow>
                    (case first_match tms (Path (URL r)) of
                       None \<Rightarrow> nxt r w s
                     | Some (Inl _) \<Rightarrow> (Responded (send_reply Abort w), s)
                     | Some (Inr h) \<Rightarrow> h nxt r w s)))"

definition append_middleware ::
    "string \<Rightarrow> 's limit_middleware \<Rightarrow> (string \<times> 's limit_middleware list) list
     \<Rightarrow> (string \<times> 's limit_middleware list) list" where
  "append_middleware t m mws =
     AList.update t ((case map_of mws t of None \<Rightarrow> [] | Some ms \<Rightarrow> ms) @ [m]) mws"

text \<open>\<open>httprate.NewRateLimiter(limit, window)\<close> is library code: \<open>new_local\<close>.\<close>

definition WithLocalRateLimiter :: "(nat \<Rightarrow> int \<Rightarrow> duration \<Rightarrow> 's middleware) \<Rightarrow> Config list \<Rightarrow> 's middleware" where
  "WithLocalRateLimiter new_local configs =
     combine (fold (\<lambda>(n, c) mws. append_middleware (cfg_Tenant c)
                (cfg_Matcher c, new_local n (cfg_Limit c) (cfg_Window c)) mws) (enumerate 0 configs) [])"

definition shared_request :: "Config \<Rightarrow> path_matcher \<Rightarrow> Request" where
  "shared_request c m =
     \<lparr>req_name = ''mcoa_gateway:tenant_per_endpoint'', req_Key = cfg_Tenant c @ '':'' @ fst m,
      req_Limit = cfg_Limit c, req_Duration = go_milliseconds (cfg_Window c), failOpen = cfg_FailOpen c,
      retryAfterMin = cfg_RetryAfterMin c, retryAfterMax = cfg_RetryAfterMax c\<rparr>"

text \<open>The pattern's source goes into the key: a nil pattern panics when the middleware is made.\<close>

fun shared_middlewares ::
    "'c limiter_client \<Rightarrow> nat \<Rightarrow> Config list \<Rightarrow> (string \<times> 'c limit_state limit_middleware list) list
     \<Rightarrow> (string \<times> 'c limit_state limit_middleware list) list option" where
  "shared_middlewares client n [] mws = Some mws"
| "shared_middlewares client n (c # cs) mws =
     (case cfg_Matcher c of
        None \<Rightarrow> None
      | Some m \<Rightarrow>
          shared_middlewares client (Suc n) cs
            (append_middleware (cfg_Tenant c)
               (Some m, rateLimiter_Handler client n (shared_request c m)) mws))"

definition WithSharedRateLimiter ::
    "'c limiter_client \<Rightarrow> Config list \<Rightarrow> 'c limit_state middleware option" where
  "WithSharedRateLimiter client configs = map_option combine (shared_middlewares client 0 configs [])"

subsection \<open>Gubernator\<close>

record gubernator_request =
  gub_Name :: string
  gub_UniqueKey :: string
  gub_Hits :: int
  gub_Limit :: int
  gub_Duration :: int

datatype gubernator_status = UNDER_LIMIT | OVER_LIMIT

type_synonym gubernator_response = "gubernator_status \<times> int \<times> int"

text \<open>The remote call, with the list of responses it returns.\<close>

type_synonym 'c gubernator = "gubernator_request \<Rightarrow> 'c \<Rightarrow> (string + gubernator_response list) \<times> 'c"

definition Client_GetRateLimits :: "'c gubernator \<Rightarrow> 'c limiter_client" where
  "Client_GetRateLimits rpc req c =
     (case rpc \<lparr>gub_Name = req_name req, gub_UniqueKey = req_Key req, gub_Hits = 1,
                gub_Limit = req_Limit req, gub_Duration = req_Duration req\<rparr> c of
        (Inl err, c') \<Rightarrow> (Some (0, 0, Some (LimitError err)), c')
      | (Inr [], c') \<Rightarrow> (None, c')
      | (Inr ((status, remaining, resetTime) # _), c') \<Rightarrow>
          if status = OVER_LIMIT then (Some (0, 0, Some ErrOverLimit), c')
          else (Some (remaining, resetTime, None), c'))"

text \<open>The values of \<open>Retry-After\<close> in a row of \<open>k\<close> rejections by limiter \<open>n\<close>.\<close>

fun retry_run :: "nat \<Rightarrow> Request \<Rightarrow> nat \<Rightarrow> (nat \<times> duration) list \<Rightarrow> string option list" where
  "retry_run n req 0 tracker = []"
| "retry_run n req (Suc k) tracker =
     (case getAndSetNextRetryAfterValue n req tracker of
        (v, tracker') \<Rightarrow> v # retry_run n req k tracker')"

text \<open>
  Reference for the choice of a limiter: the numbered configurations of the tenant, of
  the default tenant if the tenant has none, and of these the first that matches the path.
\<close>

definition own_configs :: "string \<Rightarrow> (nat \<times> Config) list \<Rightarrow> (nat \<times> Config) list" where
  "own_configs t ncs = filter (\<lambda>(n, c). cfg_Tenant c = t) ncs"

definition config_matches :: "string \<Rightarrow> Config \<Rightarrow> bool" where
  "config_matches path c = (case cfg_Matcher c of None \<Rightarrow> False | Some m \<Rightarrow> snd m path)"

definition chosen_config :: "Config list \<Rightarrow> string \<Rightarrow> string \<Rightarrow> (nat \<times> Config) option" where
  "chosen_config configs t path =
     (let ncs = enumerate 0 configs; own = own_configs t ncs
      in find (\<lambda>(n, c). config_matches path c)
           (if own = [] then own_configs DefaultTenantName ncs else own))"

section \<open>Lemmas on the back-off\<close>

lemma map_of_update_tracker [simp]: "map_of (AList.update n d t) m = (if m = n then Some d else map_of t m)"
  by (simp add: update_conv')

lemma itoa_0: "itoa 0 = ''0''"
  by (simp add: itoa_def itoa_nat.simps digit_char_def char_of_eq_iff take_bit_eq_mod)

lemma sint_double:
  fixes d :: duration
  assumes "- (2 ^ 62) \<le> sint d" "sint d < 2 ^ 62"
  shows "sint (d * 2) = 2 * sint d"
  using assms by (simp add: sint_word_mult signed_take_bit_int_eq_self)

text \<open>One step of the back-off once a value is stored, on integers.\<close>

lemma retry_step:
  assumes "retryAfterMin req \<noteq> 0" "0 < sint (retryAfterMax req)" "sint (retryAfterMax req) < 2 ^ 61"
    and "map_of tracker n = Some d" "0 \<le> sint d" "sint d < 2 ^ 62"
  shows "\<exists>d' tracker'. getAndSetNextRetryAfterValue n req tracker = (Some (itoa (go_seconds d')), tracker')
           \<and> map_of tracker' n = Some d' \<and> sint d' = min (sint (retryAfterMax req)) (2 * sint d)"
proof -
  have "sint (d * 2) = 2 * sint d" by (rule sint_double) (use assms in auto)
  moreover have "retryAfterMax req \<noteq> 0" using assms(2) by auto
  ultimately show ?thesis using assms by (auto simp: getAndSetNextRetryAfterValue_def Let_def min_def)
qed

lemma retry_run_capped:
  assumes "retryAfterMin req \<noteq> 0" "0 < sint (retryAfterMax req)" "sint (retryAfterMax req) < 2 ^ 61"
    and "map_of tracker n = Some d" "0 \<le> sint d" "sint d < 2 ^ 62" "i < k"
  shows "retry_run n req k tracker ! i =
           Some (itoa (min (sint (retryAfterMax req)) (2 ^ Suc i * sint d) div 1000000000))"
  using assms(4-7)
proof (induction k arbitrary: tracker d i)
  case (Suc k)
  let ?M = "sint (retryAfterMax req)"
  obtain d' tracker' where step: "getAndSetNextRetryAfterValue n req tracker = (Some (itoa (go_seconds d')), tracker')"
      "map_of tracker' n = Some d'" "sint d' = min ?M (2 * sint d)"
    using retry_step [OF assms(1-3) Suc.prems(1-3)] by blast
  have d': "0 \<le> sint d'" "sint d' < 2 ^ 62" using step(3) assms(2,3) Suc.prems(2) by auto
  show ?case
  proof (cases i)
    case 0
    thus ?thesis using step d' by (simp add: go_seconds_def)
  next
    case (Suc j)
    have "min ?M (2 ^ Suc j * sint d') = min ?M (2 ^ Suc i * sint d)"
    proof (cases "2 * sint d \<le> ?M")
      case True
      thus ?thesis using step(3) Suc by simp
    next
      case False
      have "1 * ?M \<le> 2 ^ Suc j * ?M" by (rule mult_right_mono, rule one_le_power) (use assms(2) in auto)
      hence "?M \<le> 2 ^ Suc j * ?M" by simp
      moreover have "?M \<le> 2 ^ Suc i * sint d"
      proof -
        have "2 * sint d * 1 \<le> 2 * sint d * 2 ^ i" by (rule mult_left_mono) (use Suc.prems(2) in auto)
        thus ?thesis using False by (simp add: mult.commute mult.left_commute)
      qed
      ultimately show ?thesis using step(3) False by simp
    qed
    moreover have "retry_run n req k tracker' ! j =
        Some (itoa (min ?M (2 ^ Suc j * sint d') div 1000000000))"
      by (rule Suc.IH) (use step(2) d' Suc.prems(4) Suc in auto)
    ultimately show ?thesis using Suc step(1) by simp
  qed
qed simp

lemma retry_run_uncapped:
  assumes "retryAfterMin req \<noteq> 0" "retryAfterMax req = 0" "map_of tracker n = Some d" "i < k"
  shows "retry_run n req k tracker ! i = Some (itoa (go_seconds (d * 2 ^ Suc i)))"
  using assms(3,4)
proof (induction k arbitrary: tracker d i)
  case (Suc k)
  thus ?case using assms(1,2)
    by (cases i) (auto simp: getAndSetNextRetryAfterValue_def Let_def mult.assoc)
qed simp

section \<open>Lemmas on the choice of the limiter\<close>

definition limiter_of :: "'c limiter_client \<Rightarrow> nat \<times> Config \<Rightarrow> 'c limit_state limit_middleware" where
  "limiter_of client nc =
     (cfg_Matcher (snd nc), rateLimiter_Handler client (fst nc) (shared_request (snd nc) (the (cfg_Matcher (snd nc)))))"

lemma append_middleware_lookup:
  "map_of (append_middleware t m mws) t' =
     (if t' = t then Some ((case map_of mws t of None \<Rightarrow> [] | Some ms \<Rightarrow> ms) @ [m]) else map_of mws t')"
  by (simp add: append_middleware_def update_conv')

lemma shared_middlewares_lookup:
  assumes "shared_middlewares client n cs mws = Some mws'"
  shows "map_of mws' t =
           (if own_configs t (enumerate n cs) = [] then map_of mws t
            else Some ((case map_of mws t of None \<Rightarrow> [] | Some ms \<Rightarrow> ms)
                       @ map (limiter_of client) (own_configs t (enumerate n cs))))"
  using assms
proof (induction cs arbitrary: n mws)
  case (Cons c cs)
  then obtain m where m: "cfg_Matcher c = Some m" by (auto split: option.splits)
  with Cons.prems Cons.IH show ?case
    by (auto simp: own_configs_def append_middleware_lookup limiter_of_def split: option.splits)
qed (simp add: own_configs_def)

lemma shared_middlewares_total:
  "(\<exists>mws'. shared_middlewares client n cs mws = Some mws') \<longleftrightarrow> (\<forall>c \<in> set cs. cfg_Matcher c \<noteq> None)"
  by (induction cs arbitrary: n mws) (auto split: option.splits)

lemma first_match_limiters:
  assumes "\<forall>(n, c) \<in> set ncs. cfg_Matcher c \<noteq> None"
  shows "first_match (map (limiter_of client) ncs) path =
           map_option (\<lambda>nc. Inr (snd (limiter_of client nc))) (find (\<lambda>(n, c). config_matches path c) ncs)"
  using assms by (induction ncs) (auto simp: limiter_of_def config_matches_def)

lemma combine_enforces:
  assumes "\<And>t ms m h. map_of mws t = Some ms \<Longrightarrow> (m, h) \<in> set ms \<Longrightarrow> enforces (\<lambda>r r'. r' = r) h"
  shows "enforces (\<lambda>r r'. r' = r) (combine mws)"
proof (rule enforcesI)
  have first: "first_match ms p = Some (Inr h) \<Longrightarrow> \<exists>m. (m, h) \<in> set ms"
    for ms :: "'a limit_middleware list" and p h
  proof (induction ms)
    case (Cons a ms)
    thus ?case by (cases a) (auto split: option.splits if_splits)
  qed simp
  fix nxt :: "'a handler" and r :: request and w s
  let ?out = "combine mws nxt r w s"
  let ?goal = "(\<exists>w' s'. ?out = (Responded w', s')) \<or> (\<exists>r' w' s'. r' = r \<and> ?out = nxt r' w' s')"
  let ?tms = "case map_of mws (fst (GetTenant (Ctx r))) of Some tms \<Rightarrow> Some tms | None \<Rightarrow> map_of mws DefaultTenantName"
  show ?goal
  proof (cases "snd (GetTenant (Ctx r))")
    case ok: True
    show ?thesis
    proof (cases ?tms)
      case None
      with ok have "?out = nxt r w s" by (simp add: combine_def case_prod_unfold)
      thus ?thesis by blast
    next
      case tms: (Some tms)
      have out: "?out = (case first_match tms (Path (URL r)) of None \<Rightarrow> nxt r w s
          | Some (Inl _) \<Rightarrow> (Responded (send_reply Abort w), s) | Some (Inr h) \<Rightarrow> h nxt r w s)"
        using ok tms by (simp add: combine_def case_prod_unfold)
      show ?thesis
      proof (cases "first_match tms (Path (URL r))")
        case None
        with out have "?out = nxt r w s" by simp
        thus ?thesis by blast
      next
        case match: (Some v)
        show ?thesis
        proof (cases v)
          case (Inl u)
          with match out have "?out = (Responded (send_reply Abort w), s)" by simp
          thus ?thesis by blast
        next
          case (Inr h)
          obtain m where "(m, h) \<in> set tms" using first match Inr by blast
          moreover obtain t where "map_of mws t = Some tms" using tms by (auto split: option.splits)
          ultimately have "enforces (\<lambda>r r'. r' = r) h" using assms by blast
          moreover have "?out = h nxt r w s" using out match Inr by simp
          ultimately show ?thesis unfolding enforces_def by simp
        qed
      qed
    qed
  qed (simp add: combine_def case_prod_unfold)
qed

section \<open>Properties\<close>

text \<open>
  C26. The middleware for shared rate limits, built from maps of lists that are filled in the
  order of the configuration, consults exactly one limiter: the first configuration
  of the request's tenant whose pattern matches the path, or of the default tenant when the
  tenant has no configuration at all.  Without such a configuration the request
  passes.  A tenant with limits of its own never falls back to those of the default tenant.
\<close>

theorem shared_limiter_chosen:
  assumes "WithSharedRateLimiter client configs = Some mw" "GetTenant (Ctx r) = (t, True)"
  shows "mw nxt r w s =
           (case chosen_config configs t (Path (URL r)) of
              None \<Rightarrow> nxt r w s
            | Some (n, c) \<Rightarrow>
                rateLimiter_Handler client n (shared_request c (the (cfg_Matcher c))) nxt r w s)"
proof -
  let ?ncs = "enumerate 0 configs"
  let ?use = "if own_configs t ?ncs = [] then own_configs DefaultTenantName ?ncs else own_configs t ?ncs"
  obtain mws where mws: "shared_middlewares client 0 configs [] = Some mws" and mw: "mw = combine mws"
    using assms(1) by (auto simp: WithSharedRateLimiter_def)
  have all: "\<forall>(n, c) \<in> set ?ncs. cfg_Matcher c \<noteq> None"
    using shared_middlewares_total [of client 0 configs "[]"] mws
    by (auto simp: in_set_enumerate_eq)
  have "(case map_of mws t of Some tms \<Rightarrow> Some tms | None \<Rightarrow> map_of mws DefaultTenantName) =
        (if ?use = [] then None else Some (map (limiter_of client) ?use))"
    by (simp add: shared_middlewares_lookup [OF mws])
  moreover have "first_match (map (limiter_of client) ?use) (Path (URL r)) =
      map_option (\<lambda>nc. Inr (snd (limiter_of client nc))) (chosen_config configs t (Path (URL r)))"
    unfolding chosen_config_def Let_def
    by (rule first_match_limiters) (use all in \<open>auto simp: own_configs_def\<close>)
  moreover have "?use = [] \<Longrightarrow> chosen_config configs t (Path (URL r)) = None"
    unfolding chosen_config_def Let_def by simp
  ultimately show ?thesis using assms(2)
    by (cases "?use = []") (auto simp: mw combine_def limiter_of_def split: option.splits)
qed

definition sample_limit :: "string \<Rightarrow> string \<Rightarrow> int \<Rightarrow> Config" where
  "sample_limit t path l =
     \<lparr>cfg_Tenant = t, cfg_Matcher = Some (path, \<lambda>p. p = path), cfg_Limit = l, cfg_Window = 1000000000,
      cfg_FailOpen = False, cfg_RetryAfterMin = 1000000000, cfg_RetryAfterMax = 0\<rparr>"

theorem shared_limiter_chosen_witness:
  "\<exists>mw. WithSharedRateLimiter (\<lambda>req c. (Some (0, 0, Some ErrOverLimit), c))
          [sample_limit ''a'' ''/x'' 5, sample_limit DefaultTenantName ''/y'' 7] = Some mw
      \<and> (\<forall>nxt :: unit limit_state handler. \<forall>r w s. Ctx r = background\<lparr>tenantKey := Some ''a''\<rparr> \<and> Path (URL r) = ''/y''
           \<longrightarrow> mw nxt r w s = nxt r w s)"
proof -
  let ?client = "\<lambda>req c. (Some (0, 0, Some ErrOverLimit), c) :: limit_result \<times> unit"
  let ?cs = "[sample_limit ''a'' ''/x'' 5, sample_limit DefaultTenantName ''/y'' 7]"
  obtain mw where mw: "WithSharedRateLimiter ?client ?cs = Some mw"
    by (simp add: WithSharedRateLimiter_def sample_limit_def)
  have "mw nxt r w s = nxt r w s"
    if "Ctx r = background\<lparr>tenantKey := Some ''a''\<rparr>" "Path (URL r) = ''/y''" for nxt and r :: request and w s
    using shared_limiter_chosen [OF mw, of r "''a''" nxt w s] that
    by (simp add: GetTenant_def chosen_config_def own_configs_def config_matches_def sample_limit_def
        DefaultTenantName_def)
  thus ?thesis using mw by blast
qed

text \<open>
  C28. The back-off that rejected clients are told: with a minimum of at most the maximum
  and a maximum below \<open>2^61\<close> nanoseconds, the first rejection names the
  minimum and the \<open>i\<close>-th one after it the minimum times \<open>2^(i+1)\<close>, capped by the maximum; no
  multiplication wraps around.  The second value is thus four times the first
  one, not twice.
\<close>

theorem retry_after_sequence:
  assumes "0 < sint (retryAfterMin req)" "sint (retryAfterMin req) \<le> sint (retryAfterMax req)"
    and "sint (retryAfterMax req) < 2 ^ 61" "map_of tracker n = None" "i < k"
  shows "retry_run n req k tracker ! i =
           Some (itoa ((if i = 0 then sint (retryAfterMin req)
                        else min (sint (retryAfterMax req)) (2 ^ Suc i * sint (retryAfterMin req)))
                       div 1000000000))"
proof -
  let ?m = "retryAfterMin req"
  obtain k' where k: "k = Suc k'" using assms(5) by (cases k) auto
  have m0: "?m \<noteq> 0" using assms(1) by auto
  have first: "getAndSetNextRetryAfterValue n req tracker =
      (Some (itoa (go_seconds ?m)), AList.update n (?m * 2) tracker)"
    using m0 assms(4) by (simp add: getAndSetNextRetryAfterValue_def)
  have double: "sint (?m * 2) = 2 * sint ?m" by (rule sint_double) (use assms in auto)
  show ?thesis
  proof (cases i)
    case 0
    thus ?thesis using first k assms(1) by (simp add: go_seconds_def)
  next
    case (Suc j)
    have "retry_run n req k' (AList.update n (?m * 2) tracker) ! j =
        Some (itoa (min (sint (retryAfterMax req)) (2 ^ Suc j * sint (?m * 2)) div 1000000000))"
      by (rule retry_run_capped) (use assms m0 double k Suc in auto)
    moreover have "2 ^ Suc j * sint (?m * 2) = 2 ^ Suc i * sint ?m" using double Suc by simp
    ultimately show ?thesis using first k Suc by (simp add: mult.assoc)
  qed
qed

definition sample_request :: "duration \<Rightarrow> duration \<Rightarrow> Request" where
  "sample_request lo hi =
     \<lparr>req_name = ''n'', req_Key = ''k'', req_Limit = 1, req_Duration = 1000, failOpen = False,
      retryAfterMin = lo, retryAfterMax = hi\<rparr>"

theorem retry_after_sequence_witness:
  "map (\<lambda>i. retry_run 0 (sample_request 10000000000 300000000000) 4 [] ! i) [0, 1, 2, 3] =
     [Some (itoa 10), Some (itoa 40), Some (itoa 80), Some (itoa 160)]"
  using retry_after_sequence [of "sample_request 10000000000 300000000000" "[]" 0 _ 4]
  by (simp add: sample_request_def)

text \<open>
  Without a maximum the back-off does not grow indefinitely: if the minimum is a whole number
  of seconds, the product has wrapped around to zero by the 55th rejection in a
  row, and from then on every rejected client is told to retry after 0 seconds.
\<close>

theorem retry_after_wraps_to_zero:
  assumes "retryAfterMin req = of_nat (m * 1000000000)" "retryAfterMin req \<noteq> 0" "retryAfterMax req = 0"
    and "map_of tracker n = None" "54 \<le> i" "i < k"
  shows "retry_run n req k tracker ! i = Some ''0''"
proof -
  let ?m = "retryAfterMin req"
  obtain k' j where k: "k = Suc k'" "i = Suc j" "j < k'" using assms(5,6) by (cases k; cases i) auto
  have "retry_run n req k' (AList.update n (?m * 2) tracker) ! j = Some (itoa (go_seconds (?m * 2 * 2 ^ Suc j)))"
    by (rule retry_run_uncapped) (use assms k in auto)
  moreover have "?m * 2 * 2 ^ Suc j = 0"
  proof -
    have "53 \<le> j" using assms(5) k(2) by simp
    then obtain e where e: "j = 53 + e" using le_Suc_ex by blast
    have "?m * 2 * 2 ^ Suc j = of_nat m * (1000000000 * 2 ^ 55) * 2 ^ e"
      unfolding assms(1) of_nat_mult e power_add power_Suc by (simp add: mult_ac)
    also have "1000000000 * 2 ^ 55 = (0 :: duration)" by simp
    finally show ?thesis by simp
  qed
  moreover have "getAndSetNextRetryAfterValue n req tracker =
      (Some (itoa (go_seconds ?m)), AList.update n (?m * 2) tracker)"
    using assms(2,4) by (simp add: getAndSetNextRetryAfterValue_def)
  ultimately show ?thesis using k by (simp add: go_seconds_def itoa_0)
qed

theorem retry_after_wraps_to_zero_witness:
  "retry_run 0 (sample_request 1000000000 0) 60 [] ! 54 = Some ''0''"
  using retry_after_wraps_to_zero [of "sample_request 1000000000 0" 1 "[]" 0 54 60]
  by (simp add: sample_request_def)

end
