(* ===== verification/Go_Format.thy ===== *)
theory Go_Format
  imports Complex_Main Go_JSON
begin

text \<open>
  Text formatting of the Go library as the LogQL printer uses it: \<open>strconv.Quote\<close>,
  \<open>time.Duration.String\<close> and the verb \<open>%f\<close>.
\<close>

section \<open>Definitions\<close>

subsection \<open>Quoted strings\<close>

fun hex_digits :: "nat \<Rightarrow> nat \<Rightarrow> string" where
  "hex_digits 0 n = []"
| "hex_digits (Suc k) n = hex_digits k (n div 16) @ [hex_digit (n mod 16)]"

definition utf8_rune :: "string \<Rightarrow> nat" where
  "utf8_rune bs =
     (case bs of
        [] \<Rightarrow> 0
      | b # cs \<Rightarrow>
          foldl (\<lambda>n c. n * 64 + (byte_of c - 0x80))
            (byte_of b - (if cs = [] then 0 else if length cs = 1 then 0xC0 else if length cs = 2 then 0xE0 else 0xF0)) cs)"

definition quote_control :: "nat \<Rightarrow> string" where
  "quote_control n =
     (if n = 7 then ''a'' else if n = 8 then ''b'' else if n = 12 then ''f'' else if n = 10 then ''n''
      else if n = 13 then ''r'' else if n = 9 then ''t'' else if n = 11 then ''v''
      else CHR ''x'' # hex_digits 2 n)"

text \<open>
  Which runes beyond ASCII are printable is a table of the library: \<open>is_print\<close>, on the
  encoding of a rune.
\<close>

definition quote_rune :: "(string \<Rightarrow> bool) \<Rightarrow> string \<Rightarrow> string" where
  "quote_rune is_print bs =
     (let n = utf8_rune bs in
      if n = 0x22 \<or> n = 0x5C then CHR 0x5C # bs
      else if (if n < 0x80 then 0x20 \<le> n \<and> n < 0x7F else is_print bs) then bs
      else if n < 0x80 then CHR 0x5C # quote_control n
      else if n < 0x10000 then CHR 0x5C # CHR ''u'' # hex_digits 4 n
      else CHR 0x5C # CHR ''U'' # hex_digits 8 n)"

function quote_body :: "(string \<Rightarrow> bool) \<Rightarrow> string \<Rightarrow> string" where
  "quote_body is_print [] = []"
| "quote_body is_print (c # s) =
     (let n = utf8_len (c # s) in
      if n = 0 then CHR 0x5C # CHR ''x'' # hex_digits 2 (byte_of c) @ quote_body is_print s
      else quote_rune is_print (take n (c # s)) @ quote_body is_print (drop (n - 1) s))"
  by pat_completeness auto
termination by (relation "measure (\<lambda>(p, s). length s)") auto

declare quote_body.simps(2) [simp del]

definition go_quote :: "(string \<Rightarrow> bool) \<Rightarrow> string \<Rightarrow> string" where
  "go_quote is_print s = CHR 0x22 # quote_body is_print s @ [CHR 0x22]"

subsection \<open>Durations\<close>

text \<open>A fraction of \<open>k\<close> digits without its trailing zeros, and without the point when none is left.\<close>

definition trim_right :: "char \<Rightarrow> string \<Rightarrow> string" where
  "trim_right c s = rev (dropWhile (\<lambda>d. d = c) (rev s))"

fun pad_digits :: "nat \<Rightarrow> nat \<Rightarrow> string" where
  "pad_digits 0 n = []"
| "pad_digits (Suc k) n = pad_digits k (n div 10) @ [digit_char (n mod 10)]"

definition fmt_frac :: "nat \<Rightarrow> nat \<Rightarrow> string" where
  "fmt_frac k n =
     (let ds = trim_right (CHR ''0'') (pad_digits k (n mod 10 ^ k)) in if ds = [] then [] else CHR ''.'' # ds)"

definition duration_abs_string :: "nat \<Rightarrow> string" where
  "duration_abs_string u =
     (if u = 0 then ''0s''
      else if u < 1000 then itoa_nat u @ ''ns''
      else if u < 1000000 then itoa_nat (u div 1000) @ fmt_frac 3 u @ [CHR 0xC2, CHR 0xB5, CHR ''s'']
      else if u < 1000000000 then itoa_nat (u div 1000000) @ fmt_frac 6 u @ ''ms''
      else (let secs = u div 1000000000; mins = secs div 60; hours = mins div 60;
                s = itoa_nat (secs mod 60) @ fmt_frac 9 u @ ''s''
            in if mins = 0 then s
               else if hours = 0 then itoa_nat (mins mod 60) @ ''m'' @ s
               else itoa_nat hours @ ''h'' @ itoa_nat (mins mod 60) @ ''m'' @ s))"

definition duration_string :: "int \<Rightarrow> string" where
  "duration_string d = (if d < 0 then CHR ''-'' # duration_abs_string (nat (- d)) else duration_abs_string (nat d))"

subsection \<open>Numbers\<close>

text \<open>
  The verb \<open>%f\<close> on a finite number: six decimals, rounded to the nearest and
  ties to even.
\<close>

definition round_half_even :: "rat \<Rightarrow> int" where
  "round_half_even q =
     (let f = \<lfloor>q\<rfloor>; d = q - of_int f
      in if d < 1 / 2 then f else if d > 1 / 2 then f + 1 else if even f then f else f + 1)"

definition sprintf_f :: "rat \<Rightarrow> string" where
  "sprintf_f q =
     (let m = nat (round_half_even (\<bar>q\<bar> * 1000000))
      in (if q < 0 then ''-'' else []) @ itoa_nat (m div 1000000) @ ''.'' @ pad_digits 6 m)"

end
