(* ===== verification/Proxy.thy ===== *)
theory Proxy
  imports Tenant_Header
begin

text \<open>
  Forwarding: the request middlewares of \<open>proxy/proxy.go\<close>, the prefix handling of \<open>server/paths.go\<close> and the
  fan-out of alerts to several Alertmanagers, \<open>proxy/fanout_proxy.go\<close>.  Logging and counters are left out.
\<close>

section \<open>Definitions\<close>

subsection \<open>Changing a request on its way to the upstream\<close>

type_synonym director = "request \<Rightarrow> request"

definition proxy_Middlewares :: "director list \<Rightarrow> director" where
  "proxy_Middlewares middlewares r = fold (\<lambda>m r. m r) middlewares r"

definition set_path :: "string \<Rightarrow> request \<Rightarrow> request" where
  "set_path p r = r\<lparr>URL := (URL r)\<lparr>Path := p\<rparr>\<rparr>"

text \<open>\<open>strings.Trim\<close> and \<open>strings.TrimLeft\<close> take a set of characters.\<close>

definition trim_chars :: "string \<Rightarrow> string \<Rightarrow> string" where
  "trim_chars s cutset = rev (dropWhile (\<lambda>c. c \<in> set cutset) (rev (dropWhile (\<lambda>c. c \<in> set cutset) s)))"

definition MiddlewareRemoveURLPrefix :: "string \<Rightarrow> director" where
  "MiddlewareRemoveURLPrefix p r =
     set_path (''/'' @ dropWhile (\<lambda>c. c \<in> set p) (trim_chars (Path (URL r)) ''/'')) r"

definition MiddlewareSetUpstream :: "url \<Rightarrow> director" where
  "MiddlewareSetUpstream upstream r =
     r\<lparr>URL := (URL r)\<lparr>Scheme := Scheme upstream, Host := Host upstream, Path := path_join [Path upstream, Path (URL r)]\<rparr>\<rparr>"

definition PrefixHeader :: string where
  "PrefixHeader = ''X-Forwarded-Prefix''"

definition getPrefix :: "ctx \<Rightarrow> string \<times> bool" where
  "getPrefix c = (case prefixKey c of Some p \<Rightarrow> (p, True) | None \<Rightarrow> ([], False))"

definition MiddlewareSetPrefixHeader :: director where
  "MiddlewareSetPrefixHeader r =
     (case getPrefix (Ctx r) of
        (p, ok) \<Rightarrow>
          if \<not> ok then r
          else if header_get (Header r) PrefixHeader \<noteq> [] then r
          else with_header (header_set PrefixHeader p) r)"

definition WithPrefix :: "string \<Rightarrow> 's handler \<Rightarrow> 's handler" where
  "WithPrefix p nxt r w s = nxt (with_ctx (\<lambda>c. c\<lparr>prefixKey := Some p\<rparr>) r) w s"

text \<open>\<open>http.StripPrefix\<close> on a URL without a raw path: a path without the prefix is not found.\<close>

definition http_StripPrefix :: "string \<Rightarrow> 's handler \<Rightarrow> 's handler" where
  "http_StripPrefix p h r w s =
     (if p = [] then h r w s
      else if prefix p (Path (URL r)) then h (set_path (drop (length p) (Path (URL r))) r) w s
      else (Responded (http_error w ''404 page not found'' 404), s))"

definition StripPrefix :: "string \<Rightarrow> 's middleware" where
  "StripPrefix p nxt r w s = http_StripPrefix p (WithPrefix p nxt) r w s"

text \<open>The object with the paths as \<open>json.MarshalIndent\<close> prints it; marshalling strings does not fail.\<close>

definition paths_json :: "string list \<Rightarrow> string" where
  "paths_json ps =
     (let nl = [CHR 0x0A] in
      ''{'' @ nl @ ''  '' @ json_print (JStr ''paths'') @ '': ''
        @ (if ps = [] then ''[]''
           else ''['' @ nl @ join ('','' @ nl) (map (\<lambda>p. ''    '' @ json_print (JStr p)) ps) @ nl @ ''  ]'')
        @ nl @ ''}'')"

definition PathsHandlerFunc :: "string list \<Rightarrow> 's handler" where
  "PathsHandlerFunc patterns r w s =
     (Responded (write_body (paths_json patterns)
        (w\<lparr>wheader := header_add ''Content-Type'' ''application/json'' (wheader w)\<rparr>)), s)"

subsection \<open>Fan-out\<close>

text \<open>\<open>url.JoinPath\<close> with one element.\<close>

definition url_join_path :: "url \<Rightarrow> string \<Rightarrow> url" where
  "url_join_path u elem =
     (let p = (if prefix ''/'' (Path u) then path_join [Path u, elem] else tl (path_join [''/'' @ Path u, elem]))
      in u\<lparr>Path := (if suffix ''/'' elem \<and> \<not> suffix ''/'' p then p @ ''/'' else p)\<rparr>)"

text \<open>
  The client of the endpoints: \<open>reparse\<close> prints a URL and parses the text again, as \<open>url.JoinPath\<close> does with the
  endpoint and \<open>http.NewRequestWithContext\<close> with the target; \<open>Do\<close> is an error or the status of the response.
\<close>

record fanout_client =
  reparse :: "url \<Rightarrow> string + url"
  Do :: "request \<Rightarrow> string + nat"

text \<open>The request to one endpoint: always a POST, with the context, the headers and the body of the original.\<close>

definition fanout_request :: "fanout_client \<Rightarrow> string \<Rightarrow> request \<Rightarrow> string \<Rightarrow> url \<Rightarrow> string + request" where
  "fanout_request client routePath r b ep =
     (case reparse client ep of
        Inl err \<Rightarrow> Inl err
      | Inr u \<Rightarrow>
          (case reparse client (url_join_path u routePath) of
             Inl err \<Rightarrow> Inl err
           | Inr targetURL \<Rightarrow>
               Inr \<lparr>Method = ''POST'', URL = targetURL, Header = Header r, Body = Body_ok b,
                    ContentLength = int (length b), TLS = None, Ctx = Ctx r\<rparr>))"

definition fanout_success :: "fanout_client \<Rightarrow> string \<Rightarrow> request \<Rightarrow> string \<Rightarrow> url \<Rightarrow> bool" where
  "fanout_success client routePath r b ep =
     (case fanout_request client routePath r b ep of
        Inl _ \<Rightarrow> False
      | Inr req \<Rightarrow> (case Do client req of Inl _ \<Rightarrow> False | Inr code \<Rightarrow> 200 \<le> code \<and> code < 300))"

text \<open>
  The goroutines: in each step one of the endpoints that are still open is done, in any
  order, and counted if it succeeded.
\<close>

inductive fanout_step :: "(url \<Rightarrow> bool) \<Rightarrow> url list \<times> nat \<Rightarrow> url list \<times> nat \<Rightarrow> bool" for ok where
  done_one: "fanout_step ok (xs @ ep # ys, n) (xs @ ys, if ok ep then Suc n else n)"

inductive fanout_run :: "(url \<Rightarrow> bool) \<Rightarrow> url list \<times> nat \<Rightarrow> url list \<times> nat \<Rightarrow> bool" for ok where
  fan_refl: "fanout_run ok c c"
| fan_trans: "fanout_step ok c c' \<Longrightarrow> fanout_run ok c' c'' \<Longrightarrow> fanout_run ok c c''"

text \<open>The answer when all are done, from the number of successes.\<close>

definition fanout_reply :: "nat \<Rightarrow> writer \<Rightarrow> writer" where
  "fanout_reply successCnt w =
     write_header 200 (if successCnt < 1 then http_error w ''Failed to reach any alertmanager endpoints'' 502 else w)"

text \<open>The handler as a relation: which responses are possible.\<close>

definition FanoutRequestToEndpoints :: "fanout_client \<Rightarrow> url list \<Rightarrow> string \<Rightarrow> request \<Rightarrow> writer \<Rightarrow> writer \<Rightarrow> bool" where
  "FanoutRequestToEndpoints client endpoints routePath r w w' =
     (case Body r of
        Body_err _ \<Rightarrow> w' = http_error w ''failed to read request body'' 500
      | Body_ok b \<Rightarrow>
          if endpoints = [] then w' = http_error w ''fanout endpoints not loaded'' 400
          else (\<exists>n. fanout_run (fanout_success client routePath r b) (endpoints, 0) ([], n) \<and> w' = fanout_reply n w))"

section \<open>Lemmas\<close>

inductive_cases fanout_stepE: "fanout_step ok (eps, n) c"

lemma fanout_run_count:
  assumes "fanout_run ok c c'"
  shows "snd c' + length (filter ok (fst c')) = snd c + length (filter ok (fst c))"
  using assms
proof induction
  case (fan_trans c c' c'')
  have "snd c' + length (filter ok (fst c')) = snd c + length (filter ok (fst c))"
    using fan_trans(1) by (cases rule: fanout_step.cases) auto
  thus ?case using fan_trans(3) by simp
qed simp

lemma fanout_terminates: "\<exists>n. fanout_run ok (eps, k) ([], n)"
proof (induction eps arbitrary: k)
  case (Cons ep eps)
  have "fanout_step ok ([] @ ep # eps, k) ([] @ eps, if ok ep then Suc k else k)" by (rule done_one)
  moreover obtain n where "fanout_run ok (eps, if ok ep then Suc k else k) ([], n)" using Cons.IH by blast
  ultimately show ?case by (metis append_Nil fan_trans)
qed (blast intro: fan_refl)

section \<open>Properties\<close>

text \<open>
  C14. The fan-out of an alert answers in the same way whatever the order in which the endpoints finish: with at least one endpoint
  and a readable body there is always an answer, its status is 200 exactly when some endpoint took the
  alert with a status of 200 to 299, and 502 otherwise.  The success status that the handler writes in any case does not
  replace the error.
\<close>

theorem fanout_any_order:
  assumes "Body r = Body_ok b" "endpoints \<noteq> []" "wstatus w = None"
  shows "(\<exists>w'. FanoutRequestToEndpoints client endpoints routePath r w w')
       \<and> (\<forall>w'. FanoutRequestToEndpoints client endpoints routePath r w w' \<longrightarrow>
            final_status w' = (if \<exists>ep \<in> set endpoints. fanout_success client routePath r b ep then 200 else 502))"
proof -
  let ?ok = "fanout_success client routePath r b"
  have "final_status (fanout_reply n w) = (if \<exists>ep \<in> set endpoints. ?ok ep then 200 else 502)"
    if "fanout_run ?ok (endpoints, 0) ([], n)" for n
  proof -
    have n: "n = length (filter ?ok endpoints)" using fanout_run_count [OF that] by simp
    show ?thesis
    proof (cases "\<exists>ep \<in> set endpoints. ?ok ep")
      case True
      hence "filter ?ok endpoints \<noteq> []" by (auto simp: filter_empty_conv)
      hence "\<not> n < 1" using n by simp
      thus ?thesis using True assms(3) by (simp add: fanout_reply_def final_status_def write_header_def)
    next
      case False
      hence "n = 0" using n by (simp add: filter_empty_conv)
      thus ?thesis using False http_error_status [OF assms(3)]
        by (simp add: fanout_reply_def final_status_def write_header_def)
    qed
  qed
  moreover have "\<exists>n. fanout_run ?ok (endpoints, 0) ([], n)" by (rule fanout_terminates)
  ultimately show ?thesis using assms(1,2) by (auto simp: FanoutRequestToEndpoints_def)
qed

theorem fanout_any_order_witness:
  "let r = plain_request\<lparr>Body := Body_ok ''[]''\<rparr>; ep = \<lparr>Scheme = ''http'', Host = ''am'', Path = '''', RawQuery = ''''\<rparr>
   in \<forall>w'. FanoutRequestToEndpoints \<lparr>reparse = Inr, Do = (\<lambda>_. Inl ''refused'')\<rparr> [ep] ''/api/v2/alerts'' r new_writer w' \<longrightarrow> final_status w' = 502"
  using fanout_any_order [of "plain_request\<lparr>Body := Body_ok ''[]''\<rparr>" "''[]''"
      "[\<lparr>Scheme = ''http'', Host = ''am'', Path = '''', RawQuery = ''''\<rparr>]" new_writer "\<lparr>reparse = Inr, Do = (\<lambda>_. Inl ''refused'')\<rparr>" "''/api/v2/alerts''"]
  by (simp add: Let_def new_writer_def fanout_success_def fanout_request_def)

text \<open>
  Behind \<open>StripPrefix\<close> and the two request middlewares of the proxy, a request under a prefix reaches the upstream's
  host, under the upstream's path followed by the rest of its own path, and the prefix is announced
  in a header unless the client has set that header already.
\<close>

theorem proxied_request_path:
  assumes "StripPrefix p forward r w s = (Forwarded r' w', s')"
    and "r'' = proxy_Middlewares [MiddlewareSetUpstream upstream, MiddlewareSetPrefixHeader] r'" "p \<noteq> []"
  shows "prefix p (Path (URL r)) \<and> Host (URL r'') = Host upstream
       \<and> Path (URL r'') = path_join [Path upstream, drop (length p) (Path (URL r))]
       \<and> header_get (Header r'') PrefixHeader =
           (if header_get (Header r) PrefixHeader = [] then p else header_get (Header r) PrefixHeader)"
proof -
  have r': "prefix p (Path (URL r))" "r' = with_ctx (\<lambda>c. c\<lparr>prefixKey := Some p\<rparr>) (set_path (drop (length p) (Path (URL r))) r)"
    using assms(1,3) by (auto simp: StripPrefix_def http_StripPrefix_def WithPrefix_def forward_def split: if_splits)
  show ?thesis
    using r'(1) by (simp add: assms(2) r'(2) proxy_Middlewares_def MiddlewareSetUpstream_def MiddlewareSetPrefixHeader_def
        getPrefix_def with_ctx_def with_header_def set_path_def)
qed

theorem proxied_request_path_witness:
  "let r = set_path ''/api/logs/v1/query'' plain_request; up = \<lparr>Scheme = ''http'', Host = ''loki'', Path = ''/base'', RawQuery = ''''\<rparr>
   in \<exists>r'. StripPrefix ''/api/logs/v1'' forward r new_writer () = (Forwarded r' new_writer, ())
      \<and> Host (URL (proxy_Middlewares [MiddlewareSetUpstream up, MiddlewareSetPrefixHeader] r')) = ''loki''"
proof -
  define r where "r = set_path ''/api/logs/v1/query'' plain_request"
  define up where "up = \<lparr>Scheme = ''http'', Host = ''loki'', Path = ''/base'', RawQuery = ''''\<rparr>"
  have "\<exists>r'. StripPrefix ''/api/logs/v1'' forward r new_writer () = (Forwarded r' new_writer, ())"
    by (simp add: StripPrefix_def http_StripPrefix_def WithPrefix_def forward_def r_def set_path_def)
  then obtain r' where f: "StripPrefix ''/api/logs/v1'' forward r new_writer () = (Forwarded r' new_writer, ())" by blast
  have h: "Host up = ''loki''" by (simp add: up_def)
  show ?thesis
    using proxied_request_path [OF f refl, of up] f h unfolding Let_def r_def [symmetric] up_def [symmetric] by auto
qed

end
