(* ===== verification/Reverse_Proxy.thy ===== *)
theory Reverse_Proxy
  imports Proxy
begin

text \<open>
  The reverse proxy of \<open>net/http/httputil\<close> with a \<open>Director\<close>, which ends the routes of every API, as far as the
  request to the upstream depends on it: the body of an empty request is dropped, the director runs on the
  outgoing request, and only then the hop-by-hop headers are removed, among them those that the
  client names in its \<open>Connection\<close> header.  The client's address in \<open>X-Forwarded-For\<close> and the default
  \<open>User-Agent\<close> are left out.
\<close>

section \<open>Definitions\<close>

definition hopHeaders :: "string list" where
  "hopHeaders = [''Connection'', ''Proxy-Connection'', ''Keep-Alive'', ''Proxy-Authenticate'', ''Proxy-Authorization'',
     ''Te'', ''Trailer'', ''Transfer-Encoding'', ''Upgrade'']"

text \<open>The comma separated elements of all values of a header, trimmed.\<close>

definition header_tokens :: "header \<Rightarrow> string \<Rightarrow> string list" where
  "header_tokens h k = map ascii_trim (concat (map (split_on (CHR '','')) (header_values h k)))"

definition connection_options :: "header \<Rightarrow> string list" where
  "connection_options h = filter (\<lambda>t. t \<noteq> []) (header_tokens h ''Connection'')"

definition removeHopByHopHeaders :: "header \<Rightarrow> header" where
  "removeHopByHopHeaders h = fold header_del (connection_options h @ hopHeaders) h"

text \<open>\<open>httpguts.HeaderValuesContainsToken\<close> ignores case; the white space around a token is a blank or a tab.\<close>

definition contains_token :: "header \<Rightarrow> string \<Rightarrow> string \<Rightarrow> bool" where
  "contains_token h k t =
     list_ex (\<lambda>x. map to_lower (rev (dropWhile (\<lambda>c. c \<in> set [CHR 0x20, CHR 0x09]) (rev (dropWhile (\<lambda>c. c \<in> set [CHR 0x20, CHR 0x09]) x))))
                  = map to_lower t)
       (concat (map (split_on (CHR '','')) (header_values h k)))"

definition upgradeType :: "header \<Rightarrow> string" where
  "upgradeType h = (if contains_token h ''Connection'' ''Upgrade'' then header_get h ''Upgrade'' else [])"

definition ascii_print :: "string \<Rightarrow> bool" where
  "ascii_print s = list_all (\<lambda>c. 0x20 \<le> byte_of c \<and> byte_of c \<le> 0x7E) s"

text \<open>The headers of the outgoing request, from those of the incoming one and those the director leaves.\<close>

definition outgoing_header :: "header \<Rightarrow> header \<Rightarrow> header" where
  "outgoing_header h_in h =
     (let up = upgradeType h;
          h1 = removeHopByHopHeaders h;
          h2 = (if contains_token h_in ''Te'' ''trailers'' then header_set ''Te'' ''trailers'' h1 else h1)
      in if up \<noteq> [] then header_set ''Upgrade'' up (header_set ''Connection'' ''Upgrade'' h2) else h2)"

definition proxy_clone :: "request \<Rightarrow> request" where
  "proxy_clone r = (if ContentLength r = 0 then r\<lparr>Body := Body_ok []\<rparr> else r)"

definition outgoing :: "director \<Rightarrow> request \<Rightarrow> request" where
  "outgoing d r = with_header (outgoing_header (Header r)) (d (proxy_clone r))"

text \<open>An upgrade to a protocol whose name is not printable is refused with a bad gateway.\<close>

definition ReverseProxy :: "director \<Rightarrow> 's handler" where
  "ReverseProxy d r w s =
     (if \<not> ascii_print (upgradeType (Header (d (proxy_clone r)))) then (Responded (write_header 502 w), s)
      else (Forwarded (outgoing d r) w, s))"

section \<open>Lemmas\<close>

lemma header_values_fold_del:
  "header_values (fold header_del ks h) k =
     (if canonical_key k \<in> canonical_key ` set ks then [] else header_values h k)"
  by (induction ks arbitrary: h) auto

text \<open>A header that is neither a hop-by-hop header nor named by \<open>Connection\<close> goes through the proxy.\<close>

definition passes_proxy :: "header \<Rightarrow> string \<Rightarrow> bool" where
  "passes_proxy h k \<longleftrightarrow> canonical_key k \<notin> canonical_key ` set (connection_options h @ hopHeaders)"

lemma hop_keys: "canonical_key ''Te'' \<in> set hopHeaders" "canonical_key ''Connection'' \<in> set hopHeaders" "canonical_key ''Upgrade'' \<in> set hopHeaders"
  unfolding hopHeaders_def by code_simp+

lemma header_values_outgoing:
  assumes "passes_proxy h k"
  shows "header_values (outgoing_header h_in h) k = header_values h k"
proof -
  have "canonical_key k \<noteq> canonical_key ''Te''" "canonical_key k \<noteq> canonical_key ''Connection''"
      "canonical_key k \<noteq> canonical_key ''Upgrade''"
    using assms by (auto simp: passes_proxy_def hopHeaders_def)
  moreover have "header_values (removeHopByHopHeaders h) k = header_values h k"
    using assms by (simp add: removeHopByHopHeaders_def header_values_fold_del passes_proxy_def del: fold_append)
  ultimately show ?thesis by (simp add: outgoing_header_def Let_def)
qed

lemma header_values_outgoing_dropped:
  assumes "canonical_key k \<in> canonical_key ` set (connection_options h)" "canonical_key k \<notin> set hopHeaders"
  shows "header_values (outgoing_header h_in h) k = []"
proof -
  have "canonical_key k \<noteq> canonical_key ''Te''" "canonical_key k \<noteq> canonical_key ''Connection''"
      "canonical_key k \<noteq> canonical_key ''Upgrade''"
    using assms(2) hop_keys by metis+
  moreover have "header_values (removeHopByHopHeaders h) k = []"
    using assms(1) by (auto simp: removeHopByHopHeaders_def header_values_fold_del image_Un simp del: fold_append)
  ultimately show ?thesis by (simp add: outgoing_header_def Let_def)
qed

text \<open>A chain of middlewares in front of the proxy: what leaves is what the last of them hands on, as the proxy sends it.\<close>

lemma ReverseProxy_forwarded:
  "ReverseProxy d r w s = (Forwarded r' w', s') \<Longrightarrow> r' = outgoing d r \<and> w' = w \<and> s' = s"
  by (auto simp: ReverseProxy_def split: if_splits)

lemma enforces_call:
  assumes "enforces Q mw" "mw nxt r w s = (Forwarded r' w', s')"
  obtains r1 w1 s1 where "Q r r1" "nxt r1 w1 s1 = (Forwarded r' w', s')"
proof -
  have "(\<exists>w' s'. mw nxt r w s = (Responded w', s')) \<or> (\<exists>r' w' s'. Q r r' \<and> mw nxt r w s = nxt r' w' s')"
    using assms(1) unfolding enforces_def by (elim allE)
  thus ?thesis using assms(2) that by auto
qed

lemma enforces_proxied:
  assumes "enforces Q mw" "mw (ReverseProxy d) r w s = (Forwarded r' w', s')"
  obtains r1 where "Q r r1" "r' = outgoing d r1"
proof (rule enforces_call [OF assms])
  fix r1 w1 s1
  assume q: "Q r r1" and "ReverseProxy d r1 w1 s1 = (Forwarded r' w', s')"
  from ReverseProxy_forwarded [OF this(2)] have "r' = outgoing d r1" by simp
  with q show thesis by (rule that)
qed

subsection \<open>The directors and the prefix\<close>

definition upstream_director :: "url \<Rightarrow> director" where
  "upstream_director upstream = proxy_Middlewares [MiddlewareSetUpstream upstream, MiddlewareSetPrefixHeader]"

lemma upstream_director_simps [simp]:
  "URL (upstream_director u r) = (URL r)\<lparr>Scheme := Scheme u, Host := Host u, Path := path_join [Path u, Path (URL r)]\<rparr>"
  "Body (upstream_director u r) = Body r" "Method (upstream_director u r) = Method r" "TLS (upstream_director u r) = TLS r"
  "Ctx (upstream_director u r) = Ctx r" "ContentLength (upstream_director u r) = ContentLength r"
  by (simp_all add: upstream_director_def proxy_Middlewares_def MiddlewareSetUpstream_def MiddlewareSetPrefixHeader_def
        split: prod.splits)

lemma header_values_upstream_director:
  "canonical_key k \<noteq> canonical_key PrefixHeader \<Longrightarrow> header_values (Header (upstream_director u r)) k = header_values (Header r) k"
  by (simp add: upstream_director_def proxy_Middlewares_def MiddlewareSetUpstream_def MiddlewareSetPrefixHeader_def
        split: prod.splits)

lemma proxy_clone_simps [simp]:
  "URL (proxy_clone r) = URL r" "Header (proxy_clone r) = Header r" "Method (proxy_clone r) = Method r"
  "Ctx (proxy_clone r) = Ctx r" "TLS (proxy_clone r) = TLS r" "ContentLength (proxy_clone r) = ContentLength r"
  by (simp_all add: proxy_clone_def)

lemma outgoing_simps [simp]:
  "URL (outgoing d r) = URL (d (proxy_clone r))" "Ctx (outgoing d r) = Ctx (d (proxy_clone r))"
  "Body (outgoing d r) = Body (d (proxy_clone r))" "Method (outgoing d r) = Method (d (proxy_clone r))"
  by (simp_all add: outgoing_def)

text \<open>The prefix header is the only one a director of this shape changes, so \<open>Connection\<close> reaches the removal unchanged.\<close>

lemma connection_prefix_keys:
  "canonical_key ''Connection'' \<noteq> canonical_key PrefixHeader"
  unfolding PrefixHeader_def by code_simp

lemma connection_options_director: "connection_options (Header (upstream_director u r)) = connection_options (Header r)"
  by (simp add: connection_options_def header_tokens_def header_values_upstream_director [OF connection_prefix_keys])

lemma header_values_proxied:
  assumes "passes_proxy (Header r) k" "canonical_key k \<noteq> canonical_key PrefixHeader"
  shows "header_values (Header (outgoing (upstream_director u) r)) k = header_values (Header r) k"
  using assms header_values_outgoing [of "Header (upstream_director u (proxy_clone r))" k]
  by (simp add: outgoing_def header_values_upstream_director passes_proxy_def connection_options_director)

definition stripped :: "string \<Rightarrow> request \<Rightarrow> request" where
  "stripped p r = with_ctx (\<lambda>c. c\<lparr>prefixKey := Some p\<rparr>) (set_path (drop (length p) (Path (URL r))) r)"

lemma StripPrefix_enforces:
  assumes "p \<noteq> []"
  shows "enforces (\<lambda>r r'. prefix p (Path (URL r)) \<and> r' = stripped p r) (StripPrefix p)"
  by (rule enforcesI)
     (use assms in \<open>auto simp: StripPrefix_def http_StripPrefix_def WithPrefix_def stripped_def\<close>)

lemma stripped_simps [simp]:
  "Header (stripped p r) = Header r" "Body (stripped p r) = Body r" "Method (stripped p r) = Method r"
  "TLS (stripped p r) = TLS r" "ContentLength (stripped p r) = ContentLength r"
  "URL (stripped p r) = (URL r)\<lparr>Path := drop (length p) (Path (URL r))\<rparr>"
  "tenantKey (Ctx (stripped p r)) = tenantKey (Ctx r)" "subjectKey (Ctx (stripped p r)) = subjectKey (Ctx r)"
  by (simp_all add: stripped_def set_path_def)

end
