(* ===== verification/Routes.thy ===== *)
theory Routes
  imports Reverse_Proxy
begin

text \<open>
  Routers of \<open>go-chi/chi\<close> as the gateway builds them: a router is the list of its routes, each with its method, its
  pattern and its handler, the middlewares in front of it included.  \<open>Group\<close> puts middlewares before the
  handlers of some routes, \<open>Mount\<close> puts a router below a prefix of the pattern and leaves the path of the request as it
  is.  Which route a request takes is decided by chi, so this choice is a parameter of the router as a handler.
\<close>

section \<open>Definitions\<close>

text \<open>
  \<open>rmethod = None\<close> is a route for all methods.  \<open>rlabels\<close> are the labels that \<open>server.InjectLabelsCtx\<close> adds to
  the metrics of the route.
\<close>

record 's route =
  rmethod :: "string option"
  rpattern :: string
  rlabels :: "(string \<times> string) list"
  rhandler :: "'s handler"

type_synonym 's router = "'s route list"

definition chi_Handle :: "string \<Rightarrow> 's handler \<Rightarrow> 's router" where
  "chi_Handle pattern h = [\<lparr>rmethod = None, rpattern = pattern, rlabels = [], rhandler = h\<rparr>]"

definition chi_Method :: "string \<Rightarrow> string \<Rightarrow> 's handler \<Rightarrow> 's router" where
  "chi_Method m pattern h = [\<lparr>rmethod = Some m, rpattern = pattern, rlabels = [], rhandler = h\<rparr>]"

definition chi_Group :: "(string \<times> string) list \<Rightarrow> 's middleware list \<Rightarrow> 's router \<Rightarrow> 's router" where
  "chi_Group labels mws rs = map (\<lambda>rt. rt\<lparr>rlabels := labels @ rlabels rt, rhandler := chain mws (rhandler rt)\<rparr>) rs"

definition chi_Mount :: "string \<Rightarrow> 's router \<Rightarrow> 's router" where
  "chi_Mount base rs = map (\<lambda>rt. rt\<lparr>rpattern := base @ rpattern rt\<rparr>) rs"

text \<open>\<open>Mount\<close> of a handler that is not a router: everything below the pattern.\<close>

definition chi_MountHandler :: "string \<Rightarrow> 's handler \<Rightarrow> 's router" where
  "chi_MountHandler base h = chi_Handle (base @ (if suffix ''/'' base then ''*'' else ''/*'')) h"

text \<open>The choice of a route, with the parameters that its pattern binds.\<close>

datatype chi_choice = Chosen nat "(string \<times> string) list" | NoRoute | WrongMethod

type_synonym chi_finder = "(string option \<times> string) list \<Rightarrow> request \<Rightarrow> chi_choice"

definition route_keys :: "'s router \<Rightarrow> (string option \<times> string) list" where
  "route_keys rs = map (\<lambda>rt. (rmethod rt, rpattern rt)) rs"

definition with_params :: "(string \<times> string) list \<Rightarrow> request \<Rightarrow> request" where
  "with_params ps r = with_ctx (\<lambda>c. c\<lparr>urlParams := Some ps\<rparr>) r"

definition router_ServeHTTP :: "chi_finder \<Rightarrow> 's handler \<Rightarrow> 's router \<Rightarrow> 's handler" where
  "router_ServeHTTP finder notAllowed rs r w s =
     (case finder (route_keys rs) r of
        Chosen i ps \<Rightarrow> rhandler (rs ! i) (with_params ps r) w s
      | NoRoute \<Rightarrow> (Responded (http_error w ''404 page not found'' 404), s)
      | WrongMethod \<Rightarrow> notAllowed r w s)"

section \<open>Lemmas\<close>

text \<open>
  \<open>routes_forward P rs\<close>: whatever a route of \<open>rs\<close> sends to an upstream for a request is related to the request
  by \<open>P\<close>, which may depend on the pattern.
\<close>

definition handler_forwards :: "(request \<Rightarrow> request \<Rightarrow> bool) \<Rightarrow> 's handler \<Rightarrow> bool" where
  "handler_forwards P h \<longleftrightarrow> (\<forall>r w s r' w' s'. h r w s = (Forwarded r' w', s') \<longrightarrow> P r r')"

definition routes_forward :: "(string \<Rightarrow> request \<Rightarrow> request \<Rightarrow> bool) \<Rightarrow> 's router \<Rightarrow> bool" where
  "routes_forward P rs \<longleftrightarrow> (\<forall>rt \<in> set rs. handler_forwards (P (rpattern rt)) (rhandler rt))"

lemma handler_forwardsD: "handler_forwards P h \<Longrightarrow> h r w s = (Forwarded r' w', s') \<Longrightarrow> P r r'"
  unfolding handler_forwards_def by blast

lemma routes_forwardD:
  "routes_forward P rs \<Longrightarrow> rt \<in> set rs \<Longrightarrow> rhandler rt r w s = (Forwarded r' w', s') \<Longrightarrow> P (rpattern rt) r r'"
  unfolding routes_forward_def by (blast dest: handler_forwardsD)

lemma routes_forward_simps [simp]:
  "routes_forward P []"
  "routes_forward P (rs @ rs') \<longleftrightarrow> routes_forward P rs \<and> routes_forward P rs'"
  by (auto simp: routes_forward_def)

lemma routes_forward_mono:
  "routes_forward P rs \<Longrightarrow> (\<And>p r r'. P p r r' \<Longrightarrow> Q p r r') \<Longrightarrow> routes_forward Q rs"
  unfolding routes_forward_def handler_forwards_def by blast

lemma routes_forward_Mount: "routes_forward (\<lambda>p. P (base @ p)) rs \<Longrightarrow> routes_forward P (chi_Mount base rs)"
  by (auto simp: routes_forward_def chi_Mount_def)

lemma routes_forward_Group:
  assumes "routes_forward P rs" "enforces Q (chain mws)" "\<And>p r r1 r'. Q r r1 \<Longrightarrow> P p r1 r' \<Longrightarrow> P' p r r'"
  shows "routes_forward P' (chi_Group ls mws rs)"
proof -
  have "handler_forwards (P' p) (chain mws h)" if h: "handler_forwards (P p) h" for p and h :: "'a handler"
    unfolding handler_forwards_def
  proof (intro allI impI)
    fix r w s r' w' s'
    assume "chain mws h r w s = (Forwarded r' w', s')"
    then obtain r1 w1 s1 where "Q r r1" "h r1 w1 s1 = (Forwarded r' w', s')" by (rule enforces_call [OF assms(2)])
    thus "P' p r r'" using handler_forwardsD [OF h] assms(3) by metis
  qed
  thus ?thesis using assms(1) by (auto simp: routes_forward_def chi_Group_def)
qed

lemma routes_forward_proxy:
  assumes "\<And>r. P pat r (outgoing d r)"
  shows "routes_forward P (chi_Handle pat (ReverseProxy d))" "routes_forward P (chi_Method m pat (ReverseProxy d))"
  using assms by (auto simp: routes_forward_def handler_forwards_def chi_Handle_def chi_Method_def dest!: ReverseProxy_forwarded)

lemma routes_forward_never:
  assumes "\<And>r w s r' w' s'. h r w s \<noteq> (Forwarded r' w', s')"
  shows "routes_forward P (chi_Handle pat h)" "routes_forward P (chi_Method m pat h)"
  using assms by (auto simp: routes_forward_def handler_forwards_def chi_Handle_def chi_Method_def)

lemma chain_enforces:
  assumes "\<And>m. m \<in> set mws \<Longrightarrow> enforces Q m" "\<And>r. Q r r" "\<And>r r1 r2. Q r r1 \<Longrightarrow> Q r1 r2 \<Longrightarrow> Q r r2"
  shows "enforces Q (chain mws)"
  using assms(1)
proof (induction mws)
  case Nil
  show ?case by (rule enforces_pass [where f = "\<lambda>r. r"]) (simp_all add: assms(2))
next
  case (Cons m mws)
  have "enforces Q m" "enforces Q (chain mws)" using Cons by auto
  from enforces_comp [OF this] have "enforces (\<lambda>r r'. \<exists>r1. Q r r1 \<and> Q r1 r') (chain (m # mws))" by simp
  thus ?case by (rule middleware_contract.weaken [OF middleware_contract.intro]) (use assms(3) in blast)
qed

text \<open>The router as a handler: if chi only chooses routes that exist, the property of the routes is one of the router.\<close>

lemma router_forwarded:
  assumes "routes_forward P rs" "router_ServeHTTP finder na rs r w s = (Forwarded r' w', s')"
    and "\<And>i ps. finder (route_keys rs) r = Chosen i ps \<Longrightarrow> i < length rs" "\<And>r w s r' w' s'. na r w s \<noteq> (Forwarded r' w', s')"
  obtains i ps where "finder (route_keys rs) r = Chosen i ps" "i < length rs" "P (rpattern (rs ! i)) (with_params ps r) r'"
proof (cases "finder (route_keys rs) r")
  case (Chosen i ps)
  have i: "i < length rs" using assms(3) Chosen .
  have "rhandler (rs ! i) (with_params ps r) w s = (Forwarded r' w', s')"
    using assms(2) Chosen by (simp add: router_ServeHTTP_def)
  from routes_forwardD [OF assms(1) nth_mem [OF i] this] show thesis using that Chosen i by blast
qed (use assms(2,4) in \<open>auto simp: router_ServeHTTP_def\<close>)

end
