(* ===== verification/Http_Form.thy ===== *)
theory Http_Form
  imports Http_Model
begin

text \<open>
  Form bodies: \<open>Request.ParseForm\<close>, and the replacement of a request's body
  as the enforcing middlewares do it.
\<close>

text \<open>
  \<open>mime.ParseMediaType\<close> gives the media type in lower case and possibly an
  error about its parameters; it enters as a parameter.
\<close>

type_synonym mime_parser = "string \<Rightarrow> string \<times> string option"

definition max_form_size :: nat where
  "max_form_size = 10485760"

definition first_error :: "string option \<Rightarrow> string option \<Rightarrow> string option" where
  "first_error a b = (case a of Some e \<Rightarrow> Some e | None \<Rightarrow> b)"

definition parse_post_form :: "mime_parser \<Rightarrow> request \<Rightarrow> url_values \<times> string option" where
  "parse_post_form mime r =
     (let ct = header_get (Header r) ''Content-Type'';
          media = mime (if ct = [] then ''application/octet-stream'' else ct)
      in if fst media = ''application/x-www-form-urlencoded'' then
           (case Body r of
              Body_err e \<Rightarrow> ([], first_error (snd media) (Some e))
            | Body_ok b \<Rightarrow>
                if length b > max_form_size then ([], Some ''http: POST too large'')
                else (fst (parse_query b), first_error (snd media) (snd (parse_query b))))
         else ([], snd media))"

text \<open>
  \<open>ParseForm\<close>: the values of the body (\<open>PostForm\<close>) for the methods that have
  one, or the first error met in the media type, the body and the query string.
\<close>

definition parse_form :: "mime_parser \<Rightarrow> request \<Rightarrow> string + url_values" where
  "parse_form mime r =
     (let post = (if Method r \<in> {''POST'', ''PUT'', ''PATCH''} then parse_post_form mime r else ([], None))
      in case first_error (snd post) (snd (parse_query (RawQuery (URL r)))) of
           Some e \<Rightarrow> Inl e
         | None \<Rightarrow> Inr (fst post))"

definition set_raw_query :: "string \<Rightarrow> request \<Rightarrow> request" where
  "set_raw_query q r = r\<lparr>URL := (URL r)\<lparr>RawQuery := q\<rparr>\<rparr>"

definition set_body :: "string \<Rightarrow> request \<Rightarrow> request" where
  "set_body b r =
     r\<lparr>Body := Body_ok b, ContentLength := int (length b),
       Header := header_set ''Content-Length'' (itoa_nat (length b)) (Header r)\<rparr>"

lemma set_body_simps [simp]:
  "Body (set_body b r) = Body_ok b" "URL (set_body b r) = URL r" "Method (set_body b r) = Method r"
  "Ctx (set_body b r) = Ctx r" "ContentLength (set_body b r) = int (length b)" "TLS (set_body b r) = TLS r"
  by (simp_all add: set_body_def)

lemma set_raw_query_simps [simp]:
  "Body (set_raw_query q r) = Body r" "RawQuery (URL (set_raw_query q r)) = q"
  "Path (URL (set_raw_query q r)) = Path (URL r)" "Method (set_raw_query q r) = Method r"
  "Ctx (set_raw_query q r) = Ctx r" "Header (set_raw_query q r) = Header r" "TLS (set_raw_query q r) = TLS r"
  by (simp_all add: set_raw_query_def)

text \<open>What the server behind the proxy reads of a form parameter: body values, then query values.\<close>

definition body_values :: "request \<Rightarrow> string \<Rightarrow> string list" where
  "body_values r k =
     (case Body r of Body_ok b \<Rightarrow> values_of (fst (parse_query b)) k | Body_err _ \<Rightarrow> [])"

definition received_values :: "request \<Rightarrow> string \<Rightarrow> string list" where
  "received_values r k =
     (if Method r = ''POST'' then body_values r k else []) @ values_of (url_query (URL r)) k"

lemma values_of_encoded [simp]: "values_of (fst (parse_query (values_encode v))) k = values_of v k"
  by (rule parse_query_encode [of v]) simp

lemma body_values_set_body [simp]: "body_values (set_body (values_encode v) r) k = values_of v k"
  by (simp add: body_values_def)

lemma url_query_set_raw_query [simp]:
  "values_of (url_query (URL (set_raw_query (values_encode v) r))) k = values_of v k"
  by (simp add: url_query_def)

end
