(* ===== verification/Tenant_Label.thy ===== *)
theory Tenant_Label
  imports Tenant_Header
begin

text \<open>
  From the context tenant to label matchers: \<open>authorization/tenant.go\<close> and the context
  accessors of \<open>authorization/http.go\<close>.
\<close>

section \<open>Definitions\<close>

definition WithData :: "ctx \<Rightarrow> string \<Rightarrow> ctx" where
  "WithData c data = c\<lparr>dataKey := Some data\<rparr>"

definition GetData :: "ctx \<Rightarrow> string \<times> bool" where
  "GetData c = (case dataKey c of None \<Rightarrow> ([], False) | Some d \<Rightarrow> (d, True))"

text \<open>The loop over the tenants: the first empty name ends it.\<close>

fun escape_tenants :: "string list \<Rightarrow> reply + string list" where
  "escape_tenants [] = Inr []"
| "escape_tenants (t # ts) =
     (if trim_space t = [] then Inl (ApiError ''empty tenant name not allowed'' 400)
      else (case escape_tenants ts of Inl e \<Rightarrow> Inl e | Inr es \<Rightarrow> Inr (quote_meta (trim_space t) # es)))"

definition tenant_matchers :: "string \<Rightarrow> string \<Rightarrow> string list \<Rightarrow> matcher list" where
  "tenant_matchers tenantLabelName tenant tenants =
     (if length tenants = 1 then
        [\<lparr>mtype = MatchEqual, mname = tenantLabelName,
          mvalue = trim_space (hd (split_on (CHR ''|'') tenant))\<rparr>]
      else [\<lparr>mtype = MatchRegexp, mname = tenantLabelName, mvalue = join ''|'' tenants\<rparr>])"

definition tenant_label_check :: "string \<Rightarrow> request \<Rightarrow> reply + request" where
  "tenant_label_check tenantLabelName r =
     (case GetTenant (Ctx r) of
        (tenant, ok) \<Rightarrow>
          if \<not> ok then Inl (ApiError ''error finding tenant in request context'' 400)
          else (case escape_tenants (split_on (CHR ''|'') tenant) of
                  Inl e \<Rightarrow> Inl e
                | Inr tenants \<Rightarrow>
                    (let matchersJSON = marshal_authz
                           \<lparr>Matchers = tenant_matchers tenantLabelName tenant tenants, MatcherOp = []\<rparr>
                     in Inr (with_ctx (\<lambda>c. WithData c matchersJSON) r))))"

text \<open>An empty label name panics when the middleware is created: \<open>None\<close>.\<close>

definition WithTenantLabel :: "string \<Rightarrow> 's middleware option" where
  "WithTenantLabel tenantLabelName =
     (if tenantLabelName = [] then None else Some (guard_mw (tenant_label_check tenantLabelName)))"

section \<open>Lemmas\<close>

lemma escape_tenants_Inr:
  "escape_tenants ts = Inr es \<longleftrightarrow>
     (\<forall>t \<in> set ts. trim_space t \<noteq> []) \<and> es = map (\<lambda>t. quote_meta (trim_space t)) ts"
proof (induction ts arbitrary: es)
  case (Cons t ts)
  show ?case
  proof (cases "escape_tenants ts")
    case (Inl e)
    hence "\<not> (\<forall>t \<in> set ts. trim_space t \<noteq> [])"
      using Cons.IH [of "map (\<lambda>t. quote_meta (trim_space t)) ts"] by auto
    thus ?thesis using Inl by auto
  next
    case (Inr es')
    thus ?thesis using Cons.IH [of es'] by auto
  qed
qed auto

lemma utf8_valid_append_ascii:
  "utf8_valid s \<Longrightarrow> byte_of c < 0x80 \<Longrightarrow> utf8_valid (c # s)"
  by (simp add: utf8_len.simps utf8_head_def)

lemma quote_meta_ascii:
  "list_all (\<lambda>c. byte_of c < 0x80) s \<Longrightarrow> list_all (\<lambda>c. byte_of c < 0x80) (quote_meta s)"
  by (induction s) auto

lemma quote_meta_tenant: "tenantNameRegex t \<Longrightarrow> quote_meta t = t"
proof -
  have "list_all is_tenant_char s \<Longrightarrow> quote_meta s = s" for s
    by (induction s) (auto dest: tenant_char_no_meta)
  thus "tenantNameRegex t \<Longrightarrow> quote_meta t = t" by (simp add: tenantNameRegex_def)
qed

lemma tenant_ascii: "tenantNameRegex t \<Longrightarrow> list_all (\<lambda>c. byte_of c < 0x80) t"
  using tenant_char_ascii by (auto simp: tenantNameRegex_def list_all_iff)

lemma join_ascii:
  "list_all (\<lambda>c. byte_of c < 0x80) sep \<Longrightarrow> (\<forall>x \<in> set xs. list_all (\<lambda>c. byte_of c < 0x80) x) \<Longrightarrow>
   list_all (\<lambda>c. byte_of c < 0x80) (join sep xs)"
  by (induction sep xs rule: join.induct) auto

text \<open>The matchers for a validated tenant list, as the enforcers read them back.\<close>

lemma tenant_label_validated:
  assumes "tenant_list t ts" "tenantKey (Ctx r) = Some t" "utf8_valid label"
  shows "\<exists>data. tenant_label_check label r = Inr (with_ctx (\<lambda>c. WithData c data) r) \<and>
           unmarshal_authz data = Some \<lparr>Matchers = tenant_matchers label t (map quote_meta ts), MatcherOp = []\<rparr>"
proof -
  have split: "split_on (CHR ''|'') t = ts" using assms(1) by (rule tenant_list_split)
  have tn: "\<And>x. x \<in> set ts \<Longrightarrow> tenantNameRegex x"
    using assms(1) by (auto simp: tenant_list_def list_all_iff valid_tenant_def)
  hence trim: "\<And>x. x \<in> set ts \<Longrightarrow> trim_space x = x \<and> x \<noteq> []"
    by (auto simp: tenantNameRegex_def)
  hence esc: "escape_tenants ts = Inr (map quote_meta ts)"
    unfolding escape_tenants_Inr by (auto intro: map_cong)
  have ne: "ts \<noteq> []" using assms(1) by (simp add: tenant_list_def)
  have "utf8_valid (trim_space (hd ts))" using ne tn trim tenant_utf8 by (cases ts) auto
  moreover have "utf8_valid (join ''|'' (map quote_meta ts))"
    by (rule utf8_valid_ascii, rule join_ascii) (use tn tenant_ascii quote_meta_ascii in auto)
  ultimately have "list_all matcher_utf8 (tenant_matchers label t (map quote_meta ts))"
    using assms(3) by (simp add: tenant_matchers_def matcher_utf8_def split)
  hence "unmarshal_authz (marshal_authz \<lparr>Matchers = tenant_matchers label t (map quote_meta ts), MatcherOp = []\<rparr>)
      = Some \<lparr>Matchers = tenant_matchers label t (map quote_meta ts), MatcherOp = []\<rparr>"
    by (intro unmarshal_marshal_authz) simp_all
  moreover have "tenant_label_check label r = Inr (with_ctx (\<lambda>c. WithData c
      (marshal_authz \<lparr>Matchers = tenant_matchers label t (map quote_meta ts), MatcherOp = []\<rparr>)) r)"
    using assms(2) by (simp add: tenant_label_check_def GetTenant_def split esc Let_def)
  ultimately show ?thesis by blast
qed

context regex_engine begin

lemma tenant_matchers_select:
  assumes "tenant_list t ts"
  shows "selects rx (tenant_matchers label t (map quote_meta ts)) ls \<longleftrightarrow> ls label \<in> set ts"
proof (cases "length ts = 1")
  case True
  then obtain x where ts: "ts = [x]" by (auto simp: length_Suc_conv)
  have "split_on (CHR ''|'') t = [x]" using tenant_list_split [OF assms] ts by simp
  moreover have "trim_space x = x"
    using assms by (simp add: tenant_list_def ts valid_tenant_def)
  ultimately show ?thesis by (simp add: tenant_matchers_def ts matches_def selects_def)
next
  case False
  have "ts \<noteq> []" "list_all utf8_valid ts"
    using assms by (auto simp: tenant_list_def list_all_iff valid_tenant_def tenant_utf8)
  thus ?thesis using False by (simp add: tenant_matchers_def selects_def matches_alternatives)
qed

end

interpretation tenant_label:
  middleware_contract "guard_mw (tenant_label_check label) :: 's middleware"
    "\<lambda>r r'. \<exists>data. r' = with_ctx (\<lambda>c. WithData c data) r"
  by unfold_locales
     (rule guard_mw_enforces, auto simp: tenant_label_check_def Let_def split: if_splits sum.splits prod.splits)

section \<open>Properties\<close>

text \<open>
  C5. The chain of the read path from the tenant header to the authorization
  data: a request that passes both middlewares carries data that decodes to
  matchers on the tenant label, and these select a stream or series exactly when its
  tenant label is one of the tenants named in the header, whatever regular
  expression engine evaluates them, provided that it matches a disjunction of quoted
  literals exactly by those literals.
\<close>

theorem read_chain_selects_requested_tenants:
  assumes "WithTenantLabel label = Some tenant_label_mw" "utf8_valid label" "regex_engine rx"
    and "(WithTenantFromHeader h \<circ> tenant_label_mw) forward r w s = (Forwarded r' w', s')"
  shows "\<exists>d. unmarshal_authz (fst (GetData (Ctx r'))) = Some d \<and> (\<forall>m \<in> set (Matchers d). mname m = label) \<and>
           (\<forall>ls. selects rx (Matchers d) ls \<longleftrightarrow> ls label \<in> set (collect_tenants (header_values (Header r) h)))"
proof -
  have mw: "tenant_label_mw = guard_mw (tenant_label_check label)"
    using assms(1) by (simp add: WithTenantLabel_def split: if_splits)
  obtain r1 where r1: "tenant_from_header h r = Inr r1" "tenant_label_check label r1 = Inr r'"
    using assms(4) by (auto simp: mw WithTenantFromHeader_def forward_def guard_mw_def split: sum.splits)
  define ts where "ts = collect_tenants (header_values (Header r) h)"
  obtain t where t: "tenant_list t ts" "r1 = set_tenant t r"
    using r1(1) by (auto simp: tenant_from_header_Inr ts_def)
  obtain data where "tenant_label_check label r1 = Inr (with_ctx (\<lambda>c. WithData c data) r1)"
      and data: "unmarshal_authz data = Some \<lparr>Matchers = tenant_matchers label t (map quote_meta ts), MatcherOp = []\<rparr>"
    using tenant_label_validated [OF t(1) _ assms(2), of r1] t(2) by (auto simp: set_tenant_def)
  hence "fst (GetData (Ctx r')) = data" using r1(2) by (simp add: GetData_def WithData_def)
  moreover have "\<forall>m \<in> set (tenant_matchers label t (map quote_meta ts)). mname m = label"
    by (simp add: tenant_matchers_def)
  ultimately show ?thesis
    using data regex_engine.tenant_matchers_select [OF assms(3) t(1)] by (auto simp: ts_def)
qed

theorem read_chain_selects_requested_tenants_witness:
  "let r = plain_request\<lparr>Header := [(''X-Scope-Orgid'', [''team-a|team-b''])]\<rparr>;
       mw = guard_mw (tenant_label_check ''tenant_id'')
   in \<exists>r'. (WithTenantFromHeader ''X-Scope-OrgID'' \<circ> mw) forward r new_writer () = (Forwarded r' new_writer, ())
      \<and> (\<exists>d. unmarshal_authz (fst (GetData (Ctx r'))) = Some d \<and>
            (\<forall>ls. selects literal_regex (Matchers d) ls \<longleftrightarrow> ls ''tenant_id'' \<in> {''team-a'', ''team-b''}))"
proof -
  let ?r = "plain_request\<lparr>Header := [(''X-Scope-Orgid'', [''team-a|team-b''])]\<rparr>"
  let ?mw = "guard_mw (tenant_label_check ''tenant_id'') :: unit middleware"
  have k: "canonical_key ''X-Scope-OrgID'' = ''X-Scope-Orgid''"
    by (simp add: canonical_key_def char_eval)
  have c: "collect_tenants (header_values (Header ?r) ''X-Scope-OrgID'') = [''team-a'', ''team-b'']"
    unfolding header_values_def k by (simp add: plain_request_def, code_simp)
  have tl: "tenant_list ''team-a|team-b'' [''team-a'', ''team-b'']"
    by (simp add: tenant_list_def maxTenants_def valid_tenant_def maxTenantNameLength_def
        tenantNameRegex_def is_tenant_char_def char_eval)
  have h: "tenant_from_header ''X-Scope-OrgID'' ?r = Inr (set_tenant ''team-a|team-b'' ?r)"
    unfolding tenant_from_header_Inr c using tl by blast
  have u: "utf8_valid ''tenant_id''" by (rule utf8_valid_ascii) simp
  obtain data where "tenant_label_check ''tenant_id'' (set_tenant ''team-a|team-b'' ?r)
      = Inr (with_ctx (\<lambda>c. WithData c data) (set_tenant ''team-a|team-b'' ?r))"
    using tenant_label_validated [OF tl _ u, of "set_tenant ''team-a|team-b'' ?r"] by (auto simp: set_tenant_def)
  hence "\<exists>r'. (WithTenantFromHeader ''X-Scope-OrgID'' \<circ> ?mw) forward ?r new_writer () = (Forwarded r' new_writer, ())"
    by (simp add: WithTenantFromHeader_def guard_mw_def h forward_def)
  then obtain r' where run: "(WithTenantFromHeader ''X-Scope-OrgID'' \<circ> ?mw) forward ?r new_writer () = (Forwarded r' new_writer, ())"
    by blast
  have "WithTenantLabel ''tenant_id'' = Some ?mw" by (simp add: WithTenantLabel_def)
  from read_chain_selects_requested_tenants [OF this u literal.regex_engine_axioms run]
  show ?thesis using run unfolding c by (auto simp: Let_def)
qed

end
