(* ===== verification/Metrics_Enforcer.thy ===== *)
theory Metrics_Enforcer
  imports Http_Form Tenant_Label
begin

text \<open>
  Enforcement of label matchers on metrics queries,
  \<open>api/metrics/v1/labels_enforcer.go\<close>.  The PromQL parser and the enforcer of
  \<open>prom-label-proxy\<close> are library code: a record of functions whose documented
  behaviour is the locale \<open>promql_enforcer\<close>.
\<close>

section \<open>Definitions\<close>

record 'e promql =
  pq_parse :: "string \<Rightarrow> string + 'e"
  pq_print :: "'e \<Rightarrow> string"
  pq_enforce_node :: "matcher list \<Rightarrow> 'e \<Rightarrow> string + 'e"
  pq_enforce_matchers :: "matcher list \<Rightarrow> matcher list \<Rightarrow> string + matcher list"
  pq_matcher_string :: "matcher \<Rightarrow> string"

definition metricSelectorParam :: "string \<Rightarrow> string" where
  "metricSelectorParam path =
     (if suffix ''/series'' path \<or> suffix ''/labels'' path \<or> suffix ''/values'' path
         \<or> suffix ''/rules'' path \<or> suffix ''/federate'' path
      then ''match[]'' else ''query'')"

definition cloneURLValues :: "url_values \<Rightarrow> url_values" where
  "cloneURLValues v = map (\<lambda>(k, xs). (k, xs)) v"

definition matchersToString :: "'e promql \<Rightarrow> matcher list \<Rightarrow> string" where
  "matchersToString pq ms = ''{'' @ join '','' (map (pq_matcher_string pq) ms) @ ''}''"

text \<open>One pass of the loop over the values: parse, enforce, print.\<close>

definition enforce_value :: "'e promql \<Rightarrow> matcher list \<Rightarrow> string \<Rightarrow> string + string" where
  "enforce_value pq e raw =
     (case pq_parse pq raw of
        Inl err \<Rightarrow> Inl (''parse expr error: '' @ err)
      | Inr expr \<Rightarrow>
          (case pq_enforce_node pq e expr of
             Inl err \<Rightarrow> Inl (''enforce node error: '' @ err)
           | Inr expr' \<Rightarrow> Inr (pq_print pq expr')))"

definition enforceQueryValues ::
    "'e promql \<Rightarrow> matcher list \<Rightarrow> string \<Rightarrow> url_values \<Rightarrow> string + (string \<times> bool)" where
  "enforceQueryValues pq e paramName requestParams =
     (if length (values_of requestParams paramName) = 0 then
        (case pq_enforce_matchers pq e [] of
           Inl err \<Rightarrow> Inl (''enforce matchers error: '' @ err)
         | Inr enforcedMatchers \<Rightarrow>
             Inr (values_encode (values_set paramName (matchersToString pq enforcedMatchers) requestParams), True))
      else
        (case traverse (enforce_value pq e) (values_of requestParams paramName) of
           Inl err \<Rightarrow> Inl err
         | Inr vs \<Rightarrow> Inr (values_encode (values_put paramName vs requestParams), True)))"

text \<open>The selector in the body: merged, enforced, and removed from the query string.\<close>

definition enforce_body ::
    "'e promql \<Rightarrow> matcher list \<Rightarrow> string \<Rightarrow> url_values \<Rightarrow> request \<Rightarrow> reply + request" where
  "enforce_body pq e paramName postForm r =
     (let urlQ = url_query (URL r);
          bodyParams0 = cloneURLValues postForm;
          bodyParams = (if paramName = ''match[]''
                        then values_put paramName (values_of bodyParams0 paramName @ values_of urlQ paramName) bodyParams0
                        else bodyParams0)
      in case enforceQueryValues pq e paramName bodyParams of
           Inl err \<Rightarrow> Inl (ApiError (''could not enforce labels: '' @ err) 400)
         | Inr (q, foundForm) \<Rightarrow>
             if \<not> foundForm then Inl (ApiError ''no query found'' 400)
             else Inr (set_raw_query (values_encode (values_del paramName urlQ))
                         (with_header (header_set ''Content-Type'' ''application/x-www-form-urlencoded'')
                           (set_body q r))))"

text \<open>The selector in the query string.\<close>

definition enforce_url :: "'e promql \<Rightarrow> matcher list \<Rightarrow> string \<Rightarrow> request \<Rightarrow> reply + request" where
  "enforce_url pq e paramName r =
     (case enforceQueryValues pq e paramName (url_query (URL r)) of
        Inl err \<Rightarrow> Inl (ApiError (''could not enforce labels: '' @ err) 400)
      | Inr (q, foundQuery) \<Rightarrow>
          if \<not> foundQuery then Inl (ApiError ''no query found'' 400) else Inr (set_raw_query q r))"

definition enforceRequestQueryLabels ::
    "'e promql \<Rightarrow> mime_parser \<Rightarrow> matcher list \<Rightarrow> string \<Rightarrow> request \<Rightarrow> reply + request" where
  "enforceRequestQueryLabels pq mime e paramName r =
     (if Method r = ''POST'' then
        (case parse_form mime r of
           Inl err \<Rightarrow> Inl (ApiError (''could not parse form: '' @ err) 500)
         | Inr postForm \<Rightarrow>
             (let bodyHasParam = length (values_of postForm paramName) > 0;
                  urlHasParam = length (values_of (url_query (URL r)) paramName) > 0;
                  r1 = (if \<not> bodyHasParam \<and> urlHasParam then set_body (values_encode postForm) r else r)
              in if bodyHasParam \<or> \<not> urlHasParam then enforce_body pq e paramName postForm r1
                 else enforce_url pq e paramName r1))
      else enforce_url pq e paramName r)"

definition WithEnforceTenancyOnQuery :: "'e promql \<Rightarrow> mime_parser \<Rightarrow> string \<Rightarrow> string \<Rightarrow> 's middleware" where
  "WithEnforceTenancyOnQuery pq mime tenantLabel paramName =
     guard_mw (\<lambda>r.
       (case GetTenant (Ctx r) of
          (tenant, ok) \<Rightarrow>
            if \<not> ok then Inl (ApiError ''error finding tenant'' 500)
            else enforceRequestQueryLabels pq mime
                   [\<lparr>mtype = MatchEqual, mname = tenantLabel, mvalue = tenant\<rparr>] paramName r))"

definition metrics_authz_check :: "'e promql \<Rightarrow> mime_parser \<Rightarrow> request \<Rightarrow> reply + request" where
  "metrics_authz_check pq mime r =
     (case GetData (Ctx r) of
        (data, ok) \<Rightarrow>
          if \<not> ok then Inl (ApiError ''error finding authorization label matcher'' 500)
          else if data = [] then Inr r
          else (case unmarshal_authz data of
                  None \<Rightarrow> Inl (ApiError ''error parsing authorization label matcher'' 500)
                | Some doc \<Rightarrow>
                    enforceRequestQueryLabels pq mime (Matchers doc) (metricSelectorParam (Path (URL r))) r))"

definition Metrics_WithEnforceAuthorizationLabels :: "'e promql \<Rightarrow> mime_parser \<Rightarrow> 's middleware" where
  "Metrics_WithEnforceAuthorizationLabels pq mime = guard_mw (metrics_authz_check pq mime)"

section \<open>The PromQL interface\<close>

text \<open>
  What the gateway relies on.  \<open>selectors\<close> gives the matcher lists of all
  vector selectors of an expression, at any depth.
    \<^item> printing an expression and parsing it gives the expression;
    \<^item> \<open>EnforceNode\<close> leaves every enforced matcher in every selector;
    \<^item> \<open>EnforceMatchers\<close> leaves every enforced matcher in the list;
    \<^item> a braced list of matchers is one selector with these matchers.
  The enforcer keys its matchers by label name, so the laws ask for
  distinct names.
\<close>

definition matcher_names_distinct :: "matcher list \<Rightarrow> bool" where
  "matcher_names_distinct ms = distinct (map mname ms)"

locale promql_enforcer =
  fixes pq :: "'e promql" and selectors :: "'e \<Rightarrow> matcher list list"
  assumes print_parse: "\<And>e. pq_parse pq (pq_print pq e) = Inr e"
    and enforce_node: "\<And>ms e e' sel. matcher_names_distinct ms \<Longrightarrow> pq_enforce_node pq ms e = Inr e' \<Longrightarrow>
      sel \<in> set (selectors e') \<Longrightarrow> set ms \<subseteq> set sel"
    and enforce_matchers: "\<And>ms xs ys. matcher_names_distinct ms \<Longrightarrow> pq_enforce_matchers pq ms xs = Inr ys \<Longrightarrow>
      set ms \<subseteq> set ys"
    and selector_text: "\<And>ms e. pq_parse pq (matchersToString pq ms) = Inr e \<Longrightarrow> selectors e = [ms]"
begin

text \<open>A parameter value is safe when every selector it denotes has all the matchers.\<close>

definition safe :: "matcher list \<Rightarrow> string \<Rightarrow> bool" where
  "safe ms v \<longleftrightarrow> (\<forall>e sel. pq_parse pq v = Inr e \<longrightarrow> sel \<in> set (selectors e) \<longrightarrow> set ms \<subseteq> set sel)"

lemma safe_enforced: "matcher_names_distinct ms \<Longrightarrow> enforce_value pq ms raw = Inr v \<Longrightarrow> safe ms v"
  by (auto simp: enforce_value_def safe_def print_parse split: sum.splits dest: enforce_node)

lemma enforceQueryValues_safe:
  assumes "matcher_names_distinct ms" "enforceQueryValues pq ms p params = Inr (q, found)"
  obtains v where "q = values_encode v" "values_of v p \<noteq> []" "\<forall>x \<in> set (values_of v p). safe ms x"
    "\<And>k. k \<noteq> p \<Longrightarrow> values_of v k = values_of params k" "found"
proof (cases "values_of params p = []")
  case True
  then obtain ys where ys: "pq_enforce_matchers pq ms [] = Inr ys"
    and q: "q = values_encode (values_set p (matchersToString pq ys) params)" "found"
    using assms(2) by (auto simp: enforceQueryValues_def split: sum.splits)
  have "safe ms (matchersToString pq ys)"
    unfolding safe_def using enforce_matchers [OF assms(1) ys] selector_text by fastforce
  thus ?thesis using that [OF q(1)] q(2) by simp
next
  case False
  then obtain vs where vs: "traverse (enforce_value pq ms) (values_of params p) = Inr vs"
    and q: "q = values_encode (values_put p vs params)" "found"
    using assms(2) by (auto simp: enforceQueryValues_def split: sum.splits)
  have "\<forall>x \<in> set vs. safe ms x"
    using vs by (rule traverse_Inr_all) (rule safe_enforced [OF assms(1)])
  moreover have "vs \<noteq> []" using traverse_Inr_length [OF vs] False by auto
  ultimately show ?thesis using that [OF q(1)] q(2) by simp
qed

lemma enforce_url_safe:
  assumes "matcher_names_distinct ms" "enforce_url pq ms p r = Inr r'"
  shows "\<forall>x \<in> set (values_of (url_query (URL r')) p). safe ms x"
    and "values_of (url_query (URL r')) p \<noteq> []" and "Body r' = Body r" and "Method r' = Method r"
proof -
  obtain q where q: "enforceQueryValues pq ms p (url_query (URL r)) = Inr (q, True)" "r' = set_raw_query q r"
    using assms(2) by (auto simp: enforce_url_def split: sum.splits if_splits)
  obtain v where "q = values_encode v" "values_of v p \<noteq> []" "\<forall>x \<in> set (values_of v p). safe ms x"
    using enforceQueryValues_safe [OF assms(1) q(1)] .
  thus "\<forall>x \<in> set (values_of (url_query (URL r')) p). safe ms x" "values_of (url_query (URL r')) p \<noteq> []"
    "Body r' = Body r" "Method r' = Method r"
    by (simp_all add: q(2))
qed

lemma enforce_body_safe:
  assumes "matcher_names_distinct ms" "enforce_body pq ms p pf r = Inr r'"
  shows "\<forall>x \<in> set (received_values r' p). safe ms x" and "body_values r' p \<noteq> []"
    and "Method r' = Method r"
proof -
  obtain bp q where q: "enforceQueryValues pq ms p bp = Inr (q, True)"
    and r': "r' = set_raw_query (values_encode (values_del p (url_query (URL r))))
       (with_header (header_set ''Content-Type'' ''application/x-www-form-urlencoded'') (set_body q r))"
    using assms(2) by (auto simp: enforce_body_def Let_def split: sum.splits if_splits)
  obtain v where v: "q = values_encode v" "values_of v p \<noteq> []" "\<forall>x \<in> set (values_of v p). safe ms x"
    using enforceQueryValues_safe [OF assms(1) q] .
  have b: "body_values r' p = values_of v p" by (simp add: r' body_values_def v(1))
  thus "body_values r' p \<noteq> []" using v(2) by simp
  show "Method r' = Method r" by (simp add: r')
  have "values_of (url_query (URL r')) p = []" by (simp add: r')
  thus "\<forall>x \<in> set (received_values r' p). safe ms x"
    using b v(3) by (simp add: received_values_def)
qed

lemma enforceRequestQueryLabels_safe:
  assumes "matcher_names_distinct ms" "enforceRequestQueryLabels pq mime ms p r = Inr r'"
  shows "\<forall>x \<in> set (received_values r' p). safe ms x" and "received_values r' p \<noteq> []"
proof -
  have "(\<forall>x \<in> set (received_values r' p). safe ms x) \<and> received_values r' p \<noteq> []"
  proof (cases "Method r = ''POST''")
    case False
    thus ?thesis using assms enforce_url_safe [OF assms(1), of p r r']
      by (simp add: enforceRequestQueryLabels_def received_values_def)
  next
    case True
    then obtain pf where pf: "parse_form mime r = Inr pf"
      using assms(2) by (auto simp: enforceRequestQueryLabels_def split: sum.splits)
    show ?thesis
    proof (cases "values_of pf p = [] \<and> values_of (url_query (URL r)) p \<noteq> []")
      case b: True
      let ?r1 = "set_body (values_encode pf) r"
      have e: "enforce_url pq ms p ?r1 = Inr r'"
        using assms(2) True pf b by (simp add: enforceRequestQueryLabels_def)
      note s = enforce_url_safe [OF assms(1) e]
      have "body_values r' p = []" using s(3) b by (simp add: body_values_def)
      thus ?thesis using s by (simp add: received_values_def)
    next
      case b: False
      have e: "enforce_body pq ms p pf r = Inr r'"
        using assms(2) True pf b by (auto simp: enforceRequestQueryLabels_def Let_def split: if_splits)
      note s = enforce_body_safe [OF assms(1) e]
      thus ?thesis using True by (simp add: received_values_def)
    qed
  qed
  thus "\<forall>x \<in> set (received_values r' p). safe ms x" "received_values r' p \<noteq> []" by simp_all
qed

end

section \<open>A concrete PromQL fragment\<close>

text \<open>
  An instance of the interface: expressions are lists of vector selectors,
  written one after the other, each a braced list of matchers
  with escaped names and values.
\<close>

definition sel_matcher_string :: "matcher \<Rightarrow> string" where
  "sel_matcher_string m =
     match_type_code (mtype m) @ '':'' @ query_escape (mname m) @ '':'' @ query_escape (mvalue m)"

definition sel_parse_matcher :: "string \<Rightarrow> matcher option" where
  "sel_parse_matcher s =
     (case split_on (CHR '':'') s of
        [t, n, v] \<Rightarrow>
          (case (match_type_decode t, query_unescape n, query_unescape v) of
             (Some t', Some n', Some v') \<Rightarrow> Some \<lparr>mtype = t', mname = n', mvalue = v'\<rparr>
           | _ \<Rightarrow> None)
      | _ \<Rightarrow> None)"

definition sel_print :: "matcher list list \<Rightarrow> string" where
  "sel_print e = concat (map (\<lambda>sel. ''{'' @ join '','' (map sel_matcher_string sel) @ ''}'') e)"

definition sel_parse_selector :: "string \<Rightarrow> matcher list option" where
  "sel_parse_selector s =
     (case s of c # t \<Rightarrow>
        if c \<noteq> CHR ''{'' then None
        else if t = [] then Some []
        else those (map sel_parse_matcher (split_on (CHR '','') t))
      | [] \<Rightarrow> None)"

definition sel_parse :: "string \<Rightarrow> string + matcher list list" where
  "sel_parse s =
     (let parts = split_on (CHR ''}'') s in
      if last parts \<noteq> [] then Inl ''unexpected end of input''
      else (case those (map sel_parse_selector (butlast parts)) of
              None \<Rightarrow> Inl ''bad selector'' | Some e \<Rightarrow> Inr e))"

definition sel_enforce :: "matcher list \<Rightarrow> matcher list \<Rightarrow> matcher list" where
  "sel_enforce ms xs = filter (\<lambda>m. mname m \<notin> mname ` set ms) xs @ ms"

definition sel_promql :: "matcher list list promql" where
  "sel_promql = \<lparr>pq_parse = sel_parse, pq_print = sel_print,
     pq_enforce_node = \<lambda>ms e. Inr (map (sel_enforce ms) e),
     pq_enforce_matchers = \<lambda>ms xs. Inr (sel_enforce ms xs),
     pq_matcher_string = sel_matcher_string\<rparr>"

lemma query_escape_no_brace:
  "c \<in> set (query_escape s) \<Longrightarrow> c \<notin> set '',:{}''"
proof (induction s)
  case (Cons a s)
  have hex: "\<forall>d < 16. upper_hex d \<notin> set '',:{}''"
  proof -
    have "list_all (\<lambda>d. upper_hex d \<notin> set '',:{}'') [0..<16]"
      by (simp add: upt_rec upper_hex_def char_of_eq_iff take_bit_eq_mod)
    thus ?thesis by (auto simp: list_all_iff)
  qed
  have "(of_char a :: nat) < 256" by simp
  hence d: "(of_char a :: nat) div 16 < 16" "(of_char a :: nat) mod 16 < 16" by linarith+
  show ?case using Cons hex d
    by (auto simp: is_unreserved_def is_lower_def is_upper_def is_digit_def split: if_splits)
qed simp

lemma match_type_code_cases: "match_type_code t \<in> {''0'', ''1'', ''2'', ''3''}"
  by (cases t) (simp_all add: match_type_code_def)

lemma sel_matcher_chars: "c \<in> set (sel_matcher_string m) \<Longrightarrow> c \<noteq> CHR '','' \<and> c \<noteq> CHR ''{'' \<and> c \<noteq> CHR ''}''"
  using match_type_code_cases [of "mtype m"]
  by (auto simp: sel_matcher_string_def dest: query_escape_no_brace)

lemma sel_parse_matcher_string [simp]: "sel_parse_matcher (sel_matcher_string m) = Some m"
proof -
  have c: "CHR '':'' \<notin> set (match_type_code (mtype m))" using match_type_code_cases [of "mtype m"] by auto
  have e: "CHR '':'' \<notin> set (query_escape x)" for x using query_escape_no_brace by fastforce
  have "split_on (CHR '':'') (sel_matcher_string m) =
      [match_type_code (mtype m), query_escape (mname m), query_escape (mvalue m)]"
    unfolding sel_matcher_string_def by (simp add: split_on_append_sep split_on_no_sep c e)
  moreover have "match_type_decode (match_type_code (mtype m)) = Some (mtype m)"
    by (cases "mtype m") (simp_all add: match_type_code_def match_type_decode_def)
  ultimately show ?thesis by (simp add: sel_parse_matcher_def)
qed

lemma sel_matcher_string_nonempty: "sel_matcher_string m \<noteq> []"
  by (simp add: sel_matcher_string_def)

lemma join_nonempty: "xs \<noteq> [] \<Longrightarrow> (\<forall>x \<in> set xs. x \<noteq> []) \<Longrightarrow> join sep xs \<noteq> []"
  by (induction sep xs rule: join.induct) auto

lemma sel_parse_selector_string:
  "sel_parse_selector (''{'' @ join '','' (map sel_matcher_string ms)) = Some ms"
proof (cases "ms = []")
  case False
  have "split_on (CHR '','') (join '','' (map sel_matcher_string ms)) = map sel_matcher_string ms"
    by (rule split_on_join) (use False sel_matcher_chars in auto)
  moreover have "join '','' (map sel_matcher_string ms) \<noteq> []"
    by (rule join_nonempty) (use False sel_matcher_string_nonempty in auto)
  ultimately show ?thesis
    by (simp add: sel_parse_selector_def o_def those_map_Some [where g = "\<lambda>x. x"])
qed (simp add: sel_parse_selector_def)

lemma sel_selector_chars: "CHR ''}'' \<notin> set (''{'' @ join '','' (map sel_matcher_string ms))"
proof
  assume "CHR ''}'' \<in> set (''{'' @ join '','' (map sel_matcher_string ms))"
  hence "CHR ''}'' \<in> set (join '','' (map sel_matcher_string ms))" by simp
  thus False using set_join [of "'',''" "map sel_matcher_string ms"] sel_matcher_chars by auto
qed

lemma split_sel_print:
  "split_on (CHR ''}'') (sel_print e) = map (\<lambda>sel. ''{'' @ join '','' (map sel_matcher_string sel)) e @ [[]]"
proof (induction e)
  case (Cons sel e)
  let ?t = "''{'' @ join '','' (map sel_matcher_string sel)"
  have p: "sel_print (sel # e) = ?t @ CHR ''}'' # sel_print e" by (simp add: sel_print_def)
  have "split_on (CHR ''}'') (?t @ CHR ''}'' # sel_print e) = ?t # split_on (CHR ''}'') (sel_print e)"
    by (rule split_on_append_sep) (rule sel_selector_chars)
  thus ?case unfolding p by (simp only: Cons list.map append_Cons)
qed (simp add: sel_print_def)

lemma sel_parse_print: "sel_parse (sel_print e) = Inr e"
proof -
  have "those (map sel_parse_selector (map (\<lambda>sel. ''{'' @ join '','' (map sel_matcher_string sel)) e)) = Some e"
    unfolding map_map o_def sel_parse_selector_string by (simp add: those_map_Some [where g = "\<lambda>x. x"])
  thus ?thesis by (simp only: sel_parse_def split_sel_print Let_def last_snoc butlast_snoc) simp
qed

interpretation sel_enforcer: promql_enforcer sel_promql "\<lambda>e. e"
proof unfold_locales
  fix ms e
  assume "pq_parse sel_promql (matchersToString sel_promql ms) = Inr e"
  moreover have "matchersToString sel_promql ms = sel_print [ms]"
    by (simp add: matchersToString_def sel_promql_def sel_print_def)
  ultimately show "e = [ms]" by (simp add: sel_promql_def sel_parse_print)
qed (auto simp: sel_promql_def sel_parse_print sel_enforce_def)

section \<open>Properties\<close>


definition sample_authz :: AuthzResponseData where
  "sample_authz = \<lparr>Matchers = [\<lparr>mtype = MatchEqual, mname = ''tenant_id'', mvalue = ''team-a''\<rparr>], MatcherOp = []\<rparr>"

lemma sample_authz_codec: "unmarshal_authz (marshal_authz sample_authz) = Some sample_authz" "marshal_authz sample_authz \<noteq> []"
proof -
  have "utf8_valid ''tenant_id''" "utf8_valid ''team-a''" by (rule utf8_valid_ascii, simp)+
  thus "unmarshal_authz (marshal_authz sample_authz) = Some sample_authz"
    by (intro unmarshal_marshal_authz) (simp_all add: sample_authz_def matcher_utf8_def)
  show "marshal_authz sample_authz \<noteq> []" by (simp add: marshal_authz_def authz_json_def)
qed


end
