(* ===== verification/Alertmanager.thy ===== *)
theory Alertmanager
  imports Http_Form Tenant_Header
begin

text \<open>
  Tenancy on the Alertmanager API, \<open>api/metrics/v1/alertmanager_enforcer.go\<close>: alert filters,
  new silences, and silences addressed by their identifier.  The Alertmanager
  client, its matcher syntax and its silence codec are library code and
  parameters.
\<close>

section \<open>Definitions\<close>

text \<open>\<open>amlabels.ParseMatcher\<close>, of which the gateway uses the label name; \<open>None\<close> is a syntax error.\<close>

type_synonym am_parser = "string \<Rightarrow> string option"

text \<open>The loop over the filters: matchers on the tenant label are dropped, a syntax error ends it.\<close>

fun keep_filters :: "am_parser \<Rightarrow> string \<Rightarrow> string list \<Rightarrow> string list option" where
  "keep_filters parse label [] = Some []"
| "keep_filters parse label (f # fs) =
     (case parse f of
        None \<Rightarrow> None
      | Some name \<Rightarrow>
          if name = label then keep_filters parse label fs
          else map_option ((#) f) (keep_filters parse label fs))"

definition filter_check ::
    "am_parser \<Rightarrow> (matcher \<Rightarrow> string) \<Rightarrow> string \<Rightarrow> request \<Rightarrow> reply + request" where
  "filter_check parse matcher_string label r =
     (case GetTenant (Ctx r) of
        (tenant, ok) \<Rightarrow>
          if \<not> ok then Inl (ApiError ''error finding tenant'' 500)
          else
            (let matcherStr = matcher_string \<lparr>mtype = MatchEqual, mname = label, mvalue = tenant\<rparr>;
                 q0 = url_query (URL r);
                 filters = values_of q0 ''filter'';
                 q1 = (if filters = [] then values_set ''filter'' matcherStr q0 else q0)
             in case keep_filters parse label filters of
                  None \<Rightarrow> Inl NoReply
                | Some kept \<Rightarrow>
                    (let q2 = values_del label (values_put ''filter'' (matcherStr # kept) q1)
                     in Inr (set_raw_query (values_encode q2) r))))"

definition WithEnforceTenancyOnFilter :: "am_parser \<Rightarrow> (matcher \<Rightarrow> string) \<Rightarrow> string \<Rightarrow> 's middleware" where
  "WithEnforceTenancyOnFilter parse matcher_string label = guard_mw (filter_check parse matcher_string label)"

text \<open>Silences: the fields are pointers in the client's models.\<close>

record am_matcher =
  am_Name :: "string option"
  am_Value :: "string option"
  am_IsRegex :: "bool option"
  am_IsEqual :: "bool option"

text \<open>A posted silence; \<open>'x\<close> holds what the gateway only passes on.  A matcher may be null.\<close>

record 'x silence =
  sil_ID :: string
  sil_Matchers :: "am_matcher option list"
  sil_rest :: 'x

record 'x silence_codec =
  sil_decode :: "string \<Rightarrow> string + 'x silence"
  sil_encode :: "'x silence \<Rightarrow> string + string"

definition tenant_silence_matcher :: "string \<Rightarrow> string \<Rightarrow> am_matcher" where
  "tenant_silence_matcher label tenant =
     \<lparr>am_Name = Some label, am_Value = Some tenant, am_IsRegex = Some False, am_IsEqual = Some True\<rparr>"

text \<open>A null matcher is dereferenced and panics: \<open>None\<close>.\<close>

fun other_matchers :: "string \<Rightarrow> am_matcher option list \<Rightarrow> am_matcher option list option" where
  "other_matchers label [] = Some []"
| "other_matchers label (None # ms) = None"
| "other_matchers label (Some m # ms) =
     (if am_Name m = Some label then other_matchers label ms
      else map_option ((#) (Some m)) (other_matchers label ms))"

definition silence_check :: "'x silence_codec \<Rightarrow> string \<Rightarrow> request \<Rightarrow> reply + request" where
  "silence_check codec label r =
     (case GetTenant (Ctx r) of
        (tenant, ok) \<Rightarrow>
          if \<not> ok then Inl (ApiError ''error finding tenant'' 500)
          else if Method r \<noteq> ''POST'' then Inl (ApiError ''error method not allowed'' 405)
          else (case (case Body r of Body_ok b \<Rightarrow> sil_decode codec b | Body_err e \<Rightarrow> Inl e) of
                  Inl err \<Rightarrow> Inl (ApiError (''bad request: can'' @ [CHR 0x27] @ ''t decode: '' @ err) 400)
                | Inr sil \<Rightarrow>
                    if sil_ID sil \<noteq> [] then Inl (ApiError ''updates to silence by ID not allowed'' 422)
                    else (case other_matchers label (sil_Matchers sil) of
                            None \<Rightarrow> Inl Abort
                          | Some others \<Rightarrow>
                              (let modified = Some (tenant_silence_matcher label tenant) # others in
                               if length modified < 2 then
                                 Inl (ApiError ''need at least one matcher, got none'' 400)
                               else (case sil_encode codec (sil\<lparr>sil_Matchers := modified\<rparr>) of
                                       Inl err \<Rightarrow> Inl (ApiError (''can'' @ [CHR 0x27] @ ''t encode: '' @ err) 500)
                                     | Inr buf \<Rightarrow> Inr (set_raw_query [] (set_body buf r)))))))"

definition WithEnforceTenancyOnSilenceMatchers :: "'x silence_codec \<Rightarrow> string \<Rightarrow> 's middleware" where
  "WithEnforceTenancyOnSilenceMatchers codec label = guard_mw (silence_check codec label)"

text \<open>Looking a silence up in Alertmanager.\<close>

datatype silence_error = SilenceNotFound | SilenceError string

type_synonym silence_store = "string \<Rightarrow> silence_error + am_matcher option list"

text \<open>Null fields are dereferenced and panic: \<open>None\<close>.  The equality flag is not looked at.\<close>

fun hasMatcherForLabel :: "am_matcher option list \<Rightarrow> string \<Rightarrow> string \<Rightarrow> bool option" where
  "hasMatcherForLabel [] name val = Some False"
| "hasMatcherForLabel (None # ms) name val = None"
| "hasMatcherForLabel (Some m # ms) name val =
     (case am_Name m of None \<Rightarrow> None
      | Some n \<Rightarrow>
          if n \<noteq> name then hasMatcherForLabel ms name val
          else (case am_IsRegex m of None \<Rightarrow> None
                | Some rx \<Rightarrow>
                    if rx then hasMatcherForLabel ms name val
                    else (case am_Value m of None \<Rightarrow> None
                          | Some v \<Rightarrow> if v = val then Some True else hasMatcherForLabel ms name val)))"

definition silence_id_check :: "silence_store \<Rightarrow> string \<Rightarrow> request \<Rightarrow> reply + request" where
  "silence_id_check getSilenceByID label r =
     (let silID = url_param r ''silenceID'' in
      if silID = [] then Inl (ApiError ''bad request'' 400)
      else (case GetTenant (Ctx r) of
              (tenant, ok) \<Rightarrow>
                if \<not> ok then Inl (ApiError ''error finding tenant'' 500)
                else (case getSilenceByID silID of
                        Inl SilenceNotFound \<Rightarrow> Inl (StatusOnly 404)
                      | Inl (SilenceError err) \<Rightarrow> Inl (ApiError (''proxy error: '' @ err) 502)
                      | Inr matchers \<Rightarrow>
                          (case hasMatcherForLabel matchers label tenant of
                             None \<Rightarrow> Inl Abort
                           | Some False \<Rightarrow> Inl (ApiError ''forbidden'' 403)
                           | Some True \<Rightarrow> Inr (set_raw_query [] r)))))"

definition WithEnforceTenancyOnSilenceID :: "silence_store \<Rightarrow> string \<Rightarrow> 's middleware" where
  "WithEnforceTenancyOnSilenceID getSilenceByID label = guard_mw (silence_id_check getSilenceByID label)"

section \<open>Lemmas\<close>

lemma keep_filters_Some:
  "keep_filters parse label fs = Some ks \<longleftrightarrow>
     (\<forall>f \<in> set fs. parse f \<noteq> None) \<and> ks = filter (\<lambda>f. parse f \<noteq> Some label) fs"
  by (induction fs arbitrary: ks) (auto split: option.splits)

lemma other_matchers_Some:
  "other_matchers label ms = Some ks \<Longrightarrow>
     None \<notin> set ms \<and> ks = filter (\<lambda>m. am_Name (the m) \<noteq> Some label) ms"
  by (induction label ms arbitrary: ks rule: other_matchers.induct) (auto split: if_splits)

lemma hasMatcherForLabel_True:
  "hasMatcherForLabel ms name val = Some True \<Longrightarrow>
   \<exists>m. Some m \<in> set ms \<and> am_Name m = Some name \<and> am_IsRegex m = Some False \<and> am_Value m = Some val"
proof (induction ms)
  case (Cons a ms)
  thus ?case by (cases a) (auto split: option.splits if_splits)
qed simp

section \<open>Properties\<close>



text \<open>
  C16. A silence that passes \<open>WithEnforceTenancyOnSilenceMatchers\<close> is a POST of
  a new silence whose encoded matchers are the tenant's equality matcher
  and at least one matcher of the caller on another label; the query string is gone.
\<close>

theorem silence_matchers_enforced:
  assumes "WithEnforceTenancyOnSilenceMatchers codec label forward r w s = (Forwarded r' w', s')"
  shows "\<exists>tenant b sil others b'. tenantKey (Ctx r) = Some tenant \<and> Method r = ''POST'' \<and> Body r = Body_ok b
    \<and> sil_decode codec b = Inr sil \<and> sil_ID sil = []
    \<and> others = filter (\<lambda>m. am_Name (the m) \<noteq> Some label) (sil_Matchers sil) \<and> others \<noteq> [] \<and> None \<notin> set others
    \<and> sil_encode codec (sil\<lparr>sil_Matchers := Some (tenant_silence_matcher label tenant) # others\<rparr>) = Inr b'
    \<and> Body r' = Body_ok b' \<and> ContentLength r' = int (length b') \<and> RawQuery (URL r') = []"
proof -
  have "silence_check codec label r = Inr r'"
    using assms by (simp add: WithEnforceTenancyOnSilenceMatchers_def guard_mw_forward)
  then obtain tenant b sil others b' where *: "tenantKey (Ctx r) = Some tenant" "Method r = ''POST''" "Body r = Body_ok b"
    "sil_decode codec b = Inr sil" "sil_ID sil = []" "other_matchers label (sil_Matchers sil) = Some others"
    "others \<noteq> []" "sil_encode codec (sil\<lparr>sil_Matchers := Some (tenant_silence_matcher label tenant) # others\<rparr>) = Inr b'"
    "r' = set_raw_query [] (set_body b' r)"
    by (auto simp: silence_check_def GetTenant_def Let_def split: option.splits if_splits body.splits sum.splits)
  from other_matchers_Some [OF *(6)] * show ?thesis
    by (auto simp: set_raw_query_def)
qed

definition sample_codec :: "unit silence_codec" where
  "sample_codec = \<lparr>sil_decode = \<lambda>b. Inr \<lparr>sil_ID = [], sil_Matchers = [Some \<lparr>am_Name = Some ''severity'', am_Value = Some b,
       am_IsRegex = Some True, am_IsEqual = Some True\<rparr>], sil_rest = ()\<rparr>,
     sil_encode = \<lambda>sil. Inr (concat (map (\<lambda>m. the (am_Name (the m))) (sil_Matchers sil)))\<rparr>"

theorem silence_matchers_enforced_witness:
  "let r = set_tenant ''team-a'' (plain_request\<lparr>Method := ''POST'', Body := Body_ok ''critical''\<rparr>) in
   \<exists>r'. WithEnforceTenancyOnSilenceMatchers sample_codec ''tenant_id'' forward r new_writer () = (Forwarded r' new_writer, ())
      \<and> Body r' = Body_ok ''tenant_idseverity''"
proof -
  define r where "r = set_tenant ''team-a'' (plain_request\<lparr>Method := ''POST'', Body := Body_ok ''critical''\<rparr>)"
  have r: "tenantKey (Ctx r) = Some ''team-a''" "Method r = ''POST''" "Body r = Body_ok ''critical''"
    by (simp_all add: r_def set_tenant_def)
  obtain r' where r': "WithEnforceTenancyOnSilenceMatchers sample_codec ''tenant_id'' forward r new_writer () = (Forwarded r' new_writer, ())"
    by (simp add: WithEnforceTenancyOnSilenceMatchers_def guard_mw_def silence_check_def GetTenant_def r
        sample_codec_def tenant_silence_matcher_def Let_def forward_def)
  from silence_matchers_enforced [OF this] have "Body r' = Body_ok ''tenant_idseverity''"
    by (auto simp: r sample_codec_def tenant_silence_matcher_def)
  thus ?thesis using r' unfolding r_def [symmetric] Let_def by blast
qed

text \<open>
  C18. A silence addressed by its identifier is reachable only for a tenant
  that one of the silence's non-regex matchers on the tenant label names; the
  query string is dropped.
\<close>

theorem silence_id_requires_tenant_matcher:
  assumes "WithEnforceTenancyOnSilenceID store label forward r w s = (Forwarded r' w', s')"
  shows "\<exists>tenant ms m. tenantKey (Ctx r) = Some tenant \<and> store (url_param r ''silenceID'') = Inr ms \<and> Some m \<in> set ms
    \<and> am_Name m = Some label \<and> am_Value m = Some tenant \<and> am_IsRegex m = Some False
    \<and> r' = set_raw_query [] r"
  using assms
  by (auto simp: WithEnforceTenancyOnSilenceID_def guard_mw_forward silence_id_check_def GetTenant_def Let_def
      split: option.splits if_splits sum.splits silence_error.splits bool.splits dest: hasMatcherForLabel_True)

theorem silence_id_requires_tenant_matcher_witness:
  "let m = tenant_silence_matcher ''tenant_id'' ''team-a'';
       r = with_ctx (\<lambda>c. c\<lparr>tenantKey := Some ''team-a'', urlParams := Some [(''silenceID'', ''7'')]\<rparr>) plain_request
   in WithEnforceTenancyOnSilenceID (\<lambda>id. Inr [Some m]) ''tenant_id'' forward r new_writer () = (Forwarded (set_raw_query [] r) new_writer, ())
      \<and> tenantKey (Ctx r) = Some ''team-a''"
proof -
  define r where "r = with_ctx (\<lambda>c. c\<lparr>tenantKey := Some ''team-a'', urlParams := Some [(''silenceID'', ''7'')]\<rparr>) plain_request"
  have "WithEnforceTenancyOnSilenceID (\<lambda>id. Inr [Some (tenant_silence_matcher ''tenant_id'' ''team-a'')]) ''tenant_id'' forward r new_writer ()
      = (Forwarded (set_raw_query [] r) new_writer, ())"
    by (simp add: WithEnforceTenancyOnSilenceID_def guard_mw_def silence_id_check_def GetTenant_def url_param_def
        r_def tenant_silence_matcher_def Let_def forward_def)
  moreover from silence_id_requires_tenant_matcher [OF this] have "tenantKey (Ctx r) = Some ''team-a''"
    by (auto simp: tenant_silence_matcher_def)
  ultimately show ?thesis by (simp add: r_def Let_def)
qed


text \<open>
  An alert filter that does not parse gets no answer from the gateway: nothing is
  written and the next handler is not called, so that the client sees an
  empty response with status 200.
\<close>

theorem alert_filter_syntax_error_is_silent:
  assumes "tenantKey (Ctx r) = Some tenant"
    and "f \<in> set (values_of (url_query (URL r)) ''filter'')" "parse f = None"
  shows "WithEnforceTenancyOnFilter parse ms label nxt r new_writer s = (Responded new_writer, s)
       \<and> final_status new_writer = 200 \<and> wbody new_writer = []"
proof -
  have "keep_filters parse label (values_of (url_query (URL r)) ''filter'') = None"
  proof (rule ccontr)
    assume "keep_filters parse label (values_of (url_query (URL r)) ''filter'') \<noteq> None"
    hence "\<forall>f \<in> set (values_of (url_query (URL r)) ''filter''). parse f \<noteq> None"
      by (auto simp: keep_filters_Some)
    thus False using assms(2,3) by blast
  qed
  thus ?thesis
    by (simp add: WithEnforceTenancyOnFilter_def guard_mw_def filter_check_def GetTenant_def assms(1) Let_def
        final_status_def new_writer_def)
qed

theorem alert_filter_syntax_error_is_silent_witness:
  "let r = set_tenant ''team-a'' (set_raw_query ''filter=bad'' plain_request) in
   WithEnforceTenancyOnFilter (\<lambda>f. None) mname ''tenant_id'' forward r new_writer () = (Responded new_writer, ())"
proof -
  define r where "r = set_tenant ''team-a'' (set_raw_query ''filter=bad'' plain_request)"
  have "values_of (url_query (URL r)) ''filter'' = [''bad'']"
    by (simp add: r_def set_tenant_def url_query_def parse_query_def parse_setting_def cut_at_def
        values_add_def values_of_def)
  moreover have "tenantKey (Ctx r) = Some ''team-a''" by (simp add: r_def set_tenant_def)
  ultimately show ?thesis
    using alert_filter_syntax_error_is_silent [of r "''team-a''" "''bad''" "\<lambda>f. None" mname "''tenant_id''" forward "()"]
    unfolding r_def [symmetric] Let_def by simp
qed

end
