(* ===== verification/Rule_Files.thy ===== *)
theory Rule_Files
  imports Metrics_Enforcer
begin

text \<open>
  Rule files: the types of \<open>rules/rules.go\<close> and \<open>rules/custom_types.go\<close>, the rules endpoint of
  metrics (\<open>api/metrics/v1/rules.go\<close>) and the middlewares for the rules of
  logs (\<open>api/logs/v1/rules.go\<close>).  A rule is kept as a JSON value that is read either as
  a recording or as an alerting rule.  Maps keep the order of their association
  lists in JSON, where the code sorts the keys; the YAML library is a parameter.
\<close>

section \<open>Definitions\<close>

subsection \<open>Rules\<close>

record RecordingRule =
  rr_Expr :: string
  rr_Labels :: "(string \<times> string) list"
  rr_Record :: string

record AlertingRule =
  ar_Alert :: string
  ar_Annotations :: "(string \<times> string) list"
  ar_Expr :: string
  ar_For :: string
  ar_Labels :: "(string \<times> string) list"

record RuleGroup =
  rg_Interval :: string
  rg_Name :: string
  rg_Rules :: "json list"

record Rules =
  Groups :: "RuleGroup list"

text \<open>A field of type \<open>map[string]string\<close>; a null value is the empty string.\<close>

definition decode_map_entry :: "string \<times> json \<Rightarrow> (string \<times> string) option" where
  "decode_map_entry kv =
     (case snd kv of JStr s \<Rightarrow> Some (fst kv, s) | JNull \<Rightarrow> Some (fst kv, []) | _ \<Rightarrow> None)"

definition decode_map :: "string \<Rightarrow> (string \<times> json) list \<Rightarrow> (string \<times> string) list option" where
  "decode_map k ms =
     (case json_field k ms of
        None \<Rightarrow> Some []
      | Some (JObj kvs) \<Rightarrow>
          map_option (\<lambda>es. fold (\<lambda>(a, b). AList.update a b) es []) (those (map decode_map_entry kvs))
      | Some _ \<Rightarrow> None)"

definition map_json :: "(string \<times> string) list \<Rightarrow> json" where
  "map_json m = JObj (map (\<lambda>(k, v). (k, JStr v)) m)"

definition json_members :: "json \<Rightarrow> (string \<times> json) list option" where
  "json_members j = (case j of JObj ms \<Rightarrow> Some ms | JNull \<Rightarrow> Some [] | _ \<Rightarrow> None)"

definition AsRecordingRule :: "json \<Rightarrow> RecordingRule option" where
  "AsRecordingRule t =
     (case json_members t of
        None \<Rightarrow> None
      | Some ms \<Rightarrow>
          (case (decode_string ''expr'' ms, decode_map ''labels'' ms, decode_string ''record'' ms) of
             (Some e, Some l, Some r) \<Rightarrow> Some \<lparr>rr_Expr = e, rr_Labels = l, rr_Record = r\<rparr>
           | _ \<Rightarrow> None))"

definition FromRecordingRule :: "RecordingRule \<Rightarrow> json" where
  "FromRecordingRule v =
     JObj ([(''expr'', JStr (rr_Expr v))]
           @ (if rr_Labels v = [] then [] else [(''labels'', map_json (rr_Labels v))])
           @ [(''record'', JStr (rr_Record v))])"

definition AsAlertingRule :: "json \<Rightarrow> AlertingRule option" where
  "AsAlertingRule t =
     (case json_members t of
        None \<Rightarrow> None
      | Some ms \<Rightarrow>
          (case (decode_string ''alert'' ms, decode_map ''annotations'' ms, decode_string ''expr'' ms,
                 decode_string ''for'' ms, decode_map ''labels'' ms) of
             (Some a, Some an, Some e, Some f, Some l) \<Rightarrow>
               Some \<lparr>ar_Alert = a, ar_Annotations = an, ar_Expr = e, ar_For = f, ar_Labels = l\<rparr>
           | _ \<Rightarrow> None))"

definition FromAlertingRule :: "AlertingRule \<Rightarrow> json" where
  "FromAlertingRule v =
     JObj ([(''alert'', JStr (ar_Alert v))]
           @ (if ar_Annotations v = [] then [] else [(''annotations'', map_json (ar_Annotations v))])
           @ [(''expr'', JStr (ar_Expr v)), (''for'', JStr (ar_For v))]
           @ (if ar_Labels v = [] then [] else [(''labels'', map_json (ar_Labels v))]))"

definition IsRecordingRule :: "json \<Rightarrow> bool" where
  "IsRecordingRule t = (case AsRecordingRule t of None \<Rightarrow> False | Some ar \<Rightarrow> rr_Record ar \<noteq> [])"

definition IsAlertingRule :: "json \<Rightarrow> bool" where
  "IsAlertingRule t = (case AsAlertingRule t of None \<Rightarrow> False | Some ar \<Rightarrow> ar_Alert ar \<noteq> [])"

text \<open>The YAML library on the two document types.\<close>

record rules_yaml =
  Unmarshal_Rules :: "string \<Rightarrow> string + Rules"
  Marshal_Rules :: "Rules \<Rightarrow> string + string"
  Unmarshal_RuleGroup :: "string \<Rightarrow> string + RuleGroup"
  Marshal_RuleGroup :: "RuleGroup \<Rightarrow> string + string"

subsection \<open>The rules of metrics\<close>

definition enforceLabelsInExpr :: "'e promql \<Rightarrow> matcher list \<Rightarrow> string \<Rightarrow> string + string" where
  "enforceLabelsInExpr pq e expr =
     (case pq_parse pq expr of
        Inl err \<Rightarrow> Inl (''parse expr error: '' @ err)
      | Inr parsedExpr \<Rightarrow>
          (case pq_enforce_node pq e parsedExpr of
             Inl err \<Rightarrow> Inl (''enforce node error: '' @ err)
           | Inr parsedExpr' \<Rightarrow> Inr (pq_print pq parsedExpr')))"

definition tenant_matcher :: "string \<Rightarrow> string \<Rightarrow> matcher" where
  "tenant_matcher tenantLabel tenantID = \<lparr>mtype = MatchEqual, mname = tenantLabel, mvalue = tenantID\<rparr>"

definition metrics_enforce_rule :: "'e promql \<Rightarrow> string \<Rightarrow> string \<Rightarrow> json \<Rightarrow> string + json" where
  "metrics_enforce_rule pq tenantLabel tenantID r =
     (let e = [tenant_matcher tenantLabel tenantID] in
      if IsRecordingRule r then
        (case AsRecordingRule r of
           None \<Rightarrow> Inl ''failed to convert recording rule''
         | Some rr \<Rightarrow>
             (case enforceLabelsInExpr pq e (rr_Expr rr) of
                Inl err \<Rightarrow> Inl err
              | Inr expr \<Rightarrow>
                  Inr (FromRecordingRule
                    (rr\<lparr>rr_Labels := AList.update tenantLabel tenantID (rr_Labels rr), rr_Expr := expr\<rparr>))))
      else if IsAlertingRule r then
        (case AsAlertingRule r of
           None \<Rightarrow> Inl ''failed to convert alerting rule''
         | Some ar \<Rightarrow>
             (case enforceLabelsInExpr pq e (ar_Expr ar) of
                Inl err \<Rightarrow> Inl err
              | Inr expr \<Rightarrow>
                  Inr (FromAlertingRule
                    (ar\<lparr>ar_Labels := AList.update tenantLabel tenantID (ar_Labels ar), ar_Expr := expr\<rparr>))))
      else Inl ''failed to convert rule type'')"

definition Metrics_enforceLabelsInRules :: "'e promql \<Rightarrow> Rules \<Rightarrow> string \<Rightarrow> string \<Rightarrow> string + Rules" where
  "Metrics_enforceLabelsInRules pq rawRules tenantLabel tenantID =
     (case traverse (\<lambda>g. case traverse (metrics_enforce_rule pq tenantLabel tenantID) (rg_Rules g) of
                           Inl err \<Rightarrow> Inl err | Inr rs \<Rightarrow> Inr (g\<lparr>rg_Rules := rs\<rparr>)) (Groups rawRules) of
        Inl err \<Rightarrow> Inl err
      | Inr gs \<Rightarrow> Inr (rawRules\<lparr>Groups := gs\<rparr>))"

definition unmarshalRules :: "rules_yaml \<Rightarrow> body \<Rightarrow> string + Rules" where
  "unmarshalRules yaml r = (case r of Body_err err \<Rightarrow> Inl err | Body_ok b \<Rightarrow> Unmarshal_Rules yaml b)"

text \<open>
  The client of the rules backend: per call a response and possibly an error, on the
  state \<open>'s\<close> of the backend.
\<close>

record http_response =
  StatusCode :: nat
  RespBody :: body

type_synonym client_result = "http_response option \<times> string option"

record 's rules_client =
  ListRules :: "string \<Rightarrow> 's \<Rightarrow> client_result \<times> 's"
  SetRulesWithBody :: "string \<Rightarrow> string \<Rightarrow> string \<Rightarrow> 's \<Rightarrow> client_result \<times> 's"

definition rulesHandler_get :: "'e promql \<Rightarrow> rules_yaml \<Rightarrow> 's rules_client \<Rightarrow> string \<Rightarrow> 's handler" where
  "rulesHandler_get pq yaml client tenantLabel r w s =
     (case GetTenant (Ctx r) of
        (tenant, ok) \<Rightarrow>
          if \<not> ok then (Responded (PrometheusAPIError w ''error finding tenant'' 401), s)
          else (case ListRules client tenant s of
            ((resp, Some err), s') \<Rightarrow>
              (Responded (PrometheusAPIError w ''error listing rules''
                 (case resp of None \<Rightarrow> 500 | Some rs \<Rightarrow> StatusCode rs)), s')
          | ((None, None), s') \<Rightarrow> (Responded (send_reply Abort w), s')
          | ((Some resp, None), s') \<Rightarrow>
              (if StatusCode resp div 100 \<noteq> 2 then
                 (Responded (PrometheusAPIError w
                    (if StatusCode resp = 404 then ''no rules found'' else ''error listing rules'') (StatusCode resp)), s')
               else (case unmarshalRules yaml (RespBody resp) of
                 Inl _ \<Rightarrow> (Responded (PrometheusAPIError w ''error unmarshaling rules'' 500), s')
               | Inr rawRules \<Rightarrow>
                   (case Metrics_enforceLabelsInRules pq rawRules tenantLabel tenant of
                      Inl _ \<Rightarrow> (Responded (PrometheusAPIError w ''failed to process rules'' 500), s')
                    | Inr rules' \<Rightarrow>
                        (case Marshal_Rules yaml rules' of
                           Inl _ \<Rightarrow> (Responded (PrometheusAPIError w ''error marshaling rules YAML'' 500), s')
                         | Inr b \<Rightarrow> (Responded (write_body b w), s')))))))"

definition rulesHandler_put :: "'e promql \<Rightarrow> rules_yaml \<Rightarrow> 's rules_client \<Rightarrow> string \<Rightarrow> 's handler" where
  "rulesHandler_put pq yaml client tenantLabel r w s =
     (case GetTenant (Ctx r) of
        (tenant, ok) \<Rightarrow>
          if \<not> ok then (Responded (PrometheusAPIError w ''error finding tenant'' 401), s)
          else (case unmarshalRules yaml (Body r) of
            Inl _ \<Rightarrow> (Responded (PrometheusAPIError w ''error unmarshaling rules'' 500), s)
          | Inr rawRules \<Rightarrow>
              (case Metrics_enforceLabelsInRules pq rawRules tenantLabel tenant of
                 Inl _ \<Rightarrow> (Responded (PrometheusAPIError w ''failed to process rules'' 500), s)
               | Inr rules' \<Rightarrow>
                   (case Marshal_Rules yaml rules' of
                      Inl _ \<Rightarrow> (Responded (PrometheusAPIError w ''error marshaling rules YAML'' 500), s)
                    | Inr b \<Rightarrow>
                        (case SetRulesWithBody client tenant (header_get (Header r) ''Content-type'') b s of
                           ((resp, Some err), s') \<Rightarrow>
                             (Responded (PrometheusAPIError w ''error creating rules''
                                (case resp of None \<Rightarrow> 500 | Some rs \<Rightarrow> StatusCode rs)), s')
                         | ((None, None), s') \<Rightarrow> (Responded (send_reply Abort w), s')
                         | ((Some resp, None), s') \<Rightarrow>
                             (let w' = write_header (StatusCode resp) w in
                              case RespBody resp of
                                Body_ok rb \<Rightarrow> (Responded (write_body rb w'), s')
                              | Body_err _ \<Rightarrow>
                                  (Responded (PrometheusAPIError w' ''error writing rules response'' 500), s')))))))"

subsection \<open>The rules of logs\<close>

definition logs_enforce_rule :: "string \<Rightarrow> string \<Rightarrow> json \<Rightarrow> string + json" where
  "logs_enforce_rule tenantLabel tenantID r =
     (if IsRecordingRule r then
        (case AsRecordingRule r of
           None \<Rightarrow> Inl ''failed to convert recording rule''
         | Some rr \<Rightarrow> Inr (FromRecordingRule (rr\<lparr>rr_Labels := AList.update tenantLabel tenantID (rr_Labels rr)\<rparr>)))
      else if IsAlertingRule r then
        (case AsAlertingRule r of
           None \<Rightarrow> Inl ''failed to convert alerting rule''
         | Some ar \<Rightarrow> Inr (FromAlertingRule (ar\<lparr>ar_Labels := AList.update tenantLabel tenantID (ar_Labels ar)\<rparr>)))
      else Inl ''failed to convert rule type'')"

definition Logs_enforceLabelsInRules :: "RuleGroup \<Rightarrow> string \<Rightarrow> string \<Rightarrow> string + RuleGroup" where
  "Logs_enforceLabelsInRules rg tenantLabel tenantID =
     (case traverse (logs_enforce_rule tenantLabel tenantID) (rg_Rules rg) of
        Inl err \<Rightarrow> Inl err | Inr rs \<Rightarrow> Inr (rg\<lparr>rg_Rules := rs\<rparr>))"

definition unmarshalRuleGroup :: "rules_yaml \<Rightarrow> body \<Rightarrow> string + RuleGroup" where
  "unmarshalRuleGroup yaml r = (case r of Body_err err \<Rightarrow> Inl err | Body_ok b \<Rightarrow> Unmarshal_RuleGroup yaml b)"

definition rule_labels_check :: "rules_yaml \<Rightarrow> string \<Rightarrow> request \<Rightarrow> reply + request" where
  "rule_labels_check yaml tenantLabel r =
     (case GetTenant (Ctx r) of
        (tenant, ok) \<Rightarrow>
          if \<not> ok then Inl (ApiError ''error finding tenant'' 401)
          else (case unmarshalRuleGroup yaml (Body r) of
            Inl _ \<Rightarrow> Inl (ApiError ''error unmarshalling rule group'' 500)
          | Inr grp \<Rightarrow>
              (case Logs_enforceLabelsInRules grp tenantLabel tenant of
                 Inl _ \<Rightarrow> Inl (ApiError ''error enforing labels into rules'' 500)
               | Inr grp' \<Rightarrow>
                   (case Marshal_RuleGroup yaml grp' of
                      Inl _ \<Rightarrow> Inl (ApiError ''error marshaling rules YAML'' 500)
                    | Inr b \<Rightarrow> Inr (r\<lparr>Body := Body_ok b, ContentLength := int (length b)\<rparr>)))))"

definition WithEnforceRuleLabels :: "rules_yaml \<Rightarrow> string \<Rightarrow> 's middleware" where
  "WithEnforceRuleLabels yaml tenantLabel = guard_mw (rule_labels_check yaml tenantLabel)"

definition rule_namespace_check :: "request \<Rightarrow> reply + request" where
  "rule_namespace_check r =
     (case GetTenant (Ctx r) of
        (tenant, ok) \<Rightarrow>
          if \<not> ok then Inl (ApiError ''error finding tenant ID'' 401)
          else if urlParams (Ctx r) = None then Inl (ApiError ''error finding route context'' 500)
          else (let grp = url_param r ''groupName''; namespace = url_param r ''namespace'' in
                if namespace = ''test'' \<and> grp = ''test'' then Inl (ApiError ''page not found'' 404)
                else if namespace \<noteq> [] \<and> tenant \<noteq> namespace then
                  Inl (ApiError ''error tenant not matching namespace'' 400)
                else Inr r))"

definition WithEnforceTenantAsRuleNamespace :: "'s middleware" where
  "WithEnforceTenantAsRuleNamespace = guard_mw rule_namespace_check"

section \<open>Lemmas\<close>

text \<open>The labels of a rule, of either kind, and its expression.\<close>

definition rule_labels :: "json \<Rightarrow> (string \<times> string) list option" where
  "rule_labels r =
     (if IsRecordingRule r then map_option rr_Labels (AsRecordingRule r)
      else if IsAlertingRule r then map_option ar_Labels (AsAlertingRule r) else None)"

definition rule_expr :: "json \<Rightarrow> string option" where
  "rule_expr r =
     (if IsRecordingRule r then map_option rr_Expr (AsRecordingRule r)
      else if IsAlertingRule r then map_option ar_Expr (AsAlertingRule r) else None)"

lemma those_map_json [simp]: "those (map (decode_map_entry \<circ> (\<lambda>(k, v). (k, JStr v))) m) = Some m"
  by (induction m) (auto simp: decode_map_entry_def)

lemma fold_update_map_of:
  "distinct (map fst es) \<Longrightarrow>
   map_of (fold (\<lambda>(a, b). AList.update a b) es m) = map_of m ++ map_of es"
proof (induction es arbitrary: m)
  case (Cons e es)
  obtain k v where e: "e = (k, v)" by fastforce
  have "k \<notin> dom (map_of es)" using Cons.prems e by (simp add: dom_map_of_conv_image_fst)
  hence "map_of es k = None" by auto
  thus ?case using Cons e by (auto simp: fun_eq_iff update_conv' map_add_def split: option.splits)
qed simp

lemma fold_update_keys: "distinct (map fst m) \<Longrightarrow> distinct (map fst (fold (\<lambda>(a, b). AList.update a b) es m))"
  by (induction es arbitrary: m) (auto simp: distinct_update)

lemma decode_map_distinct: "decode_map k ms = Some l \<Longrightarrow> distinct (map fst l)"
  by (auto simp: decode_map_def fold_update_keys split: option.splits json.splits)

text \<open>Evaluation of the fields of the rules that the gateway writes.\<close>

lemmas field_eval = json_field_def to_upper_def is_lower_def char_of_eq_iff take_bit_eq_mod map_json_def

lemma recording_read_back:
  assumes "distinct (map fst (rr_Labels v))" "rr_Record v \<noteq> []"
  shows "\<exists>l. AsRecordingRule (FromRecordingRule v) = Some (v\<lparr>rr_Labels := l\<rparr>) \<and> map_of l = map_of (rr_Labels v)"
proof -
  define ms where "ms = [(''expr'', JStr (rr_Expr v))] @ (if rr_Labels v = [] then [] else [(''labels'', map_json (rr_Labels v))])
             @ [(''record'', JStr (rr_Record v))]"
  have "decode_string ''expr'' ms = Some (rr_Expr v)" "decode_string ''record'' ms = Some (rr_Record v)"
    by (simp_all add: decode_string_def field_eval ms_def)
  moreover have "\<exists>l. decode_map ''labels'' ms = Some l \<and> map_of l = map_of (rr_Labels v)"
    using assms(1) by (simp add: decode_map_def field_eval fold_update_map_of ms_def)
  moreover have "FromRecordingRule v = JObj ms" by (simp add: FromRecordingRule_def ms_def)
  ultimately show ?thesis by (cases v) (auto simp: AsRecordingRule_def json_members_def)
qed

lemma alerting_read_back:
  assumes "distinct (map fst (ar_Labels v))" "distinct (map fst (ar_Annotations v))"
  shows "\<exists>l an. AsAlertingRule (FromAlertingRule v) = Some (v\<lparr>ar_Labels := l, ar_Annotations := an\<rparr>)
           \<and> map_of l = map_of (ar_Labels v) \<and> map_of an = map_of (ar_Annotations v)"
    and "\<not> IsRecordingRule (FromAlertingRule v)"
proof -
  define ms where "ms = [(''alert'', JStr (ar_Alert v))]
           @ (if ar_Annotations v = [] then [] else [(''annotations'', map_json (ar_Annotations v))])
           @ [(''expr'', JStr (ar_Expr v)), (''for'', JStr (ar_For v))]
           @ (if ar_Labels v = [] then [] else [(''labels'', map_json (ar_Labels v))])"
  have strs: "decode_string ''alert'' ms = Some (ar_Alert v)" "decode_string ''expr'' ms = Some (ar_Expr v)"
    "decode_string ''for'' ms = Some (ar_For v)" "decode_string ''record'' ms = Some []"
    by (simp_all add: decode_string_def field_eval ms_def)
  have labs: "\<exists>l. decode_map ''labels'' ms = Some l \<and> map_of l = map_of (ar_Labels v)"
    using assms(1) by (simp add: decode_map_def field_eval fold_update_map_of ms_def)
  have anns: "\<exists>l. decode_map ''annotations'' ms = Some l \<and> map_of l = map_of (ar_Annotations v)"
    using assms(2) by (simp add: decode_map_def field_eval fold_update_map_of ms_def)
  have eq: "FromAlertingRule v = JObj ms" by (simp add: FromAlertingRule_def ms_def)
  show "\<exists>l an. AsAlertingRule (FromAlertingRule v) = Some (v\<lparr>ar_Labels := l, ar_Annotations := an\<rparr>)
           \<and> map_of l = map_of (ar_Labels v) \<and> map_of an = map_of (ar_Annotations v)"
    using strs labs anns eq by (cases v) (auto simp: AsAlertingRule_def json_members_def)
  show "\<not> IsRecordingRule (FromAlertingRule v)"
    using strs labs eq by (auto simp: IsRecordingRule_def AsRecordingRule_def json_members_def)
qed

text \<open>What an enforced rule looks like to a reader of the file.\<close>

definition rule_carries :: "string \<Rightarrow> string \<Rightarrow> json \<Rightarrow> bool" where
  "rule_carries k v r \<longleftrightarrow> (\<exists>l. rule_labels r = Some l \<and> map_of l k = Some v)"

lemma recording_carries:
  assumes "AsRecordingRule r = Some rr" "rr_Record rr \<noteq> []"
  shows "rule_carries k v (FromRecordingRule (rr\<lparr>rr_Labels := AList.update k v (rr_Labels rr), rr_Expr := e\<rparr>))"
    and "rule_expr (FromRecordingRule (rr\<lparr>rr_Labels := AList.update k v (rr_Labels rr), rr_Expr := e\<rparr>)) = Some e"
proof -
  let ?v = "rr\<lparr>rr_Labels := AList.update k v (rr_Labels rr), rr_Expr := e\<rparr>"
  have "distinct (map fst (rr_Labels rr))"
    using assms(1) decode_map_distinct by (auto simp: AsRecordingRule_def split: option.splits)
  hence d: "distinct (map fst (rr_Labels ?v))" by (simp add: distinct_update)
  obtain l where l: "AsRecordingRule (FromRecordingRule ?v) = Some (?v\<lparr>rr_Labels := l\<rparr>)" "map_of l = map_of (rr_Labels ?v)"
    using recording_read_back [OF d] assms(2) by auto
  have "IsRecordingRule (FromRecordingRule ?v)" using l(1) assms(2) by (simp add: IsRecordingRule_def)
  thus "rule_carries k v (FromRecordingRule ?v)" "rule_expr (FromRecordingRule ?v) = Some e"
    using l by (auto simp: rule_carries_def rule_labels_def rule_expr_def update_conv')
qed

lemma alerting_carries:
  assumes "AsAlertingRule r = Some ar" "ar_Alert ar \<noteq> []"
  shows "rule_carries k v (FromAlertingRule (ar\<lparr>ar_Labels := AList.update k v (ar_Labels ar), ar_Expr := e\<rparr>))"
    and "rule_expr (FromAlertingRule (ar\<lparr>ar_Labels := AList.update k v (ar_Labels ar), ar_Expr := e\<rparr>)) = Some e"
proof -
  let ?v = "ar\<lparr>ar_Labels := AList.update k v (ar_Labels ar), ar_Expr := e\<rparr>"
  have "distinct (map fst (ar_Labels ar))" "distinct (map fst (ar_Annotations ar))"
    using assms(1) decode_map_distinct by (auto simp: AsAlertingRule_def split: option.splits)
  hence d: "distinct (map fst (ar_Labels ?v))" "distinct (map fst (ar_Annotations ?v))" by (simp_all add: distinct_update)
  obtain l an where l: "AsAlertingRule (FromAlertingRule ?v) = Some (?v\<lparr>ar_Labels := l, ar_Annotations := an\<rparr>)"
      "map_of l = map_of (ar_Labels ?v)"
    using alerting_read_back(1) [OF d] by auto
  have "IsAlertingRule (FromAlertingRule ?v)" using l(1) assms(2) by (simp add: IsAlertingRule_def)
  thus "rule_carries k v (FromAlertingRule ?v)" "rule_expr (FromAlertingRule ?v) = Some e"
    using l alerting_read_back(2) [OF d] by (auto simp: rule_carries_def rule_labels_def rule_expr_def update_conv')
qed

lemma logs_enforce_rule_carries:
  assumes "logs_enforce_rule k v r = Inr r'"
  shows "rule_carries k v r' \<and> rule_expr r' = rule_expr r"
proof (cases "IsRecordingRule r")
  case True
  then obtain rr where rr: "AsRecordingRule r = Some rr" "rr_Record rr \<noteq> []"
    by (auto simp: IsRecordingRule_def split: option.splits)
  thus ?thesis using assms True recording_carries [OF rr, where k = k and v = v and e = "rr_Expr rr"]
    by (simp add: logs_enforce_rule_def rule_expr_def [of r])
next
  case False
  hence a: "IsAlertingRule r" using assms by (auto simp: logs_enforce_rule_def split: if_splits)
  then obtain ar where ar: "AsAlertingRule r = Some ar" "ar_Alert ar \<noteq> []"
    by (auto simp: IsAlertingRule_def split: option.splits)
  thus ?thesis using assms False a alerting_carries [OF ar, where k = k and v = v and e = "ar_Expr ar"]
    by (simp add: logs_enforce_rule_def rule_expr_def [of r])
qed

lemma metrics_enforce_rule_carries:
  assumes "metrics_enforce_rule pq k v r = Inr r'"
  shows "rule_carries k v r' \<and> (\<exists>e e'. rule_expr r = Some e \<and> rule_expr r' = Some e' \<and>
           enforce_value pq [tenant_matcher k v] e = Inr e')"
proof -
  have same: "enforceLabelsInExpr pq ms e = enforce_value pq ms e" for ms e
    by (simp add: enforceLabelsInExpr_def enforce_value_def)
  show ?thesis
  proof (cases "IsRecordingRule r")
    case True
    then obtain rr where rr: "AsRecordingRule r = Some rr" "rr_Record rr \<noteq> []"
      by (auto simp: IsRecordingRule_def split: option.splits)
    then obtain e where e: "enforce_value pq [tenant_matcher k v] (rr_Expr rr) = Inr e"
        "r' = FromRecordingRule (rr\<lparr>rr_Labels := AList.update k v (rr_Labels rr), rr_Expr := e\<rparr>)"
      using assms True by (auto simp: metrics_enforce_rule_def same Let_def split: sum.splits)
    thus ?thesis using True rr recording_carries [OF rr, where k = k and v = v and e = e] by (simp add: rule_expr_def [of r])
  next
    case False
    hence a: "IsAlertingRule r" using assms by (auto simp: metrics_enforce_rule_def Let_def split: if_splits)
    then obtain ar where ar: "AsAlertingRule r = Some ar" "ar_Alert ar \<noteq> []"
      by (auto simp: IsAlertingRule_def split: option.splits)
    then obtain e where e: "enforce_value pq [tenant_matcher k v] (ar_Expr ar) = Inr e"
        "r' = FromAlertingRule (ar\<lparr>ar_Labels := AList.update k v (ar_Labels ar), ar_Expr := e\<rparr>)"
      using assms False a by (auto simp: metrics_enforce_rule_def same Let_def split: sum.splits)
    thus ?thesis using False a ar alerting_carries [OF ar, where k = k and v = v and e = e] by (simp add: rule_expr_def [of r])
  qed
qed

text \<open>A rule of metrics as the backend may see it.\<close>

definition metrics_rule_safe :: "'e promql \<Rightarrow> ('e \<Rightarrow> matcher list list) \<Rightarrow> string \<Rightarrow> string \<Rightarrow> json \<Rightarrow> bool" where
  "metrics_rule_safe pq selectors k v r \<longleftrightarrow> rule_carries k v r \<and>
     (\<forall>e p sel. rule_expr r = Some e \<longrightarrow> pq_parse pq e = Inr p \<longrightarrow> sel \<in> set (selectors p) \<longrightarrow> tenant_matcher k v \<in> set sel)"

lemma metrics_rules_safe:
  assumes "promql_enforcer pq selectors" "Metrics_enforceLabelsInRules pq rs k v = Inr rs'"
  shows "\<forall>g \<in> set (Groups rs'). \<forall>r \<in> set (rg_Rules g). metrics_rule_safe pq selectors k v r"
proof -
  have one: "metrics_rule_safe pq selectors k v r'" if enf: "metrics_enforce_rule pq k v r = Inr r'" for r r'
  proof -
    obtain e e' where e: "rule_carries k v r'" "rule_expr r' = Some e'" "enforce_value pq [tenant_matcher k v] e = Inr e'"
      using metrics_enforce_rule_carries [OF enf] by blast
    have "promql_enforcer.safe pq selectors [tenant_matcher k v] e'"
      by (rule promql_enforcer.safe_enforced [OF assms(1) _ e(3)]) (simp add: matcher_names_distinct_def)
    thus ?thesis using e(1,2) by (auto simp: metrics_rule_safe_def promql_enforcer.safe_def [OF assms(1)])
  qed
  obtain gs where gs: "traverse (\<lambda>g. case traverse (metrics_enforce_rule pq k v) (rg_Rules g) of
                           Inl err \<Rightarrow> Inl err | Inr rs \<Rightarrow> Inr (g\<lparr>rg_Rules := rs\<rparr>)) (Groups rs) = Inr gs" "rs' = rs\<lparr>Groups := gs\<rparr>"
    using assms(2) by (auto simp: Metrics_enforceLabelsInRules_def split: sum.splits)
  have "\<forall>g \<in> set gs. \<forall>r \<in> set (rg_Rules g). metrics_rule_safe pq selectors k v r"
    using gs(1) by (rule traverse_Inr_all) (auto split: sum.splits dest: traverse_Inr_all [where P = "metrics_rule_safe pq selectors k v"] intro: one)
  thus ?thesis by (simp add: gs(2))
qed

section \<open>Properties\<close>

text \<open>
  C9. What a tenant can store as rules of metrics: a PUT of a rule file either leaves the rules backend
  untouched or sends it, under the tenant's name, a file in which every rule, recording or alerting,
  carries the tenant label with the tenant's name, and every selector of every expression
  has the tenant's matcher.
\<close>

theorem metrics_rules_put_enforced:
  assumes "promql_enforcer pq selectors" "GetTenant (Ctx r) = (tenant, True)"
    and "rulesHandler_put pq yaml client tenantLabel r w s = (out, s')"
  shows "s' = s \<or> (\<exists>rs b. Marshal_Rules yaml rs = Inr b
           \<and> s' = snd (SetRulesWithBody client tenant (header_get (Header r) ''Content-type'') b s)
           \<and> (\<forall>g \<in> set (Groups rs). \<forall>x \<in> set (rg_Rules g). metrics_rule_safe pq selectors tenantLabel tenant x))"
proof (cases "\<exists>raw rs b. unmarshalRules yaml (Body r) = Inr raw \<and> Metrics_enforceLabelsInRules pq raw tenantLabel tenant = Inr rs
                \<and> Marshal_Rules yaml rs = Inr b")
  case True
  then obtain raw rs b where e: "unmarshalRules yaml (Body r) = Inr raw"
      "Metrics_enforceLabelsInRules pq raw tenantLabel tenant = Inr rs" "Marshal_Rules yaml rs = Inr b"
    by blast
  obtain res s1 where c: "SetRulesWithBody client tenant (header_get (Header r) ''Content-type'') b s = (res, s1)" by fastforce
  have "s' = s1" using assms(2,3) e c
    by (auto simp: rulesHandler_put_def Let_def split: prod.splits option.splits body.splits)
  hence "s' = snd (SetRulesWithBody client tenant (header_get (Header r) ''Content-type'') b s)" using c by simp
  thus ?thesis using metrics_rules_safe [OF assms(1) e(2)] e(3) by blast
next
  case False
  hence "s' = s" using assms(2,3) by (auto simp: rulesHandler_put_def split: sum.splits)
  thus ?thesis by blast
qed

definition sample_rule :: json where
  "sample_rule = FromAlertingRule \<lparr>ar_Alert = ''Down'', ar_Annotations = [], ar_Expr = sel_print [[]], ar_For = ''5m'', ar_Labels = []\<rparr>"

definition sample_yaml :: rules_yaml where
  "sample_yaml =
     \<lparr>Unmarshal_Rules = (\<lambda>_. Inr \<lparr>Groups = [\<lparr>rg_Interval = ''1m'', rg_Name = ''g'', rg_Rules = [sample_rule]\<rparr>]\<rparr>),
      Marshal_Rules = (\<lambda>rs. Inr (concat (map json_print (concat (map rg_Rules (Groups rs)))))),
      Unmarshal_RuleGroup = (\<lambda>_. Inr \<lparr>rg_Interval = ''1m'', rg_Name = ''g'', rg_Rules = [sample_rule]\<rparr>),
      Marshal_RuleGroup = (\<lambda>g. Inr (concat (map json_print (rg_Rules g))))\<rparr>"

definition sample_client :: "string list rules_client" where
  "sample_client = \<lparr>ListRules = (\<lambda>t s. ((None, Some ''unused''), s)),
     SetRulesWithBody = (\<lambda>t ct b s. ((Some \<lparr>StatusCode = 200, RespBody = Body_ok []\<rparr>, None), s @ [b]))\<rparr>"

theorem metrics_rules_put_enforced_witness:
  "let r = plain_request\<lparr>Body := Body_ok ''rules'', Ctx := background\<lparr>tenantKey := Some ''a''\<rparr>\<rparr>;
       s' = snd (rulesHandler_put sel_promql sample_yaml sample_client ''tenant_id'' r new_writer [])
   in s' = [] \<or> (\<exists>rs b. Marshal_Rules sample_yaml rs = Inr b
           \<and> s' = snd (SetRulesWithBody sample_client ''a'' (header_get (Header r) ''Content-type'') b [])
           \<and> (\<forall>g \<in> set (Groups rs). \<forall>x \<in> set (rg_Rules g). metrics_rule_safe sel_promql id ''tenant_id'' ''a'' x))"
proof -
  define r where "r = plain_request\<lparr>Body := Body_ok ''rules'', Ctx := background\<lparr>tenantKey := Some ''a''\<rparr>\<rparr>"
  have "GetTenant (Ctx r) = (''a'', True)" by (simp add: r_def GetTenant_def)
  from metrics_rules_put_enforced [OF sel_enforcer.promql_enforcer_axioms this, of sample_yaml sample_client "''tenant_id''" new_writer "[]"]
  show ?thesis unfolding Let_def r_def [symmetric] id_def by (metis prod.collapse)
qed

text \<open>
  C29. A rule group for logs that passes \<open>WithEnforceRuleLabels\<close> reaches the backend with as many
  rules as it came with and in the same order; each keeps its expression and
  carries the tenant label with the tenant's name, whatever labels the caller gave it.
\<close>

theorem logs_rule_labels_enforced:
  assumes "WithEnforceRuleLabels yaml tenantLabel forward r w s = (Forwarded r' w', s')"
  shows "\<exists>tenant grp grp' b. GetTenant (Ctx r) = (tenant, True) \<and> unmarshalRuleGroup yaml (Body r) = Inr grp
           \<and> Marshal_RuleGroup yaml grp' = Inr b \<and> r' = r\<lparr>Body := Body_ok b, ContentLength := int (length b)\<rparr>
           \<and> list_all2 (\<lambda>x x'. rule_carries tenantLabel tenant x' \<and> rule_expr x' = rule_expr x) (rg_Rules grp) (rg_Rules grp')"
proof -
  have "rule_labels_check yaml tenantLabel r = Inr r'"
    using assms by (simp add: WithEnforceRuleLabels_def guard_mw_forward)
  then obtain tenant grp rs b where e: "GetTenant (Ctx r) = (tenant, True)" "unmarshalRuleGroup yaml (Body r) = Inr grp"
      "traverse (logs_enforce_rule tenantLabel tenant) (rg_Rules grp) = Inr rs"
      "Marshal_RuleGroup yaml (grp\<lparr>rg_Rules := rs\<rparr>) = Inr b" "r' = r\<lparr>Body := Body_ok b, ContentLength := int (length b)\<rparr>"
    by (auto simp: rule_labels_check_def Logs_enforceLabelsInRules_def split: prod.splits sum.splits if_splits)
  have "list_all2 (\<lambda>x x'. rule_carries tenantLabel tenant x' \<and> rule_expr x' = rule_expr x) (rg_Rules grp) rs"
    using e(3) unfolding traverse_Inr_iff by (rule list_all2_mono) (rule logs_enforce_rule_carries)
  thus ?thesis using e by (intro exI [of _ tenant] exI [of _ grp] exI [of _ "grp\<lparr>rg_Rules := rs\<rparr>"] exI [of _ b]) simp
qed

theorem logs_rule_labels_enforced_witness:
  "\<exists>r' tenant (grp :: RuleGroup) grp' b.
     WithEnforceRuleLabels sample_yaml ''tenant_id'' forward
       (plain_request\<lparr>Body := Body_ok ''g'', Ctx := background\<lparr>tenantKey := Some ''a''\<rparr>\<rparr>) new_writer () = (Forwarded r' new_writer, ())
     \<and> Marshal_RuleGroup sample_yaml grp' = Inr b
     \<and> list_all2 (\<lambda>x x'. rule_carries ''tenant_id'' tenant x' \<and> rule_expr x' = rule_expr x) (rg_Rules grp) (rg_Rules grp')"
proof -
  define r where "r = plain_request\<lparr>Body := Body_ok ''g'', Ctx := background\<lparr>tenantKey := Some ''a''\<rparr>\<rparr>"
  have t: "GetTenant (Ctx r) = (''a'', True)" by (simp add: r_def GetTenant_def)
  define v where "v = \<lparr>ar_Alert = ''Down'', ar_Annotations = [] :: (string \<times> string) list, ar_Expr = sel_print [[]],
    ar_For = ''5m'', ar_Labels = [] :: (string \<times> string) list\<rparr>"
  have v: "sample_rule = FromAlertingRule v" "ar_Alert v \<noteq> []" by (simp_all add: sample_rule_def v_def)
  have d: "distinct (map fst (ar_Labels v))" "distinct (map fst (ar_Annotations v))" by (simp_all add: v_def)
  obtain ar where ar: "AsAlertingRule sample_rule = Some ar" "ar_Alert ar \<noteq> []"
    using alerting_read_back(1) [OF d] v by auto
  have "IsAlertingRule sample_rule" "\<not> IsRecordingRule sample_rule"
    using ar alerting_read_back(2) [OF d] v(1) by (simp_all add: IsAlertingRule_def)
  hence "\<exists>x. logs_enforce_rule ''tenant_id'' ''a'' sample_rule = Inr x" using ar by (simp add: logs_enforce_rule_def)
  then obtain x where x: "logs_enforce_rule ''tenant_id'' ''a'' sample_rule = Inr x" by blast
  have "\<exists>r'. WithEnforceRuleLabels sample_yaml ''tenant_id'' forward r new_writer () = (Forwarded r' new_writer, ())"
    using t x by (simp add: WithEnforceRuleLabels_def guard_mw_forward rule_labels_check_def unmarshalRuleGroup_def
        Logs_enforceLabelsInRules_def sample_yaml_def forward_def r_def)
  then obtain r' where fwd: "WithEnforceRuleLabels sample_yaml ''tenant_id'' forward r new_writer () = (Forwarded r' new_writer, ())" by blast
  obtain tenant b and grp grp' :: RuleGroup where out: "Marshal_RuleGroup sample_yaml grp' = Inr b"
      "list_all2 (\<lambda>x x'. rule_carries ''tenant_id'' tenant x' \<and> rule_expr x' = rule_expr x) (rg_Rules grp) (rg_Rules grp')"
    using logs_rule_labels_enforced [OF fwd] by blast
  show ?thesis unfolding r_def [symmetric] by (intro exI conjI) (rule fwd out)+
qed

end
