(* ===== verification/OIDC.thy ===== *)
theory OIDC
  imports Providers
begin

text \<open>
  The OpenID Connect provider, \<open>authentication/oidc.go\<close>: the HTTP middleware, the gRPC
  interceptor and the check of ID tokens they share.  The token verifier is
  library code and a parameter.
\<close>

section \<open>Definitions\<close>

text \<open>A verified ID token; \<open>Claims\<close> is \<open>None\<close> when its payload does not decode.\<close>

record id_token =
  Subject :: string
  Claims :: "(string \<times> json) list option"

type_synonym verifier = "string \<Rightarrow> string + id_token"

record oidcConfig =
  GroupClaim :: string
  UsernameClaim :: string

record oidcAuthenticator =
  oidc_config :: oidcConfig
  oidc_cookieName :: string
  oidc_verifier :: verifier

text \<open>\<open>fmt.Sprintf("%v", x)\<close>: strings and booleans as they are; \<open>fmt_v\<close> stands for the other values.\<close>

definition sprint_claim :: "(json \<Rightarrow> string) \<Rightarrow> json \<Rightarrow> string" where
  "sprint_claim fmt_v j =
     (case j of JStr s \<Rightarrow> s | JBool b \<Rightarrow> (if b then ''true'' else ''false'') | JNull \<Rightarrow> ''<nil>'' | _ \<Rightarrow> fmt_v j)"

text \<open>A claim that is neither a string nor a list gives no groups.\<close>

definition claim_groups :: "(json \<Rightarrow> string) \<Rightarrow> json \<Rightarrow> string list" where
  "claim_groups fmt_v j =
     (case j of JStr s \<Rightarrow> [s] | JArr xs \<Rightarrow> map (sprint_claim fmt_v) xs | _ \<Rightarrow> [])"

definition oidc_subject :: "oidcConfig \<Rightarrow> id_token \<Rightarrow> (string \<times> nat \<times> grpc_code) + string" where
  "oidc_subject config idToken =
     (if UsernameClaim config = [] then Inr (Subject idToken)
      else (case Claims idToken of
              None \<Rightarrow> Inl (''failed to read claims'', 500, Internal)
            | Some claims \<Rightarrow>
                (case map_of claims (UsernameClaim config) of
                   None \<Rightarrow> Inl (''username cannot be empty'', 400, PermissionDenied)
                 | Some (JStr username) \<Rightarrow>
                     if username = [] then Inl (''invalid username claim value'', 400, PermissionDenied)
                     else Inr username
                 | Some _ \<Rightarrow> Inl (''invalid username claim value'', 400, PermissionDenied))))"

definition checkAuth ::
    "(json \<Rightarrow> string) \<Rightarrow> oidcAuthenticator \<Rightarrow> ctx \<Rightarrow> string \<Rightarrow> (string \<times> nat \<times> grpc_code) + ctx" where
  "checkAuth fmt_v a c token =
     (case oidc_verifier a token of
        Inl err \<Rightarrow> Inl (''failed to verify ID token'', 500, Unknown)
      | Inr idToken \<Rightarrow>
          (case oidc_subject (oidc_config a) idToken of
             Inl e \<Rightarrow> Inl e
           | Inr sub \<Rightarrow>
               (let c1 = c\<lparr>subjectKey := Some sub\<rparr> in
                if GroupClaim (oidc_config a) = [] then Inr c1
                else (case Claims idToken of
                        None \<Rightarrow> Inl (''failed to read claims'', 500, Internal)
                      | Some claims \<Rightarrow>
                          (case map_of claims (GroupClaim (oidc_config a)) of
                             None \<Rightarrow> Inl (''group cannot be empty'', 400, PermissionDenied)
                           | Some rawGroup \<Rightarrow> Inr (c1\<lparr>groupsKey := Some (claim_groups fmt_v rawGroup)\<rparr>))))))"

text \<open>The token of a request, or the answer when there is none.\<close>

definition oidc_token :: "oidcAuthenticator \<Rightarrow> request \<Rightarrow> reply + string" where
  "oidc_token a r =
     (let authorizationHeader = header_get (Header r) ''Authorization'' in
      if authorizationHeader \<noteq> [] then
        (let authorization = split_on (CHR '' '') authorizationHeader in
         if length authorization \<noteq> 2 then Inl (ApiError ''invalid Authorization header'' 401)
         else Inr (authorization ! 1))
      else (case request_cookie r (oidc_cookieName a) of
              Some v \<Rightarrow> Inr v
            | None \<Rightarrow>
                (case GetTenant (Ctx r) of
                   (tenant, ok) \<Rightarrow>
                     if \<not> ok then Inl (ApiError ''error finding tenant'' 500)
                     else Inl (LocationError (path_join [''/oidc'', tenant, ''/login'']) ''failed to find token'' 302))))"

definition oidc_check :: "(json \<Rightarrow> string) \<Rightarrow> oidcAuthenticator \<Rightarrow> request \<Rightarrow> reply + request" where
  "oidc_check fmt_v a r =
     (case oidc_token a r of
        Inl e \<Rightarrow> Inl e
      | Inr token \<Rightarrow>
          (case checkAuth fmt_v a (Ctx r) token of
             Inl (msg, code, _) \<Rightarrow> Inl (ApiError msg code)
           | Inr c \<Rightarrow> Inr (with_ctx (\<lambda>_. c) r)))"

definition oidcAuthenticator_Middleware :: "(json \<Rightarrow> string) \<Rightarrow> oidcAuthenticator \<Rightarrow> 's middleware" where
  "oidcAuthenticator_Middleware fmt_v a = guard_mw (oidc_check fmt_v a)"

definition oidc_stream_check ::
    "(json \<Rightarrow> string) \<Rightarrow> oidcAuthenticator \<Rightarrow> stream \<Rightarrow> (grpc_code \<times> string) + ctx" where
  "oidc_stream_check fmt_v a ss =
     (case smd ss of
        None \<Rightarrow> Inl (Internal, ''metadata error'')
      | Some md \<Rightarrow>
          (let headers = md_get md ''Authorization'';
               authorization = (if headers \<noteq> [] \<and> hd headers \<noteq> [] then split_on (CHR '' '') (hd headers) else [[], []])
           in if length authorization \<noteq> 2 then Inl (InvalidArgument, ''invalid Authorization header'')
              else (case checkAuth fmt_v a (sctx ss) (authorization ! 1) of
                      Inl (msg, _, code) \<Rightarrow> Inl (code, msg)
                    | Inr c \<Rightarrow> Inr c)))"

definition oidcAuthenticator_GRPCMiddleware :: "(json \<Rightarrow> string) \<Rightarrow> oidcAuthenticator \<Rightarrow> interceptor" where
  "oidcAuthenticator_GRPCMiddleware fmt_v a = auth_interceptor (oidc_stream_check fmt_v a)"

definition oidc_provider :: "(json \<Rightarrow> string) \<Rightarrow> oidcAuthenticator \<Rightarrow> 's handler \<Rightarrow> 's Provider" where
  "oidc_provider fmt_v a handler =
     \<lparr>provider_Middleware = oidcAuthenticator_Middleware fmt_v a,
      provider_GRPCMiddleware = oidcAuthenticator_GRPCMiddleware fmt_v a,
      provider_Handler = (''/oidc/{tenant}'', Some handler)\<rparr>"

section \<open>Lemmas\<close>

text \<open>A context that the check lets pass belongs to a token that the verifier accepted.\<close>

lemma checkAuth_Inr:
  assumes "checkAuth fmt_v a c token = Inr c'"
  obtains idt sub where "oidc_verifier a token = Inr idt" "oidc_subject (oidc_config a) idt = Inr sub"
    "subjectKey c' = Some sub" "tenantKey c' = tenantKey c" "accessTokenKey c' = accessTokenKey c"
    "dataKey c' = dataKey c"
  using assms that
  by (auto simp: checkAuth_def Let_def split: sum.splits if_splits option.splits)

lemma oidc_check_Inr:
  assumes "oidc_check fmt_v a r = Inr r'"
  obtains token idt sub where "oidc_token a r = Inr token" "oidc_verifier a token = Inr idt"
    "oidc_subject (oidc_config a) idt = Inr sub" "subjectKey (Ctx r') = Some sub" "authenticated r r'"
proof -
  obtain token c where t: "oidc_token a r = Inr token" "checkAuth fmt_v a (Ctx r) token = Inr c"
    and r': "r' = with_ctx (\<lambda>_. c) r"
    using assms by (auto simp: oidc_check_def split: sum.splits)
  from t(2) obtain idt sub where "oidc_verifier a token = Inr idt" "oidc_subject (oidc_config a) idt = Inr sub"
    "subjectKey c = Some sub" "tenantKey c = tenantKey (Ctx r)"
    by (rule checkAuth_Inr)
  thus ?thesis using that [OF t(1)] r' by (simp add: authenticated_def)
qed

interpretation oidc: provider_contract "oidc_provider fmt_v a h"
proof unfold_locales
  show "enforces authenticated (provider_Middleware (oidc_provider fmt_v a h))"
    by (simp add: oidc_provider_def oidcAuthenticator_Middleware_def)
       (rule guard_mw_enforces, blast elim: oidc_check_Inr)
  show "intercepts stream_authenticated (provider_GRPCMiddleware (oidc_provider fmt_v a h))"
    by (simp add: oidc_provider_def oidcAuthenticator_GRPCMiddleware_def)
       (rule auth_interceptor_intercepts,
        auto simp: oidc_stream_check_def stream_authenticated_def Let_def
             split: option.splits if_splits sum.splits elim!: checkAuth_Inr)
qed

end
