(* ===== verification/Cookie_Cipher.thy ===== *)
theory Cookie_Cipher
  imports Go_Strings "HOL-Library.Word"
begin

unbundle bit_operations_syntax

text \<open>
  The cipher for session cookies, \<open>authentication/openshift/cookie.go\<close>: AES in counter
  mode under a random initialization vector, base64 on top.  The block
  function is library code and a parameter; counter mode and base64 are
  modelled.
\<close>

section \<open>Definitions\<close>

definition aes_BlockSize :: nat where
  "aes_BlockSize = 16"

text \<open>\<open>aes.NewCipher\<close> accepts keys of 16, 24 or 32 bytes.\<close>

definition NewCipher :: "(string \<Rightarrow> string \<Rightarrow> string) \<Rightarrow> string \<Rightarrow> (string \<Rightarrow> string) option" where
  "NewCipher aes secret = (if length secret \<in> {16, 24, 32} then Some (aes secret) else None)"

subsection \<open>Counter mode\<close>

text \<open>The counter block is one big-endian number that wraps around.\<close>

fun incr_le :: "string \<Rightarrow> string" where
  "incr_le [] = []"
| "incr_le (c # cs) =
     (if of_char c = (255 :: nat) then CHR 0x00 # incr_le cs else char_of (of_char c + 1 :: nat) # cs)"

definition incr_counter :: "string \<Rightarrow> string" where
  "incr_counter iv = rev (incr_le (rev iv))"

fun key_stream :: "(string \<Rightarrow> string) \<Rightarrow> string \<Rightarrow> nat \<Rightarrow> string" where
  "key_stream E iv 0 = []"
| "key_stream E iv (Suc n) = E iv @ key_stream E (incr_counter iv) n"

definition xor_char :: "char \<Rightarrow> char \<Rightarrow> char" where
  "xor_char a b = char_of ((of_char a :: nat) XOR of_char b)"

definition xor_key_stream :: "(string \<Rightarrow> string) \<Rightarrow> string \<Rightarrow> string \<Rightarrow> string" where
  "xor_key_stream E iv s = map2 xor_char s (key_stream E iv (length s div aes_BlockSize + 1))"

subsection \<open>Base64\<close>

definition b64_alphabet :: string where
  "b64_alphabet = ''ABCDEFGHIJKLMNOPQRSTUVWXYZabcdefghijklmnopqrstuvwxyz0123456789+/''"

definition b64_char :: "nat \<Rightarrow> char" where
  "b64_char n = b64_alphabet ! n"

definition b64_val :: "char \<Rightarrow> nat option" where
  "b64_val c = List.find (\<lambda>n. b64_alphabet ! n = c) [0..<64]"

fun b64_encode :: "string \<Rightarrow> string" where
  "b64_encode [] = []"
| "b64_encode [a] =
     (let x = of_char a * 65536 :: nat in [b64_char (x div 262144), b64_char (x div 4096 mod 64)] @ ''=='')"
| "b64_encode [a, b] =
     (let x = of_char a * 65536 + of_char b * 256 :: nat in
      [b64_char (x div 262144), b64_char (x div 4096 mod 64), b64_char (x div 64 mod 64)] @ ''='')"
| "b64_encode (a # b # c # s) =
     (let x = of_char a * 65536 + of_char b * 256 + of_char c :: nat in
      [b64_char (x div 262144), b64_char (x div 4096 mod 64), b64_char (x div 64 mod 64), b64_char (x mod 64)]
      @ b64_encode s)"

fun b64_quanta :: "string \<Rightarrow> string option" where
  "b64_quanta [] = Some []"
| "b64_quanta (a # b # c # d # s) =
     (case (b64_val a, b64_val b) of
        (Some v1, Some v2) \<Rightarrow>
          if d = CHR ''='' then
            (if s \<noteq> [] then None
             else if c = CHR ''='' then Some [char_of (v1 * 4 + v2 div 16)]
             else (case b64_val c of None \<Rightarrow> None
                   | Some v3 \<Rightarrow> Some [char_of (v1 * 4 + v2 div 16), char_of (v2 * 16 + v3 div 4)]))
          else (case (b64_val c, b64_val d) of
                  (Some v3, Some v4) \<Rightarrow>
                    map_option (\<lambda>t. [char_of (v1 * 4 + v2 div 16), char_of (v2 * 16 + v3 div 4),
                                       char_of (v3 * 64 + v4)] @ t) (b64_quanta s)
                | _ \<Rightarrow> None)
      | _ \<Rightarrow> None)"
| "b64_quanta _ = None"

text \<open>\<open>DecodeString\<close> skips line ends.\<close>

definition b64_decode :: "string \<Rightarrow> string option" where
  "b64_decode s = b64_quanta (filter (\<lambda>c. c \<noteq> CHR 0x0A \<and> c \<noteq> CHR 0x0D) s)"

subsection \<open>The cipher\<close>

text \<open>\<open>iv\<close> is what \<open>io.ReadFull(rand.Reader, iv)\<close> delivers, \<open>None\<close> when it fails.\<close>

definition Encrypt :: "(string \<Rightarrow> string) \<Rightarrow> string option \<Rightarrow> string \<Rightarrow> string + string" where
  "Encrypt E iv v =
     (case iv of
        None \<Rightarrow> Inl ''failed to create initialization vector''
      | Some iv \<Rightarrow> Inr (b64_encode (iv @ xor_key_stream E iv v)))"

definition Decrypt :: "(string \<Rightarrow> string) \<Rightarrow> string \<Rightarrow> string + string" where
  "Decrypt E s =
     (case b64_decode s of
        None \<Rightarrow> Inl ''failed to decrypt cookie value''
      | Some encrypted \<Rightarrow>
          if length encrypted < aes_BlockSize then
            Inl (''encrypted cookie value should be at least '' @ itoa_nat aes_BlockSize
                 @ '' bytes, but is only '' @ itoa_nat (length encrypted) @ '' bytes'')
          else Inr (xor_key_stream E (take aes_BlockSize encrypted) (drop aes_BlockSize encrypted)))"

section \<open>Lemmas\<close>

lemma of_char_less: "(of_char c :: nat) < 256"
  by simp

lemma xor_char_cancel: "xor_char (xor_char a b) b = a"
proof -
  have "take_bit 8 (of_char x :: nat) = of_char x" for x
    by (simp add: take_bit_nat_eq_self)
  hence "take_bit 8 ((of_char a :: nat) XOR of_char b) = of_char a XOR of_char b"
    by (simp only: take_bit_xor)
  hence "(of_char (char_of ((of_char a :: nat) XOR of_char b)) :: nat) = of_char a XOR of_char b"
    by (simp add: take_bit_eq_mod)
  moreover have "(of_char a XOR of_char b) XOR of_char b = (of_char a :: nat)"
    by (simp add: xor.assoc)
  ultimately show ?thesis by (simp add: xor_char_def)
qed

lemma map2_xor_cancel:
  "length s \<le> length k \<Longrightarrow> map2 xor_char (map2 xor_char s k) k = s"
  by (induction s k rule: list_induct2') (auto simp: xor_char_cancel)

lemma b64_char_inj_dec:
  "\<forall>n < 64. b64_val (b64_char n) = Some n \<and> b64_char n \<notin> {CHR ''='', CHR 0x0A, CHR 0x0D}"
proof -
  have "list_all (\<lambda>n. b64_val (b64_char n) = Some n \<and> b64_char n \<notin> {CHR ''='', CHR 0x0A, CHR 0x0D}) [0..<64]"
    by code_simp
  thus ?thesis by (auto simp: list_all_iff)
qed

lemma b64_val_char [simp]: "n < 64 \<Longrightarrow> b64_val (b64_char n) = Some n"
  using b64_char_inj_dec by blast

lemma b64_char_plain [simp]:
  "n < 64 \<Longrightarrow> b64_char n \<noteq> CHR ''=''" "n < 64 \<Longrightarrow> b64_char n \<noteq> CHR 0x0A" "n < 64 \<Longrightarrow> b64_char n \<noteq> CHR 0x0D"
  using b64_char_inj_dec by blast+

text \<open>Three bytes as four digits of six bits, and back.\<close>

lemma b64_digits:
  fixes a1 a0 b1 b0 c1 c0 :: nat
  assumes "a1 < 64" "a0 < 4" "b1 < 16" "b0 < 16" "c1 < 4" "c0 < 64"
  defines "x \<equiv> (4 * a1 + a0) * 65536 + (16 * b1 + b0) * 256 + (64 * c1 + c0)"
  shows "x div 262144 = a1" "x div 4096 mod 64 = 16 * a0 + b1" "x div 64 mod 64 = 4 * b0 + c1"
    "x mod 64 = c0"
proof -
  show "x div 262144 = a1" by (rule div_nat_eqI) (use assms in simp_all)
  have "x div 4096 = 64 * a1 + (16 * a0 + b1)" by (rule div_nat_eqI) (use assms in simp_all)
  thus "x div 4096 mod 64 = 16 * a0 + b1" using assms by simp
  have "x div 64 = 64 * (64 * a1 + (16 * a0 + b1)) + (4 * b0 + c1)"
    by (rule div_nat_eqI) (use assms in simp_all)
  thus "x div 64 mod 64 = 4 * b0 + c1" using assms(4,5) by (simp only: mod_mult_self4) simp
  have "x = 64 * (64 * (64 * a1 + (16 * a0 + b1)) + (4 * b0 + c1)) + c0" by (simp add: x_def)
  thus "x mod 64 = c0" using assms(6) by (simp only: mod_mult_self4) simp
qed

lemma b64_split3:
  fixes a b c :: char
  defines "x \<equiv> of_char a * 65536 + of_char b * 256 + of_char c :: nat"
  shows "x div 262144 < 64" "x div 4096 mod 64 < 64" "x div 64 mod 64 < 64" "x mod 64 < 64"
    "char_of (x div 262144 * 4 + x div 4096 mod 64 div 16) = a"
    "char_of (x div 4096 mod 64 * 16 + x div 64 mod 64 div 4) = b"
    "char_of (x div 64 mod 64 * 64 + x mod 64) = c"
proof -
  define a1 a0 b1 b0 c1 c0 :: nat where
    d: "a1 = of_char a div 4" "a0 = of_char a mod 4" "b1 = of_char b div 16" "b0 = of_char b mod 16"
       "c1 = of_char c div 64" "c0 = of_char c mod 64"
  have l: "(of_char a :: nat) < 256" "(of_char b :: nat) < 256" "(of_char c :: nat) < 256"
    by (rule of_char_less)+
  have r: "a1 < 64" "a0 < 4" "b1 < 16" "b0 < 16" "c1 < 4" "c0 < 64"
    unfolding d using l by linarith+
  have e: "of_char a = 4 * a1 + a0" "of_char b = 16 * b1 + b0" "of_char c = 64 * c1 + c0"
    unfolding d by simp_all
  have x: "x = (4 * a1 + a0) * 65536 + (16 * b1 + b0) * 256 + (64 * c1 + c0)"
    unfolding x_def e by simp
  note dg = b64_digits [OF r, folded x]
  show "x div 262144 < 64" "x div 4096 mod 64 < 64" "x div 64 mod 64 < 64" "x mod 64 < 64"
    unfolding dg using r by linarith+
  have "x div 262144 * 4 + x div 4096 mod 64 div 16 = of_char a"
    unfolding dg e using r by simp
  thus "char_of (x div 262144 * 4 + x div 4096 mod 64 div 16) = a" by (simp only: char_of_char)
  have "(x div 4096 mod 64 * 16 + x div 64 mod 64 div 4) = 256 * a0 + of_char b"
    unfolding dg e using r by simp
  thus "char_of (x div 4096 mod 64 * 16 + x div 64 mod 64 div 4) = b"
    by (simp add: char_of_eq_iff take_bit_eq_mod)
  have "(x div 64 mod 64 * 64 + x mod 64) = 256 * b0 + of_char c"
    unfolding dg e by simp
  thus "char_of (x div 64 mod 64 * 64 + x mod 64) = c"
    by (simp add: char_of_eq_iff take_bit_eq_mod)
qed

lemma b64_quanta_encode: "b64_quanta (b64_encode s) = Some s"
proof (induction s rule: b64_encode.induct)
  case (2 a)
  show ?case using b64_split3 [of a "CHR 0x00" "CHR 0x00"] by (simp add: Let_def)
next
  case (3 a b)
  show ?case using b64_split3 [of a b "CHR 0x00"] by (simp add: Let_def)
next
  case (4 a b c s)
  thus ?case using b64_split3 [of a b c] by (simp add: Let_def)
qed simp

lemma b64_encode_no_newline:
  "filter (\<lambda>c. c \<noteq> CHR 0x0A \<and> c \<noteq> CHR 0x0D) (b64_encode s) = b64_encode s"
proof (induction s rule: b64_encode.induct)
  case (2 a)
  show ?case using b64_split3 [of a "CHR 0x00" "CHR 0x00"] by (simp add: Let_def)
next
  case (3 a b)
  show ?case using b64_split3 [of a b "CHR 0x00"] by (simp add: Let_def)
next
  case (4 a b c s)
  thus ?case using b64_split3 [of a b c] by (simp add: Let_def)
qed simp

lemma b64_decode_encode [simp]: "b64_decode (b64_encode s) = Some s"
  by (simp add: b64_decode_def b64_encode_no_newline b64_quanta_encode)

section \<open>The block function\<close>

text \<open>What counter mode needs of the block function: a block in, a block out.\<close>

definition block_fun :: "(string \<Rightarrow> string) \<Rightarrow> bool" where
  "block_fun E \<longleftrightarrow> (\<forall>b. length b = aes_BlockSize \<longrightarrow> length (E b) = aes_BlockSize)"

lemma length_incr_le: "length (incr_le s) = length s"
  by (induction s) auto

lemma length_key_stream:
  "block_fun E \<Longrightarrow> length iv = aes_BlockSize \<Longrightarrow> length (key_stream E iv n) = n * aes_BlockSize"
  by (induction n arbitrary: iv) (simp_all add: block_fun_def incr_counter_def length_incr_le)

lemma key_stream_covers:
  assumes "block_fun E" "length iv = aes_BlockSize"
  shows "length s \<le> length (key_stream E iv (length s div aes_BlockSize + 1))"
proof -
  have "length s < (length s div 16 + 1) * 16"
    using div_mult_mod_eq [of "length s" 16] mod_less_divisor [of 16 "length s"] by (simp only: add_mult_distrib)
  thus ?thesis using length_key_stream [OF assms] by (simp only: aes_BlockSize_def less_imp_le)
qed

lemma xor_key_stream_involution:
  assumes "block_fun E" "length iv = aes_BlockSize"
  shows "length (xor_key_stream E iv s) = length s"
    and "xor_key_stream E iv (xor_key_stream E iv s) = s"
proof -
  let ?k = "key_stream E iv (length s div aes_BlockSize + 1)"
  show len: "length (xor_key_stream E iv s) = length s"
    using key_stream_covers [OF assms, of s] by (simp add: xor_key_stream_def)
  have "xor_key_stream E iv (xor_key_stream E iv s) = map2 xor_char (map2 xor_char s ?k) ?k"
    using len by (simp add: xor_key_stream_def [of E iv "xor_key_stream E iv s"])
      (simp add: xor_key_stream_def)
  thus "xor_key_stream E iv (xor_key_stream E iv s) = s"
    using map2_xor_cancel [OF key_stream_covers [OF assms, of s]] by simp
qed

section \<open>Properties\<close>

text \<open>
  C15. Whatever block function AES is under the cookie secret, as long as it
  maps blocks to blocks, and whatever the initialization vector: the cookie
  value that \<open>Encrypt\<close> produces for an access token decrypts to that token.
\<close>

theorem cookie_decrypt_encrypt:
  assumes "\<And>b. length b = 16 \<Longrightarrow> length (E b) = 16" "length iv = 16"
  shows "\<exists>s. Encrypt E (Some iv) v = Inr s \<and> Decrypt E s = Inr v"
proof -
  have "block_fun E" using assms(1) by (simp add: block_fun_def aes_BlockSize_def)
  thus ?thesis using xor_key_stream_involution [of E iv v] assms(2)
    by (simp add: Encrypt_def Decrypt_def aes_BlockSize_def)
qed

theorem cookie_decrypt_encrypt_witness:
  "\<exists>s. Encrypt (map (xor_char (CHR 0x5A))) (Some ''0123456789abcdef'') ''token'' = Inr s
       \<and> Decrypt (map (xor_char (CHR 0x5A))) s = Inr ''token''"
  by (rule cookie_decrypt_encrypt) simp_all

end
