(* ===== verification/OpenShift.thy ===== *)
theory OpenShift
  imports Providers Cookie_Cipher
begin

text \<open>
  The OpenShift provider, \<open>authentication/openshift.go\<close>: the HTTP middleware (bearer token
  or client certificate first, session cookie second) and the gRPC
  interceptor.  The Kubernetes request authenticator and the JWT library
  are parameters.
\<close>

section \<open>Definitions\<close>

definition jwtSigningKey :: string where
  "jwtSigningKey = ''ILoveObservatorium''"

record OpenShiftClaims =
  claim_Groups :: "string list"
  claim_AccessToken :: string
  claim_Subject :: string

text \<open>The user name and groups the cluster's authenticator finds for a request.\<close>

type_synonym request_authenticator = "request \<Rightarrow> (string \<times> string list) option"

text \<open>\<open>jwt.ParseWithClaims\<close> under a key: an error, or the validity flag and the claims.\<close>

type_synonym jwt_parser = "string \<Rightarrow> string \<Rightarrow> string + (bool \<times> OpenShiftClaims)"

record OpenShiftAuthenticator =
  os_authenticator :: request_authenticator
  os_parse_jwt :: jwt_parser
  os_cookieName :: string
  os_cookieSecret :: string
  os_block :: "string \<Rightarrow> string"
  os_oauthEnabled :: bool

definition set_user :: "string \<Rightarrow> string list \<Rightarrow> ctx \<Rightarrow> ctx" where
  "set_user name groups c = c\<lparr>subjectKey := Some name, groupsKey := Some groups\<rparr>"

definition os_session :: "OpenShiftAuthenticator \<Rightarrow> string \<Rightarrow> request \<Rightarrow> reply + request" where
  "os_session a cookie r =
     (case os_parse_jwt a jwtSigningKey cookie of
        Inl err \<Rightarrow> Inl (ApiError (''failed to parse jwt token: %s: '' @ err) 400)
      | Inr (valid, claims) \<Rightarrow>
          if \<not> valid then Inl (ApiError ''failed to authenticate'' 401)
          else
            (let c = set_user (claim_Subject claims) (claim_Groups claims) in
             if os_cookieSecret a \<noteq> [] then
               (case Decrypt (os_block a) (claim_AccessToken claims) of
                  Inl err \<Rightarrow> Inl (ApiError (''failed to decrypt acess token: '' @ err) 400)
                | Inr accessToken \<Rightarrow> Inr (with_ctx (\<lambda>x. (c x)\<lparr>accessTokenKey := Some accessToken\<rparr>) r))
             else Inr (with_ctx c r)))"

definition os_check :: "OpenShiftAuthenticator \<Rightarrow> request \<Rightarrow> reply + request" where
  "os_check a r =
     (case os_authenticator a r of
        Some (name, groups) \<Rightarrow> Inr (with_ctx (set_user name groups) r)
      | None \<Rightarrow>
          if \<not> os_oauthEnabled a then Inl (ApiError ''OAuth authentication not available'' 401)
          else (case request_cookie r (os_cookieName a) of
                  Some cookie \<Rightarrow> os_session a cookie r
                | None \<Rightarrow>
                    (case GetTenant (Ctx r) of
                       (tenant, ok) \<Rightarrow>
                         if \<not> ok then Inl (ApiError ''error finding tenant'' 400)
                         else Inl (LocationError
                                (path_join [''/openshift'', tenant, ''/login?route='', Path (URL r)])
                                ''failed to find token'' 302))))"

definition OpenShiftAuthenticator_Middleware :: "OpenShiftAuthenticator \<Rightarrow> 's middleware" where
  "OpenShiftAuthenticator_Middleware a = guard_mw (os_check a)"

text \<open>The HTTP request made up for the authenticator of a gRPC stream.\<close>

definition os_stream_request :: "(string \<times> string list) list \<Rightarrow> certificate list option \<Rightarrow> request" where
  "os_stream_request md certs =
     \<lparr>Method = [], URL = \<lparr>Scheme = [], Host = [], Path = [], RawQuery = []\<rparr>,
      Header = fold (header_add ''Authorization'') (md_get md ''Authorization'') [],
      Body = Body_ok [], ContentLength = 0, TLS = certs, Ctx = background\<rparr>"

definition OpenShiftAuthenticator_GRPCMiddleware :: "OpenShiftAuthenticator \<Rightarrow> interceptor" where
  "OpenShiftAuthenticator_GRPCMiddleware a handler ss =
     (case smd ss of
        None \<Rightarrow> StreamError Internal ''metadata error''
      | Some md \<Rightarrow>
          if speer ss = Some OtherAuthInfo then StreamPanic ''interface conversion: credentials.TLSInfo''
          else
            (let certs = (case speer ss of Some (TLSInfo cs) \<Rightarrow> Some cs | _ \<Rightarrow> None) in
             case os_authenticator a (os_stream_request md certs) of
               Some (name, groups) \<Rightarrow> handler (ss\<lparr>sctx := set_user name groups (sctx ss)\<rparr>)
             | None \<Rightarrow> StreamError Unauthenticated ''missing SA token or mTLS''))"

definition openshift_provider :: "OpenShiftAuthenticator \<Rightarrow> 's handler \<Rightarrow> 's Provider" where
  "openshift_provider a handler =
     \<lparr>provider_Middleware = OpenShiftAuthenticator_Middleware a,
      provider_GRPCMiddleware = OpenShiftAuthenticator_GRPCMiddleware a,
      provider_Handler = (''/openshift/{tenant}'', Some handler)\<rparr>"

section \<open>Lemmas\<close>

lemma os_session_Inr:
  "os_session a cookie r = Inr r' \<Longrightarrow>
   \<exists>claims. os_parse_jwt a jwtSigningKey cookie = Inr (True, claims)
          \<and> subjectKey (Ctx r') = Some (claim_Subject claims) \<and> authenticated r r'"
  by (auto simp: os_session_def Let_def set_user_def authenticated_def split: sum.splits if_splits)

lemma os_check_authenticated: "os_check a r = Inr r' \<Longrightarrow> authenticated r r'"
  by (auto simp: os_check_def set_user_def authenticated_def [of r "with_ctx f r" for f]
      split: option.splits if_splits prod.splits dest: os_session_Inr)

interpretation openshift: provider_contract "openshift_provider a h"
proof unfold_locales
  show "enforces authenticated (provider_Middleware (openshift_provider a h))"
    by (simp add: openshift_provider_def OpenShiftAuthenticator_Middleware_def)
       (rule guard_mw_enforces, rule os_check_authenticated)
  have "stream_rejected (OpenShiftAuthenticator_GRPCMiddleware a k ss) \<or>
      (\<exists>ss'. stream_authenticated ss ss' \<and> OpenShiftAuthenticator_GRPCMiddleware a k ss = k ss')" for k ss
  proof (cases "\<exists>md. smd ss = Some md \<and> speer ss \<noteq> Some OtherAuthInfo \<and>
      os_authenticator a (os_stream_request md (case speer ss of Some (TLSInfo cs) \<Rightarrow> Some cs | _ \<Rightarrow> None)) \<noteq> None")
    case True
    then obtain md name groups where "smd ss = Some md" "speer ss \<noteq> Some OtherAuthInfo"
      "os_authenticator a (os_stream_request md (case speer ss of Some (TLSInfo cs) \<Rightarrow> Some cs | _ \<Rightarrow> None))
        = Some (name, groups)" by auto
    hence "OpenShiftAuthenticator_GRPCMiddleware a k ss = k (ss\<lparr>sctx := set_user name groups (sctx ss)\<rparr>)"
      by (simp add: OpenShiftAuthenticator_GRPCMiddleware_def Let_def)
    moreover have "stream_authenticated ss (ss\<lparr>sctx := set_user name groups (sctx ss)\<rparr>)"
      by (simp add: stream_authenticated_def set_user_def)
    ultimately show ?thesis by blast
  next
    case False
    thus ?thesis by (auto simp: OpenShiftAuthenticator_GRPCMiddleware_def Let_def split: option.splits)
  qed
  thus "intercepts stream_authenticated (provider_GRPCMiddleware (openshift_provider a h))"
    by (simp add: openshift_provider_def intercepts_def)
qed

end
