(* ===== verification/Login_Flow.thy ===== *)
theory Login_Flow
  imports OIDC OpenShift
begin

text \<open>
  Logging in with a browser: the login and callback handlers of \<open>authentication/oidc.go\<close> and
  \<open>authentication/openshift.go\<close>, which end with a session cookie that the middlewares of the two
  providers read.  The OAuth2 client, the signing of tokens, the parser of URLs and the clock are
  parameters; times are in nanoseconds.
\<close>

section \<open>Definitions\<close>

subsection \<open>Cookies and redirects of the Go library\<close>

record http_cookie =
  ck_Name :: string
  ck_Value :: string
  ck_Expires :: string

definition sanitize_cookie_value :: "string \<Rightarrow> string" where
  "sanitize_cookie_value v =
     (let v' = filter valid_cookie_byte v in
      if CHR '' '' \<in> set v' \<or> CHR '','' \<in> set v' then [CHR 0x22] @ v' @ [CHR 0x22] else v')"

text \<open>The text of a cookie with the path \<open>/\<close>; it is empty if the name is not a token.\<close>

definition cookie_string :: "http_cookie \<Rightarrow> string" where
  "cookie_string c =
     (if ck_Name c = [] \<or> \<not> list_all is_token_char (ck_Name c) then []
      else ck_Name c @ ''='' @ sanitize_cookie_value (ck_Value c) @ ''; Path=/''
           @ (if ck_Expires c = [] then [] else ''; Expires='' @ ck_Expires c))"

definition set_cookie :: "http_cookie \<Rightarrow> writer \<Rightarrow> writer" where
  "set_cookie c w =
     (if cookie_string c = [] then w
      else w\<lparr>wheader := header_add ''Set-Cookie'' (cookie_string c) (wheader w)\<rparr>)"

definition lower_hex :: "nat \<Rightarrow> char" where
  "lower_hex d = to_lower (upper_hex d)"

definition hex_escape_non_ascii :: "string \<Rightarrow> string" where
  "hex_escape_non_ascii s =
     concat (map (\<lambda>c. if byte_of c < 0x80 then [c] else [CHR ''%'', lower_hex (byte_of c div 16), lower_hex (byte_of c mod 16)]) s)"

definition html_escape :: "string \<Rightarrow> string" where
  "html_escape s =
     concat (map (\<lambda>c. if c = CHR ''&'' then ''&amp;'' else if c = CHR ''<'' then ''&lt;'' else if c = CHR ''>'' then ''&gt;''
                      else if c = CHR 0x22 then ''&#34;'' else if c = CHR 0x27 then ''&#39;'' else [c]) s)"

record url_lib =
  url_Parse :: "string \<Rightarrow> string + url"
  url_String :: "url \<Rightarrow> string"

text \<open>A target with neither scheme nor host is relative to the path of the request.\<close>

definition redirect_target :: "url_lib \<Rightarrow> request \<Rightarrow> string \<Rightarrow> string" where
  "redirect_target lib r target =
     (case url_Parse lib target of
        Inl _ \<Rightarrow> target
      | Inr u \<Rightarrow>
          if Scheme u \<noteq> [] \<or> Host u \<noteq> [] then target
          else
            (let oldpath = (if Path (URL r) = [] then ''/'' else Path (URL r));
                 olddir = rev (dropWhile (\<lambda>c. c \<noteq> CHR ''/'') (rev oldpath));
                 t = (if prefix ''/'' target then target else olddir @ target);
                 p = takeWhile (\<lambda>c. c \<noteq> CHR ''?'') t;
                 query = dropWhile (\<lambda>c. c \<noteq> CHR ''?'') t;
                 q = path_clean p
             in (if suffix ''/'' p \<and> \<not> suffix ''/'' q then q @ ''/'' else q) @ query))"

definition status_text :: "nat \<Rightarrow> string" where
  "status_text code =
     (if code = 301 then ''Moved Permanently'' else if code = 302 then ''Found'' else if code = 303 then ''See Other'' else [])"

definition http_Redirect :: "url_lib \<Rightarrow> request \<Rightarrow> string \<Rightarrow> nat \<Rightarrow> writer \<Rightarrow> writer" where
  "http_Redirect lib r target code w =
     (let url = redirect_target lib r target;
          hadCT = (map_of (wheader w) ''Content-Type'' \<noteq> None);
          w1 = set_wheader ''Location'' (hex_escape_non_ascii url) w;
          w2 = (if \<not> hadCT \<and> (Method r = ''GET'' \<or> Method r = ''HEAD'')
                then set_wheader ''Content-Type'' ''text/html; charset=utf-8'' w1 else w1);
          w3 = write_header code w2
      in if \<not> hadCT \<and> Method r = ''GET''
         then write_body (''<a href='' @ [CHR 0x22] @ html_escape url @ [CHR 0x22] @ ''>'' @ status_text code
                          @ ''</a>.'' @ [CHR 0x0A, CHR 0x0A]) w3
         else w3)"

subsection \<open>Shared checks\<close>

definition state :: string where
  "state = ''I love MCOA Gateway''"

text \<open>The code of a callback request.\<close>

definition callback_code :: "request \<Rightarrow> reply + string" where
  "callback_code r =
     (let q = url_query (URL r) in
      if values_get q ''error'' \<noteq> [] then
        Inl (ApiError (values_get q ''error'' @ '': '' @ values_get q ''error_description'') 400)
      else if values_get q ''code'' = [] then Inl (ApiError ''no code in request'' 400)
      else if values_get q ''state'' \<noteq> state then Inl (ApiError ''incorrect state in request'' 400)
      else Inr (values_get q ''code''))"

record oauth_token =
  AccessToken :: string
  Expiry :: string
  Extra_id_token :: "string option"
  Valid :: bool

text \<open>A handler that ends with a session: the cookie is set, then the browser is sent on.\<close>

definition finish_login :: "url_lib \<Rightarrow> request \<Rightarrow> reply + http_cookie \<times> string \<Rightarrow> writer \<Rightarrow> writer" where
  "finish_login lib r res w =
     (case res of
        Inl rep \<Rightarrow> send_reply rep w
      | Inr (cookie, target) \<Rightarrow> http_Redirect lib r target 302 (set_cookie cookie w))"

subsection \<open>OIDC\<close>

record oidc_client =
  oc_AuthCodeURL :: "string \<Rightarrow> string"
  oc_Exchange :: "string \<Rightarrow> string + oauth_token"
  oc_redirectURL :: string

definition oidcLoginHandler :: "url_lib \<Rightarrow> oidc_client \<Rightarrow> 's handler" where
  "oidcLoginHandler lib oc r w s = (Responded (http_Redirect lib r (oc_AuthCodeURL oc state) 303 w), s)"

definition oidc_callback :: "oidcAuthenticator \<Rightarrow> oidc_client \<Rightarrow> request \<Rightarrow> reply + http_cookie \<times> string" where
  "oidc_callback a oc r =
     (case callback_code r of
        Inl rep \<Rightarrow> Inl rep
      | Inr queryCode \<Rightarrow>
          (case oc_Exchange oc queryCode of
             Inl err \<Rightarrow> Inl (ApiError (''failed to get token: '' @ err) 500)
           | Inr token \<Rightarrow>
               (case Extra_id_token token of
                  None \<Rightarrow> Inl (ApiError ''no id_token in token response'' 500)
                | Some rawIDToken \<Rightarrow>
                    (case oidc_verifier a rawIDToken of
                       Inl err \<Rightarrow> Inl (ApiError (''failed to verify ID token: '' @ err) 500)
                     | Inr _ \<Rightarrow>
                         Inr (\<lparr>ck_Name = oidc_cookieName a, ck_Value = rawIDToken, ck_Expires = Expiry token\<rparr>,
                              oc_redirectURL oc)))))"

definition oidcCallBackHandler :: "url_lib \<Rightarrow> oidcAuthenticator \<Rightarrow> oidc_client \<Rightarrow> 's handler" where
  "oidcCallBackHandler lib a oc r w s = (Responded (finish_login lib r (oidc_callback a oc r) w), s)"

subsection \<open>OpenShift\<close>

definition defaultJWTExpiry :: int where
  "defaultJWTExpiry = 15 * 60 * 10 ^ 9"

text \<open>The claims of a new session, with the registered ones that the middleware does not read.\<close>

record SessionClaims = OpenShiftClaims +
  claim_Issuer :: string
  claim_ExpiresAt :: int
  claim_IssuedAt :: int

record oauth2_config =
  ClientID :: string
  ClientSecret :: string
  AuthURL :: string
  TokenURL :: string
  Scopes :: "string list"
  RedirectURL :: string

text \<open>
  \<open>oh_now1\<close> and \<open>oh_now2\<close> are the two readings of the clock, \<open>oh_iv\<close> is the initialization vector that is drawn, if any,
  \<open>oh_authenticate\<close> is the authenticator with its error.
\<close>

record openshift_client =
  oh_config :: oauth2_config
  oh_Exchange :: "oauth2_config \<Rightarrow> string \<Rightarrow> string + oauth_token"
  oh_authenticate :: "request \<Rightarrow> string + (string \<times> string list) option"
  oh_sign :: "string \<Rightarrow> SessionClaims \<Rightarrow> string + string"
  oh_iv :: "string option"
  oh_now1 :: int
  oh_now2 :: int
  oh_http_date :: "int \<Rightarrow> string"

definition openshiftLoginHandler :: "url_lib \<Rightarrow> openshift_client \<Rightarrow> 's handler" where
  "openshiftLoginHandler lib oh r w s =
     (let cfg = oh_config oh; queryRoute = values_get (url_query (URL r)) ''route'' in
      case url_Parse lib (AuthURL cfg) of
        Inl _ \<Rightarrow> (Responded (PrometheusAPIError w ''failed to parse authorization endpoint URL'' 500), s)
      | Inr u \<Rightarrow>
          if queryRoute = [] then (Responded (PrometheusAPIError w ''incorrect route in request'' 400), s)
          else
            (let params = fold (\<lambda>(k, v). values_set k v)
                   [(''redirect_uri'', RedirectURL cfg @ ''?route='' @ queryRoute), (''approval_prompt'', ''force''),
                    (''scope'', join '' '' (Scopes cfg)), (''client_id'', ClientID cfg), (''response_type'', ''code''),
                    (''state'', state)] []
             in (Responded (http_Redirect lib r (url_String lib (u\<lparr>RawQuery := values_encode params\<rparr>)) 303 w), s)))"

text \<open>The request that is made up for the token review.\<close>

definition review_request :: "url \<Rightarrow> string \<Rightarrow> request" where
  "review_request u token =
     \<lparr>Method = ''GET'', URL = u, Header = header_set ''Authorization'' (''Bearer '' @ token) [], Body = Body_ok [],
      ContentLength = 0, TLS = None, Ctx = background\<rparr>"

definition session_token :: "OpenShiftAuthenticator \<Rightarrow> openshift_client \<Rightarrow> string \<Rightarrow> string + string" where
  "session_token a oh token =
     (if os_cookieSecret a \<noteq> [] then Encrypt (os_block a) (oh_iv oh) token else Inr [])"

definition session_claims :: "openshift_client \<Rightarrow> string \<Rightarrow> string list \<Rightarrow> string \<Rightarrow> SessionClaims" where
  "session_claims oh name grps encToken =
     \<lparr>claim_Groups = grps, claim_AccessToken = encToken, claim_Subject = name, claim_Issuer = ''mcoa-gateway'',
      claim_ExpiresAt = oh_now2 oh + defaultJWTExpiry, claim_IssuedAt = oh_now1 oh\<rparr>"

definition openshift_callback ::
    "url_lib \<Rightarrow> OpenShiftAuthenticator \<Rightarrow> openshift_client \<Rightarrow> request \<Rightarrow> reply + http_cookie \<times> string" where
  "openshift_callback lib a oh r =
     (case callback_code r of
        Inl rep \<Rightarrow> Inl rep
      | Inr queryCode \<Rightarrow>
      (let queryRoute = values_get (url_query (URL r)) ''route''; cfg = oh_config oh in
       if queryRoute = [] then Inl (ApiError ''incorrect route in request'' 400)
       else (case oh_Exchange oh (cfg\<lparr>RedirectURL := RedirectURL cfg @ ''?route='' @ queryRoute\<rparr>) queryCode of
         Inl err \<Rightarrow> Inl (ApiError (''failed to get token: '' @ err) 500)
       | Inr token \<Rightarrow>
       if \<not> Valid token then Inl (ApiError ''invalid token provided'' 401)
       else (case url_Parse lib queryRoute of
         Inl _ \<Rightarrow> Inl (ApiError ''invalid request to the apiserver'' 500)
       | Inr u \<Rightarrow>
       (case oh_authenticate oh (review_request u (AccessToken token)) of
         Inl err \<Rightarrow> Inl (ApiError (''failed to authenticate redirect request: '' @ err) 401)
       | Inr None \<Rightarrow> Inl (ApiError ''failed to authenticate redirect request'' 401)
       | Inr (Some (name, grps)) \<Rightarrow>
       (case session_token a oh (AccessToken token) of
         Inl _ \<Rightarrow> Inl (ApiError ''failed to encrypt access token'' 500)
       | Inr encToken \<Rightarrow>
       (case oh_sign oh jwtSigningKey (session_claims oh name grps encToken) of
         Inl err \<Rightarrow> Inl (ApiError (''failed to sign jwt token: '' @ err) 500)
       | Inr str \<Rightarrow>
           Inr (\<lparr>ck_Name = os_cookieName a, ck_Value = str, ck_Expires = oh_http_date oh (oh_now2 oh + defaultJWTExpiry)\<rparr>,
                queryRoute))))))))"

definition openshiftCallbackHandler :: "url_lib \<Rightarrow> OpenShiftAuthenticator \<Rightarrow> openshift_client \<Rightarrow> 's handler" where
  "openshiftCallbackHandler lib a oh r w s = (Responded (finish_login lib r (openshift_callback lib a oh r) w), s)"

section \<open>Lemmas\<close>

text \<open>What a browser sends back of a cookie: the text up to the first semicolon.\<close>

definition sent_back :: "http_cookie \<Rightarrow> string" where
  "sent_back c = takeWhile (\<lambda>x. x \<noteq> CHR '';'') (cookie_string c)"

definition plain_value :: "string \<Rightarrow> bool" where
  "plain_value v = (v \<noteq> [] \<and> list_all (\<lambda>c. valid_cookie_byte c \<and> c \<noteq> CHR '' '' \<and> c \<noteq> CHR '','') v)"

definition cookie_name :: "string \<Rightarrow> bool" where
  "cookie_name n = (n \<noteq> [] \<and> list_all is_token_char n)"

lemma token_char_plain:
  assumes "is_token_char c"
  shows "c \<notin> set [CHR '';'', CHR ''='', CHR 0x20, CHR 0x09, CHR 0x0A, CHR 0x0D]"
  using assms by (auto simp: is_token_char_def is_lower_def is_upper_def is_digit_def)

lemma valid_byte_plain:
  assumes "valid_cookie_byte c" "c \<noteq> CHR '' ''"
  shows "c \<notin> set [CHR '';'', CHR 0x22, CHR 0x20, CHR 0x09, CHR 0x0A, CHR 0x0D]"
  using assms by (auto simp: valid_cookie_byte_def)

lemma ascii_trim_id:
  assumes "\<And>c. c \<in> set s \<Longrightarrow> c \<notin> set [CHR 0x20, CHR 0x09, CHR 0x0A, CHR 0x0D]"
  shows "ascii_trim s = s"
proof -
  have drop: "dropWhile (\<lambda>c. c \<in> set [CHR 0x20, CHR 0x09, CHR 0x0A, CHR 0x0D]) xs = xs" if "set xs \<subseteq> set s" for xs
    using that assms by (cases xs) auto
  show ?thesis unfolding ascii_trim_def Let_def by (subst drop, simp, subst drop, simp_all)
qed

lemma sanitize_plain: "plain_value v \<Longrightarrow> sanitize_cookie_value v = v"
proof -
  assume "plain_value v"
  hence "\<And>c. c \<in> set v \<Longrightarrow> valid_cookie_byte c \<and> c \<noteq> CHR '' '' \<and> c \<noteq> CHR '',''"
    by (auto simp: plain_value_def list_all_iff)
  moreover from this have "filter valid_cookie_byte v = v" by (simp add: filter_id_conv)
  ultimately show ?thesis unfolding sanitize_cookie_value_def Let_def by auto
qed

lemma sent_back_plain:
  assumes "cookie_name (ck_Name c)" "plain_value (ck_Value c)"
  shows "sent_back c = ck_Name c @ ''='' @ ck_Value c"
proof -
  let ?x = "ck_Name c @ ''='' @ ck_Value c"
  obtain rest where "cookie_string c = ?x @ CHR '';'' # rest"
    using assms by (auto simp: cookie_string_def cookie_name_def sanitize_plain)
  moreover have "CHR '';'' \<notin> set ?x"
    using assms token_char_plain valid_byte_plain by (fastforce simp: cookie_name_def plain_value_def list_all_iff)
  hence "\<forall>x \<in> set ?x. x \<noteq> CHR '';''" by blast
  ultimately show ?thesis unfolding sent_back_def by (simp add: takeWhile_append2)
qed

text \<open>The cookie that a handler sets is the one a later request has.\<close>

lemma cookie_sent_back:
  assumes "cookie_name (ck_Name c)" "plain_value (ck_Value c)" "header_values (Header r) ''Cookie'' = [sent_back c]"
  shows "request_cookie r (ck_Name c) = Some (ck_Value c)"
proof -
  let ?n = "ck_Name c" and ?v = "ck_Value c"
  let ?x = "?n @ CHR ''='' # ?v"
  have n: "\<And>x. x \<in> set ?n \<Longrightarrow> x \<notin> set [CHR '';'', CHR ''='', CHR 0x20, CHR 0x09, CHR 0x0A, CHR 0x0D]"
    using assms(1) token_char_plain by (auto simp: cookie_name_def list_all_iff)
  have v: "\<And>x. x \<in> set ?v \<Longrightarrow> x \<notin> set [CHR '';'', CHR 0x22, CHR 0x20, CHR 0x09, CHR 0x0A, CHR 0x0D]"
    using assms(2) valid_byte_plain unfolding plain_value_def list_all_iff by blast
  have trim: "ascii_trim ?x = ?x" "ascii_trim ?n = ?n"
    by (rule ascii_trim_id; use n v in force)+
  have "CHR '';'' \<notin> set ?x" using n v by force
  hence split: "split_on (CHR '';'') ?x = [?x]" by (rule split_on_no_sep)
  have cut: "cut_at (CHR ''='') ?x = (?n, ?v)" using n by (intro cut_at_first) force
  have "?v \<noteq> []" using assms(2) by (simp add: plain_value_def)
  hence "hd ?v \<noteq> CHR 0x22" using v [of "hd ?v"] by auto
  hence "parse_cookie_value ?v = Some ?v"
    using assms(2) by (auto simp: parse_cookie_value_def plain_value_def list_all_iff)
  hence "parse_cookie ?x = Some (?n, ?v)"
    using assms(1) by (simp add: parse_cookie_def trim cut cookie_name_def)
  hence "request_cookies r = [(?n, ?v)]"
    using sent_back_plain [OF assms(1,2)] assms(3) by (simp add: request_cookies_def trim split map_filter_simps)
  thus ?thesis using assms(1) by (simp add: request_cookie_def cookie_name_def)
qed

lemma openshift_callback_Inr:
  assumes "openshift_callback lib a oh r = Inr (c, route)"
  obtains code token u name grps enc where
    "callback_code r = Inr code" "route = values_get (url_query (URL r)) ''route''"
    "oh_Exchange oh ((oh_config oh)\<lparr>RedirectURL := RedirectURL (oh_config oh) @ ''?route='' @ route\<rparr>) code = Inr token"
    "Valid token" "oh_authenticate oh (review_request u (AccessToken token)) = Inr (Some (name, grps))"
    "session_token a oh (AccessToken token) = Inr enc"
    "oh_sign oh jwtSigningKey (session_claims oh name grps enc) = Inr (ck_Value c)" "ck_Name c = os_cookieName a"
  using assms unfolding openshift_callback_def Let_def
  by (auto split: sum.splits option.splits if_splits prod.splits)

lemma session_token_decrypts:
  assumes "\<And>b. length b = 16 \<Longrightarrow> length (os_block a b) = 16" "\<And>iv. oh_iv oh = Some iv \<Longrightarrow> length iv = 16"
    and "session_token a oh t = Inr enc" "os_cookieSecret a \<noteq> []"
  shows "Decrypt (os_block a) enc = Inr t"
proof -
  have "block_fun (os_block a)" using assms(1) by (simp add: block_fun_def aes_BlockSize_def)
  moreover obtain iv where "oh_iv oh = Some iv" "Encrypt (os_block a) (Some iv) t = Inr enc"
    using assms(3,4) by (cases "oh_iv oh") (auto simp: session_token_def Encrypt_def)
  ultimately show ?thesis
    using assms(2) xor_key_stream_involution [of "os_block a" iv t] by (auto simp: Encrypt_def Decrypt_def aes_BlockSize_def)
qed

section \<open>Properties\<close>

text \<open>
  C20. A session goes round: let the OpenShift callback end with a cookie, and let a browser send back what it got of that
  cookie.  Then the callback has had a valid token from the OAuth2 server and the cluster has named a user for
  it, and the middleware takes the request in the name of that user with the groups of that user;
  with a cookie secret it also recovers the access token.  The library accepts the tokens it has signed, and the
  block function maps blocks to blocks.
\<close>

theorem openshift_session_round_trip:
  assumes "openshift_callback lib a oh r = Inr (c, route)"
    and "\<And>sc. oh_sign oh jwtSigningKey sc = Inr (ck_Value c)
           \<Longrightarrow> os_parse_jwt a jwtSigningKey (ck_Value c) = Inr (True, OpenShiftClaims.truncate sc)"
    and "\<And>b. length b = 16 \<Longrightarrow> length (os_block a b) = 16" "\<And>iv. oh_iv oh = Some iv \<Longrightarrow> length iv = 16"
    and "cookie_name (os_cookieName a)" "plain_value (ck_Value c)"
    and "os_oauthEnabled a" "os_authenticator a r2 = None" "header_values (Header r2) ''Cookie'' = [sent_back c]"
  shows "\<exists>code token u name grps r2'.
       oh_Exchange oh ((oh_config oh)\<lparr>RedirectURL := RedirectURL (oh_config oh) @ ''?route='' @ route\<rparr>) code = Inr token
     \<and> Valid token \<and> oh_authenticate oh (review_request u (AccessToken token)) = Inr (Some (name, grps))
     \<and> os_check a r2 = Inr r2' \<and> subjectKey (Ctx r2') = Some name \<and> groupsKey (Ctx r2') = Some grps
     \<and> (os_cookieSecret a \<noteq> [] \<longrightarrow> accessTokenKey (Ctx r2') = Some (AccessToken token))"
proof -
  obtain code token u name grps enc where cb:
      "oh_Exchange oh ((oh_config oh)\<lparr>RedirectURL := RedirectURL (oh_config oh) @ ''?route='' @ route\<rparr>) code = Inr token"
      "Valid token" "oh_authenticate oh (review_request u (AccessToken token)) = Inr (Some (name, grps))"
      "session_token a oh (AccessToken token) = Inr enc"
      "oh_sign oh jwtSigningKey (session_claims oh name grps enc) = Inr (ck_Value c)" "ck_Name c = os_cookieName a"
    using openshift_callback_Inr [OF assms(1)] by metis
  have cookie: "request_cookie r2 (os_cookieName a) = Some (ck_Value c)"
    using cookie_sent_back [of c r2] assms(5,6,9) cb(6) by simp
  have jwt: "os_parse_jwt a jwtSigningKey (ck_Value c)
      = Inr (True, \<lparr>claim_Groups = grps, claim_AccessToken = enc, claim_Subject = name\<rparr>)"
    using assms(2) [OF cb(5)] by (simp add: session_claims_def OpenShiftClaims.defs)
  have check: "os_check a r2 = os_session a (ck_Value c) r2" using assms(7,8) cookie by (simp add: os_check_def)
  have "\<exists>r2'. os_check a r2 = Inr r2' \<and> subjectKey (Ctx r2') = Some name \<and> groupsKey (Ctx r2') = Some grps
     \<and> (os_cookieSecret a \<noteq> [] \<longrightarrow> accessTokenKey (Ctx r2') = Some (AccessToken token))"
  proof (cases "os_cookieSecret a = []")
    case True
    thus ?thesis by (simp add: check os_session_def jwt set_user_def with_ctx_def)
  next
    case False
    thus ?thesis using session_token_decrypts [OF assms(3,4) cb(4)]
      by (simp add: check os_session_def jwt set_user_def with_ctx_def)
  qed
  thus ?thesis using cb(1-3) by blast
qed

definition sample_enc :: string where
  "sample_enc = (case Encrypt (map (xor_char (CHR 0x5A))) (Some ''0123456789abcdef'') ''at'' of Inl _ \<Rightarrow> [] | Inr s \<Rightarrow> s)"

definition sample_os :: OpenShiftAuthenticator where
  "sample_os =
     \<lparr>os_authenticator = (\<lambda>_. None),
      os_parse_jwt = (\<lambda>k t. if t = ''tok'' then Inr (True, \<lparr>claim_Groups = [''dev''], claim_AccessToken = sample_enc, claim_Subject = ''u1''\<rparr>)
                            else Inl ''malformed''),
      os_cookieName = ''mcoa'', os_cookieSecret = ''secret'', os_block = map (xor_char (CHR 0x5A)), os_oauthEnabled = True\<rparr>"

definition sample_oh :: openshift_client where
  "sample_oh =
     \<lparr>oh_config = \<lparr>ClientID = ''id'', ClientSecret = ''s'', AuthURL = ''a'', TokenURL = ''t'', Scopes = [], RedirectURL = ''cb''\<rparr>,
      oh_Exchange = (\<lambda>cfg code. Inr \<lparr>AccessToken = ''at'', Expiry = [], Extra_id_token = None, Valid = True\<rparr>),
      oh_authenticate = (\<lambda>_. Inr (Some (''u1'', [''dev'']))),
      oh_sign = (\<lambda>k sc. if claim_Subject sc = ''u1'' \<and> claim_Groups sc = [''dev''] \<and> claim_AccessToken sc = sample_enc
                         then Inr ''tok'' else Inl ''unknown''),
      oh_iv = Some ''0123456789abcdef'', oh_now1 = 0, oh_now2 = 0, oh_http_date = (\<lambda>_. [])\<rparr>"

definition sample_lib :: url_lib where
  "sample_lib = \<lparr>url_Parse = (\<lambda>s. Inr \<lparr>Scheme = ''https'', Host = ''h'', Path = ''/'', RawQuery = []\<rparr>), url_String = (\<lambda>u. Path u)\<rparr>"

definition callback_request :: request where
  "callback_request =
     plain_request\<lparr>URL := \<lparr>Scheme = [], Host = [], Path = ''/callback'',
        RawQuery = ''code=x&state=I+love+MCOA+Gateway&route=https%3A%2F%2Fh''\<rparr>\<rparr>"

lemma sample_callback_params:
  "callback_code callback_request = Inr ''x''" "values_get (url_query (URL callback_request)) ''route'' = ''https://h''"
  by code_simp+

lemma sample_callback:
  "openshift_callback sample_lib sample_os sample_oh callback_request
     = Inr (\<lparr>ck_Name = ''mcoa'', ck_Value = ''tok'', ck_Expires = []\<rparr>, ''https://h'')"
  by (simp add: openshift_callback_def sample_callback_params sample_oh_def sample_lib_def sample_os_def session_token_def
      session_claims_def Encrypt_def sample_enc_def)

theorem openshift_session_round_trip_witness:
  "let r2 = plain_request\<lparr>Header := [(''Cookie'', [''mcoa=tok''])]\<rparr>
   in \<exists>r2'. os_check sample_os r2 = Inr r2' \<and> subjectKey (Ctx r2') = Some ''u1'' \<and> accessTokenKey (Ctx r2') = Some ''at''"
proof -
  define r2 where "r2 = plain_request\<lparr>Header := [(''Cookie'', [''mcoa=tok''])]\<rparr>"
  have plain: "cookie_name (os_cookieName sample_os)" "plain_value ''tok''"
    "header_values (Header r2) ''Cookie'' = [sent_back \<lparr>ck_Name = ''mcoa'', ck_Value = ''tok'', ck_Expires = []\<rparr>]"
    unfolding r2_def by code_simp+
  have jwt: "os_parse_jwt sample_os jwtSigningKey ''tok'' = Inr (True, OpenShiftClaims.truncate sc)"
    if "oh_sign sample_oh jwtSigningKey sc = Inr ''tok''" for sc
    using that by (simp add: sample_os_def sample_oh_def OpenShiftClaims.defs split: if_splits)
  have block: "length (os_block sample_os b) = length b" "os_oauthEnabled sample_os" "os_authenticator sample_os r2 = None"
    "os_cookieSecret sample_os \<noteq> []" for b
    by (simp_all add: sample_os_def)
  have oh: "oh_iv sample_oh = Some iv \<Longrightarrow> length iv = 16"
    "oh_authenticate sample_oh q = Inr (Some (n, g)) \<Longrightarrow> n = ''u1''"
    "oh_Exchange sample_oh cfg cd = Inr t \<Longrightarrow> AccessToken t = ''at''" for iv q n g cfg cd t
    by (auto simp: sample_oh_def)
  have "\<exists>code token u name grps r2'.
       oh_Exchange sample_oh ((oh_config sample_oh)\<lparr>RedirectURL := RedirectURL (oh_config sample_oh) @ ''?route='' @ ''https://h''\<rparr>) code
         = Inr token
     \<and> Valid token \<and> oh_authenticate sample_oh (review_request u (AccessToken token)) = Inr (Some (name, grps))
     \<and> os_check sample_os r2 = Inr r2' \<and> subjectKey (Ctx r2') = Some name \<and> groupsKey (Ctx r2') = Some grps
     \<and> (os_cookieSecret sample_os \<noteq> [] \<longrightarrow> accessTokenKey (Ctx r2') = Some (AccessToken token))"
    by (rule openshift_session_round_trip [OF sample_callback]) (simp_all add: plain jwt block oh)
  thus ?thesis using block(4) oh(2,3) unfolding Let_def r2_def [symmetric] by metis
qed

text \<open>
  C21. The OIDC callback sets a cookie only for an ID token that the verifier accepts, after the code and the state of the request
  have been checked; and a request with that cookie and without an \<open>Authorization\<close> header is decided by this token:
  it is taken in the name of the subject of the token, where no groups are configured.
\<close>

theorem oidc_session_round_trip:
  assumes "oidc_callback a oc r = Inr (c, target)" "cookie_name (oidc_cookieName a)" "plain_value (ck_Value c)"
    and "header_values (Header r2) ''Cookie'' = [sent_back c]" "header_get (Header r2) ''Authorization'' = []"
  shows "\<exists>idToken. oidc_verifier a (ck_Value c) = Inr idToken \<and> values_get (url_query (URL r)) ''state'' = state
     \<and> (\<forall>sub. oidc_subject (oidc_config a) idToken = Inr sub \<longrightarrow> GroupClaim (oidc_config a) = [] \<longrightarrow>
          oidc_check fmt_v a r2 = Inr (with_ctx (\<lambda>x. x\<lparr>subjectKey := Some sub\<rparr>) r2))"
proof -
  have cb: "ck_Name c = oidc_cookieName a" "values_get (url_query (URL r)) ''state'' = state"
      "\<exists>idToken. oidc_verifier a (ck_Value c) = Inr idToken"
    using assms(1) by (auto simp: oidc_callback_def callback_code_def Let_def split: sum.splits option.splits if_splits)
  have "oidc_token a r2 = Inr (ck_Value c)"
    using cookie_sent_back [of c r2] cb(1) assms(2-5) by (simp add: oidc_token_def)
  thus ?thesis using cb(2,3) by (auto simp: oidc_check_def checkAuth_def Let_def with_ctx_def)
qed

definition sample_oidc :: oidcAuthenticator where
  "sample_oidc =
     \<lparr>oidc_config = \<lparr>GroupClaim = [], UsernameClaim = []\<rparr>, oidc_cookieName = ''mcoa'',
      oidc_verifier = (\<lambda>t. if t = ''tok'' then Inr \<lparr>Subject = ''u1'', Claims = None\<rparr> else Inl ''bad'')\<rparr>"

theorem oidc_session_round_trip_witness:
  "let r2 = plain_request\<lparr>Header := [(''Cookie'', [''mcoa=tok''])]\<rparr>
   in oidc_check (\<lambda>_. []) sample_oidc r2 = Inr (with_ctx (\<lambda>x. x\<lparr>subjectKey := Some ''u1''\<rparr>) r2)"
proof -
  define r2 where "r2 = plain_request\<lparr>Header := [(''Cookie'', [''mcoa=tok''])]\<rparr>"
  define c where "c = \<lparr>ck_Name = ''mcoa'', ck_Value = ''tok'', ck_Expires = []\<rparr>"
  define oc where "oc = \<lparr>oc_AuthCodeURL = (\<lambda>_. []),
    oc_Exchange = (\<lambda>_. Inr \<lparr>AccessToken = [], Expiry = [], Extra_id_token = Some ''tok'', Valid = True\<rparr>), oc_redirectURL = ''/''\<rparr>"
  have cb: "oidc_callback sample_oidc oc callback_request = Inr (c, ''/'')"
    by (simp add: oidc_callback_def sample_callback_params oc_def sample_oidc_def c_def)
  have plain: "cookie_name (oidc_cookieName sample_oidc)" "plain_value (ck_Value c)"
    "header_values (Header r2) ''Cookie'' = [sent_back c]" "header_get (Header r2) ''Authorization'' = []"
    unfolding r2_def c_def by code_simp+
  show ?thesis
    using oidc_session_round_trip [OF cb plain, of "\<lambda>_. []"] unfolding Let_def r2_def [symmetric]
    by (simp add: sample_oidc_def c_def oidc_subject_def)
qed

text \<open>
  C40. After a successful login at the OpenShift provider the browser is sent to whatever the \<open>route\<close> parameter of the callback
  names: a URL with a scheme, of any host, ends up unchanged in the \<open>Location\<close> header of the redirect.
\<close>

theorem openshift_callback_redirects_anywhere:
  assumes "openshift_callback lib a oh r = Inr (c, route)" "url_Parse lib route = Inr u" "Scheme u \<noteq> []" "wstatus w = None"
    and "openshiftCallbackHandler lib a oh r w s = (Responded w', s')"
  shows "route = values_get (url_query (URL r)) ''route'' \<and> wstatus w' = Some 302
       \<and> header_values (wsent w') ''Location'' = [hex_escape_non_ascii route]"
proof -
  have "route = values_get (url_query (URL r)) ''route''" by (rule openshift_callback_Inr [OF assms(1)])
  moreover have "redirect_target lib r route = route" using assms(2,3) by (simp add: redirect_target_def)
  moreover have "wstatus (set_cookie c w) = None" using assms(4) by (simp add: set_cookie_def)
  moreover have "w' = http_Redirect lib r route 302 (set_cookie c w)"
    using assms(1,5) by (simp add: openshiftCallbackHandler_def finish_login_def)
  moreover have "canonical_key ''Content-Type'' \<noteq> canonical_key ''Location''" by code_simp
  ultimately show ?thesis
    by (simp add: http_Redirect_def set_wheader_def write_header_def write_body_def Let_def)
qed

theorem openshift_callback_redirects_anywhere_witness:
  "\<exists>w'. openshiftCallbackHandler sample_lib sample_os sample_oh callback_request new_writer () = (Responded w', ())
      \<and> header_values (wsent w') ''Location'' = [''https://h'']"
proof -
  obtain w' where w: "openshiftCallbackHandler sample_lib sample_os sample_oh callback_request new_writer () = (Responded w', ())"
    by (simp add: openshiftCallbackHandler_def)
  have e: "hex_escape_non_ascii ''https://h'' = ''https://h''" by code_simp
  show ?thesis
    using openshift_callback_redirects_anywhere [OF sample_callback _ _ _ w] w e by (simp add: sample_lib_def new_writer_def)
qed

end
