(* ===== verification/Metrics_API.thy ===== *)
theory Metrics_API
  imports Routes Metrics_Enforcer Alertmanager Rule_Files Login_Flow
begin

text \<open>
  The routes of the metrics API, \<open>api/metrics/v1/http.go\<close>, and of its predecessor, \<open>api/metrics/legacy/http.go\<close>: the
  options of the handlers, which collect middlewares, and the routers they build.  Loggers, registries and the
  transports of the proxies are left out; what the middlewares need of library code is one record.
\<close>

section \<open>Definitions\<close>

subsection \<open>Routes and configuration\<close>

definition UIRoute :: string where "UIRoute = ''/''"
definition QueryRoute :: string where "QueryRoute = ''/api/v1/query''"
definition QueryRangeRoute :: string where "QueryRangeRoute = ''/api/v1/query_range''"
definition SeriesRoute :: string where "SeriesRoute = ''/api/v1/series''"
definition LabelNamesRoute :: string where "LabelNamesRoute = ''/api/v1/labels''"
definition LabelValuesRoute :: string where "LabelValuesRoute = ''/api/v1/label/{label_name}/values''"
definition ReceiveRoute :: string where "ReceiveRoute = ''/api/v1/receive''"
definition RulesRoute :: string where "RulesRoute = ''/api/v1/rules''"
definition RulesRawRoute :: string where "RulesRawRoute = ''/api/v1/rules/raw''"
definition AlertmanagerAlertsRoute :: string where "AlertmanagerAlertsRoute = ''/am/api/v2/alerts''"
definition AlertmanagerSilencesRoute :: string where "AlertmanagerSilencesRoute = ''/am/api/v2/silences''"
definition AlertmanagerSilenceRoute :: string where "AlertmanagerSilenceRoute = ''/am/api/v2/silence/{silenceID}''"

lemmas metrics_route_defs = UIRoute_def QueryRoute_def QueryRangeRoute_def SeriesRoute_def LabelNamesRoute_def
  LabelValuesRoute_def ReceiveRoute_def RulesRoute_def RulesRawRoute_def AlertmanagerAlertsRoute_def
  AlertmanagerSilencesRoute_def AlertmanagerSilenceRoute_def

record 's alertmanagerMiddleware =
  alertsReadMiddlewares :: "'s middleware list"
  silenceReadMiddlewares :: "'s middleware list"
  silenceWriteMiddlewares :: "'s middleware list"
  silenceIDReadMiddlewares :: "'s middleware list"
  silenceIDWriteMiddlewares :: "'s middleware list"

text \<open>The instrumenter is an interface: given labels or none, it wraps a handler.\<close>

type_synonym 's handlerInstrumenter = "(string \<times> string) list option \<Rightarrow> 's middleware"

definition nopInstrumentHandler :: "'s handlerInstrumenter" where
  "nopInstrumentHandler labels handler = handler"

record 's metrics_handlerConfiguration =
  metrics_instrument :: "'s handlerInstrumenter"
  metrics_tenantLabel :: string
  metrics_queryMiddlewares :: "'s middleware list"
  metrics_readMiddlewares :: "'s middleware list"
  metrics_uiMiddlewares :: "'s middleware list"
  metrics_writeMiddlewares :: "'s middleware list"
  metrics_alertmanagerMiddleware :: "'s alertmanagerMiddleware"

type_synonym 's metrics_HandlerOption = "'s metrics_handlerConfiguration \<Rightarrow> 's metrics_handlerConfiguration"

definition Metrics_WithHandlerInstrumenter :: "'s handlerInstrumenter \<Rightarrow> 's metrics_HandlerOption" where
  "Metrics_WithHandlerInstrumenter i h = h\<lparr>metrics_instrument := i\<rparr>"

definition Metrics_WithTenantLabel :: "string \<Rightarrow> 's metrics_HandlerOption" where
  "Metrics_WithTenantLabel tenantLabel h = h\<lparr>metrics_tenantLabel := tenantLabel\<rparr>"

definition Metrics_WithReadMiddleware :: "'s middleware \<Rightarrow> 's metrics_HandlerOption" where
  "Metrics_WithReadMiddleware m h = h\<lparr>metrics_readMiddlewares := metrics_readMiddlewares h @ [m]\<rparr>"

definition Metrics_WithQueryMiddleware :: "'s middleware \<Rightarrow> 's metrics_HandlerOption" where
  "Metrics_WithQueryMiddleware m h = h\<lparr>metrics_queryMiddlewares := metrics_queryMiddlewares h @ [m]\<rparr>"

definition Metrics_WithUIMiddleware :: "'s middleware \<Rightarrow> 's metrics_HandlerOption" where
  "Metrics_WithUIMiddleware m h = h\<lparr>metrics_uiMiddlewares := metrics_uiMiddlewares h @ [m]\<rparr>"

definition Metrics_WithWriteMiddleware :: "'s middleware \<Rightarrow> 's metrics_HandlerOption" where
  "Metrics_WithWriteMiddleware m h = h\<lparr>metrics_writeMiddlewares := metrics_writeMiddlewares h @ [m]\<rparr>"

definition with_alertmanager ::
    "('s alertmanagerMiddleware \<Rightarrow> 's alertmanagerMiddleware) \<Rightarrow> 's metrics_HandlerOption" where
  "with_alertmanager f h = h\<lparr>metrics_alertmanagerMiddleware := f (metrics_alertmanagerMiddleware h)\<rparr>"

definition WithAlertmanagerAlertsReadMiddleware :: "'s middleware list \<Rightarrow> 's metrics_HandlerOption" where
  "WithAlertmanagerAlertsReadMiddleware m = with_alertmanager (\<lambda>a. a\<lparr>alertsReadMiddlewares := alertsReadMiddlewares a @ m\<rparr>)"

definition WithAlertmanagerSilenceReadMiddleware :: "'s middleware list \<Rightarrow> 's metrics_HandlerOption" where
  "WithAlertmanagerSilenceReadMiddleware m = with_alertmanager (\<lambda>a. a\<lparr>silenceReadMiddlewares := silenceReadMiddlewares a @ m\<rparr>)"

definition WithAlertmanagerSilenceWriteMiddleware :: "'s middleware list \<Rightarrow> 's metrics_HandlerOption" where
  "WithAlertmanagerSilenceWriteMiddleware m = with_alertmanager (\<lambda>a. a\<lparr>silenceWriteMiddlewares := silenceWriteMiddlewares a @ m\<rparr>)"

definition WithAlertmanagerSilenceIDReadMiddleware :: "'s middleware list \<Rightarrow> 's metrics_HandlerOption" where
  "WithAlertmanagerSilenceIDReadMiddleware m = with_alertmanager (\<lambda>a. a\<lparr>silenceIDReadMiddlewares := silenceIDReadMiddlewares a @ m\<rparr>)"

definition WithAlertmanagerSilenceIDWriteMiddleware :: "'s middleware list \<Rightarrow> 's metrics_HandlerOption" where
  "WithAlertmanagerSilenceIDWriteMiddleware m = with_alertmanager (\<lambda>a. a\<lparr>silenceIDWriteMiddlewares := silenceIDWriteMiddlewares a @ m\<rparr>)"

definition Metrics_WithGlobalMiddleware :: "'s middleware list \<Rightarrow> 's metrics_HandlerOption" where
  "Metrics_WithGlobalMiddleware m h =
     with_alertmanager
       (\<lambda>a. \<lparr>alertsReadMiddlewares = alertsReadMiddlewares a @ m, silenceReadMiddlewares = silenceReadMiddlewares a @ m,
             silenceWriteMiddlewares = silenceWriteMiddlewares a @ m, silenceIDReadMiddlewares = silenceIDReadMiddlewares a @ m,
             silenceIDWriteMiddlewares = silenceIDWriteMiddlewares a @ m\<rparr>)
       (h\<lparr>metrics_uiMiddlewares := metrics_uiMiddlewares h @ m, metrics_queryMiddlewares := metrics_queryMiddlewares h @ m,
          metrics_readMiddlewares := metrics_readMiddlewares h @ m\<rparr>)"

record Endpoints =
  ReadEndpoint :: "url option"
  WriteEndpoint :: "url option"
  RulesEndpoint :: "url option"
  AlertmanagerEndpoint :: "url option"

text \<open>
  Library code that the routes use: the PromQL parser and the YAML codec of the rule handlers, the rules client and the
  silence store of an endpoint, and the Alertmanager syntax.
\<close>

record ('e, 'x, 's) metrics_env =
  env_promql :: "'e promql"
  env_yaml :: rules_yaml
  env_rules_client :: "url \<Rightarrow> string + 's rules_client"
  env_am_parse :: am_parser
  env_am_print :: "matcher \<Rightarrow> string"
  env_silence_codec :: "'x silence_codec"
  env_silences :: "url \<Rightarrow> silence_store"

subsection \<open>The router\<close>

definition groupMetricsV1 :: string where
  "groupMetricsV1 = ''metricsv1''"

definition metrics_labels :: "string \<Rightarrow> (string \<times> string) list" where
  "metrics_labels handler = [(''group'', groupMetricsV1), (''handler'', handler)]"

definition metrics_read_routes :: "'s metrics_handlerConfiguration \<Rightarrow> url \<Rightarrow> 's router" where
  "metrics_read_routes c endpoint =
     (let proxyQuery = ReverseProxy (upstream_director endpoint);
          proxyRead = ReverseProxy (upstream_director endpoint);
          uiProxy = ReverseProxy (upstream_director endpoint);
          strip = StripPrefix ''/api/metrics/v1''
      in chi_Group (metrics_labels ''query'') (metrics_queryMiddlewares c @ [strip]) (chi_Handle QueryRoute proxyQuery)
       @ chi_Group (metrics_labels ''query_range'') (metrics_queryMiddlewares c @ [strip]) (chi_Handle QueryRangeRoute proxyQuery)
       @ chi_Group (metrics_labels ''series'') (metrics_readMiddlewares c @ [strip]) (chi_Handle SeriesRoute proxyRead)
       @ chi_Group (metrics_labels ''label_names'') (metrics_readMiddlewares c @ [strip]) (chi_Handle LabelNamesRoute proxyRead)
       @ chi_Group (metrics_labels ''label_values'') (metrics_readMiddlewares c @ [strip]) (chi_Handle LabelValuesRoute proxyRead)
       @ chi_Group (metrics_labels ''rules'') (metrics_readMiddlewares c @ [strip]) (chi_Handle RulesRoute proxyRead)
       @ chi_Group (metrics_labels ''ui'') (metrics_uiMiddlewares c @ [strip]) (chi_MountHandler UIRoute uiProxy))"

definition metrics_write_routes :: "'s metrics_handlerConfiguration \<Rightarrow> url \<Rightarrow> 's router" where
  "metrics_write_routes c endpoint =
     chi_Group (metrics_labels ''receive'') (metrics_writeMiddlewares c @ [StripPrefix ''/api/metrics/v1''])
       (chi_Handle ReceiveRoute (ReverseProxy (upstream_director endpoint)))"

definition metrics_rules_routes ::
    "('e, 'x, 's) metrics_env \<Rightarrow> 's metrics_handlerConfiguration \<Rightarrow> 's rules_client \<Rightarrow> 's router" where
  "metrics_rules_routes env c client =
     (let strip = StripPrefix ''/api/metrics/v1''
      in chi_Group (metrics_labels ''rules'') (metrics_uiMiddlewares c @ [strip])
           (chi_Method ''GET'' RulesRawRoute (rulesHandler_get (env_promql env) (env_yaml env) client (metrics_tenantLabel c)))
       @ chi_Group (metrics_labels ''rules-raw'') (metrics_writeMiddlewares c @ [strip])
           (chi_Method ''PUT'' RulesRawRoute (rulesHandler_put (env_promql env) (env_yaml env) client (metrics_tenantLabel c))))"

definition metrics_alertmanager_routes ::
    "('e, 'x, 's) metrics_env \<Rightarrow> 's metrics_handlerConfiguration \<Rightarrow> url \<Rightarrow> 's router" where
  "metrics_alertmanager_routes env c endpoint =
     (let proxyAlertmanager = ReverseProxy (upstream_director endpoint);
          am = metrics_alertmanagerMiddleware c;
          onFilter = WithEnforceTenancyOnFilter (env_am_parse env) (env_am_print env) (metrics_tenantLabel c);
          onMatchers = WithEnforceTenancyOnSilenceMatchers (env_silence_codec env) (metrics_tenantLabel c);
          enforceTenancyOnSilenceID = WithEnforceTenancyOnSilenceID (env_silences env endpoint) (metrics_tenantLabel c);
          strip = StripPrefix ''/api/metrics/v1/am''
      in chi_Group (metrics_labels ''alerts'') (alertsReadMiddlewares am @ [onFilter, strip])
           (chi_Method ''GET'' AlertmanagerAlertsRoute proxyAlertmanager)
       @ chi_Group (metrics_labels ''silences'') (silenceReadMiddlewares am @ [onFilter, strip])
           (chi_Method ''GET'' AlertmanagerSilencesRoute proxyAlertmanager)
       @ chi_Group (metrics_labels ''silences'') (silenceWriteMiddlewares am @ [onMatchers, strip])
           (chi_Method ''POST'' AlertmanagerSilencesRoute proxyAlertmanager)
       @ chi_Group (metrics_labels ''silence'') (silenceIDReadMiddlewares am @ [enforceTenancyOnSilenceID, strip])
           (chi_Method ''GET'' AlertmanagerSilenceRoute proxyAlertmanager)
       @ chi_Group (metrics_labels ''silence'') (silenceIDWriteMiddlewares am @ [enforceTenancyOnSilenceID, strip])
           (chi_Method ''DELETE'' AlertmanagerSilenceRoute proxyAlertmanager))"

definition metrics_defaults :: "'s metrics_handlerConfiguration" where
  "metrics_defaults =
     \<lparr>metrics_instrument = nopInstrumentHandler, metrics_tenantLabel = [], metrics_queryMiddlewares = [],
      metrics_readMiddlewares = [], metrics_uiMiddlewares = [], metrics_writeMiddlewares = [],
      metrics_alertmanagerMiddleware =
        \<lparr>alertsReadMiddlewares = [], silenceReadMiddlewares = [], silenceWriteMiddlewares = [],
         silenceIDReadMiddlewares = [], silenceIDWriteMiddlewares = []\<rparr>\<rparr>"

text \<open>
  Without a rules client the router is returned as it is then, without the routes to the Alertmanager.
  The annotation of spans by \<open>tracing.WithChiRoutePattern\<close> is left out.
\<close>

definition Metrics_NewHandler ::
    "('e, 'x, 's) metrics_env \<Rightarrow> Endpoints \<Rightarrow> 's metrics_HandlerOption list \<Rightarrow> 's router" where
  "Metrics_NewHandler env endpoints opts =
     (let c = fold (\<lambda>opt c. opt c) opts metrics_defaults;
          rd = (case ReadEndpoint endpoints of None \<Rightarrow> [] | Some u \<Rightarrow> metrics_read_routes c u);
          wr = (case WriteEndpoint endpoints of None \<Rightarrow> [] | Some u \<Rightarrow> metrics_write_routes c u);
          am = (case AlertmanagerEndpoint endpoints of None \<Rightarrow> [] | Some u \<Rightarrow> metrics_alertmanager_routes env c u);
          rest = (case RulesEndpoint endpoints of
                    None \<Rightarrow> am
                  | Some u \<Rightarrow> (case env_rules_client env u of Inl _ \<Rightarrow> [] | Inr client \<Rightarrow> metrics_rules_routes env c client @ am))
      in chi_Group [] [metrics_instrument c None] (rd @ wr @ rest))"

subsection \<open>The legacy router\<close>

record 's legacy_handlerConfiguration =
  legacy_instrument :: "'s handlerInstrumenter"
  legacy_queryMiddlewares :: "'s middleware list"
  legacy_uiMiddlewares :: "'s middleware list"

type_synonym 's legacy_HandlerOption = "'s legacy_handlerConfiguration \<Rightarrow> 's legacy_handlerConfiguration"

definition Legacy_WithHandlerInstrumenter :: "'s handlerInstrumenter \<Rightarrow> 's legacy_HandlerOption" where
  "Legacy_WithHandlerInstrumenter i h = h\<lparr>legacy_instrument := i\<rparr>"

definition Legacy_WithQueryMiddleware :: "'s middleware \<Rightarrow> 's legacy_HandlerOption" where
  "Legacy_WithQueryMiddleware m h = h\<lparr>legacy_queryMiddlewares := legacy_queryMiddlewares h @ [m]\<rparr>"

definition Legacy_WithUIMiddleware :: "'s middleware \<Rightarrow> 's legacy_HandlerOption" where
  "Legacy_WithUIMiddleware m h = h\<lparr>legacy_uiMiddlewares := legacy_uiMiddlewares h @ [m]\<rparr>"

definition Legacy_WithGlobalMiddleware :: "'s middleware list \<Rightarrow> 's legacy_HandlerOption" where
  "Legacy_WithGlobalMiddleware m h =
     h\<lparr>legacy_uiMiddlewares := legacy_uiMiddlewares h @ m, legacy_queryMiddlewares := legacy_queryMiddlewares h @ m\<rparr>"

text \<open>The director of the legacy proxy reads the endpoint when a request comes, and panics if there is none.\<close>

definition legacyProxy :: "url option \<Rightarrow> 's handler" where
  "legacyProxy endpoint r w s =
     (case endpoint of
        None \<Rightarrow> (Responded (send_reply Abort w), s)
      | Some u \<Rightarrow> ReverseProxy (proxy_Middlewares [MiddlewareSetUpstream u]) r w s)"

definition legacy_graph :: "url_lib \<Rightarrow> 's handler" where
  "legacy_graph lib r w s =
     (let r' = set_path ''/api/metrics/v1/graph'' r
      in (Responded (http_Redirect lib r' (url_String lib (URL r')) 301 w), s))"

definition Legacy_NewHandler :: "url_lib \<Rightarrow> url option \<Rightarrow> 's legacy_HandlerOption list \<Rightarrow> 's router" where
  "Legacy_NewHandler lib endpoint opts =
     (let c = fold (\<lambda>opt c. opt c) opts
                \<lparr>legacy_instrument = nopInstrumentHandler, legacy_queryMiddlewares = [], legacy_uiMiddlewares = []\<rparr>
      in chi_Group [] [legacy_instrument c None]
           (chi_Group [(''group'', ''metricslegacy''), (''handler'', ''query'')] (legacy_queryMiddlewares c)
              (chi_Handle QueryRoute (legacyProxy endpoint))
          @ chi_Group [(''group'', ''metricslegacy''), (''handler'', ''query_range'')] (legacy_queryMiddlewares c)
              (chi_Handle QueryRangeRoute (legacyProxy endpoint))
          @ chi_Group [] (legacy_uiMiddlewares c) (chi_Handle ''/graph'' (legacy_graph lib))))"

end
