(* ===== verification/LogQL.thy ===== *)
theory LogQL
  imports Go_Format Label_Matchers
begin

text \<open>
  The syntax trees of LogQL, \<open>logql/v2/ast.go\<close>: the expressions, their text form
  (\<open>String\<close>) and \<open>Walk\<close>.  The nodes are pointers in the code; no node of a
  parsed expression is shared (an expression over a metric has no selector of its own), so
  that updating nodes in place while walking is a map over the tree.  The parser is
  generated code and a parameter of the theories that use it.
\<close>

section \<open>Definitions\<close>

text \<open>The text form of label matchers is library code; \<open>is_print\<close> is the one of \<open>strconv.Quote\<close>.\<close>

record logql_lib =
  matcher_String :: "matcher \<Rightarrow> string"
  is_print :: "string \<Rightarrow> bool"

abbreviation quote :: "logql_lib \<Rightarrow> string \<Rightarrow> string" where
  "quote lib \<equiv> go_quote (is_print lib)"

definition ParserRegExp :: string where "ParserRegExp = ''regexp''"
definition ParserPattern :: string where "ParserPattern = ''pattern''"
definition ParserLineFormat :: string where "ParserLineFormat = ''line_format''"
definition ParserLabelFormat :: string where "ParserLabelFormat = ''label_format''"
definition ParserUnwrap :: string where "ParserUnwrap = ''unwrap''"
definition OpLabelReplace :: string where "OpLabelReplace = ''label_replace''"

subsection \<open>Numbers and durations\<close>

text \<open>The value of a number is finite; \<open>strconv.ParseFloat\<close> is a parameter of the constructor.\<close>

record LogNumberExpr =
  num_value :: rat
  num_isNeg :: bool

definition newLogNumberExpr :: "(string \<Rightarrow> rat) \<Rightarrow> string \<Rightarrow> bool \<Rightarrow> LogNumberExpr" where
  "newLogNumberExpr ParseFloat v isNegative = \<lparr>num_value = ParseFloat v, num_isNeg = isNegative\<rparr>"

definition LogNumberExpr_String :: "LogNumberExpr \<Rightarrow> string" where
  "LogNumberExpr_String l =
     trim_right (CHR ''.'') (trim_right (CHR ''0'')
       ((if num_isNeg l then ''-'' else []) @ sprintf_f (num_value l)))"

definition LogOffsetExpr_String :: "int \<Rightarrow> string" where
  "LogOffsetExpr_String offset = '' offset '' @ duration_string offset"

subsection \<open>Pipeline stages\<close>

datatype LogFilterExpr =
  LogFilterExpr (lf_filter: string) (lf_filterOp: string) (lf_value: string) (lf_isNested: bool)
    (lf_chainOp: string) (lf_right: "LogFilterExpr list")

definition newLogFilterExpr :: "string \<Rightarrow> string \<Rightarrow> string \<Rightarrow> LogFilterExpr" where
  "newLogFilterExpr filt filterOp v = LogFilterExpr filt filterOp v False [] []"

definition LogFilterExpr_chain :: "LogFilterExpr \<Rightarrow> string \<Rightarrow> LogFilterExpr \<Rightarrow> LogFilterExpr" where
  "LogFilterExpr_chain l op e =
     (case (l, e) of
        (LogFilterExpr f fo v n c r, LogFilterExpr f' fo' v' _ _ r') \<Rightarrow>
          LogFilterExpr f fo v n c (r @ [LogFilterExpr f' fo' v' True op r']))"

fun LogFilterExpr_String :: "logql_lib \<Rightarrow> LogFilterExpr \<Rightarrow> string" where
  "LogFilterExpr_String lib (LogFilterExpr f fo v nested chain right) =
     (if nested then [] else f @ '' '')
     @ (if fo \<noteq> [] then fo @ ''('' @ quote lib v @ '')'' else quote lib v)
     @ concat (map (\<lambda>r. if lf_chainOp r = ''or'' then '' '' @ lf_chainOp r @ '' '' @ LogFilterExpr_String lib r else [])
                 right)"

datatype LogLabelFilterValue = TypeNumber LogNumberExpr | TypeDuration int | TypeText string

definition LogLabelFilterValue_String :: "LogLabelFilterValue \<Rightarrow> string" where
  "LogLabelFilterValue_String v =
     (case v of
        TypeNumber n \<Rightarrow> LogNumberExpr_String n
      | TypeDuration d \<Rightarrow> duration_string d
      | TypeText s \<Rightarrow> [CHR 0x22] @ s @ [CHR 0x22])"

datatype LogLabelFilterExpr =
  LogLabelFilterExpr (ll_labelName: string) (ll_comparisonOp: string) (ll_filterOp: string)
    (ll_labelValue: LogLabelFilterValue) (ll_isNested: bool) (ll_chainOp: string)
    (ll_right: "LogLabelFilterExpr list")

definition newLogLabelFilter :: "string \<Rightarrow> string \<Rightarrow> string \<Rightarrow> LogLabelFilterValue \<Rightarrow> LogLabelFilterExpr" where
  "newLogLabelFilter identifier comparisonOp filterOp v =
     LogLabelFilterExpr identifier comparisonOp filterOp v False [] []"

definition LogLabelFilterExpr_chain :: "LogLabelFilterExpr \<Rightarrow> string \<Rightarrow> LogLabelFilterExpr \<Rightarrow> LogLabelFilterExpr" where
  "LogLabelFilterExpr_chain l op e =
     (case (l, e) of
        (LogLabelFilterExpr n co fo v ne c r, LogLabelFilterExpr n' co' fo' v' _ _ r') \<Rightarrow>
          LogLabelFilterExpr n co fo v ne c (r @ [LogLabelFilterExpr n' co' fo' v' True op r']))"

fun LogLabelFilterExpr_String :: "LogLabelFilterExpr \<Rightarrow> string" where
  "LogLabelFilterExpr_String (LogLabelFilterExpr name co fo v nested chain right) =
     (if nested then [] else ''| '')
     @ name @ '' '' @ co @ '' ''
     @ (if fo \<noteq> [] then fo @ ''('' @ LogLabelFilterValue_String v @ '')'' else LogLabelFilterValue_String v)
     @ concat (map (\<lambda>r. if ll_chainOp r \<in> {''and'', ''or''} then
                          '' '' @ ll_chainOp r @ '' '' @ LogLabelFilterExpr_String r
                        else if ll_chainOp r = '','' then ll_chainOp r @ '' '' @ LogLabelFilterExpr_String r
                        else []) right)"

record LogFormatValue =
  Value :: string
  IsIdentifier :: bool

record LogFormatExpr =
  fmt_kv :: "(string \<times> LogFormatValue) list"
  fmt_sep :: string
  fmt_operation :: string

definition mergeLogFormatValues ::
    "(string \<times> LogFormatValue) list \<Rightarrow> (string \<times> LogFormatValue) list \<Rightarrow> (string \<times> LogFormatValue) list" where
  "mergeLogFormatValues lhs rhs = fold (\<lambda>(k, v). AList.update k v) rhs lhs"

text \<open>The order of strings is that of their bytes; the keys of a map are distinct.\<close>

fun string_le :: "string \<Rightarrow> string \<Rightarrow> bool" where
  "string_le [] t = True"
| "string_le (a # s) [] = False"
| "string_le (a # s) (b # t) = (byte_of a < byte_of b \<or> (a = b \<and> string_le s t))"

fun insert_key :: "string \<Rightarrow> string list \<Rightarrow> string list" where
  "insert_key k [] = [k]"
| "insert_key k (x # xs) = (if string_le k x then k # x # xs else x # insert_key k xs)"

definition sort_keys :: "string list \<Rightarrow> string list" where
  "sort_keys ks = foldr insert_key ks []"

definition LogFormatExpr_String :: "logql_lib \<Rightarrow> LogFormatExpr \<Rightarrow> string" where
  "LogFormatExpr_String lib l =
     ''| '' @ ParserLabelFormat @ '' ''
     @ join (fmt_sep l) (map (\<lambda>key.
         (case map_of (fmt_kv l) key of
            None \<Rightarrow> []
          | Some lmv \<Rightarrow>
              (if key \<noteq> [] then key @ ''='' else [])
              @ (if fmt_operation l \<noteq> [] then fmt_operation l @ ''('' else [])
              @ (if IsIdentifier lmv then Value lmv else quote lib (Value lmv))
              @ (if fmt_operation l \<noteq> [] then '')'' else [])))
         (sort_keys (map fst (fmt_kv l))))"

record LogParserExpr =
  lp_parser :: string
  lp_identifier :: string
  lp_operation :: string

definition LogParserExpr_String :: "logql_lib \<Rightarrow> LogParserExpr \<Rightarrow> string" where
  "LogParserExpr_String lib l =
     ''| '' @ lp_parser l
     @ (if lp_operation l \<noteq> [] then '' '' @ lp_operation l @ ''('' else [])
     @ (if lp_parser l = ParserRegExp \<or> lp_parser l = ParserLineFormat then '' '' @ quote lib (lp_identifier l)
        else if lp_parser l = ParserPattern then
          '' '' @ (if contains (lp_identifier l) [CHR 0x22] then [CHR 0x60] @ lp_identifier l @ [CHR 0x60]
                   else quote lib (lp_identifier l))
        else if lp_parser l = ParserUnwrap then
          (if lp_operation l = [] then '' '' else []) @ lp_identifier l
        else lp_identifier l)
     @ (if lp_operation l \<noteq> [] then '')'' else [])"

type_synonym LogLabel = "string \<times> matcher option"

record LogLabelExpr =
  le_parser :: string
  le_flags :: "string list"
  le_labels :: "LogLabel list"

definition LogLabelExpr_String :: "logql_lib \<Rightarrow> LogLabelExpr \<Rightarrow> string" where
  "LogLabelExpr_String lib l =
     ''| '' @ le_parser l @ concat (map (\<lambda>flag. '' '' @ flag) (le_flags l))
     @ join '','' (map (\<lambda>(identifier, m).
         (if identifier \<noteq> [] then '' '' @ identifier else [])
         @ (case m of None \<Rightarrow> [] | Some m' \<Rightarrow> '' '' @ matcher_String lib m')) (le_labels l))"

datatype LogStageExpr =
    Stage_Filter LogFilterExpr
  | Stage_LabelFilter LogLabelFilterExpr
  | Stage_Format LogFormatExpr
  | Stage_Parser LogParserExpr
  | Stage_Decolorize
  | Stage_Label LogLabelExpr

fun LogStageExpr_String :: "logql_lib \<Rightarrow> LogStageExpr \<Rightarrow> string" where
  "LogStageExpr_String lib (Stage_Filter l) = LogFilterExpr_String lib l"
| "LogStageExpr_String lib (Stage_LabelFilter l) = LogLabelFilterExpr_String l"
| "LogStageExpr_String lib (Stage_Format l) = LogFormatExpr_String lib l"
| "LogStageExpr_String lib (Stage_Parser l) = LogParserExpr_String lib l"
| "LogStageExpr_String lib Stage_Decolorize = ''| decolorize''"
| "LogStageExpr_String lib (Stage_Label l) = LogLabelExpr_String lib l"

definition LogPipelineExpr_String :: "logql_lib \<Rightarrow> LogStageExpr list \<Rightarrow> string" where
  "LogPipelineExpr_String lib l = join '' '' (map (LogStageExpr_String lib) l)"

subsection \<open>Selectors and queries\<close>

definition StreamMatcherExpr_String :: "logql_lib \<Rightarrow> matcher list \<Rightarrow> string" where
  "StreamMatcherExpr_String lib ms = ''{'' @ join '', '' (map (matcher_String lib) ms) @ ''}''"

text \<open>A query: the matchers of its selector and its pipeline; a nil pipeline is \<open>None\<close>.\<close>

record LogQueryExpr =
  q_left :: "matcher list"
  q_filter :: "LogStageExpr list option"

definition LogQueryExpr_String :: "logql_lib \<Rightarrow> LogQueryExpr \<Rightarrow> string" where
  "LogQueryExpr_String lib l =
     StreamMatcherExpr_String lib (q_left l)
     @ (case q_filter l of None \<Rightarrow> [] | Some f \<Rightarrow> '' '' @ LogPipelineExpr_String lib f)"

definition matcher_filter :: "bool \<Rightarrow> string \<Rightarrow> matcher \<Rightarrow> LogLabelFilterExpr list \<Rightarrow> LogLabelFilterExpr" where
  "matcher_filter nested chainOp m right =
     LogLabelFilterExpr (mname m) (match_type_string (mtype m)) [] (TypeText (mvalue m)) nested chainOp right"

definition AppendPipelineMatchers :: "matcher list \<Rightarrow> string \<Rightarrow> LogQueryExpr \<Rightarrow> LogQueryExpr" where
  "AppendPipelineMatchers matchers chainOp l =
     (case matchers of
        [] \<Rightarrow> l
      | m # ms \<Rightarrow>
          l\<lparr>q_filter := Some (Stage_LabelFilter (matcher_filter False [] m (map (\<lambda>m'. matcher_filter True chainOp m' []) ms))
                          # (case q_filter l of None \<Rightarrow> [] | Some f \<Rightarrow> f))\<rparr>)"

record grouping =
  without :: bool
  groups :: "string list"

definition grouping_String :: "grouping \<Rightarrow> string" where
  "grouping_String g =
     (if without g then '' without'' else if groups g \<noteq> [] then '' by'' else [])
     @ (if groups g \<noteq> [] then ''('' @ join '','' (groups g) @ '')'' else [])"

subsection \<open>Binary operations\<close>

datatype GroupingOptionType = NoGrouping | GroupLeftOption | GroupRightOption

record MatchOption =
  Enabled :: bool
  Labels :: "string list"
  GroupingType :: GroupingOptionType
  IncludeLabels :: "string list"

record BinaryOpOptions =
  ReturnBool :: bool
  IgnoringOption :: MatchOption
  OnOption :: MatchOption

definition match_option_String :: "string \<Rightarrow> MatchOption \<Rightarrow> string" where
  "match_option_String kw opt =
     (if Enabled opt then
        kw @ ''('' @ join '','' (Labels opt) @ '')''
        @ (case GroupingType opt of
             NoGrouping \<Rightarrow> []
           | GroupLeftOption \<Rightarrow> '' group_left('' @ join '','' (IncludeLabels opt) @ '')''
           | GroupRightOption \<Rightarrow> '' group_right('' @ join '','' (IncludeLabels opt) @ '')'')
        @ '' ''
      else [])"

definition modifier_String :: "BinaryOpOptions \<Rightarrow> string" where
  "modifier_String modi =
     (if ReturnBool modi then ''bool '' else [])
     @ match_option_String ''ignoring'' (IgnoringOption modi)
     @ match_option_String ''on'' (OnOption modi)"

subsection \<open>Expressions\<close>

text \<open>
  The fields of a metric expression besides its operand.  The operand is either
  another expression (the field \<open>Expr\<close>) or a range selector (the field \<open>left\<close>); the parser
  sets exactly one of the two.
\<close>

record metric_fields =
  metricOp :: string
  preamble :: string
  m_grouping :: "grouping option"
  groupingAfterOp :: bool
  params :: "string list"
  offset :: int

datatype expr =
    ParenthesisExpr expr
  | StreamMatcherExpr "matcher list"
  | QueryExpr LogQueryExpr
  | LogRangeQueryExpr expr string "grouping option" bool
  | ParenthesisLogRangeQueryExpr expr
  | LogMetricExpr expr metric_fields
  | LogMetricSelExpr expr metric_fields
  | ParenthesisLogMetricExpr expr
  | LogBinaryOpExpr string BinaryOpOptions expr expr
  | NumberExpr LogNumberExpr
  | VectorExpr string

definition LogMetricExpr_String :: "metric_fields \<Rightarrow> string \<Rightarrow> string" where
  "LogMetricExpr_String l operand =
     metricOp l
     @ (case m_grouping l of Some g \<Rightarrow> if groupingAfterOp l then grouping_String g @ '' '' else [] | None \<Rightarrow> [])
     @ ''(''
     @ (if preamble l \<noteq> [] then preamble l @ '','' else [])
     @ operand
     @ (if metricOp l = OpLabelReplace
        then '','' @ join '','' (map (\<lambda>p. [CHR 0x22] @ p @ [CHR 0x22]) (params l)) else [])
     @ (if offset l \<noteq> 0 then LogOffsetExpr_String (offset l) else [])
     @ '')''
     @ (case m_grouping l of Some g \<Rightarrow> if groupingAfterOp l then [] else grouping_String g | None \<Rightarrow> [])"

definition LogRangeQueryExpr_String :: "string \<Rightarrow> string \<Rightarrow> grouping option \<Rightarrow> bool \<Rightarrow> string" where
  "LogRangeQueryExpr_String left rng g rngLast =
     (if g \<noteq> None then ''('' else [])
     @ (if rngLast then ''('' @ left @ '') '' @ rng else replace_first left ''}'' (''}'' @ rng))
     @ (case g of None \<Rightarrow> [] | Some g' \<Rightarrow> '') '' @ grouping_String g')"

primrec String :: "logql_lib \<Rightarrow> expr \<Rightarrow> string" where
  "String lib (ParenthesisExpr e) = ''('' @ String lib e @ '')''"
| "String lib (StreamMatcherExpr ms) = StreamMatcherExpr_String lib ms"
| "String lib (QueryExpr q) = LogQueryExpr_String lib q"
| "String lib (LogRangeQueryExpr e rng g rngLast) = LogRangeQueryExpr_String (String lib e) rng g rngLast"
| "String lib (ParenthesisLogRangeQueryExpr e) = ''('' @ String lib e @ '')''"
| "String lib (LogMetricExpr e l) = LogMetricExpr_String l (String lib e)"
| "String lib (LogMetricSelExpr e l) = LogMetricExpr_String l (String lib e)"
| "String lib (ParenthesisLogMetricExpr e) = ''('' @ String lib e @ '')''"
| "String lib (LogBinaryOpExpr op modi l r) =
     String lib l @ '' '' @ op @ '' '' @ modifier_String modi @ String lib r"
| "String lib (NumberExpr n) = LogNumberExpr_String n"
| "String lib (VectorExpr v) = v"

text \<open>
  \<open>Walk\<close> with a visitor that changes the queries by \<open>fq\<close> and the stream
  matchers by \<open>fs\<close>; a query is visited before the stream matcher in it.
\<close>

primrec Walk :: "(LogQueryExpr \<Rightarrow> LogQueryExpr) \<Rightarrow> (matcher list \<Rightarrow> matcher list) \<Rightarrow> expr \<Rightarrow> expr" where
  "Walk fq fs (ParenthesisExpr e) = ParenthesisExpr (Walk fq fs e)"
| "Walk fq fs (StreamMatcherExpr ms) = StreamMatcherExpr (fs ms)"
| "Walk fq fs (QueryExpr q) = QueryExpr (let q' = fq q in q'\<lparr>q_left := fs (q_left q')\<rparr>)"
| "Walk fq fs (LogRangeQueryExpr e rng g rngLast) = LogRangeQueryExpr (Walk fq fs e) rng g rngLast"
| "Walk fq fs (ParenthesisLogRangeQueryExpr e) = ParenthesisLogRangeQueryExpr (Walk fq fs e)"
| "Walk fq fs (LogMetricExpr e l) = LogMetricExpr (Walk fq fs e) l"
| "Walk fq fs (LogMetricSelExpr e l) = LogMetricSelExpr (Walk fq fs e) l"
| "Walk fq fs (ParenthesisLogMetricExpr e) = ParenthesisLogMetricExpr (Walk fq fs e)"
| "Walk fq fs (LogBinaryOpExpr op modi l r) = LogBinaryOpExpr op modi (Walk fq fs l) (Walk fq fs r)"
| "Walk fq fs (NumberExpr n) = NumberExpr n"
| "Walk fq fs (VectorExpr v) = VectorExpr v"

section \<open>Lemmas\<close>

text \<open>The stream selectors and the queries of an expression, at any depth.\<close>

primrec log_queries :: "expr \<Rightarrow> LogQueryExpr list" where
  "log_queries (ParenthesisExpr e) = log_queries e"
| "log_queries (StreamMatcherExpr ms) = []"
| "log_queries (QueryExpr q) = [q]"
| "log_queries (LogRangeQueryExpr e rng g rngLast) = log_queries e"
| "log_queries (ParenthesisLogRangeQueryExpr e) = log_queries e"
| "log_queries (LogMetricExpr e l) = log_queries e"
| "log_queries (LogMetricSelExpr e l) = log_queries e"
| "log_queries (ParenthesisLogMetricExpr e) = log_queries e"
| "log_queries (LogBinaryOpExpr op modi l r) = log_queries l @ log_queries r"
| "log_queries (NumberExpr n) = []"
| "log_queries (VectorExpr v) = []"

primrec stream_selectors :: "expr \<Rightarrow> matcher list list" where
  "stream_selectors (ParenthesisExpr e) = stream_selectors e"
| "stream_selectors (StreamMatcherExpr ms) = [ms]"
| "stream_selectors (QueryExpr q) = [q_left q]"
| "stream_selectors (LogRangeQueryExpr e rng g rngLast) = stream_selectors e"
| "stream_selectors (ParenthesisLogRangeQueryExpr e) = stream_selectors e"
| "stream_selectors (LogMetricExpr e l) = stream_selectors e"
| "stream_selectors (LogMetricSelExpr e l) = stream_selectors e"
| "stream_selectors (ParenthesisLogMetricExpr e) = stream_selectors e"
| "stream_selectors (LogBinaryOpExpr op modi l r) = stream_selectors l @ stream_selectors r"
| "stream_selectors (NumberExpr n) = []"
| "stream_selectors (VectorExpr v) = []"

lemma selectors_Walk: "stream_selectors (Walk id fs e) = map fs (stream_selectors e)"
  by (induction e) (simp_all add: Let_def)

lemma queries_Walk: "log_queries (Walk fq id e) = map fq (log_queries e)"
  by (induction e) (simp_all add: Let_def)

end
