(* ===== verification/Logs_Enforcer.thy ===== *)
theory Logs_Enforcer
  imports LogQL Http_Form Tenant_Label Metrics_Enforcer
begin

text \<open>
  Tenancy of log queries, \<open>api/logs/v1/labels_enforcer.go\<close>: the authorization matchers are put
  into every stream selector of the LogQL expression of a request, or, for
  authorization data that ask for it, into a label filter in front of every pipeline.
\<close>

section \<open>Definitions\<close>

text \<open>
  Code behind parameters: regular expressions, the generated LogQL parser, and the order in
  which Go goes through a map.
\<close>

record logs_env =
  env_lib :: logql_lib
  env_regex :: regex
  ParseExpr :: "string \<Rightarrow> string + expr"
  map_order :: "(string \<times> matcher) list \<Rightarrow> (string \<times> matcher) list"

definition logQLParam :: "string \<Rightarrow> string" where
  "logQLParam path = (if suffix ''/series'' path then ''match'' else ''query'')"

definition initAuthzMatchers :: "regex \<Rightarrow> matcher list \<Rightarrow> string + matcher list" where
  "initAuthzMatchers rx lm =
     traverse (\<lambda>m. case new_matcher rx (mtype m) (mname m) (mvalue m) of
                     Inl err \<Rightarrow> Inl (''failed parsing label matcher: '' @ err) | Inr nm \<Rightarrow> Inr nm) lm"

definition combine_step ::
    "regex \<Rightarrow> matcher \<Rightarrow> (string \<times> matcher) list \<times> matcher list \<Rightarrow> (string \<times> matcher) list \<times> matcher list" where
  "combine_step rx am st =
     (case st of
        (queryMatchersMap, matchers) \<Rightarrow>
          (case map_of queryMatchersMap (mname am) of
             None \<Rightarrow> (AList.update (mname am) am queryMatchersMap, matchers)
           | Some qm \<Rightarrow>
               if mtype qm \<noteq> MatchEqual \<or> \<not> matches rx am (mvalue qm) then
                 (AList.update (mname am) am queryMatchersMap,
                  if mtype qm \<noteq> MatchEqual then matchers @ [qm] else matchers)
               else (queryMatchersMap, matchers)))"

definition combineLabelMatchers :: "logs_env \<Rightarrow> matcher list \<Rightarrow> matcher list \<Rightarrow> matcher list" where
  "combineLabelMatchers env queryMatchers authzMatchers =
     (case fold (combine_step (env_regex env)) authzMatchers
             (fold (\<lambda>qm. AList.update (mname qm) qm) queryMatchers [], []) of
        (queryMatchersMap, matchers) \<Rightarrow> matchers @ map snd (map_order env queryMatchersMap))"

definition enforceValuesOnLogQL :: "logs_env \<Rightarrow> AuthzResponseData \<Rightarrow> url_values \<Rightarrow> string \<Rightarrow> string + string" where
  "enforceValuesOnLogQL env mInfo v paramName =
     (case initAuthzMatchers (env_regex env) (Matchers mInfo) of
        Inl err \<Rightarrow> Inl err
      | Inr lm \<Rightarrow>
          (let paramValue = values_get v paramName in
           if paramValue = [] then
             Inr (values_encode (values_set paramName (String (env_lib env) (StreamMatcherExpr lm)) v))
           else (case ParseExpr env paramValue of
                   Inl err \<Rightarrow> Inl (''failed parsing LogQL expression: '' @ err)
                 | Inr e \<Rightarrow>
                     (let e' = (if MatcherOp mInfo = ''or'' \<and> paramName = ''query''
                                then Walk (AppendPipelineMatchers lm ''or'') id e
                                else Walk id (\<lambda>ms. combineLabelMatchers env ms lm) e)
                      in Inr (values_encode (values_set paramName (String (env_lib env) e') v))))))"

definition enforceRequestLogQL :: "logs_env \<Rightarrow> mime_parser \<Rightarrow> AuthzResponseData \<Rightarrow> request \<Rightarrow> string + request" where
  "enforceRequestLogQL env mime mInfo r =
     (let paramName = logQLParam (Path (URL r)) in
      case enforceValuesOnLogQL env mInfo (url_query (URL r)) paramName of
        Inl err \<Rightarrow> Inl err
      | Inr q \<Rightarrow>
          (let r1 = set_raw_query q r in
           if Method r \<noteq> ''POST'' then Inr r1
           else (case parse_form mime r1 of
                   Inl err \<Rightarrow> Inl (''could not parse form: '' @ err)
                 | Inr postForm \<Rightarrow>
                     (case (if values_of postForm paramName \<noteq> []
                            then enforceValuesOnLogQL env mInfo postForm paramName
                            else Inr (values_encode postForm)) of
                        Inl err \<Rightarrow> Inl err
                      | Inr b \<Rightarrow> Inr (set_body b r1)))))"

definition logs_authz_check :: "logs_env \<Rightarrow> mime_parser \<Rightarrow> request \<Rightarrow> reply + request" where
  "logs_authz_check env mime r =
     (case GetData (Ctx r) of
        (data, ok) \<Rightarrow>
          if \<not> ok then Inl (ApiError ''error finding authorization label matcher'' 500)
          else if data = [] then Inr r
          else (case unmarshal_authz data of
                  None \<Rightarrow> Inl (ApiError ''error parsing authorization label matchers'' 500)
                | Some matchersInfo \<Rightarrow>
                    (case enforceRequestLogQL env mime matchersInfo
                            (with_ctx (\<lambda>c. c\<lparr>matchersKey := Some matchersInfo\<rparr>) r) of
                       Inl err \<Rightarrow> Inl (ApiError (''could not enforce authorization label matchers: '' @ err) 500)
                     | Inr r' \<Rightarrow> Inr r')))"

definition Logs_WithEnforceAuthorizationLabels :: "logs_env \<Rightarrow> mime_parser \<Rightarrow> 's middleware" where
  "Logs_WithEnforceAuthorizationLabels env mime = guard_mw (logs_authz_check env mime)"

definition AllowedNamespaces :: "ctx \<Rightarrow> string list" where
  "AllowedNamespaces c =
     (case matchersKey c of
        None \<Rightarrow> []
      | Some d \<Rightarrow> concat (map (\<lambda>m. split_on (CHR ''|'') (mvalue m)) (Matchers d)))"

section \<open>Lemmas on the combination of matchers\<close>

text \<open>The map of the caller's matchers is keyed by their names.\<close>

definition keyed :: "(string \<times> matcher) list \<Rightarrow> bool" where
  "keyed m \<longleftrightarrow> (\<forall>n x. map_of m n = Some x \<longrightarrow> mname x = n) \<and> distinct (map fst m)"

lemma keyed_update: "keyed m \<Longrightarrow> keyed (AList.update (mname x) x m)"
  by (auto simp: keyed_def update_conv' distinct_update)

lemma keyed_fold: "keyed m \<Longrightarrow> keyed (fold (\<lambda>qm. AList.update (mname qm) qm) qs m)"
  by (induction qs arbitrary: m) (auto intro: keyed_update)

text \<open>An entry of the map that is as strong as the authorization matcher of the same name.\<close>

definition covers :: "regex \<Rightarrow> (string \<times> matcher) list \<Rightarrow> matcher \<Rightarrow> bool" where
  "covers rx m am \<longleftrightarrow> (\<exists>x. map_of m (mname am) = Some x \<and>
     (x = am \<or> mtype x = MatchEqual \<and> mname x = mname am \<and> matches rx am (mvalue x)))"

lemma combine_step_map:
  assumes "combine_step rx am (m, acc) = (m', acc')"
  shows "m' = AList.update (mname am) am m \<or>
         (m' = m \<and> (\<exists>x. map_of m (mname am) = Some x \<and> mtype x = MatchEqual \<and> matches rx am (mvalue x)))"
  using assms unfolding combine_step_def
  by (cases "map_of m (mname am)") (simp_all split: if_splits)

lemma combine_step_covers:
  assumes "keyed m" "combine_step rx am (m, acc) = (m', acc')"
  shows "keyed m'" "covers rx m' am" "\<And>n. n \<noteq> mname am \<Longrightarrow> map_of m' n = map_of m n"
proof -
  have "keyed m' \<and> covers rx m' am \<and> (\<forall>n. n \<noteq> mname am \<longrightarrow> map_of m' n = map_of m n)"
    using combine_step_map [OF assms(2)]
  proof
    assume "m' = AList.update (mname am) am m"
    thus ?thesis using keyed_update [OF assms(1), of am] by (simp add: covers_def update_conv')
  next
    assume m: "m' = m \<and> (\<exists>x. map_of m (mname am) = Some x \<and> mtype x = MatchEqual \<and> matches rx am (mvalue x))"
    then obtain x where x: "map_of m (mname am) = Some x" "mtype x = MatchEqual" "matches rx am (mvalue x)" by blast
    moreover have "mname x = mname am" using assms(1) x(1) by (simp add: keyed_def)
    ultimately show ?thesis using m assms(1) by (simp add: covers_def)
  qed
  thus "keyed m'" "covers rx m' am" "\<And>n. n \<noteq> mname am \<Longrightarrow> map_of m' n = map_of m n" by simp_all
qed

lemma combine_fold_covers:
  assumes "keyed m" "distinct (map mname ams)" "fold (combine_step rx) ams (m, acc) = (m', acc')"
  shows "keyed m' \<and> (\<forall>am \<in> set ams. covers rx m' am) \<and> (\<forall>n. n \<notin> mname ` set ams \<longrightarrow> map_of m' n = map_of m n)"
  using assms
proof (induction ams arbitrary: m acc)
  case (Cons am ams)
  obtain m1 acc1 where s: "combine_step rx am (m, acc) = (m1, acc1)" by fastforce
  note step = combine_step_covers [OF Cons.prems(1) s]
  have IH: "keyed m' \<and> (\<forall>am \<in> set ams. covers rx m' am) \<and> (\<forall>n. n \<notin> mname ` set ams \<longrightarrow> map_of m' n = map_of m1 n)"
    using Cons.IH [OF step(1)] Cons.prems(2,3) s by simp
  have "mname am \<notin> mname ` set ams" using Cons.prems(2) by simp
  hence "covers rx m' am" using step(2) IH by (simp add: covers_def)
  thus ?case using IH step(3) by auto
qed simp

lemma distinct_names_Cons:
  assumes "distinct (map f (x # xs))" "y \<in> set xs"
  shows "f y \<noteq> f x"
proof
  assume "f y = f x"
  hence "f x \<in> f ` set xs" using imageI [OF assms(2), of f] by (simp only:)
  thus False using assms(1) by simp
qed

lemma matches_equal: "mtype x = MatchEqual \<Longrightarrow> matches rx x v \<Longrightarrow> v = mvalue x"
  by (simp add: matches_def)

lemma covers_selects:
  assumes "covers rx m am" "selects rx (map snd m) ls"
  shows "matches rx am (ls (mname am))"
proof -
  obtain x where x: "map_of m (mname am) = Some x"
      "x = am \<or> mtype x = MatchEqual \<and> mname x = mname am \<and> matches rx am (mvalue x)"
    using assms(1) by (auto simp: covers_def)
  have "x \<in> set (map snd m)" using map_of_SomeD [OF x(1)] by force
  hence "matches rx x (ls (mname x))" using assms(2) by (auto simp: selects_def list_all_iff)
  thus ?thesis using x(2) matches_equal by auto
qed

lemma selects_set: "set xs = set ys \<Longrightarrow> selects rx xs ls = selects rx ys ls"
  by (simp add: selects_def list_all_iff)

lemma combine_sound:
  assumes "\<And>m. set (map_order env m) = set m" "distinct (map mname ams)"
    and "selects (env_regex env) (combineLabelMatchers env qs ams) ls"
  shows "selects (env_regex env) ams ls"
proof -
  let ?rx = "env_regex env" and ?m0 = "fold (\<lambda>qm. AList.update (mname qm) qm) qs []"
  obtain m acc where f: "fold (combine_step ?rx) ams (?m0, []) = (m, acc)" by fastforce
  have c: "\<forall>am \<in> set ams. covers ?rx m am"
    using combine_fold_covers [OF keyed_fold assms(2) f] by (simp add: keyed_def)
  have "selects ?rx (map snd (map_order env m)) ls"
    using assms(3) f by (simp add: combineLabelMatchers_def selects_def)
  moreover have "set (map snd (map_order env m)) = set (map snd m)" using assms(1) by simp
  ultimately have "selects ?rx (map snd m) ls" using selects_set by blast
  thus ?thesis using c covers_selects by (auto simp: selects_def [of ?rx ams] list_all_iff)
qed

lemma initAuthzMatchers_Inr: "initAuthzMatchers rx lm = Inr nm \<Longrightarrow> nm = lm"
proof (induction lm arbitrary: nm)
  case (Cons m lm)
  thus ?case by (auto simp: initAuthzMatchers_def new_matcher_def split: sum.splits if_splits)
qed (simp add: initAuthzMatchers_def)

text \<open>The entries of the map taken together.\<close>

definition map_selects :: "regex \<Rightarrow> (string \<times> matcher) list \<Rightarrow> (string \<Rightarrow> string) \<Rightarrow> bool" where
  "map_selects rx m ls \<longleftrightarrow> (\<forall>n x. map_of m n = Some x \<longrightarrow> matches rx x (ls (mname x)))"

lemma map_selects_snd: "keyed m \<Longrightarrow> selects rx (map snd m) ls = map_selects rx m ls"
  by (auto simp: keyed_def selects_def map_selects_def list_all_iff dest: map_of_SomeD)

lemma map_selects_at:
  assumes "map_of m k = Some q"
  shows "map_selects rx m ls \<longleftrightarrow> matches rx q (ls (mname q)) \<and>
           (\<forall>n x. n \<noteq> k \<longrightarrow> map_of m n = Some x \<longrightarrow> matches rx x (ls (mname x)))"
  unfolding map_selects_def using assms by (metis option.inject)

lemma map_selects_update:
  "map_selects rx (AList.update k y m) ls \<longleftrightarrow> matches rx y (ls (mname y)) \<and>
     (\<forall>n x. n \<noteq> k \<longrightarrow> map_of m n = Some x \<longrightarrow> matches rx x (ls (mname x)))"
  by (auto simp: map_selects_def update_conv')

text \<open>A caller's equality matcher does not contradict the authorization matcher of its name.\<close>

definition compatible :: "regex \<Rightarrow> (string \<times> matcher) list \<Rightarrow> matcher \<Rightarrow> bool" where
  "compatible rx m am \<longleftrightarrow>
     (\<forall>q. map_of m (mname am) = Some q \<longrightarrow> mtype q = MatchEqual \<longrightarrow> matches rx am (mvalue q))"

lemma combine_step_exact:
  assumes "keyed m" "compatible rx m am" "combine_step rx am (m, acc) = (m', acc')"
  shows "(selects rx acc' ls \<and> map_selects rx m' ls) \<longleftrightarrow>
         (selects rx acc ls \<and> map_selects rx m ls \<and> matches rx am (ls (mname am)))"
proof (cases "map_of m (mname am)")
  case None
  hence "m' = AList.update (mname am) am m" "acc' = acc" using assms(3) by (simp_all add: combine_step_def)
  thus ?thesis using None by (auto simp: map_selects_def update_conv')
next
  case (Some q)
  have n: "mname q = mname am" using assms(1) Some by (simp add: keyed_def)
  show ?thesis
  proof (cases "mtype q = MatchEqual")
    case True
    have am: "matches rx am (mvalue q)" using assms(2) Some True by (simp add: compatible_def)
    hence "m' = m" "acc' = acc" using assms(3) Some True by (simp_all add: combine_step_def)
    moreover have "matches rx am (ls (mname am))" if "map_selects rx m ls"
    proof -
      have "matches rx q (ls (mname q))" using that Some by (simp add: map_selects_def)
      thus ?thesis using matches_equal [OF True] am n by metis
    qed
    ultimately show ?thesis by blast
  next
    case False
    hence "m' = AList.update (mname am) am m" "acc' = acc @ [q]"
      using assms(3) Some by (simp_all add: combine_step_def)
    thus ?thesis using map_selects_at [OF Some, of rx ls] map_selects_update [of rx "mname am" am m ls]
      by (auto simp: selects_def)
  qed
qed

lemma combine_fold_exact:
  assumes "keyed m" "distinct (map mname ams)" "\<And>am. am \<in> set ams \<Longrightarrow> compatible rx m am"
    and "fold (combine_step rx) ams (m, acc) = (m', acc')"
  shows "(selects rx acc' ls \<and> map_selects rx m' ls) \<longleftrightarrow>
         (selects rx acc ls \<and> map_selects rx m ls \<and> selects rx ams ls)"
  using assms
proof (induction ams arbitrary: m acc)
  case (Cons am ams)
  obtain m1 acc1 where s: "combine_step rx am (m, acc) = (m1, acc1)" by fastforce
  note step = combine_step_covers [OF Cons.prems(1) s]
  have "compatible rx m1 am'" if "am' \<in> set ams" for am'
  proof -
    have "mname am' \<noteq> mname am" by (rule distinct_names_Cons [OF Cons.prems(2) that])
    thus ?thesis using Cons.prems(3) [of am'] that step(3) by (simp add: compatible_def)
  qed
  hence "(selects rx acc' ls \<and> map_selects rx m' ls) \<longleftrightarrow>
      (selects rx acc1 ls \<and> map_selects rx m1 ls \<and> selects rx ams ls)"
    using Cons.IH [OF step(1)] Cons.prems(2,4) s by simp
  also have "\<dots> \<longleftrightarrow> (selects rx acc ls \<and> map_selects rx m ls \<and> selects rx (am # ams) ls)"
    using combine_step_exact [OF Cons.prems(1) Cons.prems(3) s, of ls] by (auto simp: selects_def)
  finally show ?case .
qed (simp add: selects_def)

lemma query_map_of:
  "distinct (map mname qs) \<Longrightarrow>
   map_of (fold (\<lambda>qm. AList.update (mname qm) qm) qs m) n =
     (case find (\<lambda>q. mname q = n) qs of Some q \<Rightarrow> Some q | None \<Rightarrow> map_of m n)"
proof (induction qs arbitrary: m)
  case (Cons q qs)
  have "find (\<lambda>q. mname q = mname q0) qs = None" if "q0 = q" for q0
    using distinct_names_Cons [OF Cons.prems] that by (simp add: find_None_iff)
  thus ?case using Cons by (auto simp: update_conv' split: option.splits)
qed simp

lemma query_map_selects:
  assumes "distinct (map mname qs)"
  shows "map_selects rx (fold (\<lambda>qm. AList.update (mname qm) qm) qs []) ls = selects rx qs ls"
proof -
  have "map_of (fold (\<lambda>qm. AList.update (mname qm) qm) qs []) n = Some x \<longleftrightarrow> x \<in> set qs \<and> mname x = n" for n x
  proof
    assume "x \<in> set qs \<and> mname x = n"
    hence "find (\<lambda>q. mname q = n) qs = Some x"
      using assms by (induction qs) auto
    thus "map_of (fold (\<lambda>qm. AList.update (mname qm) qm) qs []) n = Some x"
      using query_map_of [OF assms, of "[]" n] by simp
  next
    assume "map_of (fold (\<lambda>qm. AList.update (mname qm) qm) qs []) n = Some x"
    hence "find (\<lambda>q. mname q = n) qs = Some x"
      using query_map_of [OF assms, of "[]" n] by (simp split: option.splits)
    thus "x \<in> set qs \<and> mname x = n" by (auto simp: find_Some_iff)
  qed
  thus ?thesis by (auto simp: map_selects_def selects_def list_all_iff)
qed

lemma combine_exact:
  assumes "\<And>m. set (map_order env m) = set m" "distinct (map mname qs)" "distinct (map mname ams)"
    and "\<And>q am. q \<in> set qs \<Longrightarrow> am \<in> set ams \<Longrightarrow> mname q = mname am \<Longrightarrow> mtype q = MatchEqual \<Longrightarrow>
           matches (env_regex env) am (mvalue q)"
  shows "selects (env_regex env) (combineLabelMatchers env qs ams) ls \<longleftrightarrow>
         selects (env_regex env) qs ls \<and> selects (env_regex env) ams ls"
proof -
  let ?rx = "env_regex env" and ?m0 = "fold (\<lambda>qm. AList.update (mname qm) qm) qs []"
  obtain m acc where f: "fold (combine_step ?rx) ams (?m0, []) = (m, acc)" by fastforce
  have k0: "keyed ?m0" by (rule keyed_fold) (simp add: keyed_def)
  have k: "keyed m" using combine_fold_covers [OF k0 assms(3) f] by blast
  have "compatible ?rx ?m0 am" if "am \<in> set ams" for am
    using assms(4) that query_map_of [OF assms(2), of "[]" "mname am"]
    by (auto simp: compatible_def find_Some_iff split: option.splits)
  note exact = combine_fold_exact [OF k0 assms(3) this f, of ls]
  have "set (map snd (map_order env m)) = set (map snd m)" using assms(1) by simp
  hence "selects ?rx (map snd (map_order env m)) ls = map_selects ?rx m ls"
    using selects_set [of "map snd (map_order env m)"] map_selects_snd [OF k] by metis
  hence "selects ?rx (combineLabelMatchers env qs ams) ls \<longleftrightarrow> selects ?rx acc ls \<and> map_selects ?rx m ls"
    using f by (simp add: combineLabelMatchers_def selects_def)
  thus ?thesis using exact query_map_selects [OF assms(2)] by (simp add: selects_def)
qed

section \<open>Lemmas on requests\<close>

text \<open>
  The backend reads the text of an expression as an expression with the same stream
  selectors; \<open>backend\<close> gives the selectors of a text, if it is LogQL.
\<close>

definition reads_back :: "(string \<Rightarrow> matcher list list option) \<Rightarrow> logs_env \<Rightarrow> expr \<Rightarrow> bool" where
  "reads_back backend env e \<longleftrightarrow> backend (String (env_lib env) e) = Some (stream_selectors e)"

definition logs_safe :: "(string \<Rightarrow> matcher list list option) \<Rightarrow> logs_env \<Rightarrow> matcher list \<Rightarrow> string \<Rightarrow> bool" where
  "logs_safe backend env ams x \<longleftrightarrow>
     (\<forall>sels sel ls. backend x = Some sels \<longrightarrow> sel \<in> set sels \<longrightarrow> selects (env_regex env) sel ls \<longrightarrow>
        selects (env_regex env) ams ls)"

text \<open>What is asked of the backend for the value \<open>x\<close> of a request.\<close>

definition value_reads_back :: "(string \<Rightarrow> matcher list list option) \<Rightarrow> logs_env \<Rightarrow> matcher list \<Rightarrow> string \<Rightarrow> bool" where
  "value_reads_back backend env ams x \<longleftrightarrow>
     (case ParseExpr env x of
        Inl _ \<Rightarrow> True
      | Inr e \<Rightarrow> reads_back backend env (Walk id (\<lambda>ms. combineLabelMatchers env ms ams) e))"

lemma values_get_in: "values_get v p \<noteq> [] \<Longrightarrow> values_get v p \<in> set (values_of v p)"
  by (auto simp: values_get_def split: list.splits)

lemma enforceValues_safe:
  assumes "\<And>m. set (map_order env m) = set m" "distinct (map mname (Matchers d))"
    and "MatcherOp d \<noteq> ''or'' \<or> p \<noteq> ''query''" "enforceValuesOnLogQL env d v p = Inr q"
    and "reads_back backend env (StreamMatcherExpr (Matchers d))"
    and "\<And>x. x \<in> set (values_of v p) \<Longrightarrow> value_reads_back backend env (Matchers d) x"
  obtains x where "q = values_encode (values_set p x v)" "logs_safe backend env (Matchers d) x"
proof -
  let ?f = "\<lambda>ms. combineLabelMatchers env ms (Matchers d)"
  have lm: "initAuthzMatchers (env_regex env) (Matchers d) = Inr (Matchers d)"
    using assms(4) initAuthzMatchers_Inr by (auto simp: enforceValuesOnLogQL_def split: sum.splits)
  show thesis
  proof (cases "values_get v p = []")
    case True
    hence "q = values_encode (values_set p (String (env_lib env) (StreamMatcherExpr (Matchers d))) v)"
      using assms(4) lm by (simp add: enforceValuesOnLogQL_def)
    moreover have "logs_safe backend env (Matchers d) (String (env_lib env) (StreamMatcherExpr (Matchers d)))"
      using assms(5) by (simp add: reads_back_def logs_safe_def)
    ultimately show thesis by (rule that)
  next
    case False
    then obtain e where e: "ParseExpr env (values_get v p) = Inr e"
        "q = values_encode (values_set p (String (env_lib env) (Walk id ?f e)) v)"
      using assms(3,4) lm by (auto simp: enforceValuesOnLogQL_def Let_def split: sum.splits if_splits)
    have "reads_back backend env (Walk id ?f e)"
      using assms(6) [OF values_get_in [OF False]] e(1) by (simp add: value_reads_back_def)
    hence "logs_safe backend env (Matchers d) (String (env_lib env) (Walk id ?f e))"
      using combine_sound [OF assms(1,2)] by (auto simp: reads_back_def logs_safe_def selectors_Walk)
    with e(2) show thesis by (rule that)
  qed
qed

lemma parse_form_body_values:
  assumes "parse_form mime r = Inr pf" "x \<in> set (values_of pf p)" "Method r = ''POST''"
  shows "x \<in> set (body_values r p)"
  using assms
  by (auto simp: parse_form_def parse_post_form_def body_values_def Let_def first_error_def values_of_def
      split: option.splits if_splits body.splits)

lemma enforceRequestLogQL_safe:
  assumes "\<And>m. set (map_order env m) = set m" "distinct (map mname (Matchers d))"
    and "MatcherOp d \<noteq> ''or'' \<or> logQLParam (Path (URL r)) \<noteq> ''query''"
    and "reads_back backend env (StreamMatcherExpr (Matchers d))"
    and rb: "\<And>x. x \<in> set (received_values r (logQLParam (Path (URL r)))) \<Longrightarrow> value_reads_back backend env (Matchers d) x"
    and "enforceRequestLogQL env mime d r = Inr r'"
  shows "received_values r' (logQLParam (Path (URL r))) \<noteq> []
       \<and> (\<forall>x \<in> set (received_values r' (logQLParam (Path (URL r)))). logs_safe backend env (Matchers d) x)"
proof -
  let ?p = "logQLParam (Path (URL r))"
  note safe = enforceValues_safe [OF assms(1-3) _ assms(4)]
  obtain q where q: "enforceValuesOnLogQL env d (url_query (URL r)) ?p = Inr q"
    using assms(6) by (auto simp: enforceRequestLogQL_def Let_def split: sum.splits)
  have b: "value_reads_back backend env (Matchers d) x" if "x \<in> set (values_of (url_query (URL r)) ?p)" for x
    using rb that by (simp add: received_values_def)
  obtain x where x: "q = values_encode (values_set ?p x (url_query (URL r)))" "logs_safe backend env (Matchers d) x"
    using safe [OF q b] by blast
  let ?r1 = "set_raw_query q r"
  have u: "values_of (url_query (URL ?r1)) ?p = [x]" by (simp add: x(1))
  show ?thesis
  proof (cases "Method r = ''POST''")
    case False
    hence "r' = ?r1" using assms(6) q by (simp add: enforceRequestLogQL_def Let_def)
    thus ?thesis using u x(2) False by (simp add: received_values_def)
  next
    case True
    then obtain pf body where pf: "parse_form mime ?r1 = Inr pf"
        "(if values_of pf ?p \<noteq> [] then enforceValuesOnLogQL env d pf ?p else Inr (values_encode pf)) = Inr body"
        "r' = set_body body ?r1"
      using assms(6) q by (auto simp: enforceRequestLogQL_def Let_def split: sum.splits)
    have "\<forall>y \<in> set (body_values r' ?p). logs_safe backend env (Matchers d) y"
    proof (cases "values_of pf ?p = []")
      case True
      hence "body = values_encode pf" using pf(2) by simp
      thus ?thesis using pf(3) True by simp
    next
      case f: False
      have b: "value_reads_back backend env (Matchers d) y" if "y \<in> set (values_of pf ?p)" for y
      proof -
        have "y \<in> set (body_values r ?p)"
          using parse_form_body_values [OF pf(1) that] True by (simp add: body_values_def)
        thus ?thesis using rb True by (simp add: received_values_def)
      qed
      have "enforceValuesOnLogQL env d pf ?p = Inr body" using pf(2) f by simp
      from safe [OF this b] obtain y where "body = values_encode (values_set ?p y pf)" "logs_safe backend env (Matchers d) y"
        by blast
      thus ?thesis using pf(3) by simp
    qed
    thus ?thesis using u x(2) pf(3) True by (auto simp: received_values_def)
  qed
qed

section \<open>Properties\<close>


definition sample_env :: logs_env where
  "sample_env =
     \<lparr>env_lib = \<lparr>matcher_String = (\<lambda>m. mname m @ match_type_string (mtype m) @ [CHR 0x22] @ mvalue m @ [CHR 0x22]),
                is_print = (\<lambda>_. True)\<rparr>,
      env_regex = literal_regex,
      ParseExpr = (\<lambda>s. if s = ''{}'' then Inr (QueryExpr \<lparr>q_left = [], q_filter = None\<rparr>) else Inl ''syntax error''),
      map_order = rev\<rparr>"




definition rate_query :: "matcher list \<Rightarrow> string \<Rightarrow> expr" where
  "rate_query ms v =
     LogMetricSelExpr
       (LogRangeQueryExpr
          (QueryExpr \<lparr>q_left = ms, q_filter = Some [Stage_LabelFilter (newLogLabelFilter ''foo'' ''='' [] (TypeText v))]\<rparr>)
          ''[5m]'' None False)
       \<lparr>metricOp = ''rate'', preamble = [], m_grouping = None, groupingAfterOp = False, params = [], offset = 0\<rparr>"

definition plain_or :: "expr \<Rightarrow> expr \<Rightarrow> expr" where
  "plain_or l r =
     (let off = \<lparr>Enabled = False, Labels = [], GroupingType = NoGrouping, IncludeLabels = []\<rparr>
      in LogBinaryOpExpr ''or'' \<lparr>ReturnBool = False, IgnoringOption = off, OnOption = off\<rparr> l r)"

definition injected_value :: "logql_lib \<Rightarrow> matcher \<Rightarrow> string" where
  "injected_value lib victim =
     ''x'' @ [CHR 0x22] @ '') or rate({'' @ matcher_String lib victim @ ''}[5m] | foo = '' @ [CHR 0x22] @ ''x''"

lemma replace_first_brace:
  assumes "CHR ''}'' \<notin> set s"
  shows "replace_first (''{'' @ s @ ''}'' @ t) ''}'' u = ''{'' @ s @ u @ t"
proof -
  have "index_of (s @ ''}'' @ t) ''}'' = Some (length s)" using assms by (induction s) auto
  thus ?thesis by (simp add: replace_first_def)
qed

lemma rate_query_String:
  assumes "CHR ''}'' \<notin> set (matcher_String lib m)"
  shows "String lib (rate_query [m] v) =
    ''rate({'' @ matcher_String lib m @ ''}[5m] | foo = '' @ [CHR 0x22] @ v @ [CHR 0x22] @ '')''"
  using replace_first_brace [OF assms, of " '' | foo = '' @ [CHR 0x22] @ v @ [CHR 0x22]" "''}[5m]''"]
  by (simp add: rate_query_def LogMetricExpr_String_def LogRangeQueryExpr_String_def LogQueryExpr_String_def
      StreamMatcherExpr_String_def LogPipelineExpr_String_def newLogLabelFilter_def LogLabelFilterValue_String_def
      OpLabelReplace_def)

text \<open>
  C39. The text of a label filter is printed between quotes without escaping it, although
  the parser removes the escapes.  A caller can therefore close the quote inside the value: the query
  has one selector, which receives the authorization matcher, but its printed form is, character by
  character, the printed form of an expression with a second selector of the caller's choice, in which
  no authorization matcher occurs.  This holds for every parser that reads the caller's
  query as \<open>rate_query\<close> with that filter, and for every way of printing matchers without braces.
\<close>

theorem logs_filter_text_injection:
  assumes "Matchers d = [own]" "MatcherOp d \<noteq> ''or''" "initAuthzMatchers (env_regex env) [own] = Inr [own]"
    and "\<And>x. map_order env [x] = [x]"
    and "values_get v ''query'' = q" "q \<noteq> []" "ParseExpr env q = Inr (rate_query [] (injected_value (env_lib env) victim))"
    and "CHR ''}'' \<notin> set (matcher_String (env_lib env) own)" "CHR ''}'' \<notin> set (matcher_String (env_lib env) victim)"
  shows "\<exists>e. enforceValuesOnLogQL env d v ''query'' = Inr (values_encode (values_set ''query'' (String (env_lib env) e) v))
           \<and> stream_selectors e = [[own], [victim]]"
proof -
  let ?lib = "env_lib env" and ?v = "injected_value (env_lib env) victim"
  let ?e = "plain_or (rate_query [own] ''x'') (rate_query [victim] ''x'')"
  have "Walk id (\<lambda>ms. combineLabelMatchers env ms [own]) (rate_query [] ?v) = rate_query [own] ?v"
    using assms(4) by (simp add: rate_query_def combineLabelMatchers_def combine_step_def)
  moreover have "String ?lib (rate_query [own] ?v) = String ?lib ?e"
    by (simp add: plain_or_def Let_def modifier_String_def match_option_String_def rate_query_String [OF assms(8)]
        rate_query_String [OF assms(9)] injected_value_def)
  ultimately have "enforceValuesOnLogQL env d v ''query'' = Inr (values_encode (values_set ''query'' (String ?lib ?e) v))"
    using assms by (simp add: enforceValuesOnLogQL_def Let_def)
  moreover have "stream_selectors ?e = [[own], [victim]]" by (simp add: plain_or_def Let_def rate_query_def)
  ultimately show ?thesis by blast
qed

definition own_matcher :: matcher where
  "own_matcher = \<lparr>mtype = MatchEqual, mname = ''tenant_id'', mvalue = ''team-a''\<rparr>"

definition victim_matcher :: matcher where
  "victim_matcher = \<lparr>mtype = MatchEqual, mname = ''tenant_id'', mvalue = ''team-b''\<rparr>"

theorem logs_filter_text_injection_witness:
  "let env = sample_env\<lparr>ParseExpr := (\<lambda>s. Inr (rate_query [] (injected_value (env_lib sample_env) victim_matcher)))\<rparr>
   in \<exists>e. enforceValuesOnLogQL env sample_authz [(''query'', [''q''])] ''query''
            = Inr (values_encode (values_set ''query'' (String (env_lib env) e) [(''query'', [''q''])]))
        \<and> stream_selectors e = [[own_matcher], [victim_matcher]]"
  unfolding Let_def
  by (rule logs_filter_text_injection [where q = "''q''"])
     (simp_all add: sample_authz_def own_matcher_def victim_matcher_def sample_env_def initAuthzMatchers_def
       new_matcher_def values_get_def values_of_def)

text \<open>
  A caller's matchers are collected in a map by label name, so that of two
  matchers on the same label only the last one is kept: a query for streams with \<open>app="x"\<close> and
  \<open>app!="z"\<close> is sent on without the first, and selects streams the caller excluded.
\<close>

theorem logs_duplicate_matcher_dropped:
  "let q1 = \<lparr>mtype = MatchEqual, mname = ''app'', mvalue = ''x''\<rparr>; q2 = \<lparr>mtype = MatchNotEqual, mname = ''app'', mvalue = ''z''\<rparr>;
       ms = combineLabelMatchers sample_env [q1, q2] [own_matcher];
       ls = (\<lambda>n. if n = ''app'' then ''y'' else ''team-a'')
   in selects literal_regex ms ls \<and> \<not> selects literal_regex [q1, q2] ls"
  by (simp add: Let_def combineLabelMatchers_def combine_step_def sample_env_def own_matcher_def selects_def matches_def)

end
