(* ===== verification/Logs_Rules.thy ===== *)
theory Logs_Rules
  imports Logs_Enforcer
begin

text \<open>
  Reading rules of logs: the checks of URL parameters against the authorization
  (\<open>api/logs/v1/rules_labels_enforcer.go\<close>) and the filter of responses in the format of
  Prometheus (\<open>rules_prometheus_labels_enforcer.go\<close>).
\<close>

section \<open>Definitions\<close>

subsection \<open>URL parameters\<close>

fun unauthorized_param :: "regex \<Rightarrow> url_values \<Rightarrow> matcher list \<Rightarrow> (string \<times> string) option" where
  "unauthorized_param rx queryParams [] = None"
| "unauthorized_param rx queryParams (m # ms) =
     (let val = values_get queryParams (mname m) in
      if \<not> matches rx m val then Some (mname m, val) else unauthorized_param rx queryParams ms)"

text \<open>The names in the message are quoted with \<open>%q\<close>.\<close>

definition rules_authz_check :: "logs_env \<Rightarrow> request \<Rightarrow> reply + request" where
  "rules_authz_check env r =
     (case GetData (Ctx r) of
        (data, ok) \<Rightarrow>
          if \<not> ok then Inl (ApiError ''error finding authorization label matcher'' 500)
          else if data = [] then Inr r
          else (case unmarshal_authz data of
                  None \<Rightarrow> Inl (ApiError ''error parsing authorization label matchers'' 500)
                | Some matchersInfo \<Rightarrow>
                    (case initAuthzMatchers (env_regex env) (Matchers matchersInfo) of
                       Inl _ \<Rightarrow> Inl (ApiError ''error initializing authorization label matchers'' 500)
                     | Inr matchers \<Rightarrow>
                         (case unauthorized_param (env_regex env) (url_query (URL r)) matchers of
                            Some (n, val) \<Rightarrow>
                              Inl (ApiError (''unauthorized access for URL parameter '' @ quote (env_lib env) n
                                             @ '' and value '' @ quote (env_lib env) val) 403)
                          | None \<Rightarrow> Inr r))))"

definition WithEnforceRulesAuthorizationLabels :: "logs_env \<Rightarrow> 's middleware" where
  "WithEnforceRulesAuthorizationLabels env = guard_mw (rules_authz_check env)"

definition label_filter_step ::
    "regex \<Rightarrow> matcher list \<Rightarrow> string \<Rightarrow> string list \<times> url_values \<Rightarrow> string list \<times> url_values" where
  "label_filter_step rx matchers key st =
     (case st of
        (labelFilter, queryParams) \<Rightarrow>
          (let val = values_get queryParams key in
           if list_ex (\<lambda>m. mname m = key \<and> matches rx m val) matchers
           then (labelFilter @ [key @ '':'' @ val], values_del key queryParams)
           else st))"

definition transformParametersInLabelFilter :: "regex \<Rightarrow> string list \<Rightarrow> matcher list \<Rightarrow> url_values \<Rightarrow> string" where
  "transformParametersInLabelFilter rx keys matchers queryParams =
     (case fold (label_filter_step rx matchers) keys ([], queryParams) of
        (labelFilter, queryParams') \<Rightarrow>
          if labelFilter = [] then values_encode queryParams'
          else values_encode (values_set ''labels'' (join '','' labelFilter) queryParams'))"

definition prometheusRulesRoute :: string where
  "prometheusRulesRoute = ''/prometheus/api/v1/rules''"

definition prometheusAlertsRoute :: string where
  "prometheusAlertsRoute = ''/prometheus/api/v1/alerts''"

definition label_params_check :: "logs_env \<Rightarrow> (string \<times> string list) list \<Rightarrow> request \<Rightarrow> reply + request" where
  "label_params_check env labelKeys r =
     (if contains (Path (URL r)) prometheusRulesRoute \<or> contains (Path (URL r)) prometheusAlertsRoute then Inr r
      else (case GetTenant (Ctx r) of
        (tenant, ok) \<Rightarrow>
          if \<not> ok then Inl (ApiError ''missing tenant id'' 400)
          else (case map_of labelKeys tenant of
            None \<Rightarrow> Inr r
          | Some keys \<Rightarrow>
              if keys = [] then Inr r
              else (case GetData (Ctx r) of
                (data, ok') \<Rightarrow>
                  if \<not> ok' then Inl (ApiError ''error finding authorization label matcher'' 500)
                  else if data = [] then Inr r
                  else (case unmarshal_authz data of
                    None \<Rightarrow> Inl (ApiError ''error parsing authorization label matchers'' 500)
                  | Some matchersInfo \<Rightarrow>
                      (case initAuthzMatchers (env_regex env) (Matchers matchersInfo) of
                         Inl _ \<Rightarrow> Inl (ApiError ''error initializing authorization label matchers'' 500)
                       | Inr matchers \<Rightarrow>
                           Inr (set_raw_query
                             (transformParametersInLabelFilter (env_regex env) keys matchers (url_query (URL r))) r)))))))"

definition WithParametersAsLabelsFilterRules :: "logs_env \<Rightarrow> (string \<times> string list) list \<Rightarrow> 's middleware" where
  "WithParametersAsLabelsFilterRules env labelKeys = guard_mw (label_params_check env labelKeys)"

subsection \<open>Responses in the format of Prometheus\<close>

record alert =
  al_Labels :: "(string \<times> string) list"
  al_Annotations :: "(string \<times> string) list"
  al_State :: string
  al_ActiveAt :: "string option"
  al_Value :: string

record alertingRule =
  alr_State :: string
  alr_Name :: string
  alr_Query :: string
  alr_Duration :: rat
  alr_Labels :: "(string \<times> string) list"
  alr_Annotations :: "(string \<times> string) list"
  alr_Alerts :: "alert list"
  alr_Health :: string
  alr_LastError :: string
  alr_LastEvaluation :: string
  alr_EvaluationTime :: rat
  alr_Type :: string

record recordingRule =
  rec_Name :: string
  rec_Query :: string
  rec_Labels :: "(string \<times> string) list"
  rec_Health :: string
  rec_LastError :: string
  rec_LastEvaluation :: string
  rec_EvaluationTime :: rat
  rec_Type :: string

datatype rule = Alerting alertingRule | Recording recordingRule

record ruleGroup =
  grp_Name :: string
  grp_File :: string
  grp_Rules :: "rule list"
  grp_Interval :: rat
  grp_LastEvaluation :: string
  grp_EvaluationTime :: rat

record rulesData =
  RuleGroups :: "ruleGroup list"
  Alerts :: "alert list"

record prometheusRulesResponse =
  pr_Status :: string
  pr_Data :: rulesData
  pr_Error :: string
  pr_ErrorType :: string

definition rule_GetLabels :: "rule \<Rightarrow> (string \<times> string) list" where
  "rule_GetLabels r = (case r of Alerting a \<Rightarrow> alr_Labels a | Recording c \<Rightarrow> rec_Labels c)"

definition hasMatchingLabels :: "(string \<times> string) list \<Rightarrow> (string \<times> string) list \<Rightarrow> bool" where
  "hasMatchingLabels ls matchers = list_all (\<lambda>(key, v). map_of ls key = Some v) matchers"

definition filterPrometheusRuleGroups :: "ruleGroup list \<Rightarrow> (string \<times> string) list \<Rightarrow> ruleGroup list" where
  "filterPrometheusRuleGroups gs matchers =
     concat (map (\<lambda>g. let filteredRules = filter (\<lambda>r. hasMatchingLabels (rule_GetLabels r) matchers) (grp_Rules g)
                      in if filteredRules \<noteq> [] then [g\<lparr>grp_Rules := filteredRules\<rparr>] else []) gs)"

definition filterPrometheusAlerts :: "alert list \<Rightarrow> (string \<times> string) list \<Rightarrow> alert list" where
  "filterPrometheusAlerts alerts matchers = filter (\<lambda>a. hasMatchingLabels (al_Labels a) matchers) alerts"

definition filterPrometheusResponse ::
    "prometheusRulesResponse \<Rightarrow> (string \<times> string) list \<Rightarrow> bool \<Rightarrow> prometheusRulesResponse" where
  "filterPrometheusResponse res matchers strictEnforce =
     (if matchers = [] then
        (if strictEnforce then res\<lparr>pr_Data := \<lparr>RuleGroups = [], Alerts = []\<rparr>\<rparr> else res)
      else
        (let res1 = (if RuleGroups (pr_Data res) \<noteq> []
                     then res\<lparr>pr_Data := \<lparr>RuleGroups = filterPrometheusRuleGroups (RuleGroups (pr_Data res)) matchers, Alerts = []\<rparr>\<rparr>
                     else res)
         in if Alerts (pr_Data res1) \<noteq> []
            then res1\<lparr>pr_Data := \<lparr>RuleGroups = [], Alerts = filterPrometheusAlerts (Alerts (pr_Data res1)) matchers\<rparr>\<rparr>
            else res1))"

text \<open>The JSON form of responses involves types of the Prometheus library: \<open>codec\<close>.\<close>

record rules_codec =
  Unmarshal_response :: "string \<Rightarrow> string + prometheusRulesResponse"
  Marshal_response :: "prometheusRulesResponse \<Rightarrow> string + string"

definition filterRules :: "rules_codec \<Rightarrow> string \<Rightarrow> string \<Rightarrow> (string \<times> string) list \<Rightarrow> bool \<Rightarrow> string + string" where
  "filterRules codec b contentType matchers strictMode =
     (if contentType = ''application/json'' then
        (case Unmarshal_response codec b of
           Inl err \<Rightarrow> Inl err
         | Inr res \<Rightarrow> Marshal_response codec (filterPrometheusResponse res matchers strictMode))
      else Inl ''unknown rules response content type'')"

definition extractMatchers :: "request \<Rightarrow> string list \<Rightarrow> (string \<times> string) list" where
  "extractMatchers r l =
     fold (\<lambda>n m. let v = values_get (url_query (URL r)) n in if v \<noteq> [] then AList.update n v m else m) l []"

text \<open>The part of a response that the modification reads or changes.\<close>

record rules_response =
  res_Header :: header
  res_Body :: body
  res_ContentLength :: int

definition newModifyResponseProm ::
    "rules_codec \<Rightarrow> (string \<times> string list) list \<Rightarrow> request \<Rightarrow> rules_response \<Rightarrow> string + rules_response" where
  "newModifyResponseProm codec labelKeys r res =
     (case GetTenant (Ctx r) of
        (tenant, ok) \<Rightarrow>
          if \<not> ok then Inl ''unknown tenant key''
          else (case map_of labelKeys tenant of
            None \<Rightarrow> Inr res
          | Some keys \<Rightarrow>
              (case (case GetData (Ctx r) of
                       (data, ok') \<Rightarrow> if ok' \<and> data \<noteq> [] then unmarshal_authz data
                                      else Some \<lparr>Matchers = [], MatcherOp = []\<rparr>) of
                 None \<Rightarrow> Inr res
               | Some matchersInfo \<Rightarrow>
                   (case res_Body res of
                      Body_err err \<Rightarrow> Inl err
                    | Body_ok t \<Rightarrow>
                        (case filterRules codec t (header_get (res_Header res) ''Content-Type'') (extractMatchers r keys)
                                (Matchers matchersInfo \<noteq> []) of
                           Inl err \<Rightarrow> Inl err
                         | Inr b \<Rightarrow>
                             Inr \<lparr>res_Header = header_set ''Content-Length'' (itoa (int (length b))) (res_Header res),
                                  res_Body = Body_ok b, res_ContentLength = int (length b)\<rparr>)))))"

section \<open>Lemmas\<close>

lemma unauthorized_param_None:
  "unauthorized_param rx q ms = None \<longleftrightarrow> (\<forall>m \<in> set ms. matches rx m (values_get q (mname m)))"
  by (induction ms) (auto simp: Let_def)

lemma filtered_groups:
  "g' \<in> set (filterPrometheusRuleGroups gs ms) \<longleftrightarrow>
     (\<exists>g \<in> set gs. let rs = filter (\<lambda>r. hasMatchingLabels (rule_GetLabels r) ms) (grp_Rules g)
        in rs \<noteq> [] \<and> g' = g\<lparr>grp_Rules := rs\<rparr>)"
  by (auto simp: filterPrometheusRuleGroups_def Let_def split: if_splits)

definition all_rules :: "prometheusRulesResponse \<Rightarrow> rule list" where
  "all_rules res = concat (map grp_Rules (RuleGroups (pr_Data res)))"

lemma all_rules_filtered:
  "concat (map grp_Rules (filterPrometheusRuleGroups gs ms)) =
     filter (\<lambda>r. hasMatchingLabels (rule_GetLabels r) ms) (concat (map grp_Rules gs))"
  by (induction gs) (auto simp: filterPrometheusRuleGroups_def Let_def)

section \<open>Properties\<close>

text \<open>
  A request for rules passes \<open>WithEnforceRulesAuthorizationLabels\<close> exactly when the URL parameter of each
  authorization matcher satisfies it (an absent one counts as empty), and passes unchanged; there is
  no way around a matcher by leaving its parameter out unless the matcher accepts the empty value.
\<close>

theorem rules_params_authorized:
  assumes "GetData (Ctx r) = (data, True)" "data \<noteq> []" "unmarshal_authz data = Some d"
    and "initAuthzMatchers (env_regex env) (Matchers d) = Inr ms"
  shows "WithEnforceRulesAuthorizationLabels env forward r w s = (Forwarded r w, s) \<longleftrightarrow>
         (\<forall>m \<in> set ms. matches (env_regex env) m (values_get (url_query (URL r)) (mname m)))"
proof -
  have "rules_authz_check env r =
      (case unauthorized_param (env_regex env) (url_query (URL r)) ms of
         Some (n, val) \<Rightarrow> Inl (ApiError (''unauthorized access for URL parameter '' @ quote (env_lib env) n
                                         @ '' and value '' @ quote (env_lib env) val) 403)
       | None \<Rightarrow> Inr r)"
    using assms by (simp add: rules_authz_check_def)
  thus ?thesis
    by (auto simp: WithEnforceRulesAuthorizationLabels_def guard_mw_def forward_def
        simp flip: unauthorized_param_None split: option.splits)
qed

theorem rules_params_authorized_witness:
  "let r = with_ctx (\<lambda>c. WithData c (marshal_authz sample_authz)) plain_request
   in WithEnforceRulesAuthorizationLabels sample_env forward r new_writer () = (Forwarded r new_writer, ()) \<longleftrightarrow>
      (\<forall>m \<in> set (Matchers sample_authz). matches (env_regex sample_env) m (values_get (url_query (URL r)) (mname m)))"
proof -
  define r where "r = with_ctx (\<lambda>c. WithData c (marshal_authz sample_authz)) plain_request"
  have g: "GetData (Ctx r) = (marshal_authz sample_authz, True)" by (simp add: r_def GetData_def WithData_def)
  have i: "initAuthzMatchers (env_regex sample_env) (Matchers sample_authz) = Inr (Matchers sample_authz)"
    by (simp add: initAuthzMatchers_def sample_authz_def new_matcher_def)
  show ?thesis
    using rules_params_authorized [OF g sample_authz_codec(2,1) i, of new_writer "()"]
    unfolding Let_def r_def [symmetric] .
qed

text \<open>
  The filter of rule responses is exact: with at least one label filter, the rules that are left are those of the
  response, in their order, whose labels have every filtered value; no group is left empty, and alerts are
  kept by the same rule when the response has no groups.  Without any filter and in strict mode, nothing is left.
\<close>

theorem rules_response_filtered:
  "(matchers \<noteq> [] \<longrightarrow>
      all_rules (filterPrometheusResponse res matchers strict) =
        filter (\<lambda>r. hasMatchingLabels (rule_GetLabels r) matchers) (all_rules res)
      \<and> (\<forall>g \<in> set (RuleGroups (pr_Data (filterPrometheusResponse res matchers strict))).
           RuleGroups (pr_Data res) \<noteq> [] \<longrightarrow> grp_Rules g \<noteq> [])
      \<and> (RuleGroups (pr_Data res) = [] \<longrightarrow>
           Alerts (pr_Data (filterPrometheusResponse res matchers strict)) =
             filter (\<lambda>a. hasMatchingLabels (al_Labels a) matchers) (Alerts (pr_Data res))))
   \<and> (matchers = [] \<and> strict \<longrightarrow>
        RuleGroups (pr_Data (filterPrometheusResponse res matchers strict)) = []
        \<and> Alerts (pr_Data (filterPrometheusResponse res matchers strict)) = [])"
  by (auto simp: filterPrometheusResponse_def all_rules_def all_rules_filtered filterPrometheusAlerts_def Let_def filtered_groups)

theorem rules_response_filtered_witness:
  "let a = \<lparr>al_Labels = [(''ns'', ''x'')], al_Annotations = [], al_State = [], al_ActiveAt = None, al_Value = []\<rparr>;
       b = a\<lparr>al_Labels := [(''ns'', ''y'')]\<rparr>;
       res = \<lparr>pr_Status = [], pr_Data = \<lparr>RuleGroups = [], Alerts = [a, b]\<rparr>, pr_Error = [], pr_ErrorType = []\<rparr>
   in Alerts (pr_Data (filterPrometheusResponse res [(''ns'', ''x'')] True)) = [a]"
  using rules_response_filtered [of "[(''ns'', ''x'')]"
    "\<lparr>pr_Status = [], pr_Data = \<lparr>RuleGroups = [],
       Alerts = [\<lparr>al_Labels = [(''ns'', ''x'')], al_Annotations = [], al_State = [], al_ActiveAt = None, al_Value = []\<rparr>,
                 \<lparr>al_Labels = [(''ns'', ''y'')], al_Annotations = [], al_State = [], al_ActiveAt = None, al_Value = []\<rparr>]\<rparr>,
       pr_Error = [], pr_ErrorType = []\<rparr>" True]
  by (simp add: Let_def hasMatchingLabels_def)

end
