(* ===== verification/Logs_API.thy ===== *)
theory Logs_API
  imports Metrics_API Logs_Rules
begin

text \<open>
  The routes of the logs API, \<open>api/logs/v1/http.go\<close>: reading, rules, tailing and writing, each group behind its
  middlewares.  Loggers, registries and transports are left out.
\<close>

section \<open>Definitions\<close>

definition logs_read_patterns :: "(string \<times> string) list" where
  "logs_read_patterns =
     [(''/loki/api/v1/query'', ''query''), (''/loki/api/v1/query_range'', ''query_range''), (''/loki/api/v1/label'', ''label''),
      (''/loki/api/v1/labels'', ''labels''), (''/loki/api/v1/index/volume'', ''volume''),
      (''/loki/api/v1/index/volume_range'', ''volume_range''), (''/loki/api/v1/label/{name}/values'', ''label_values''),
      (''/loki/api/v1/series'', ''series''), (''/api/prom/query'', ''query''), (''/api/prom/label'', ''label''),
      (''/api/prom/label/{name}/values'', ''label_values''), (''/api/prom/series'', ''series''),
      (''/loki/api/v1/patterns'', ''patterns''), (''/loki/api/v1/detected_labels'', ''detected_labels''),
      (''/loki/api/v1/detected_field'', ''detected_field''), (''/loki/api/v1/detected_fields'', ''detected_fields'')]"

definition rulesRoute :: string where "rulesRoute = ''/loki/api/v1/rules''"
definition rulesPerNamespaceRoute :: string where "rulesPerNamespaceRoute = ''/loki/api/v1/rules/{namespace}''"
definition rulesPerGroupNameRoute :: string where "rulesPerGroupNameRoute = ''/loki/api/v1/rules/{namespace}/{groupName}''"
definition promRulesRoute :: string where "promRulesRoute = ''/api/prom/rules''"
definition promRulesPerNamespaceRoute :: string where "promRulesPerNamespaceRoute = ''/api/prom/rules/{namespace}''"
definition promRulesPerGroupNameRoute :: string where "promRulesPerGroupNameRoute = ''/api/prom/rules/{namespace}/{groupName}''"
definition tailRoute :: string where "tailRoute = ''/loki/api/v1/tail''"
definition promTailRoute :: string where "promTailRoute = ''/api/prom/tail''"
definition otlpRoute :: string where "otlpRoute = ''/otlp/v1/logs''"
definition pushRoute :: string where "pushRoute = ''/loki/api/v1/push''"

record 's logs_handlerConfiguration =
  logs_instrument :: "'s handlerInstrumenter"
  logs_rulesLabelFilters :: "(string \<times> string list) list"
  logs_readMiddlewares :: "'s middleware list"
  logs_writeMiddlewares :: "'s middleware list"
  logs_rulesReadMiddlewares :: "'s middleware list"
  logs_rulesWriteMiddlewares :: "'s middleware list"

type_synonym 's logs_HandlerOption = "'s logs_handlerConfiguration \<Rightarrow> 's logs_handlerConfiguration"

definition Logs_WithHandlerInstrumenter :: "'s handlerInstrumenter \<Rightarrow> 's logs_HandlerOption" where
  "Logs_WithHandlerInstrumenter i h = h\<lparr>logs_instrument := i\<rparr>"

definition Logs_WithReadMiddleware :: "'s middleware \<Rightarrow> 's logs_HandlerOption" where
  "Logs_WithReadMiddleware m h = h\<lparr>logs_readMiddlewares := logs_readMiddlewares h @ [m]\<rparr>"

definition Logs_WithWriteMiddleware :: "'s middleware \<Rightarrow> 's logs_HandlerOption" where
  "Logs_WithWriteMiddleware m h = h\<lparr>logs_writeMiddlewares := logs_writeMiddlewares h @ [m]\<rparr>"

definition WithRulesReadMiddleware :: "'s middleware \<Rightarrow> 's logs_HandlerOption" where
  "WithRulesReadMiddleware m h = h\<lparr>logs_rulesReadMiddlewares := logs_rulesReadMiddlewares h @ [m]\<rparr>"

definition WithRulesWriteMiddleware :: "'s middleware \<Rightarrow> 's logs_HandlerOption" where
  "WithRulesWriteMiddleware m h = h\<lparr>logs_rulesWriteMiddlewares := logs_rulesWriteMiddlewares h @ [m]\<rparr>"

definition Logs_WithGlobalMiddleware :: "'s middleware list \<Rightarrow> 's logs_HandlerOption" where
  "Logs_WithGlobalMiddleware m h =
     h\<lparr>logs_writeMiddlewares := logs_writeMiddlewares h @ m, logs_readMiddlewares := logs_readMiddlewares h @ m\<rparr>"

definition WithRulesLabelFilters :: "(string \<times> string list) list \<Rightarrow> 's logs_HandlerOption" where
  "WithRulesLabelFilters f h = h\<lparr>logs_rulesLabelFilters := f\<rparr>"

text \<open>A route whose proxy is wrapped by the instrumenter with its labels.\<close>

definition instrumented ::
    "'s handlerInstrumenter \<Rightarrow> string \<Rightarrow> (string \<Rightarrow> 's handler \<Rightarrow> 's router) \<Rightarrow> string \<Rightarrow> string \<Rightarrow> 's handler \<Rightarrow> 's router" where
  "instrumented instr grp register pattern handler h =
     (let labels = [(''group'', grp), (''handler'', handler)] in chi_Group labels [instr (Some labels)] (register pattern h))"

definition logs_read_routes :: "'s logs_handlerConfiguration \<Rightarrow> url \<Rightarrow> 's router" where
  "logs_read_routes c read =
     chi_Group [] (logs_readMiddlewares c @ [StripPrefix ''/api/logs/v1''])
       (concat (map (\<lambda>(pattern, handler).
          instrumented (logs_instrument c) ''logsv1'' chi_Handle pattern handler (ReverseProxy (upstream_director read))) logs_read_patterns))"

definition logs_rules_read_routes :: "'s logs_handlerConfiguration \<Rightarrow> url \<Rightarrow> 's router" where
  "logs_rules_read_routes c rules =
     chi_Group [] (logs_readMiddlewares c @ logs_rulesReadMiddlewares c @ [StripPrefix ''/api/logs/v1''])
       (concat (map (\<lambda>(pattern, handler).
          instrumented (logs_instrument c) ''logsv1'' (chi_Method ''GET'') pattern handler (ReverseProxy (upstream_director rules)))
        [(rulesRoute, ''rules''), (rulesPerNamespaceRoute, ''rules''), (rulesPerGroupNameRoute, ''rules''),
         (prometheusRulesRoute, ''rules''), (prometheusAlertsRoute, ''alerts''), (promRulesRoute, ''rules''),
         (promRulesPerNamespaceRoute, ''rules''), (promRulesPerGroupNameRoute, ''rules'')]))"

text \<open>The group of the rule writes has no \<open>StripPrefix\<close>.\<close>

definition logs_rules_write_routes :: "'s logs_handlerConfiguration \<Rightarrow> url \<Rightarrow> 's router" where
  "logs_rules_write_routes c rules =
     chi_Group [] (logs_writeMiddlewares c @ logs_rulesWriteMiddlewares c)
       (concat (map (\<lambda>(m, pattern).
          instrumented (logs_instrument c) ''logsv1'' (chi_Method m) pattern ''rules'' (ReverseProxy (upstream_director rules)))
        [(''POST'', rulesPerNamespaceRoute), (''DELETE'', rulesPerNamespaceRoute), (''DELETE'', rulesPerGroupNameRoute),
         (''POST'', promRulesPerNamespaceRoute), (''DELETE'', promRulesPerNamespaceRoute), (''DELETE'', promRulesPerGroupNameRoute)]))"

definition logs_tail_routes :: "'s logs_handlerConfiguration \<Rightarrow> url \<Rightarrow> 's router" where
  "logs_tail_routes c tail =
     chi_Group [] (logs_readMiddlewares c @ [StripPrefix ''/api/logs/v1''])
       (instrumented (logs_instrument c) ''logsv1'' chi_Handle tailRoute ''tail'' (ReverseProxy (upstream_director tail))
      @ instrumented (logs_instrument c) ''logsv1'' chi_Handle promTailRoute ''prom_tail'' (ReverseProxy (upstream_director tail)))"

definition logs_write_routes :: "'s logs_handlerConfiguration \<Rightarrow> url \<Rightarrow> 's router" where
  "logs_write_routes c write =
     chi_Group [] (logs_writeMiddlewares c @ [StripPrefix ''/api/logs/v1''])
       (instrumented (logs_instrument c) ''logsv1'' chi_Handle otlpRoute ''otlp'' (ReverseProxy (upstream_director write))
      @ instrumented (logs_instrument c) ''logsv1'' chi_Handle pushRoute ''push'' (ReverseProxy (upstream_director write)))"

definition logs_defaults :: "'s logs_handlerConfiguration" where
  "logs_defaults =
     \<lparr>logs_instrument = nopInstrumentHandler, logs_rulesLabelFilters = [], logs_readMiddlewares = [], logs_writeMiddlewares = [],
      logs_rulesReadMiddlewares = [], logs_rulesWriteMiddlewares = []\<rparr>"

definition Logs_NewHandler ::
    "url option \<Rightarrow> url option \<Rightarrow> url option \<Rightarrow> url option \<Rightarrow> bool \<Rightarrow> 's logs_HandlerOption list \<Rightarrow> 's router" where
  "Logs_NewHandler read tail write rules rulesReadOnly opts =
     (let c = fold (\<lambda>opt c. opt c) opts logs_defaults
      in (case read of None \<Rightarrow> [] | Some u \<Rightarrow> logs_read_routes c u)
       @ (case rules of None \<Rightarrow> []
          | Some u \<Rightarrow> logs_rules_read_routes c u @ (if \<not> rulesReadOnly then logs_rules_write_routes c u else []))
       @ (case tail of None \<Rightarrow> [] | Some u \<Rightarrow> logs_tail_routes c u)
       @ (case write of None \<Rightarrow> [] | Some u \<Rightarrow> logs_write_routes c u))"

end
