(* ===== verification/Traces_API.thy ===== *)
theory Traces_API
  imports Logs_API
begin

text \<open>
  The routes of the traces API, \<open>api/traces/v1/http.go\<close>: the read routes to Jaeger, whose upstream may depend on
  the tenant, the OTLP write route and the route to Tempo; the rewriting of the pages of Jaeger; and
  the credentials of the gRPC connection, \<open>api/traces/v1/api.go\<close>.
\<close>

section \<open>Definitions\<close>

subsection \<open>Configuration\<close>

record 's traces_handlerConfiguration =
  traces_instrument :: "'s handlerInstrumenter"
  traces_spanRoutePrefix :: string
  traces_readMiddlewares :: "'s middleware list"
  traces_writeMiddlewares :: "'s middleware list"
  traces_tempoMiddlewares :: "'s middleware list"

type_synonym 's traces_HandlerOption = "'s traces_handlerConfiguration \<Rightarrow> 's traces_handlerConfiguration"

definition Traces_WithHandlerInstrumenter :: "'s handlerInstrumenter \<Rightarrow> 's traces_HandlerOption" where
  "Traces_WithHandlerInstrumenter i h = h\<lparr>traces_instrument := i\<rparr>"

definition WithSpanRoutePrefix :: "string \<Rightarrow> 's traces_HandlerOption" where
  "WithSpanRoutePrefix p h = h\<lparr>traces_spanRoutePrefix := p\<rparr>"

definition Traces_WithReadMiddleware :: "'s middleware \<Rightarrow> 's traces_HandlerOption" where
  "Traces_WithReadMiddleware m h = h\<lparr>traces_readMiddlewares := traces_readMiddlewares h @ [m]\<rparr>"

definition WithTempoMiddleware :: "'s middleware \<Rightarrow> 's traces_HandlerOption" where
  "WithTempoMiddleware m h = h\<lparr>traces_tempoMiddlewares := traces_tempoMiddlewares h @ [m]\<rparr>"

definition Traces_WithWriteMiddleware :: "'s middleware \<Rightarrow> 's traces_HandlerOption" where
  "Traces_WithWriteMiddleware m h = h\<lparr>traces_writeMiddlewares := traces_writeMiddlewares h @ [m]\<rparr>"

subsection \<open>An upstream per tenant\<close>

text \<open>\<open>parse\<close> is \<open>url.ParseRequestURI\<close>.\<close>

definition ExpandTemplatedUpstream :: "(string \<Rightarrow> string + url) \<Rightarrow> string \<Rightarrow> string \<Rightarrow> string + url" where
  "ExpandTemplatedUpstream parse templateUpstream tenant = parse (replace_first templateUpstream ''{tenant}'' tenant)"

text \<open>
  The cache maps a tenant to the parsed URL, or to nil when the text did not parse; \<open>templated_lookup\<close> is the part of the
  director that reads and fills it.
\<close>

type_synonym url_cache = "(string \<times> url option) list"

definition templated_lookup ::
    "(string \<Rightarrow> string + url) \<Rightarrow> string \<Rightarrow> string \<Rightarrow> url_cache \<Rightarrow> url option \<times> url_cache" where
  "templated_lookup parse readTemplate tenant templateToURL =
     (case map_of templateToURL tenant of
        Some upstream \<Rightarrow> (upstream, templateToURL)
      | None \<Rightarrow>
          (let upstream = (case ExpandTemplatedUpstream parse readTemplate tenant of Inl _ \<Rightarrow> None | Inr u \<Rightarrow> Some u)
           in (upstream, AList.update tenant upstream templateToURL)))"

text \<open>The proxy with this director: a nil upstream is dereferenced.  The cache holds what parsing gives, see \<open>templated_lookup_run\<close>.\<close>

definition middlewareSetTemplatedUpstream :: "(string \<Rightarrow> string + url) \<Rightarrow> string \<Rightarrow> (director \<Rightarrow> 's handler) \<Rightarrow> 's handler" where
  "middlewareSetTemplatedUpstream parse readTemplate proxy r w s =
     (case fst (templated_lookup parse readTemplate (fst (GetTenant (Ctx r))) []) of
        None \<Rightarrow> (Responded (send_reply Abort w), s)
      | Some upstream \<Rightarrow> proxy (upstream_director upstream) r w s)"

text \<open>The transport of the read proxy drops the client's \<open>Accept-Encoding\<close>.\<close>

definition decompressingTransport :: "'s handler \<Rightarrow> 's handler" where
  "decompressingTransport h r w s =
     (case h r w s of
        (Forwarded r' w', s') \<Rightarrow> (Forwarded (with_header (header_del ''Accept-Encoding'') r') w', s')
      | (Responded w', s') \<Rightarrow> (Responded w', s'))"

subsection \<open>The router\<close>

definition traces_read_patterns :: "(string \<times> string \<times> string) list" where
  "traces_read_patterns =
     [(''/api/traces*'', ''tracesv1api'', ''traces''), (''/api/services*'', ''tracesv1api'', ''services''),
      (''/api/dependencies*'', ''tracesv1api'', ''dependencies''), (''/api/metrics*'', ''metricsv1api'', ''metrics''),
      (''/static/*'', ''tracesv1static'', ''ui''), (''/search*'', ''tracesv1ui'', ''ui''), (''/trace/*'', ''tracesv1ui'', ''ui''),
      (''/dependencies'', ''tracesv1ui'', ''ui''), (''/monitor'', ''tracesv1ui'', ''ui''), (''/favicon.ico'', ''tracesv1ui'', ''ui'')]"

definition traces_proxyRead :: "(string \<Rightarrow> string + url) \<Rightarrow> url option \<Rightarrow> string \<Rightarrow> 's handler" where
  "traces_proxyRead parse read readTemplate =
     decompressingTransport
       (case read of
          Some u \<Rightarrow> ReverseProxy (upstream_director u)
        | None \<Rightarrow> middlewareSetTemplatedUpstream parse readTemplate ReverseProxy)"

definition traces_read_routes :: "(string \<Rightarrow> string + url) \<Rightarrow> 's traces_handlerConfiguration \<Rightarrow> url option \<Rightarrow> string \<Rightarrow> 's router" where
  "traces_read_routes parse c read readTemplate =
     chi_Group [] (traces_readMiddlewares c)
       (concat (map (\<lambda>(pattern, grp, handler).
          instrumented (traces_instrument c) grp (chi_Method ''GET'') pattern handler (traces_proxyRead parse read readTemplate))
        traces_read_patterns))"

definition traces_write_routes :: "'s traces_handlerConfiguration \<Rightarrow> url \<Rightarrow> 's router" where
  "traces_write_routes c writeOTLPHttp =
     chi_Group [] (traces_writeMiddlewares c)
       (instrumented (traces_instrument c) ''tracesotlphttpv1api'' (chi_Method ''POST'') ''/v1/traces'' ''traces''
          (ReverseProxy (upstream_director writeOTLPHttp)))"

definition tempo_director :: "url \<Rightarrow> director" where
  "tempo_director tempo = proxy_Middlewares [MiddlewareRemoveURLPrefix ''tempo'', MiddlewareSetUpstream tempo, MiddlewareSetPrefixHeader]"

definition traces_tempo_routes :: "'s traces_handlerConfiguration \<Rightarrow> url \<Rightarrow> 's router" where
  "traces_tempo_routes c tempo =
     chi_Group [] (traces_tempoMiddlewares c)
       (instrumented (traces_instrument c) ''tracesv1api'' (chi_Method ''GET'') ''/tempo/api*'' ''traces'' (ReverseProxy (tempo_director tempo)))"

definition traces_defaults :: "'s traces_handlerConfiguration" where
  "traces_defaults =
     \<lparr>traces_instrument = nopInstrumentHandler, traces_spanRoutePrefix = [], traces_readMiddlewares = [], traces_writeMiddlewares = [],
      traces_tempoMiddlewares = []\<rparr>"

text \<open>Without any read endpoint the function panics: \<open>None\<close>.\<close>

definition NewV2Handler ::
    "(string \<Rightarrow> string + url) \<Rightarrow> url option \<Rightarrow> string \<Rightarrow> url option \<Rightarrow> url option \<Rightarrow> 's traces_HandlerOption list \<Rightarrow> 's router option" where
  "NewV2Handler parse read readTemplate tempo writeOTLPHttp opts =
     (if read = None \<and> readTemplate = [] \<and> tempo = None then None
      else
        (let c = fold (\<lambda>opt c. opt c) opts traces_defaults
         in Some ((if read \<noteq> None \<or> readTemplate \<noteq> [] then traces_read_routes parse c read readTemplate else [])
                @ (case writeOTLPHttp of None \<Rightarrow> [] | Some u \<Rightarrow> traces_write_routes c u)
                @ (case tempo of None \<Rightarrow> [] | Some u \<Rightarrow> traces_tempo_routes c u))))"

subsection \<open>The pages of Jaeger\<close>

text \<open>
  The tag that \<open>baseTagRegexp\<close> matches at the head of a text, its length: the parts are separated by one or more blanks.
\<close>

fun match_parts :: "string list \<Rightarrow> string \<Rightarrow> nat option" where
  "match_parts [] s = Some 0"
| "match_parts (p # ps) s =
     (if \<not> prefix p s then None
      else if ps = [] then Some (length p)
      else
        (let t = drop (length p) s; n = length (takeWhile (\<lambda>c. c = CHR '' '') t) in
         if n = 0 then None else map_option (\<lambda>m. length p + n + m) (match_parts ps (drop n t))))"

definition baseTagRegexp :: "string \<Rightarrow> nat option" where
  "baseTagRegexp =
     match_parts [''<base'', ''href='' @ [CHR 0x22] @ ''/'' @ [CHR 0x22], ''data-inject-target='' @ [CHR 0x22] @ ''BASE_URL'' @ [CHR 0x22], ''/>'']"

text \<open>
  \<open>ReplaceAllString\<close> reads dollar signs of the replacement as references to submatches.  The
  expression has no groups, so that \<open>$0\<close> is the match, any other reference is empty, and a dollar sign that starts none stands for
  itself.  \<open>word\<close> is the length of the letter, digit or underscore at the head of a text, 0 if there is none.
\<close>

function name_len :: "(string \<Rightarrow> nat) \<Rightarrow> string \<Rightarrow> nat" where
  "name_len word s = (if s = [] \<or> word s = 0 then 0 else word s + name_len word (drop (word s) s))"
  by pat_completeness auto
termination by (relation "measure (\<lambda>(word, s). length s)") auto

declare name_len.simps [simp del]

definition extract_ref :: "(string \<Rightarrow> nat) \<Rightarrow> string \<Rightarrow> (string \<times> string) option" where
  "extract_ref word s =
     (let brace = prefix ''{'' s; t = (if brace then tl s else s); n = name_len word t in
      if n = 0 then None
      else if brace then (if prefix ''}'' (drop n t) then Some (take n t, drop (Suc n) t) else None)
      else Some (take n t, drop n t))"

text \<open>The fuel is the length of the template, which every step shortens.\<close>

fun expand_template :: "(string \<Rightarrow> nat) \<Rightarrow> nat \<Rightarrow> string \<Rightarrow> string \<Rightarrow> string" where
  "expand_template word 0 m t = t"
| "expand_template word (Suc fuel) m t =
     (let before = takeWhile (\<lambda>c. c \<noteq> CHR ''$'') t; rest = drop (Suc (length before)) t in
      if length before = length t then t
      else if prefix ''$'' rest then before @ ''$'' @ expand_template word fuel m (tl rest)
      else (case extract_ref word rest of
              None \<Rightarrow> before @ ''$'' @ expand_template word fuel m rest
            | Some (name, rest') \<Rightarrow> before @ (if name = ''0'' then m else []) @ expand_template word fuel m rest'))"

function replace_all :: "(string \<Rightarrow> nat option) \<Rightarrow> (string \<Rightarrow> string) \<Rightarrow> string \<Rightarrow> string" where
  "replace_all match repl s =
     (case s of
        [] \<Rightarrow> []
      | c # cs \<Rightarrow>
          (case match s of
             Some n \<Rightarrow> (if n = 0 then c # replace_all match repl cs else repl (take n s) @ replace_all match repl (drop n s))
           | None \<Rightarrow> c # replace_all match repl cs))"
  by pat_completeness auto
termination by (relation "measure (\<lambda>(match, repl, s). length s)") auto

declare replace_all.simps [simp del]

record jaeger_response =
  jr_status :: nat
  jr_header :: header
  jr_body :: body

definition base_tag :: "string \<Rightarrow> string" where
  "base_tag forwardedPrefix =
     ''<base href='' @ [CHR 0x22] @ forwardedPrefix @ ''/'' @ [CHR 0x22] @ '' data-inject-target='' @ [CHR 0x22] @ ''BASE_URL'' @ [CHR 0x22] @ ''/>''"

definition jaegerUIResponseModifier :: "(string \<Rightarrow> nat) \<Rightarrow> request \<Rightarrow> jaeger_response \<Rightarrow> string + jaeger_response" where
  "jaegerUIResponseModifier word req response =
     (if jr_status response = 200 \<and> prefix ''text/html'' (header_get (jr_header response) ''Content-Type'') then
        (case jr_body response of
           Body_err err \<Rightarrow> Inl err
         | Body_ok b \<Rightarrow>
             (let tag = base_tag (header_get (Header req) PrefixHeader);
                  strResponse = replace_all baseTagRegexp (\<lambda>m. expand_template word (length tag) m tag) b;
                  h = AList.update ''Content-Length'' [itoa_nat (length strResponse)] (AList.update ''Content-Encoding'' [] (jr_header response))
              in Inr (response\<lparr>jr_header := h, jr_body := Body_ok strResponse\<rparr>)))
      else Inr response)"

subsection \<open>The gRPC connection\<close>

datatype 'c transport_credentials = Insecure | TLSCredentials 'c

definition newCredentials :: "'c option \<Rightarrow> 'c transport_credentials" where
  "newCredentials tlsConfig = (case tlsConfig of None \<Rightarrow> Insecure | Some c \<Rightarrow> TLSCredentials c)"

definition TraceRoute :: string where
  "TraceRoute = ''/opentelemetry.proto.collector.trace.v1.TraceService/Export''"

section \<open>Lemmas\<close>

text \<open>A cache that only \<open>templated_lookup\<close> fills holds for each tenant what parsing gives, so that every lookup does as well.\<close>

definition cache_coherent :: "(string \<Rightarrow> string + url) \<Rightarrow> string \<Rightarrow> url_cache \<Rightarrow> bool" where
  "cache_coherent parse t cache \<longleftrightarrow> (\<forall>tenant u. map_of cache tenant = Some u \<longrightarrow> u = fst (templated_lookup parse t tenant []))"

lemma templated_lookup_run:
  assumes "cache_coherent parse t cache"
  shows "fst (templated_lookup parse t tenant cache) = fst (templated_lookup parse t tenant [])"
    and "cache_coherent parse t (snd (templated_lookup parse t tenant cache))"
  using assms by (auto simp: cache_coherent_def templated_lookup_def Let_def update_conv' split: option.splits)

lemma cache_coherent_new: "cache_coherent parse t []"
  by (simp add: cache_coherent_def)

end
