(* ===== verification/Flags.thy ===== *)
theory Flags
  imports Rate_Limit Go_Format Traces_API
begin

text \<open>
  The command line of the gateway, \<open>parseFlags\<close> of \<open>main.go\<close>: the flags with their defaults, the reading of the arguments as
  the package \<open>flag\<close> does it, and the checks that turn the raw values into a configuration.  Parsers of numbers,
  durations and URLs are parameters; a floating-point flag keeps its text.
\<close>

section \<open>The configuration\<close>

record debugConfig =
  mutexProfileFraction :: int
  blockProfileRate :: int
  debug_name :: string

record serverConfig =
  listen :: string
  listenInternal :: string
  healthcheckURL :: string
  grpcListen :: string
  readHeaderTimeout :: duration
  readTimeout :: duration
  writeTimeout :: duration

record tlsConfig =
  minVersion :: string
  maxVersion :: string
  cipherSuites :: "string list"
  curvePreferences :: "string list"
  clientAuthType :: string
  reloadInterval :: duration
  serverCertFile :: string
  serverKeyFile :: string
  internalServerCertFile :: string
  internalServerKeyFile :: string
  clientCAFile :: string
  healthchecksServerCAFile :: string
  healthchecksServerName :: string
  healthchecksClientCertFile :: string
  healthchecksClientKeyFile :: string

record metricsConfig =
  metrics_readEndpoint :: "url option"
  metrics_writeEndpoint :: "url option"
  metrics_rulesEndpoint :: "url option"
  metrics_alertmanagerEndpoint :: "url option"
  metrics_upstreamWriteTimeout :: duration
  metrics_upstreamCAFile :: string
  metrics_upstreamCertFile :: string
  metrics_upstreamKeyFile :: string
  metrics_tenantHeader :: string
  metrics_label :: string
  metrics_enabled :: bool
  metrics_enableCertWatcher :: bool

record logsConfig =
  logs_readEndpoint :: "url option"
  logs_writeEndpoint :: "url option"
  logs_tailEndpoint :: "url option"
  logs_rulesEndpoint :: "url option"
  logs_upstreamWriteTimeout :: duration
  logs_upstreamCAFile :: string
  logs_upstreamCertFile :: string
  logs_upstreamKeyFile :: string
  logs_tenantHeader :: string
  logs_tenantLabel :: string
  logs_rulesReadOnly :: bool
  logs_labelFilters :: "(string \<times> string list) list"
  logs_authExtractSelectors :: "string list"
  logs_enabled :: bool
  logs_enableCertWatcher :: bool

record tracesConfig =
  traces_readTemplateEndpoint :: string
  traces_readEndpoint :: "url option"
  traces_writeOTLPGRPCEndpoint :: string
  traces_writeOTLPHTTPEndpoint :: "url option"
  traces_tempoEndpoint :: "url option"
  traces_upstreamWriteTimeout :: duration
  traces_upstreamCAFile :: string
  traces_upstreamCertFile :: string
  traces_upstreamKeyFile :: string
  traces_tenantHeader :: string
  traces_queryRBAC :: bool
  traces_enabled :: bool
  traces_enableCertWatcher :: bool

record alertmanagerConfig =
  am_endpoints :: "url list"
  am_tenantHeader :: string
  am_accessorTokenFile :: string
  am_upstreamTimeout :: duration
  am_upstreamCAFile :: string
  am_upstreamServerName :: string

definition isEnabled :: "alertmanagerConfig \<Rightarrow> bool" where
  "isEnabled c = (length (am_endpoints c) > 0)"

record probesConfig =
  probes_endpoint :: "url option"
  probes_upstreamWriteTimeout :: duration
  probes_dialTimeout :: duration
  probes_keepAliveTimeout :: duration
  probes_tlsHandshakeTimeout :: duration
  probes_upstreamCAFile :: string
  probes_upstreamCertFile :: string
  probes_upstreamKeyFile :: string
  probes_header :: string
  probes_enabled :: bool
  probes_enableCertWatcher :: bool

record middlewareConfig =
  grpcRateLimiterAddress :: string
  rateLimiterType :: string
  rateLimiterAddress :: "string list"
  concurrentRequestLimit :: int
  backLogLimitConcurrentRequests :: int
  backLogDurationConcurrentRequests :: duration

record internalTracingConfig =
  serviceName :: string
  tracing_endpoint :: string
  samplingFraction :: string

record gateway_config =
  logLevel :: string
  logFormat :: string
  tenantsConfigPath :: string
  cfg_debug :: debugConfig
  cfg_server :: serverConfig
  cfg_tls :: tlsConfig
  cfg_metrics :: metricsConfig
  cfg_logs :: logsConfig
  cfg_traces :: tracesConfig
  cfg_alertmanager :: alertmanagerConfig
  cfg_probes :: probesConfig
  cfg_middleware :: middlewareConfig
  cfg_internalTracing :: internalTracingConfig

section \<open>Flags\<close>

datatype flag_kind = FString | FBool | FInt | FFloat | FDuration | FMulti

text \<open>The parsers: of the values of flags, of URLs and of the texts that error messages quote.\<close>

record flag_lib =
  parse_int :: "string \<Rightarrow> int option"
  parse_float_ok :: "string \<Rightarrow> bool"
  parse_duration :: "string \<Rightarrow> duration option"
  ParseRequestURI :: "string \<Rightarrow> string + url"
  rune_is_print :: "string \<Rightarrow> bool"

text \<open>\<open>strconv.ParseBool\<close>.\<close>

definition parse_bool :: "string \<Rightarrow> bool option" where
  "parse_bool s =
     (if s \<in> set [''1'', ''t'', ''T'', ''TRUE'', ''true'', ''True''] then Some True
      else if s \<in> set [''0'', ''f'', ''F'', ''FALSE'', ''false'', ''False''] then Some False
      else None)"

definition flag_value_ok :: "flag_lib \<Rightarrow> flag_kind \<Rightarrow> string \<Rightarrow> bool" where
  "flag_value_ok lib k v =
     (case k of
        FString \<Rightarrow> True | FMulti \<Rightarrow> True | FBool \<Rightarrow> parse_bool v \<noteq> None | FInt \<Rightarrow> parse_int lib v \<noteq> None
      | FFloat \<Rightarrow> parse_float_ok lib v | FDuration \<Rightarrow> parse_duration lib v \<noteq> None)"

datatype start_error = FlagError string | ConfigError string | StartPanic

text \<open>
  \<open>flag.Parse\<close>: the settings in the order of the arguments, up to the first argument that is not a flag.
\<close>

fun parse_args ::
    "flag_lib \<Rightarrow> (string \<times> flag_kind) list \<Rightarrow> (string \<times> string) list \<Rightarrow> string list \<Rightarrow> start_error + (string \<times> string) list" where
  "parse_args lib kinds fs [] = Inr fs"
| "parse_args lib kinds fs (s # args) =
     (if length s < 2 \<or> hd s \<noteq> CHR ''-'' then Inr fs
      else if s = ''--'' then Inr fs
      else
        (let arg = (if prefix ''--'' s then drop 2 s else drop 1 s) in
         if arg = [] \<or> hd arg = CHR ''-'' \<or> hd arg = CHR ''='' then Inl (FlagError (''bad flag syntax: '' @ s))
         else
           (let name = takeWhile (\<lambda>c. c \<noteq> CHR ''='') arg;
                hasValue = (length name < length arg);
                v = drop (Suc (length name)) arg
            in case map_of kinds name of
                 None \<Rightarrow>
                   Inl (FlagError (if name = ''help'' \<or> name = ''h'' then ''flag: help requested''
                                   else ''flag provided but not defined: -'' @ name))
               | Some k \<Rightarrow>
                   if k = FBool then
                     (let v' = (if hasValue then v else ''true'') in
                      if flag_value_ok lib k v' then parse_args lib kinds (fs @ [(name, v')]) args
                      else Inl (FlagError (''invalid boolean value for -'' @ name)))
                   else if hasValue then
                     (if flag_value_ok lib k v then parse_args lib kinds (fs @ [(name, v)]) args
                      else Inl (FlagError (''invalid value for flag -'' @ name)))
                   else (case args of
                     [] \<Rightarrow> Inl (FlagError (''flag needs an argument: -'' @ name))
                   | v' # args' \<Rightarrow>
                       if flag_value_ok lib k v' then parse_args lib kinds (fs @ [(name, v')]) args'
                       else Inl (FlagError (''invalid value for flag -'' @ name))))))"

text \<open>The value of a flag after parsing: the last setting, or the default.\<close>

definition flag_str :: "(string \<times> string) list \<Rightarrow> string \<Rightarrow> string \<Rightarrow> string" where
  "flag_str fs name dflt = (case map_of (rev fs) name of Some v \<Rightarrow> v | None \<Rightarrow> dflt)"

definition flag_bool :: "(string \<times> string) list \<Rightarrow> string \<Rightarrow> bool" where
  "flag_bool fs name = (case map_of (rev fs) name of Some v \<Rightarrow> parse_bool v = Some True | None \<Rightarrow> False)"

definition flag_int :: "flag_lib \<Rightarrow> (string \<times> string) list \<Rightarrow> string \<Rightarrow> int \<Rightarrow> int" where
  "flag_int lib fs name dflt = (case map_of (rev fs) name of Some v \<Rightarrow> the (parse_int lib v) | None \<Rightarrow> dflt)"

definition flag_duration :: "flag_lib \<Rightarrow> (string \<times> string) list \<Rightarrow> string \<Rightarrow> duration \<Rightarrow> duration" where
  "flag_duration lib fs name dflt = (case map_of (rev fs) name of Some v \<Rightarrow> the (parse_duration lib v) | None \<Rightarrow> dflt)"

text \<open>\<open>multiStringFlag\<close> appends each value; \<open>String\<close> joins them.\<close>

definition multiStringFlag_Set :: "string \<Rightarrow> string list \<Rightarrow> string list" where
  "multiStringFlag_Set v m = m @ [v]"

definition multiStringFlag_String :: "string list \<Rightarrow> string" where
  "multiStringFlag_String m = join '', '' m"

definition flag_multi :: "(string \<times> string) list \<Rightarrow> string \<Rightarrow> string list" where
  "flag_multi fs name = fold multiStringFlag_Set (map snd (filter (\<lambda>f. fst f = name) fs)) []"

definition second :: duration where "second = 1000000000"
definition minute :: duration where "minute = 60 * second"

subsection \<open>The flags with their defaults\<close>

definition flag_kinds :: "(string \<times> flag_kind) list" where
  "flag_kinds =
     map (\<lambda>n. (n, FString))
       [''tenants.config'', ''debug.name'', ''log.level'', ''log.format'', ''internal.tracing.service-name'',
        ''internal.tracing.otlp-http-endpoint'', ''web.listen'', ''grpc.listen'', ''web.internal.listen'', ''web.healthchecks.url'',
        ''logs.tail.endpoint'', ''logs.read.endpoint'', ''logs.rules.endpoint'', ''logs.rules.label-filters'', ''logs.tls.ca-file'',
        ''logs.tls.cert-file'', ''logs.tls.key-file'', ''logs.tenant-header'', ''logs.rules.tenant-label'', ''logs.write.endpoint'',
        ''logs.auth.extract-selectors'', ''metrics.read.endpoint'', ''metrics.write.endpoint'', ''metrics.rules.endpoint'',
        ''metrics.alertmanager.endpoint'', ''metrics.tls.ca-file'', ''metrics.tls.cert-file'', ''metrics.tls.key-file'',
        ''metrics.tenant-header'', ''metrics.tenant-label'', ''traces.read.endpoint'', ''traces.tempo.endpoint'',
        ''experimental.traces.read.endpoint-template'', ''traces.write.otlpgrpc.endpoint'', ''traces.write.otlphttp.endpoint'',
        ''traces.tls.ca-file'', ''traces.tls.cert-file'', ''traces.tls.key-file'', ''traces.tenant-header'', ''probes.endpoint'',
        ''probes.tls.ca-file'', ''probes.tls.cert-file'', ''probes.tls.key-file'', ''probes.tenant-header'',
        ''tls.server.cert-file'', ''tls.server.key-file'', ''tls.internal.server.cert-file'', ''tls.internal.server.key-file'',
        ''tls.healthchecks.server-ca-file'', ''tls.healthchecks.server-name'', ''tls.healthchecks.client-cert-file'',
        ''tls.healthchecks.client-key-file'', ''tls.min-version'', ''tls.max-version'', ''tls.cipher-suites'',
        ''tls.curve-preferences'', ''tls.client-auth-type'', ''tls.client-ca-file'', ''middleware.rate-limiter.grpc-address'',
        ''middleware.rate-limiter.type'', ''alertmanager.upstream-ca-file'', ''alertmanager.upstream-server-name'',
        ''alertmanager.tenant-header'', ''alertmanager.accessor-token-file'']
   @ map (\<lambda>n. (n, FBool))
       [''logs.rules.read-only'', ''logs.tls.watch-certs'', ''metrics.tls.watch-certs'', ''traces.tls.watch-certs'', ''traces.query-rbac'',
        ''probes.tls.watch-certs'']
   @ map (\<lambda>n. (n, FInt))
       [''debug.mutex-profile-fraction'', ''debug.block-profile-rate'', ''middleware.concurrent-request-limit'',
        ''middleware.backlog-limit-concurrent-requests'']
   @ map (\<lambda>n. (n, FDuration))
       [''server.read-header-timeout'', ''server.read-timeout'', ''server.write-timeout'', ''logs.write-timeout'', ''metrics.write-timeout'',
        ''traces.write-timeout'', ''probes.write-timeout'', ''probes.dial-timeout'', ''probes.keep-alive-timeout'',
        ''probes.tls-handshake-timeout'', ''tls.reload-interval'', ''middleware.backlog-duration-concurrent-requests'',
        ''alertmanager.upstream-timeout'']
   @ [(''internal.tracing.sampling-fraction'', FFloat), (''alertmanager.endpoint'', FMulti), (''middleware.rate-limiter.address'', FMulti)]"

definition server_flags :: "flag_lib \<Rightarrow> (string \<times> string) list \<Rightarrow> serverConfig" where
  "server_flags lib fs =
     \<lparr>listen = flag_str fs ''web.listen'' '':8080'', listenInternal = flag_str fs ''web.internal.listen'' '':8081'',
      healthcheckURL = flag_str fs ''web.healthchecks.url'' ''http://localhost:8080'', grpcListen = flag_str fs ''grpc.listen'' [],
      readHeaderTimeout = flag_duration lib fs ''server.read-header-timeout'' second,
      readTimeout = flag_duration lib fs ''server.read-timeout'' (5 * second),
      writeTimeout = flag_duration lib fs ''server.write-timeout'' (12 * minute)\<rparr>"

definition logs_flags :: "flag_lib \<Rightarrow> (string \<times> string) list \<Rightarrow> logsConfig" where
  "logs_flags lib fs =
     \<lparr>logs_readEndpoint = None, logs_writeEndpoint = None, logs_tailEndpoint = None, logs_rulesEndpoint = None,
      logs_upstreamWriteTimeout = flag_duration lib fs ''logs.write-timeout'' (10 * minute),
      logs_upstreamCAFile = flag_str fs ''logs.tls.ca-file'' [], logs_upstreamCertFile = flag_str fs ''logs.tls.cert-file'' [],
      logs_upstreamKeyFile = flag_str fs ''logs.tls.key-file'' [], logs_tenantHeader = flag_str fs ''logs.tenant-header'' ''X-Scope-OrgID'',
      logs_tenantLabel = flag_str fs ''logs.rules.tenant-label'' ''tenant_id'', logs_rulesReadOnly = flag_bool fs ''logs.rules.read-only'',
      logs_labelFilters = [], logs_authExtractSelectors = [], logs_enabled = False, logs_enableCertWatcher = flag_bool fs ''logs.tls.watch-certs''\<rparr>"

definition metrics_flags :: "flag_lib \<Rightarrow> (string \<times> string) list \<Rightarrow> metricsConfig" where
  "metrics_flags lib fs =
     \<lparr>metrics_readEndpoint = None, metrics_writeEndpoint = None, metrics_rulesEndpoint = None, metrics_alertmanagerEndpoint = None,
      metrics_upstreamWriteTimeout = flag_duration lib fs ''metrics.write-timeout'' (2 * minute),
      metrics_upstreamCAFile = flag_str fs ''metrics.tls.ca-file'' [], metrics_upstreamCertFile = flag_str fs ''metrics.tls.cert-file'' [],
      metrics_upstreamKeyFile = flag_str fs ''metrics.tls.key-file'' [],
      metrics_tenantHeader = flag_str fs ''metrics.tenant-header'' ''THANOS-TENANT'',
      metrics_label = flag_str fs ''metrics.tenant-label'' ''tenant_id'', metrics_enabled = False,
      metrics_enableCertWatcher = flag_bool fs ''metrics.tls.watch-certs''\<rparr>"

definition traces_flags :: "flag_lib \<Rightarrow> (string \<times> string) list \<Rightarrow> tracesConfig" where
  "traces_flags lib fs =
     \<lparr>traces_readTemplateEndpoint = flag_str fs ''experimental.traces.read.endpoint-template'' [], traces_readEndpoint = None,
      traces_writeOTLPGRPCEndpoint = [], traces_writeOTLPHTTPEndpoint = None, traces_tempoEndpoint = None,
      traces_upstreamWriteTimeout = flag_duration lib fs ''traces.write-timeout'' (2 * minute),
      traces_upstreamCAFile = flag_str fs ''traces.tls.ca-file'' [], traces_upstreamCertFile = flag_str fs ''traces.tls.cert-file'' [],
      traces_upstreamKeyFile = flag_str fs ''traces.tls.key-file'' [], traces_tenantHeader = flag_str fs ''traces.tenant-header'' ''X-Tenant'',
      traces_queryRBAC = flag_bool fs ''traces.query-rbac'', traces_enabled = False,
      traces_enableCertWatcher = flag_bool fs ''traces.tls.watch-certs''\<rparr>"

definition probes_flags :: "flag_lib \<Rightarrow> (string \<times> string) list \<Rightarrow> probesConfig" where
  "probes_flags lib fs =
     \<lparr>probes_endpoint = None, probes_upstreamWriteTimeout = flag_duration lib fs ''probes.write-timeout'' (12 * minute),
      probes_dialTimeout = flag_duration lib fs ''probes.dial-timeout'' (30 * second),
      probes_keepAliveTimeout = flag_duration lib fs ''probes.keep-alive-timeout'' (30 * second),
      probes_tlsHandshakeTimeout = flag_duration lib fs ''probes.tls-handshake-timeout'' (10 * second),
      probes_upstreamCAFile = flag_str fs ''probes.tls.ca-file'' [], probes_upstreamCertFile = flag_str fs ''probes.tls.cert-file'' [],
      probes_upstreamKeyFile = flag_str fs ''probes.tls.key-file'' [], probes_header = flag_str fs ''probes.tenant-header'' ''X-Tenant'',
      probes_enabled = False, probes_enableCertWatcher = flag_bool fs ''probes.tls.watch-certs''\<rparr>"

definition tls_flags :: "flag_lib \<Rightarrow> (string \<times> string) list \<Rightarrow> tlsConfig" where
  "tls_flags lib fs =
     \<lparr>minVersion = flag_str fs ''tls.min-version'' ''VersionTLS13'', maxVersion = flag_str fs ''tls.max-version'' ''VersionTLS13'',
      cipherSuites = [], curvePreferences = [], clientAuthType = flag_str fs ''tls.client-auth-type'' ''RequestClientCert'',
      reloadInterval = flag_duration lib fs ''tls.reload-interval'' minute,
      serverCertFile = flag_str fs ''tls.server.cert-file'' [], serverKeyFile = flag_str fs ''tls.server.key-file'' [],
      internalServerCertFile = flag_str fs ''tls.internal.server.cert-file'' [],
      internalServerKeyFile = flag_str fs ''tls.internal.server.key-file'' [], clientCAFile = flag_str fs ''tls.client-ca-file'' [],
      healthchecksServerCAFile = flag_str fs ''tls.healthchecks.server-ca-file'' [],
      healthchecksServerName = flag_str fs ''tls.healthchecks.server-name'' [],
      healthchecksClientCertFile = flag_str fs ''tls.healthchecks.client-cert-file'' [],
      healthchecksClientKeyFile = flag_str fs ''tls.healthchecks.client-key-file'' []\<rparr>"

definition middleware_flags :: "flag_lib \<Rightarrow> (string \<times> string) list \<Rightarrow> middlewareConfig" where
  "middleware_flags lib fs =
     \<lparr>grpcRateLimiterAddress = flag_str fs ''middleware.rate-limiter.grpc-address'' [],
      rateLimiterType = flag_str fs ''middleware.rate-limiter.type'' ''local'',
      rateLimiterAddress = flag_multi fs ''middleware.rate-limiter.address'',
      concurrentRequestLimit = flag_int lib fs ''middleware.concurrent-request-limit'' 10000,
      backLogLimitConcurrentRequests = flag_int lib fs ''middleware.backlog-limit-concurrent-requests'' 0,
      backLogDurationConcurrentRequests = flag_duration lib fs ''middleware.backlog-duration-concurrent-requests'' 1000000\<rparr>"

definition alertmanager_flags :: "flag_lib \<Rightarrow> (string \<times> string) list \<Rightarrow> alertmanagerConfig" where
  "alertmanager_flags lib fs =
     \<lparr>am_endpoints = [], am_tenantHeader = flag_str fs ''alertmanager.tenant-header'' ''X-Scope-OrgID'',
      am_accessorTokenFile = flag_str fs ''alertmanager.accessor-token-file'' [],
      am_upstreamTimeout = flag_duration lib fs ''alertmanager.upstream-timeout'' (2 * minute),
      am_upstreamCAFile = flag_str fs ''alertmanager.upstream-ca-file'' [],
      am_upstreamServerName = flag_str fs ''alertmanager.upstream-server-name'' []\<rparr>"

definition flag_config :: "flag_lib \<Rightarrow> (string \<times> string) list \<Rightarrow> gateway_config" where
  "flag_config lib fs =
     \<lparr>logLevel = flag_str fs ''log.level'' ''info'', logFormat = flag_str fs ''log.format'' ''logfmt'',
      tenantsConfigPath = flag_str fs ''tenants.config'' ''tenants.yaml'',
      cfg_debug = \<lparr>mutexProfileFraction = flag_int lib fs ''debug.mutex-profile-fraction'' 10,
                   blockProfileRate = flag_int lib fs ''debug.block-profile-rate'' 10, debug_name = flag_str fs ''debug.name'' ''mcoa_gateway''\<rparr>,
      cfg_server = server_flags lib fs, cfg_tls = tls_flags lib fs, cfg_metrics = metrics_flags lib fs, cfg_logs = logs_flags lib fs,
      cfg_traces = traces_flags lib fs, cfg_alertmanager = alertmanager_flags lib fs, cfg_probes = probes_flags lib fs,
      cfg_middleware = middleware_flags lib fs,
      cfg_internalTracing = \<lparr>serviceName = flag_str fs ''internal.tracing.service-name'' ''mcoa_gateway'',
        tracing_endpoint = flag_str fs ''internal.tracing.otlp-http-endpoint'' [],
        samplingFraction = flag_str fs ''internal.tracing.sampling-fraction'' ''0.1''\<rparr>\<rparr>"

section \<open>From flags to the configuration\<close>

text \<open>A flag with a URL: nothing happens without it, and a text that is not a URL is an error.\<close>

definition endpoint_step ::
    "flag_lib \<Rightarrow> string \<Rightarrow> (string \<Rightarrow> string) \<Rightarrow> (url \<Rightarrow> gateway_config \<Rightarrow> gateway_config) \<Rightarrow> gateway_config \<Rightarrow> start_error + gateway_config" where
  "endpoint_step lib raw msg upd cfg =
     (if raw = [] then Inr cfg
      else (case ParseRequestURI lib raw of Inl err \<Rightarrow> Inl (ConfigError (msg err)) | Inr u \<Rightarrow> Inr (upd u cfg)))"

definition quoted :: "flag_lib \<Rightarrow> string \<Rightarrow> string" where
  "quoted lib s = go_quote (rune_is_print lib) s"

definition metrics_endpoint_step ::
    "flag_lib \<Rightarrow> (string \<times> string) list \<Rightarrow> string \<Rightarrow> (url option \<Rightarrow> metricsConfig \<Rightarrow> metricsConfig)
     \<Rightarrow> gateway_config \<Rightarrow> start_error + gateway_config" where
  "metrics_endpoint_step lib fs name upd =
     (let raw = flag_str fs name []
      in endpoint_step lib raw (\<lambda>err. ''--'' @ name @ '' '' @ quoted lib raw @ '' is invalid: '' @ err)
           (\<lambda>u cfg. cfg\<lparr>cfg_metrics := upd (Some u) ((cfg_metrics cfg)\<lparr>metrics_enabled := True\<rparr>)\<rparr>))"

definition metrics_steps :: "flag_lib \<Rightarrow> (string \<times> string) list \<Rightarrow> (gateway_config \<Rightarrow> start_error + gateway_config) list" where
  "metrics_steps lib fs =
     [metrics_endpoint_step lib fs ''metrics.read.endpoint'' (\<lambda>u c. c\<lparr>metrics_readEndpoint := u\<rparr>),
      metrics_endpoint_step lib fs ''metrics.write.endpoint'' (\<lambda>u c. c\<lparr>metrics_writeEndpoint := u\<rparr>),
      metrics_endpoint_step lib fs ''metrics.rules.endpoint'' (\<lambda>u c. c\<lparr>metrics_rulesEndpoint := u\<rparr>),
      metrics_endpoint_step lib fs ''metrics.alertmanager.endpoint'' (\<lambda>u c. c\<lparr>metrics_alertmanagerEndpoint := u\<rparr>)]"

text \<open>The message of the rules endpoint shows the value of the read endpoint.\<close>

definition logs_endpoint_step ::
    "flag_lib \<Rightarrow> (string \<times> string) list \<Rightarrow> string \<Rightarrow> string \<Rightarrow> (url option \<Rightarrow> logsConfig \<Rightarrow> logsConfig)
     \<Rightarrow> gateway_config \<Rightarrow> start_error + gateway_config" where
  "logs_endpoint_step lib fs name shown upd =
     endpoint_step lib (flag_str fs name [])
       (\<lambda>err. ''--'' @ name @ '' is invalid, raw '' @ flag_str fs shown [] @ '': '' @ err)
       (\<lambda>u cfg. cfg\<lparr>cfg_logs := upd (Some u) ((cfg_logs cfg)\<lparr>logs_enabled := True\<rparr>)\<rparr>)"

text \<open>One entry \<open>tenant:label,label\<close>; without a colon the second part does not exist, and indexing panics.\<close>

definition label_filter_entry :: "string \<Rightarrow> (string \<times> string list) option" where
  "label_filter_entry f =
     (case split_on (CHR '':'') f of tenant # labels # _ \<Rightarrow> Some (tenant, split_on (CHR '','') labels) | _ \<Rightarrow> None)"

fun label_filters :: "string list \<Rightarrow> (string \<times> string list) list \<Rightarrow> (string \<times> string list) list option" where
  "label_filters [] m = Some m"
| "label_filters (f # fs) m =
     (case label_filter_entry f of None \<Rightarrow> None | Some (tenant, labels) \<Rightarrow> label_filters fs (AList.update tenant labels m))"

definition label_filters_step :: "(string \<times> string) list \<Rightarrow> gateway_config \<Rightarrow> start_error + gateway_config" where
  "label_filters_step fs cfg =
     (let raw = flag_str fs ''logs.rules.label-filters'' [] in
      if raw = [] then Inr cfg
      else (case label_filters (split_on (CHR '';'') raw) [] of
              None \<Rightarrow> Inl StartPanic
            | Some m \<Rightarrow> Inr (cfg\<lparr>cfg_logs := (cfg_logs cfg)\<lparr>logs_labelFilters := m\<rparr>\<rparr>)))"

definition extract_selectors_step :: "(string \<times> string) list \<Rightarrow> gateway_config \<Rightarrow> start_error + gateway_config" where
  "extract_selectors_step fs cfg =
     (let raw = flag_str fs ''logs.auth.extract-selectors'' [] in
      Inr (if flag_str fs ''logs.read.endpoint'' [] \<noteq> [] \<and> raw \<noteq> []
           then cfg\<lparr>cfg_logs := (cfg_logs cfg)\<lparr>logs_authExtractSelectors := split_on (CHR '','') raw\<rparr>\<rparr> else cfg))"

definition logs_steps :: "flag_lib \<Rightarrow> (string \<times> string) list \<Rightarrow> (gateway_config \<Rightarrow> start_error + gateway_config) list" where
  "logs_steps lib fs =
     [logs_endpoint_step lib fs ''logs.read.endpoint'' ''logs.read.endpoint'' (\<lambda>u c. c\<lparr>logs_readEndpoint := u\<rparr>),
      extract_selectors_step fs,
      logs_endpoint_step lib fs ''logs.rules.endpoint'' ''logs.read.endpoint'' (\<lambda>u c. c\<lparr>logs_rulesEndpoint := u\<rparr>),
      label_filters_step fs,
      logs_endpoint_step lib fs ''logs.tail.endpoint'' ''logs.tail.endpoint'' (\<lambda>u c. c\<lparr>logs_tailEndpoint := u\<rparr>),
      logs_endpoint_step lib fs ''logs.write.endpoint'' ''logs.write.endpoint'' (\<lambda>u c. c\<lparr>logs_writeEndpoint := u\<rparr>)]"

definition template_step :: "flag_lib \<Rightarrow> (string \<times> string) list \<Rightarrow> gateway_config \<Rightarrow> start_error + gateway_config" where
  "template_step lib fs cfg =
     (let t = traces_readTemplateEndpoint (cfg_traces cfg); raw = flag_str fs ''traces.read.endpoint'' [] in
      if t = [] then Inr cfg
      else if raw \<noteq> [] then
        Inl (ConfigError ''only one of --traces.read.endpoint and --experimental.traces.read.endpoint-template allowed'')
      else (case ExpandTemplatedUpstream (ParseRequestURI lib) t ''dummy'' of
              Inl err \<Rightarrow>
                Inl (ConfigError (''--experimental.traces.read.endpoint-template '' @ quoted lib raw @ '' is invalid: '' @ err))
            | Inr _ \<Rightarrow> Inr (cfg\<lparr>cfg_traces := (cfg_traces cfg)\<lparr>traces_enabled := True\<rparr>\<rparr>)))"

definition traces_endpoint_step ::
    "flag_lib \<Rightarrow> (string \<times> string) list \<Rightarrow> string \<Rightarrow> (url option \<Rightarrow> tracesConfig \<Rightarrow> tracesConfig)
     \<Rightarrow> gateway_config \<Rightarrow> start_error + gateway_config" where
  "traces_endpoint_step lib fs name upd =
     (let raw = flag_str fs name []
      in endpoint_step lib raw (\<lambda>err. ''--'' @ name @ '' '' @ quoted lib raw @ '' is invalid: '' @ err)
           (\<lambda>u cfg. cfg\<lparr>cfg_traces := upd (Some u) ((cfg_traces cfg)\<lparr>traces_enabled := True\<rparr>)\<rparr>))"

text \<open>\<open>net.SplitHostPort\<close>, as a check: the reason why a text is not an address.\<close>

definition SplitHostPort_err :: "string \<Rightarrow> string option" where
  "SplitHostPort_err hostport =
     (let beforePort = rev (tl (dropWhile (\<lambda>c. c \<noteq> CHR '':'') (rev hostport)));
          upto = takeWhile (\<lambda>c. c \<noteq> CHR '']'') hostport
      in if CHR '':'' \<notin> set hostport then Some ''missing port in address''
         else if hd hostport = CHR ''['' then
           (if CHR '']'' \<notin> set hostport then Some ''missing ']' in address''
            else if Suc (length upto) = length hostport then Some ''missing port in address''
            else if Suc (length upto) = length beforePort then
              (if CHR ''['' \<in> set (tl hostport) then Some ''unexpected '[' in address''
               else if CHR '']'' \<in> set (drop (Suc (length upto)) hostport) then Some ''unexpected ']' in address'' else None)
            else if hostport ! Suc (length upto) = CHR '':'' then Some ''too many colons in address''
            else Some ''missing port in address'')
         else if CHR '':'' \<in> set beforePort then Some ''too many colons in address''
         else if CHR ''['' \<in> set hostport then Some ''unexpected '[' in address''
         else if CHR '']'' \<in> set hostport then Some ''unexpected ']' in address''
         else None)"

definition otlpgrpc_step :: "flag_lib \<Rightarrow> (string \<times> string) list \<Rightarrow> gateway_config \<Rightarrow> start_error + gateway_config" where
  "otlpgrpc_step lib fs cfg =
     (let raw = flag_str fs ''traces.write.otlpgrpc.endpoint'' [] in
      if raw = [] then Inr cfg
      else (case SplitHostPort_err raw of
              Some why \<Rightarrow>
                Inl (ConfigError (''--traces.write.otlpgrpc.endpoint '' @ quoted lib raw @ '' is invalid: address '' @ raw @ '': '' @ why))
            | None \<Rightarrow>
                Inr (cfg\<lparr>cfg_traces := (cfg_traces cfg)\<lparr>traces_enabled := True, traces_writeOTLPGRPCEndpoint := raw\<rparr>\<rparr>)))"

definition traces_steps :: "flag_lib \<Rightarrow> (string \<times> string) list \<Rightarrow> (gateway_config \<Rightarrow> start_error + gateway_config) list" where
  "traces_steps lib fs =
     [template_step lib fs,
      traces_endpoint_step lib fs ''traces.read.endpoint'' (\<lambda>u c. c\<lparr>traces_readEndpoint := u\<rparr>),
      traces_endpoint_step lib fs ''traces.tempo.endpoint'' (\<lambda>u c. c\<lparr>traces_tempoEndpoint := u\<rparr>),
      otlpgrpc_step lib fs,
      traces_endpoint_step lib fs ''traces.write.otlphttp.endpoint'' (\<lambda>u c. c\<lparr>traces_writeOTLPHTTPEndpoint := u\<rparr>)]"

definition alertmanager_endpoint :: "flag_lib \<Rightarrow> string \<Rightarrow> start_error + url" where
  "alertmanager_endpoint lib raw =
     (case ParseRequestURI lib raw of
        Inl err \<Rightarrow> Inl (ConfigError (''--alertmanager.endpoint is invalid, raw '' @ raw @ '': '' @ err)) | Inr u \<Rightarrow> Inr u)"

definition alertmanager_step :: "flag_lib \<Rightarrow> (string \<times> string) list \<Rightarrow> gateway_config \<Rightarrow> start_error + gateway_config" where
  "alertmanager_step lib fs cfg =
     (case traverse (alertmanager_endpoint lib) (flag_multi fs ''alertmanager.endpoint'') of
        Inl e \<Rightarrow> Inl e
      | Inr us \<Rightarrow> Inr (cfg\<lparr>cfg_alertmanager := (cfg_alertmanager cfg)\<lparr>am_endpoints := us\<rparr>\<rparr>))"

definition probes_step :: "flag_lib \<Rightarrow> (string \<times> string) list \<Rightarrow> gateway_config \<Rightarrow> start_error + gateway_config" where
  "probes_step lib fs =
     endpoint_step lib (flag_str fs ''probes.endpoint'' []) (\<lambda>err. ''failed to parse probes endpoint: '' @ err)
       (\<lambda>u cfg. cfg\<lparr>cfg_probes := (cfg_probes cfg)\<lparr>probes_enabled := True, probes_endpoint := Some u\<rparr>\<rparr>)"

definition grpc_step :: "flag_lib \<Rightarrow> gateway_config \<Rightarrow> start_error + gateway_config" where
  "grpc_step lib cfg =
     (let ep = traces_writeOTLPGRPCEndpoint (cfg_traces cfg); l = grpcListen (cfg_server cfg) in
      if ep \<noteq> [] \<and> l = [] then Inl (ConfigError (''--traces.write.endpoint is set to '' @ quoted lib ep @ '' but --grpc.listen is not set''))
      else if ep = [] \<and> l \<noteq> [] then Inl (ConfigError (''--traces.write.endpoint is not set but --grpc.listen is set to '' @ quoted lib l))
      else Inr cfg)"

definition tls_lists_step :: "(string \<times> string) list \<Rightarrow> gateway_config \<Rightarrow> start_error + gateway_config" where
  "tls_lists_step fs cfg =
     (let suites = flag_str fs ''tls.cipher-suites'' []; curves = flag_str fs ''tls.curve-preferences'' [] in
      Inr (cfg\<lparr>cfg_tls := (cfg_tls cfg)\<lparr>cipherSuites := (if suites = [] then cipherSuites (cfg_tls cfg) else split_on (CHR '','') suites),
                                     curvePreferences := (if curves = [] then curvePreferences (cfg_tls cfg) else split_on (CHR '','') curves)\<rparr>\<rparr>))"

definition run_steps :: "('c \<Rightarrow> 'e + 'c) list \<Rightarrow> 'c \<Rightarrow> 'e + 'c" where
  "run_steps steps cfg = fold (\<lambda>step res. res_bind res step) steps (Inr cfg)"

definition config_steps :: "flag_lib \<Rightarrow> (string \<times> string) list \<Rightarrow> (gateway_config \<Rightarrow> start_error + gateway_config) list" where
  "config_steps lib fs =
     metrics_steps lib fs @ logs_steps lib fs @ traces_steps lib fs
       @ [alertmanager_step lib fs, probes_step lib fs, grpc_step lib, tls_lists_step fs]"

definition parseFlags :: "flag_lib \<Rightarrow> string list \<Rightarrow> start_error + gateway_config" where
  "parseFlags lib args =
     res_bind (parse_args lib flag_kinds [] args) (\<lambda>fs. run_steps (config_steps lib fs) (flag_config lib fs))"

text \<open>The check at the start of \<open>main\<close>.\<close>

definition something_enabled :: "gateway_config \<Rightarrow> bool" where
  "something_enabled cfg \<longleftrightarrow>
     metrics_enabled (cfg_metrics cfg) \<or> logs_enabled (cfg_logs cfg) \<or> traces_enabled (cfg_traces cfg)
       \<or> probes_enabled (cfg_probes cfg) \<or> isEnabled (cfg_alertmanager cfg)"

section \<open>Lemmas\<close>

lemma run_steps_simps [simp]:
  "run_steps [] c = Inr c"
  "run_steps (step # steps) c = res_bind (step c) (run_steps steps)"
proof -
  have err: "fold (\<lambda>step res. res_bind res step) steps (Inl e) = Inl e" for e by (induction steps) simp_all
  show "run_steps [] c = Inr c" by (simp add: run_steps_def)
  show "run_steps (step # steps) c = res_bind (step c) (run_steps steps)"
    by (cases "step c") (simp_all add: run_steps_def err)
qed

lemma run_steps_append: "run_steps (xs @ ys) c = res_bind (run_steps xs c) (run_steps ys)"
proof (induction xs arbitrary: c)
  case (Cons x xs)
  thus ?case by (cases "x c") simp_all
qed simp

lemma run_steps_invariant:
  assumes "run_steps steps c = Inr c'" "P c" "\<And>step c c'. step \<in> set steps \<Longrightarrow> P c \<Longrightarrow> step c = Inr c' \<Longrightarrow> P c'"
  shows "P c'"
  using assms by (induction steps arbitrary: c) (auto simp: res_bind_Inr_iff)

text \<open>What a configuration promises to the code that reads it.\<close>

definition metrics_ok :: "metricsConfig \<Rightarrow> bool" where
  "metrics_ok c \<longleftrightarrow> metrics_enabled c =
     (metrics_readEndpoint c \<noteq> None \<or> metrics_writeEndpoint c \<noteq> None \<or> metrics_rulesEndpoint c \<noteq> None \<or> metrics_alertmanagerEndpoint c \<noteq> None)"

definition logs_ok :: "logsConfig \<Rightarrow> bool" where
  "logs_ok c \<longleftrightarrow> logs_enabled c =
     (logs_readEndpoint c \<noteq> None \<or> logs_writeEndpoint c \<noteq> None \<or> logs_tailEndpoint c \<noteq> None \<or> logs_rulesEndpoint c \<noteq> None)
     \<and> (logs_authExtractSelectors c \<noteq> [] \<longrightarrow> logs_readEndpoint c \<noteq> None)"

definition traces_ok :: "tracesConfig \<Rightarrow> bool" where
  "traces_ok c \<longleftrightarrow> traces_enabled c =
     (traces_readTemplateEndpoint c \<noteq> [] \<or> traces_readEndpoint c \<noteq> None \<or> traces_tempoEndpoint c \<noteq> None
        \<or> traces_writeOTLPHTTPEndpoint c \<noteq> None \<or> traces_writeOTLPGRPCEndpoint c \<noteq> [])
     \<and> (traces_readTemplateEndpoint c \<noteq> [] \<longrightarrow> traces_readEndpoint c = None)"

definition probes_ok :: "probesConfig \<Rightarrow> bool" where
  "probes_ok c \<longleftrightarrow> probes_enabled c = (probes_endpoint c \<noteq> None)"

definition config_ok :: "gateway_config \<Rightarrow> bool" where
  "config_ok cfg \<longleftrightarrow> metrics_ok (cfg_metrics cfg) \<and> logs_ok (cfg_logs cfg) \<and> traces_ok (cfg_traces cfg) \<and> probes_ok (cfg_probes cfg)
     \<and> (traces_writeOTLPGRPCEndpoint (cfg_traces cfg) = [] \<longleftrightarrow> grpcListen (cfg_server cfg) = [])"

text \<open>What each step leaves alone.\<close>

definition same_except :: "string set \<Rightarrow> gateway_config \<Rightarrow> gateway_config \<Rightarrow> bool" where
  "same_except parts c c' \<longleftrightarrow>
     (''metrics'' \<notin> parts \<longrightarrow> cfg_metrics c' = cfg_metrics c) \<and> (''logs'' \<notin> parts \<longrightarrow> cfg_logs c' = cfg_logs c)
     \<and> (''traces'' \<notin> parts \<longrightarrow> cfg_traces c' = cfg_traces c) \<and> (''probes'' \<notin> parts \<longrightarrow> cfg_probes c' = cfg_probes c)
     \<and> cfg_server c' = cfg_server c"

lemma endpoint_step_Inr:
  "endpoint_step lib raw msg upd c = Inr c' \<longleftrightarrow> raw = [] \<and> c' = c \<or> (\<exists>u. raw \<noteq> [] \<and> ParseRequestURI lib raw = Inr u \<and> c' = upd u c)"
  by (auto simp: endpoint_step_def split: sum.splits)

lemma step_frames:
  "metrics_endpoint_step lib fs n m_upd c = Inr c' \<Longrightarrow> same_except {''metrics''} c c'"
  "logs_endpoint_step lib fs n shown l_upd c = Inr c' \<Longrightarrow> same_except {''logs''} c c'"
  "extract_selectors_step fs c = Inr c' \<Longrightarrow> same_except {''logs''} c c'"
  "label_filters_step fs c = Inr c' \<Longrightarrow> same_except {''logs''} c c'"
  "traces_endpoint_step lib fs n t_upd c = Inr c' \<Longrightarrow> same_except {''traces''} c c'"
  "template_step lib fs c = Inr c' \<Longrightarrow> same_except {''traces''} c c'"
  "otlpgrpc_step lib fs c = Inr c' \<Longrightarrow> same_except {''traces''} c c'"
  "alertmanager_step lib fs c = Inr c' \<Longrightarrow> same_except {} c c'"
  "probes_step lib fs c = Inr c' \<Longrightarrow> same_except {''probes''} c c'"
  "grpc_step lib c = Inr c' \<Longrightarrow> same_except {} c c'"
  "tls_lists_step fs c = Inr c' \<Longrightarrow> same_except {} c c'"
  by (auto simp: metrics_endpoint_step_def Let_def endpoint_step_Inr same_except_def)
     (auto simp: logs_endpoint_step_def traces_endpoint_step_def extract_selectors_step_def label_filters_step_def template_step_def
        otlpgrpc_step_def alertmanager_step_def probes_step_def grpc_step_def tls_lists_step_def Let_def endpoint_step_Inr same_except_def
        split: if_splits option.splits sum.splits)

lemma steps_same_except:
  "run_steps (metrics_steps lib fs) c = Inr c' \<Longrightarrow> same_except {''metrics''} c c'"
  "run_steps (logs_steps lib fs) c = Inr c' \<Longrightarrow> same_except {''logs''} c c'"
  "run_steps (traces_steps lib fs) c = Inr c' \<Longrightarrow> same_except {''traces''} c c'"
proof -
  have trans: "same_except A c c' \<Longrightarrow> same_except A c' c'' \<Longrightarrow> same_except A c c''" for A c c' c'' by (simp add: same_except_def)
  have refl: "same_except A c c" for A c by (simp add: same_except_def)
  have run: "run_steps steps c = Inr c' \<Longrightarrow> (\<And>step c c'. step \<in> set steps \<Longrightarrow> step c = Inr c' \<Longrightarrow> same_except A c c') \<Longrightarrow> same_except A c c'"
    for steps A c c'
    by (rule run_steps_invariant [where P = "same_except A c"]) (auto intro: refl trans)
  show "run_steps (metrics_steps lib fs) c = Inr c' \<Longrightarrow> same_except {''metrics''} c c'"
    by (erule run) (auto simp: metrics_steps_def dest: step_frames)
  show "run_steps (logs_steps lib fs) c = Inr c' \<Longrightarrow> same_except {''logs''} c c'"
    by (erule run) (auto simp: logs_steps_def dest: step_frames)
  show "run_steps (traces_steps lib fs) c = Inr c' \<Longrightarrow> same_except {''traces''} c c'"
    by (erule run) (auto simp: traces_steps_def dest: step_frames)
qed

lemma metrics_steps_ok:
  assumes "run_steps (metrics_steps lib fs) c = Inr c'" "metrics_ok (cfg_metrics c)"
  shows "metrics_ok (cfg_metrics c')"
  using assms
  by (rule run_steps_invariant [where P = "\<lambda>c. metrics_ok (cfg_metrics c)"])
     (auto simp: metrics_steps_def metrics_endpoint_step_def Let_def endpoint_step_Inr metrics_ok_def)

text \<open>The selectors are set only behind the read endpoint, so the first step of the logs has to come first.\<close>

definition logs_inv :: "(string \<times> string) list \<Rightarrow> gateway_config \<Rightarrow> bool" where
  "logs_inv fs c \<longleftrightarrow> logs_ok (cfg_logs c) \<and> (flag_str fs ''logs.read.endpoint'' [] \<noteq> [] \<longrightarrow> logs_readEndpoint (cfg_logs c) \<noteq> None)"

lemma logs_endpoint_inv:
  assumes "logs_endpoint_step lib fs n shown upd c = Inr c'" "logs_inv fs c"
    and "\<And>u. logs_inv fs c \<Longrightarrow> logs_inv fs (c\<lparr>cfg_logs := upd (Some u) ((cfg_logs c)\<lparr>logs_enabled := True\<rparr>)\<rparr>)"
  shows "logs_inv fs c'"
  using assms by (auto simp: logs_endpoint_step_def endpoint_step_Inr)

lemma extract_selectors_Inr:
  "extract_selectors_step fs c = Inr c' \<Longrightarrow>
     c' = c \<or> (\<exists>sel. flag_str fs ''logs.read.endpoint'' [] \<noteq> [] \<and> c' = c\<lparr>cfg_logs := (cfg_logs c)\<lparr>logs_authExtractSelectors := sel\<rparr>\<rparr>)"
  unfolding extract_selectors_step_def Let_def by (simp split: if_splits) blast

lemma label_filters_Inr:
  "label_filters_step fs c = Inr c' \<Longrightarrow> \<exists>m. c' = c\<lparr>cfg_logs := (cfg_logs c)\<lparr>logs_labelFilters := m\<rparr>\<rparr>"
  unfolding label_filters_step_def Let_def
  by (cases "flag_str fs ''logs.rules.label-filters'' [] = []"; cases "label_filters (split_on (CHR '';'') (flag_str fs ''logs.rules.label-filters'' [])) []")
     (auto intro: exI [where x = "logs_labelFilters (cfg_logs c)"])

lemma logs_steps_inv:
  "logs_endpoint_step lib fs n shown (\<lambda>u c. c\<lparr>logs_rulesEndpoint := u\<rparr>) c = Inr c' \<Longrightarrow> logs_inv fs c \<Longrightarrow> logs_inv fs c'"
  "logs_endpoint_step lib fs n shown (\<lambda>u c. c\<lparr>logs_tailEndpoint := u\<rparr>) c = Inr c' \<Longrightarrow> logs_inv fs c \<Longrightarrow> logs_inv fs c'"
  "logs_endpoint_step lib fs n shown (\<lambda>u c. c\<lparr>logs_writeEndpoint := u\<rparr>) c = Inr c' \<Longrightarrow> logs_inv fs c \<Longrightarrow> logs_inv fs c'"
  "extract_selectors_step fs c = Inr c' \<Longrightarrow> logs_inv fs c \<Longrightarrow> logs_inv fs c'"
  "label_filters_step fs c = Inr c' \<Longrightarrow> logs_inv fs c \<Longrightarrow> logs_inv fs c'"
  apply (erule (1) logs_endpoint_inv, fastforce simp: logs_inv_def logs_ok_def)
  apply (erule (1) logs_endpoint_inv, fastforce simp: logs_inv_def logs_ok_def)
  apply (erule (1) logs_endpoint_inv, fastforce simp: logs_inv_def logs_ok_def)
  apply (drule extract_selectors_Inr, elim disjE exE conjE, simp, simp add: logs_inv_def logs_ok_def)
  apply (drule label_filters_Inr, elim exE, simp add: logs_inv_def logs_ok_def)
  done

lemma logs_steps_ok:
  assumes "run_steps (logs_steps lib fs) c = Inr c'" "logs_ok (cfg_logs c)"
  shows "logs_ok (cfg_logs c')"
proof -
  let ?read = "logs_endpoint_step lib fs ''logs.read.endpoint'' ''logs.read.endpoint'' (\<lambda>u c. c\<lparr>logs_readEndpoint := u\<rparr>)"
  have "logs_steps lib fs = ?read # tl (logs_steps lib fs)" by (simp add: logs_steps_def)
  hence "res_bind (?read c) (run_steps (tl (logs_steps lib fs))) = Inr c'" using assms(1) by (metis run_steps_simps(2))
  then obtain c1 where c1: "?read c = Inr c1" "run_steps (tl (logs_steps lib fs)) c1 = Inr c'" by (auto simp: res_bind_Inr_iff)
  have "logs_inv fs c1" using c1(1) assms(2) by (auto simp: logs_endpoint_step_def endpoint_step_Inr logs_inv_def logs_ok_def)
  with c1(2) have "logs_inv fs c'"
  proof (rule run_steps_invariant)
    fix step c c'
    assume "step \<in> set (tl (logs_steps lib fs))" "logs_inv fs c" "step c = Inr c'"
    thus "logs_inv fs c'" unfolding logs_steps_def using logs_steps_inv by fastforce
  qed
  thus ?thesis by (simp add: logs_inv_def)
qed

definition traces_inv :: "(string \<times> string) list \<Rightarrow> gateway_config \<Rightarrow> bool" where
  "traces_inv fs c \<longleftrightarrow> traces_ok (cfg_traces c) \<and> (traces_readTemplateEndpoint (cfg_traces c) \<noteq> [] \<longrightarrow> flag_str fs ''traces.read.endpoint'' [] = [])"

lemma traces_endpoint_Inr:
  "traces_endpoint_step lib fs n upd c = Inr c' \<Longrightarrow>
     c' = c \<or> (\<exists>u. flag_str fs n [] \<noteq> [] \<and> c' = c\<lparr>cfg_traces := upd (Some u) ((cfg_traces c)\<lparr>traces_enabled := True\<rparr>)\<rparr>)"
  by (auto simp: traces_endpoint_step_def Let_def endpoint_step_Inr)

lemma otlpgrpc_Inr:
  assumes "otlpgrpc_step lib fs c = Inr c'"
  shows "c' = c \<or> (\<exists>raw. raw \<noteq> [] \<and> c' = c\<lparr>cfg_traces := (cfg_traces c)\<lparr>traces_enabled := True, traces_writeOTLPGRPCEndpoint := raw\<rparr>\<rparr>)"
proof (cases "flag_str fs ''traces.write.otlpgrpc.endpoint'' [] = []")
  case False
  thus ?thesis using assms
    by (cases "SplitHostPort_err (flag_str fs ''traces.write.otlpgrpc.endpoint'' [])") (auto simp: otlpgrpc_step_def Let_def)
qed (use assms in \<open>simp add: otlpgrpc_step_def\<close>)

lemma template_Inr:
  assumes "template_step lib fs c = Inr c'"
  shows "traces_readTemplateEndpoint (cfg_traces c) = [] \<and> c' = c
       \<or> traces_readTemplateEndpoint (cfg_traces c) \<noteq> [] \<and> flag_str fs ''traces.read.endpoint'' [] = []
          \<and> c' = c\<lparr>cfg_traces := (cfg_traces c)\<lparr>traces_enabled := True\<rparr>\<rparr>"
proof (cases "traces_readTemplateEndpoint (cfg_traces c) = []")
  case False
  thus ?thesis using assms
    by (cases "ExpandTemplatedUpstream (ParseRequestURI lib) (traces_readTemplateEndpoint (cfg_traces c)) ''dummy''";
        cases "flag_str fs ''traces.read.endpoint'' [] = []") (simp_all add: template_step_def Let_def)
qed (use assms in \<open>simp add: template_step_def\<close>)

lemma traces_steps_inv:
  "traces_endpoint_step lib fs ''traces.read.endpoint'' (\<lambda>u c. c\<lparr>traces_readEndpoint := u\<rparr>) c = Inr c' \<Longrightarrow> traces_inv fs c \<Longrightarrow> traces_inv fs c'"
  "traces_endpoint_step lib fs ''traces.tempo.endpoint'' (\<lambda>u c. c\<lparr>traces_tempoEndpoint := u\<rparr>) c = Inr c' \<Longrightarrow> traces_inv fs c \<Longrightarrow> traces_inv fs c'"
  "traces_endpoint_step lib fs ''traces.write.otlphttp.endpoint'' (\<lambda>u c. c\<lparr>traces_writeOTLPHTTPEndpoint := u\<rparr>) c = Inr c'
     \<Longrightarrow> traces_inv fs c \<Longrightarrow> traces_inv fs c'"
  "otlpgrpc_step lib fs c = Inr c' \<Longrightarrow> traces_inv fs c \<Longrightarrow> traces_inv fs c'"
  apply (drule traces_endpoint_Inr, elim disjE exE conjE, simp, fastforce simp: traces_inv_def traces_ok_def)
  apply (drule traces_endpoint_Inr, elim disjE exE conjE, simp, simp add: traces_inv_def traces_ok_def)
  apply (drule traces_endpoint_Inr, elim disjE exE conjE, simp, simp add: traces_inv_def traces_ok_def)
  apply (drule otlpgrpc_Inr, elim disjE exE conjE, simp, simp add: traces_inv_def traces_ok_def)
  done

lemma traces_steps_ok:
  assumes "run_steps (traces_steps lib fs) c = Inr c'"
    and "traces_ok ((cfg_traces c)\<lparr>traces_readTemplateEndpoint := []\<rparr>)" "traces_readEndpoint (cfg_traces c) = None"
  shows "traces_ok (cfg_traces c')"
proof -
  have "traces_steps lib fs = template_step lib fs # tl (traces_steps lib fs)" by (simp add: traces_steps_def)
  hence "res_bind (template_step lib fs c) (run_steps (tl (traces_steps lib fs))) = Inr c'" using assms(1) by (metis run_steps_simps(2))
  then obtain c1 where c1: "template_step lib fs c = Inr c1" "run_steps (tl (traces_steps lib fs)) c1 = Inr c'" by (auto simp: res_bind_Inr_iff)
  have "traces_inv fs c1" using template_Inr [OF c1(1)] assms(2,3) by (auto simp: traces_inv_def traces_ok_def)
  with c1(2) have "traces_inv fs c'"
  proof (rule run_steps_invariant)
    fix step c c'
    assume "step \<in> set (tl (traces_steps lib fs))" "traces_inv fs c" "step c = Inr c'"
    thus "traces_inv fs c'" unfolding traces_steps_def using traces_steps_inv by fastforce
  qed
  thus ?thesis by (simp add: traces_inv_def)
qed

lemma flag_config_ok:
  "metrics_ok (cfg_metrics (flag_config lib fs))" "logs_ok (cfg_logs (flag_config lib fs))" "probes_ok (cfg_probes (flag_config lib fs))"
  "traces_ok ((cfg_traces (flag_config lib fs))\<lparr>traces_readTemplateEndpoint := []\<rparr>)" "traces_readEndpoint (cfg_traces (flag_config lib fs)) = None"
  by (simp_all add: flag_config_def metrics_flags_def logs_flags_def probes_flags_def traces_flags_def metrics_ok_def logs_ok_def
      probes_ok_def traces_ok_def)

lemma split_on_single: "(\<exists>x. split_on c xs = [x]) \<longleftrightarrow> c \<notin> set xs"
proof (induction xs)
  case (Cons a xs)
  show ?case using Cons split_on_not_Nil [of c xs] by (cases "split_on c xs") auto
qed simp

lemma label_filter_entry_None: "label_filter_entry f = None \<longleftrightarrow> CHR '':'' \<notin> set f"
proof -
  have "label_filter_entry f = None \<longleftrightarrow> (\<exists>x. split_on (CHR '':'') f = [x])"
    using split_on_not_Nil [of "CHR '':''" f]
    by (cases "split_on (CHR '':'') f"; cases "tl (split_on (CHR '':'') f)") (auto simp: label_filter_entry_def)
  thus ?thesis by (simp only: split_on_single)
qed

lemma label_filters_None: "label_filters fs m = None \<longleftrightarrow> (\<exists>f \<in> set fs. CHR '':'' \<notin> set f)"
proof (induction fs arbitrary: m)
  case (Cons f fs)
  show ?case
  proof (cases "label_filter_entry f")
    case None
    thus ?thesis using label_filter_entry_None [of f] by simp
  next
    case (Some e)
    hence "CHR '':'' \<in> set f" using label_filter_entry_None [of f] by (metis option.distinct(1))
    thus ?thesis using Some Cons by (cases e) simp
  qed
qed simp

section \<open>Properties\<close>

text \<open>
  C12. Every configuration that the command line yields is well formed: an API is enabled exactly if one of
  its endpoints is set, selectors to extract come with the endpoint for reading logs, the traces have at most one of the
  read endpoint and the template, and the gRPC server has an address to listen on exactly if it has an endpoint to write to.
\<close>

theorem parseFlags_well_formed:
  assumes "parseFlags lib args = Inr cfg"
  shows "config_ok cfg"
proof -
  obtain fs where "run_steps (config_steps lib fs) (flag_config lib fs) = Inr cfg"
    using assms by (auto simp: parseFlags_def res_bind_Inr_iff)
  then obtain c1 c2 c3 c4 c5 c6 where
      c: "run_steps (metrics_steps lib fs) (flag_config lib fs) = Inr c1" "run_steps (logs_steps lib fs) c1 = Inr c2"
         "run_steps (traces_steps lib fs) c2 = Inr c3" "alertmanager_step lib fs c3 = Inr c4" "probes_step lib fs c4 = Inr c5"
         "grpc_step lib c5 = Inr c6" "tls_lists_step fs c6 = Inr cfg"
    by (auto simp: config_steps_def run_steps_append res_bind_Inr_iff)
  note frames = steps_same_except(1) [OF c(1)] steps_same_except(2) [OF c(2)] steps_same_except(3) [OF c(3)] step_frames(8) [OF c(4)]
    step_frames(9) [OF c(5)] step_frames(10) [OF c(6)] step_frames(11) [OF c(7)]
  have "metrics_ok (cfg_metrics cfg)" using metrics_steps_ok [OF c(1) flag_config_ok(1)] frames by (simp add: same_except_def)
  moreover have "logs_ok (cfg_logs cfg)"
    using logs_steps_ok [OF c(2)] flag_config_ok(2) [of lib fs] frames by (simp add: same_except_def)
  moreover have "traces_ok (cfg_traces cfg)"
    using traces_steps_ok [OF c(3)] flag_config_ok(4,5) [of lib fs] frames by (simp add: same_except_def)
  moreover have "probes_ok (cfg_probes cfg)"
    using c(5) flag_config_ok(3) [of lib fs] frames by (auto simp: probes_step_def endpoint_step_Inr same_except_def probes_ok_def)
  moreover have "traces_writeOTLPGRPCEndpoint (cfg_traces cfg) = [] \<longleftrightarrow> grpcListen (cfg_server cfg) = []"
    using c(6) frames by (auto simp: grpc_step_def Let_def same_except_def split: if_splits)
  ultimately show ?thesis by (simp add: config_ok_def)
qed

definition sample_flag_lib :: flag_lib where
  "sample_flag_lib = \<lparr>parse_int = \<lambda>_. None, parse_float_ok = \<lambda>_. False, parse_duration = \<lambda>_. None,
     ParseRequestURI = (\<lambda>s. if prefix ''http://'' s then Inr \<lparr>Scheme = ''http'', Host = drop 7 s, Path = [], RawQuery = []\<rparr> else Inl ''invalid URI''),
     rune_is_print = \<lambda>_. True\<rparr>"

theorem parseFlags_well_formed_witness:
  "\<exists>cfg. parseFlags sample_flag_lib [''--metrics.read.endpoint=http://thanos'', ''-traces.write.otlpgrpc.endpoint'', ''otel:4317'', ''--grpc.listen=:8082'']
     = Inr cfg \<and> config_ok cfg \<and> metrics_enabled (cfg_metrics cfg) \<and> \<not> logs_enabled (cfg_logs cfg)"
proof -
  have "(case parseFlags sample_flag_lib [''--metrics.read.endpoint=http://thanos'', ''-traces.write.otlpgrpc.endpoint'', ''otel:4317'', ''--grpc.listen=:8082'']
     of Inl _ \<Rightarrow> False | Inr cfg \<Rightarrow> metrics_enabled (cfg_metrics cfg) \<and> \<not> logs_enabled (cfg_logs cfg))"
    by code_simp
  thus ?thesis using parseFlags_well_formed by (auto split: sum.splits)
qed

text \<open>
  The flag with the label filters of the rules is not checked: an entry without a colon ends the process with a
  panic instead of an error message, and this happens exactly if there is one.
\<close>

theorem label_filters_without_colon:
  "label_filters_step fs cfg = Inl StartPanic \<longleftrightarrow>
     (let raw = flag_str fs ''logs.rules.label-filters'' [] in raw \<noteq> [] \<and> (\<exists>f \<in> set (split_on (CHR '';'') raw). CHR '':'' \<notin> set f))"
proof -
  let ?raw = "flag_str fs ''logs.rules.label-filters'' []"
  show ?thesis
    using label_filters_None [of "split_on (CHR '';'') ?raw" "[]"]
    by (cases "?raw = []"; cases "label_filters (split_on (CHR '';'') ?raw) []") (simp_all add: label_filters_step_def Let_def)
qed

end
