(* ===== verification/Authenticators.thy ===== *)
theory Authenticators
  imports OIDC OpenShift
begin

text \<open>
  The construction of the OIDC and OpenShift providers from a tenant's
  configuration, endpoint and credential discovery with their retry loops
  (\<open>authentication/oidc.go\<close>, \<open>authentication/openshift.go\<close>,
  \<open>authentication/openshift/discovery.go\<close>), and what the registered factories guarantee together.
\<close>

section \<open>Retry loops\<close>

text \<open>
  \<open>newOIDCProvider\<close>: \<open>attempt i\<close> is the outcome of the i-th call of
  \<open>oidc.NewProvider\<close>.  The loop ends with the first success and counts the
  failures before it; it never gives up.
\<close>

partial_function (option) newOIDCProvider :: "(nat \<Rightarrow> string + 'p) \<Rightarrow> nat \<Rightarrow> ('p \<times> nat) option" where
  "newOIDCProvider attempt i =
     (case attempt i of Inr provider \<Rightarrow> Some (provider, i) | Inl err \<Rightarrow> newOIDCProvider attempt (Suc i))"

datatype oauth_discovery = OAuthServerNotFound | OAuthError string | OAuthEndpoints string string

text \<open>The endpoints, when the cluster has an OAuth server; \<open>None\<close> inside when it has none.\<close>

partial_function (option) discoverOAuthEndpoints ::
    "(nat \<Rightarrow> oauth_discovery) \<Rightarrow> nat \<Rightarrow> ((string \<times> string) option \<times> nat) option" where
  "discoverOAuthEndpoints attempt i =
     (case attempt i of
        OAuthServerNotFound \<Rightarrow> Some (None, i)
      | OAuthEndpoints authURL tokenURL \<Rightarrow> Some (Some (authURL, tokenURL), i)
      | OAuthError err \<Rightarrow> discoverOAuthEndpoints attempt (Suc i))"

section \<open>Discovery\<close>

definition toKubeAPIURLWithPath :: "string \<Rightarrow> string \<Rightarrow> url" where
  "toKubeAPIURLWithPath service_host path =
     (let host = (if CHR '':'' \<in> set service_host then ''['' @ service_host @ '']'' else service_host) in
      \<lparr>Scheme = ''https'',
       Host = (if service_host \<noteq> [] then host else ''kubernetes.default.svc''),
       Path = path, RawQuery = []\<rparr>)"

text \<open>
  \<open>DiscoverCredentials\<close> with the files it reads as a function: an unreadable
  file is an error, an empty one gives empty credentials without an error.
\<close>

definition ServiceAccountNamespacePath :: string where
  "ServiceAccountNamespacePath = ''/var/run/secrets/kubernetes.io/serviceaccount/namespace''"

definition ServiceAccountTokenPath :: string where
  "ServiceAccountTokenPath = ''/var/run/secrets/kubernetes.io/serviceaccount/token''"

definition ServiceAccountCAPath :: string where
  "ServiceAccountCAPath = ''/var/run/secrets/kubernetes.io/serviceaccount/ca.crt''"

definition DiscoverCredentials :: "(string \<Rightarrow> string + string) \<Rightarrow> string \<Rightarrow> string + string \<times> string" where
  "DiscoverCredentials readFile name =
     (case readFile ServiceAccountNamespacePath of
        Inl err \<Rightarrow> Inl err
      | Inr n \<Rightarrow>
          if n = [] then Inr ([], [])
          else (case readFile ServiceAccountTokenPath of
                  Inl err \<Rightarrow> Inl err
                | Inr d \<Rightarrow>
                    if d = [] then Inr ([], [])
                    else Inr (''system:serviceaccount:'' @ trim_space n @ '':'' @ name, trim_space d)))"

text \<open>
  \<open>DiscoverOAuth\<close>, given the response to the request (status and body, or the
  error of the exchange) and \<open>url.Parse\<close>.
\<close>

definition DiscoverOAuth ::
    "(string \<Rightarrow> bool) \<Rightarrow> string + (nat \<times> string) \<Rightarrow> oauth_discovery" where
  "DiscoverOAuth url_parses response =
     (case response of
        Inl err \<Rightarrow> OAuthError err
      | Inr (code, body) \<Rightarrow>
          if code < 200 \<or> 300 \<le> code then
            (if code = 404 then OAuthServerNotFound
             else OAuthError (''got '' @ itoa_nat code @ '' '' @ body))
          else (case json_parse body of
                  Some (JObj ms) \<Rightarrow>
                    (case (decode_string ''authorization_endpoint'' ms, decode_string ''token_endpoint'' ms) of
                       (Some a, Some t) \<Rightarrow>
                         if \<not> url_parses a then OAuthError ''unable to parse authorization endpoint URL''
                         else if \<not> url_parses t then OAuthError ''unable to parse token endpoint URL''
                         else OAuthEndpoints a t
                     | _ \<Rightarrow> OAuthError ''unable to unmarshal response'')
                | Some JNull \<Rightarrow>
                    if url_parses [] then OAuthEndpoints [] []
                    else OAuthError ''unable to parse authorization endpoint URL''
                | _ \<Rightarrow> OAuthError ''unable to unmarshal response''))"

section \<open>Factories\<close>

subsection \<open>OIDC\<close>

record oidc_settings =
  IssuerRawCA :: string
  IssuerCAPath :: string
  IssuerURL :: string
  claims_config :: oidcConfig

text \<open>
  The surroundings of the constructor: the configuration decoder, the file
  system, PEM and certificate parsing, and the outcomes of contacting the issuer.
\<close>

record oidc_env =
  oidc_decode :: "config \<Rightarrow> string + oidc_settings"
  oidc_readFile :: "string \<Rightarrow> string + string"
  pem_decode :: "string \<Rightarrow> (string \<times> string) option"
  parse_certificate :: "string \<Rightarrow> string + string"
  oidc_attempt :: "string \<Rightarrow> string list \<Rightarrow> nat \<Rightarrow> string + verifier"

text \<open>The loop over PEM blocks; each block takes at least a byte, so the length is fuel enough.\<close>

fun parse_issuer_cas :: "oidc_env \<Rightarrow> nat \<Rightarrow> string \<Rightarrow> string list \<Rightarrow> string + string list" where
  "parse_issuer_cas env 0 rest cas = Inr cas"
| "parse_issuer_cas env (Suc n) rest cas =
     (case pem_decode env rest of
        None \<Rightarrow> Inr cas
      | Some (block, rest') \<Rightarrow>
          (case parse_certificate env block of
             Inl err \<Rightarrow> Inl (''failed to parse issuer certificate: '' @ err)
           | Inr cert \<Rightarrow> parse_issuer_cas env n rest' (cas @ [cert])))"

definition oidc_issuer_cas :: "oidc_env \<Rightarrow> oidc_settings \<Rightarrow> string + string list" where
  "oidc_issuer_cas env st =
     (case (if IssuerCAPath st \<noteq> [] then oidc_readFile env (IssuerCAPath st) else Inr (IssuerRawCA st)) of
        Inl err \<Rightarrow> Inl (''failed to read issuer ca file: '' @ err)
      | Inr raw \<Rightarrow>
          if raw = [] then Inr []
          else (case parse_issuer_cas env (length raw) raw [] of
                  Inl err \<Rightarrow> Inl err
                | Inr [] \<Rightarrow> Inl ''failed to parse issuer CA certificate PEM''
                | Inr cas \<Rightarrow> Inr cas))"

definition newOIDCAuthenticator ::
    "(json \<Rightarrow> string) \<Rightarrow> oidc_env \<Rightarrow> 's handler \<Rightarrow> 's ProviderFactory" where
  "newOIDCAuthenticator fmt_v env handler c tenant =
     (case oidc_decode env c of
        Inl err \<Rightarrow> Some (Inl err)
      | Inr st \<Rightarrow>
          if IssuerURL st = [] then Some (Inl ''issuerURL is required'')
          else (case oidc_issuer_cas env st of
                  Inl err \<Rightarrow> Some (Inl err)
                | Inr cas \<Rightarrow>
                    (case newOIDCProvider (oidc_attempt env (IssuerURL st) cas) 0 of
                       None \<Rightarrow> None
                     | Some (v, _) \<Rightarrow>
                         Some (Inr (oidc_provider fmt_v
                           \<lparr>oidc_config = claims_config st, oidc_cookieName = ''mcoa_gateway_'' @ tenant,
                            oidc_verifier = v\<rparr> handler)))))"

subsection \<open>OpenShift\<close>

record openshift_settings =
  CookieSecret :: string
  ServiceAccount :: string
  KubeConfigPath :: string

record openshift_env =
  os_decode :: "config \<Rightarrow> string + openshift_settings"
  os_readFile :: "nat \<Rightarrow> string \<Rightarrow> string + string"
  os_auth_config :: "openshift_settings \<Rightarrow> string + request_authenticator"
  os_aes :: "string \<Rightarrow> string \<Rightarrow> string"
  os_jwt :: jwt_parser
  os_oauth_attempt :: "nat \<Rightarrow> oauth_discovery"

partial_function (option) discover_credentials_loop ::
    "(nat \<Rightarrow> string + string \<times> string) \<Rightarrow> nat \<Rightarrow> (string \<times> string) option" where
  "discover_credentials_loop attempt i =
     (case attempt i of Inr creds \<Rightarrow> Some creds | Inl err \<Rightarrow> discover_credentials_loop attempt (Suc i))"

definition newOpenshiftAuthenticator :: "openshift_env \<Rightarrow> 's handler \<Rightarrow> 's ProviderFactory" where
  "newOpenshiftAuthenticator env handler c tenant =
     (case os_decode env c of
        Inl err \<Rightarrow> Some (Inl err)
      | Inr st \<Rightarrow>
          (case os_readFile env 0 ServiceAccountCAPath of
             Inl err \<Rightarrow> Some (Inl (''failed to load serviceccount ca certificate '' @ err))
           | Inr ca \<Rightarrow>
               (case os_auth_config env st of
                  Inl err \<Rightarrow> Some (Inl err)
                | Inr authn \<Rightarrow>
                    (case (if CookieSecret st \<noteq> [] then NewCipher (os_aes env) (CookieSecret st) else Some id) of
                       None \<Rightarrow> Some (Inl ''unable to initialize cookie cipher'')
                     | Some block \<Rightarrow>
                         (let provider = (\<lambda>enabled. Some (Inr (openshift_provider
                                \<lparr>os_authenticator = authn, os_parse_jwt = os_jwt env,
                                 os_cookieName = ''mcoa_gateway_'' @ tenant, os_cookieSecret = CookieSecret st,
                                 os_block = block, os_oauthEnabled = enabled\<rparr> handler)))
                          in case discoverOAuthEndpoints (os_oauth_attempt env) 0 of
                               None \<Rightarrow> None
                             | Some (None, _) \<Rightarrow> provider False
                             | Some (Some _, _) \<Rightarrow>
                                 (case discover_credentials_loop
                                         (\<lambda>i. DiscoverCredentials (os_readFile env i) (ServiceAccount st)) 0 of
                                    None \<Rightarrow> None
                                  | Some _ \<Rightarrow> provider True))))))"

text \<open>The registrations of the packages' \<open>init\<close> functions.\<close>

definition providerFactories ::
    "(json \<Rightarrow> string) \<Rightarrow> oidc_env \<Rightarrow> openshift_env \<Rightarrow> 's handler \<Rightarrow> (string \<times> 's ProviderFactory) list" where
  "providerFactories fmt_v oenv osenv handler =
     onboardNewProvider ''openshift'' (newOpenshiftAuthenticator osenv handler)
       (onboardNewProvider ''oidc'' (newOIDCAuthenticator fmt_v oenv handler)
          (onboardNewProvider ''mtls'' newMTLSAuthenticator []))"

section \<open>Lemmas\<close>

lemma newOIDCProvider_first:
  assumes "attempt (i + n) = Inr p" "\<And>k. k < n \<Longrightarrow> \<exists>e. attempt (i + k) = Inl e"
  shows "newOIDCProvider attempt i = Some (p, i + n)"
  using assms
proof (induction n arbitrary: i)
  case 0
  thus ?case by (subst newOIDCProvider.simps) simp
next
  case (Suc n)
  obtain e where e: "attempt i = Inl e" using Suc.prems(2) [of 0] by auto
  have "newOIDCProvider attempt (Suc i) = Some (p, Suc i + n)"
    using Suc.prems(2) [of "Suc k" for k] by (intro Suc.IH) (use Suc.prems(1) in auto)
  thus ?case by (subst newOIDCProvider.simps) (simp add: e)
qed

lemma oidc_factory_contract:
  "newOIDCAuthenticator fmt_v env h c t = Some (Inr p) \<Longrightarrow> provider_contract p"
  by (auto simp: newOIDCAuthenticator_def oidc.provider_contract_axioms
      split: sum.splits if_splits option.splits)

lemma openshift_factory_contract:
  "newOpenshiftAuthenticator env h c t = Some (Inr p) \<Longrightarrow> provider_contract p"
  by (auto simp: newOpenshiftAuthenticator_def Let_def openshift.provider_contract_axioms
      split: sum.splits if_splits option.splits)

lemma factories_ok_registered: "factories_ok (providerFactories fmt_v oenv osenv h)"
  using mtls.provider_contract_axioms oidc_factory_contract openshift_factory_contract
  by (auto simp: factories_ok_def providerFactories_def onboardNewProvider_def update_conv' ran_def
      newMTLSAuthenticator_def split: if_splits) blast+

section \<open>Properties\<close>


definition sample_oidc_env :: oidc_env where
  "sample_oidc_env = \<lparr>oidc_decode = \<lambda>c. Inl ''no decoder'', oidc_readFile = \<lambda>f. Inl ''no file'',
     pem_decode = \<lambda>s. None, parse_certificate = \<lambda>s. Inl ''no parser'',
     oidc_attempt = \<lambda>u cas i. Inl ''no issuer''\<rparr>"

definition sample_openshift_env :: openshift_env where
  "sample_openshift_env = \<lparr>os_decode = \<lambda>c. Inl ''no decoder'', os_readFile = \<lambda>i f. Inl ''no file'',
     os_auth_config = \<lambda>st. Inl ''no cluster'', os_aes = \<lambda>k b. b, os_jwt = \<lambda>k t. Inl ''no jwt'',
     os_oauth_attempt = \<lambda>i. OAuthServerNotFound\<rparr>"

definition sample_cert :: certificate where
  "sample_cert = \<lparr>EmailAddresses = [], URIs = [], DNSNames = [''agent.example''], IPAddresses = [],
     CommonName = ''agent'', OrganizationalUnit = [''team-a'', ''ops'']\<rparr>"


text \<open>
  C23. However often contacting the issuer fails, the OIDC provider is built
  with the first attempt that succeeds, and the number of retries
  reported is the number of failed attempts.
\<close>

theorem oidc_registration_retries:
  assumes "attempt n = Inr provider" "\<forall>k < n. \<exists>err. attempt k = Inl err"
  shows "newOIDCProvider attempt 0 = Some (provider, n)"
  using newOIDCProvider_first [of attempt 0 n provider] assms by simp

theorem oidc_registration_retries_witness:
  "newOIDCProvider (\<lambda>i. if i < 3 then Inl ''connection refused'' else Inr (i * 10)) 0 = Some (30, 3)"
  by (rule oidc_registration_retries [of _ 3]) simp_all



end
