(* ===== verification/Redis_Limit.thy ===== *)
theory Redis_Limit
  imports Rate_Limit
begin

text \<open>
  The shared rate limiter on Redis: the script \<open>ratelimit/gcra_rate_limit.lua\<close>, an
  instance of the generic cell rate algorithm, and its client \<open>ratelimit/redis.go\<close>.

  The numbers of the script are rationals; Lua computes with 64-bit floats, which hold
  the milliseconds exactly and round the emission interval when the limit does not
  divide the period.  A limit of 0 makes the interval infinite and the script fails
  when it stores it.  Redis and its client library are parameters.
\<close>

section \<open>Definitions\<close>

subsection \<open>The script\<close>

record gcra_reply =
  limited :: bool
  remaining :: int
  retry_in :: int
  reset_in :: int

text \<open>
  The script after its \<open>GET\<close>, from the stored theoretical arrival time to the reply and
  the value and life time of its \<open>SET\<close>, if it makes one.
\<close>

definition gcra_rate_limit ::
    "rat \<Rightarrow> rat \<Rightarrow> rat \<Rightarrow> rat \<Rightarrow> rat \<Rightarrow> rat option \<Rightarrow> gcra_reply \<times> (rat \<times> int) option" where
  "gcra_rate_limit now burst rate period cost stored =
     (let emission_interval = period / rate;
          increment = emission_interval * cost;
          burst_offset = emission_interval * burst;
          tat = max (case stored of None \<Rightarrow> now | Some t \<Rightarrow> t) now;
          new_tat = tat + increment;
          allow_at = new_tat - burst_offset;
          diff = now - allow_at;
          rem = \<lfloor>diff / emission_interval\<rfloor>
      in if rem < 0 then
           (\<lparr>limited = True, remaining = \<lfloor>(now - (tat - burst_offset)) / emission_interval\<rfloor>,
             retry_in = \<lceil>- diff\<rceil>, reset_in = \<lceil>tat - now\<rceil>\<rparr>, None)
         else if rem = 0 \<and> increment \<le> 0 then
           (\<lparr>limited = True, remaining = 0, retry_in = 0, reset_in = \<lceil>tat - now\<rceil>\<rparr>, None)
         else
           (\<lparr>limited = False, remaining = rem, retry_in = 0, reset_in = \<lceil>new_tat - now\<rceil>\<rparr>,
            if increment > 0 then Some (new_tat, \<lceil>new_tat - now\<rceil>) else None))"

text \<open>
  The keys of Redis with their values and deadlines.  When a key is dropped after
  its deadline is up to Redis: \<open>expired\<close> is a parameter.
\<close>

type_synonym redis_db = "(string \<times> (rat \<times> rat)) list"

definition redis_GET :: "(rat \<Rightarrow> rat \<Rightarrow> bool) \<Rightarrow> rat \<Rightarrow> string \<Rightarrow> redis_db \<Rightarrow> rat option" where
  "redis_GET expired now key db =
     (case map_of db key of None \<Rightarrow> None | Some (v, deadline) \<Rightarrow> if expired deadline now then None else Some v)"

definition gcra_script ::
    "(rat \<Rightarrow> rat \<Rightarrow> bool) \<Rightarrow> string \<Rightarrow> rat \<Rightarrow> rat \<Rightarrow> rat \<Rightarrow> rat \<Rightarrow> rat \<Rightarrow> redis_db \<Rightarrow> gcra_reply \<times> redis_db" where
  "gcra_script expired key now burst rate period cost db =
     (case gcra_rate_limit now burst rate period cost (redis_GET expired now key db) of
        (reply, None) \<Rightarrow> (reply, db)
      | (reply, Some (v, px)) \<Rightarrow> (reply, AList.update key (v, now + of_int px) db))"

subsection \<open>The client\<close>

text \<open>
  What the code uses of the library: running the script with a key and arguments, and
  reading the values of the array it returns.
\<close>

record ('v, 'c) rueidis =
  script_Exec :: "string \<Rightarrow> string list \<Rightarrow> 'c \<Rightarrow> (string + 'v list) \<times> 'c"
  AsBool :: "'v \<Rightarrow> string + bool"
  AsInt64 :: "'v \<Rightarrow> string + int"

text \<open>\<open>None\<close> is the panic of an index out of range.\<close>

definition parseRateLimitResult ::
    "('v, 'c) rueidis \<Rightarrow> string + 'v list \<Rightarrow> (string + bool \<times> int \<times> int) option" where
  "parseRateLimitResult lib result =
     (case result of
        Inl err \<Rightarrow> Some (Inl err)
      | Inr vals \<Rightarrow>
          if length vals < 1 then None
          else (case AsBool lib (vals ! 0) of
                  Inl err \<Rightarrow> Some (Inl err)
                | Inr over \<Rightarrow>
                    if length vals < 2 then None
                    else (case AsInt64 lib (vals ! 1) of
                            Inl err \<Rightarrow> Some (Inl err)
                          | Inr rem \<Rightarrow>
                              if length vals < 4 then None
                              else (case AsInt64 lib (vals ! 3) of
                                      Inl err \<Rightarrow> Some (Inl err)
                                    | Inr resetIn \<Rightarrow> Some (Inr (over, rem, resetIn))))))"

text \<open>
  \<open>now\<close> and \<open>now'\<close> are the two readings of the clock in milliseconds.  The sum is on
  integers: the life time of a key is at most the window, which is a duration.
\<close>

definition RedisRateLimiter_GetRateLimits :: "('v, 'c) rueidis \<Rightarrow> int \<Rightarrow> int \<Rightarrow> 'c limiter_client" where
  "RedisRateLimiter_GetRateLimits lib now now' req c =
     (case script_Exec lib (req_Key req)
             [itoa now, itoa (req_Limit req), itoa (req_Limit req), itoa (req_Duration req), ''1''] c of
        (result, c') \<Rightarrow>
          (case parseRateLimitResult lib result of
             None \<Rightarrow> (None, c')
           | Some (Inl err) \<Rightarrow> (Some (0, 0, Some (LimitError err)), c')
           | Some (Inr (over, rem, resetIn)) \<Rightarrow>
               (Some (rem, now' + resetIn, if over then Some ErrOverLimit else None), c')))"

subsection \<open>Runs\<close>

text \<open>Requests at the given times against one bucket of capacity and rate \<open>limit\<close>; which are accepted.\<close>

fun gcra_run :: "(rat \<Rightarrow> rat \<Rightarrow> bool) \<Rightarrow> string \<Rightarrow> rat \<Rightarrow> rat \<Rightarrow> rat list \<Rightarrow> redis_db \<Rightarrow> bool list" where
  "gcra_run expired key limit period [] db = []"
| "gcra_run expired key limit period (now # ts) db =
     (case gcra_script expired key now limit limit period 1 db of
        (reply, db') \<Rightarrow> (\<not> limited reply) # gcra_run expired key limit period ts db')"

section \<open>Lemmas\<close>

text \<open>The theoretical arrival time the bucket stands for; a bucket never used counts from \<open>t0\<close>.\<close>

definition bucket_tat :: "string \<Rightarrow> rat \<Rightarrow> redis_db \<Rightarrow> rat" where
  "bucket_tat key t0 db = (case map_of db key of None \<Rightarrow> t0 | Some (v, d) \<Rightarrow> v)"

text \<open>A key lives at least as long as its value lies in the future.\<close>

definition bucket_ok :: "string \<Rightarrow> redis_db \<Rightarrow> bool" where
  "bucket_ok key db \<longleftrightarrow> (\<forall>v d. map_of db key = Some (v, d) \<longrightarrow> v \<le> d)"

text \<open>Redis does not drop a key before its deadline.\<close>

definition keeps_keys :: "(rat \<Rightarrow> rat \<Rightarrow> bool) \<Rightarrow> bool" where
  "keeps_keys expired \<longleftrightarrow> (\<forall>deadline now. expired deadline now \<longrightarrow> deadline \<le> now)"

text \<open>The decision of the script, with the detours through intervals and rounding removed.\<close>

lemma floor_quotient_neg: "0 < (e :: rat) \<Longrightarrow> \<lfloor>x / e\<rfloor> < 0 \<longleftrightarrow> x < 0"
  by (simp add: floor_less_iff divide_less_0_iff)

lemma gcra_script_eq:
  assumes "keeps_keys expired" "0 < limit" "0 < period" "bucket_ok key db" "t0 \<le> now"
  defines "tat \<equiv> max (bucket_tat key t0 db) now" and "e \<equiv> period / limit"
  shows "gcra_script expired key now limit limit period 1 db =
      (if tat + e > now + period
       then (\<lparr>limited = True, remaining = \<lfloor>(now - (tat - period)) / e\<rfloor>,
              retry_in = \<lceil>- (now - (tat + e - period))\<rceil>, reset_in = \<lceil>tat - now\<rceil>\<rparr>, db)
       else (\<lparr>limited = False, remaining = \<lfloor>(now - (tat + e - period)) / e\<rfloor>, retry_in = 0,
              reset_in = \<lceil>tat + e - now\<rceil>\<rparr>,
             AList.update key (tat + e, now + of_int \<lceil>tat + e - now\<rceil>) db))"
proof -
  let ?got = "redis_GET expired now key db"
  have e: "0 < e" "e * limit = period" using assms(2,3) by (auto simp: e_def)
  have got: "max (case ?got of None \<Rightarrow> now | Some t \<Rightarrow> t) now = tat"
    using assms(1,4,5) unfolding keeps_keys_def tat_def bucket_tat_def redis_GET_def bucket_ok_def
    by (fastforce simp: max_def split: option.splits if_splits)
  have neg: "\<lfloor>(now - (tat + e - period)) / e\<rfloor> < 0 \<longleftrightarrow> tat + e > now + period"
    unfolding floor_quotient_neg [OF e(1)] by auto
  show ?thesis
    using e neg unfolding gcra_script_def gcra_rate_limit_def Let_def got e_def by simp
qed

lemma gcra_decides:
  assumes "keeps_keys expired" "0 < limit" "0 < period" "bucket_ok key db" "t0 \<le> now"
    and "gcra_script expired key now limit limit period 1 db = (reply, db')"
  defines "tat \<equiv> max (bucket_tat key t0 db) now"
  shows "limited reply \<longleftrightarrow> tat + period / limit > now + period"
    and "limited reply \<Longrightarrow> db' = db"
    and "\<not> limited reply \<Longrightarrow> bucket_tat key t0 db' = tat + period / limit"
    and "bucket_ok key db'"
proof -
  let ?e = "period / limit"
  note script = gcra_script_eq [OF assms(1-5), folded tat_def]
  show "limited reply \<longleftrightarrow> tat + ?e > now + period" "limited reply \<Longrightarrow> db' = db"
    using assms(6) unfolding script by (auto split: if_splits)
  show "\<not> limited reply \<Longrightarrow> bucket_tat key t0 db' = tat + ?e"
    using assms(6) unfolding script by (auto simp: bucket_tat_def update_conv' split: if_splits)
  have "tat + ?e \<le> now + of_int \<lceil>tat + ?e - now\<rceil>" using le_of_int_ceiling [of "tat + ?e - now"] by linarith
  thus "bucket_ok key db'"
    using assms(4,6) unfolding script by (auto simp: bucket_ok_def update_conv' split: if_splits)
qed

lemma gcra_run_bound:
  assumes ex: "keeps_keys expired" and pos: "0 < limit" "0 < period"
    and "bucket_ok key db" "\<And>t. t \<in> set ts \<Longrightarrow> t0 \<le> t \<and> t \<le> t1" "bucket_tat key t0 db \<le> t1 + period"
  shows "bucket_tat key t0 db + of_nat (count_list (gcra_run expired key limit period ts db) True) * (period / limit)
           \<le> t1 + period"
  using assms(4-6)
proof (induction ts arbitrary: db)
  case (Cons now ts)
  obtain reply db' where run: "gcra_script expired key now limit limit period 1 db = (reply, db')" by fastforce
  have now: "t0 \<le> now" "now \<le> t1" using Cons.prems(2) by auto
  note step = gcra_decides [OF ex pos Cons.prems(1) now(1) run]
  show ?case
  proof (cases "limited reply")
    case True
    thus ?thesis using Cons.IH [of db] Cons.prems step(2) run by simp
  next
    case False
    let ?n = "count_list (gcra_run expired key limit period ts db') True"
    have "bucket_tat key t0 db' \<le> t1 + period" using step(1,3) False now by auto
    hence "bucket_tat key t0 db' + of_nat ?n * (period / limit) \<le> t1 + period"
      using Cons.IH [of db'] Cons.prems(2) step(4) by simp
    moreover have "bucket_tat key t0 db + period / limit \<le> bucket_tat key t0 db'" using step(3) False by simp
    ultimately show ?thesis using False run by (simp add: distrib_right add_divide_distrib)
  qed
qed simp

lemma gcra_run_conforming:
  assumes ex: "keeps_keys expired" and pos: "1 \<le> limit" "0 < period"
    and "bucket_ok key db" "\<And>t. t \<in> set ts \<Longrightarrow> t0 \<le> t \<and> bucket_tat key t0 db \<le> t"
    and "sorted_wrt (\<lambda>t t'. t + period / limit \<le> t') ts"
  shows "gcra_run expired key limit period ts db = replicate (length ts) True"
  using assms(4-6)
proof (induction ts arbitrary: db)
  case (Cons now ts)
  obtain reply db' where run: "gcra_script expired key now limit limit period 1 db = (reply, db')" by fastforce
  have pos': "0 < limit" using pos(1) by simp
  have now: "t0 \<le> now" "bucket_tat key t0 db \<le> now" using Cons.prems(2) by auto
  note step = gcra_decides [OF ex pos' pos(2) Cons.prems(1) now(1) run]
  have "period / limit \<le> period" using pos by (simp add: divide_le_eq mult_le_cancel_left1)
  hence ok: "\<not> limited reply" using step(1) now(2) by simp
  have "bucket_tat key t0 db' \<le> t" if "t \<in> set ts" for t
    using step(3) [OF ok] now(2) Cons.prems(3) that by auto
  thus ?case using Cons.IH [of db'] Cons.prems(2,3) step(4) ok run by simp
qed simp

section \<open>The contract of shared limiters\<close>

lemma limit_header_keys:
  "canonical_key ''X-RateLimit-Remaining'' \<noteq> canonical_key ''X-RateLimit-Reset''"
  "canonical_key ''X-RateLimit-Remaining'' \<noteq> canonical_key ''Retry-After''"
  by code_simp+

text \<open>
  \<open>SharedRateLimiter\<close>: a failure to decide carries no counts, so that the
  handler reports none.
\<close>

locale shared_limiter =
  fixes limits :: "'c limiter_client"
  assumes failure_counts: "limits req c = (Some (rem, resetTime, Some (LimitError e)), c') \<Longrightarrow> rem = 0 \<and> resetTime = 0"
begin

lemma fail_closed:
  assumes "limits req (service s) = (Some (rem, resetTime, Some (LimitError e)), c')" "\<not> failOpen req"
  shows "\<exists>w' s'. rateLimiter_Handler limits n req nxt r w s = (Responded (PrometheusAPIError w' e 500), s')
           \<and> header_get (wheader w') ''X-RateLimit-Remaining'' = ''0''"
proof -
  let ?w = "set_wheader ''X-RateLimit-Reset'' ''0'' (set_wheader ''X-RateLimit-Remaining'' ''0''
             (set_wheader ''X-RateLimit-Limit'' (itoa (req_Limit req)) w))"
  obtain v tracker where v: "getAndSetNextRetryAfterValue n req (limitTracker s) = (v, tracker)" by fastforce
  let ?w' = "case v of None \<Rightarrow> ?w | Some v \<Rightarrow> set_wheader ''Retry-After'' v ?w"
  have zero: "rem = 0" "resetTime = 0" using failure_counts [OF assms(1)] by auto
  have "\<exists>s'. rateLimiter_Handler limits n req nxt r w s = (Responded (PrometheusAPIError ?w' e 500), s')"
    using assms(1) [unfolded zero] assms(2) v
    by (cases v) (simp_all add: rateLimiter_Handler_def limit_error_string_def Let_def itoa_0)
  moreover have "header_get (wheader ?w') ''X-RateLimit-Remaining'' = ''0''"
    by (cases v) (simp_all add: set_wheader_def limit_header_keys)
  ultimately show ?thesis by blast
qed

end

interpretation gub: shared_limiter "Client_GetRateLimits rpc" for rpc
  by unfold_locales (auto simp: Client_GetRateLimits_def split: sum.splits list.splits if_splits prod.splits)

interpretation rds: shared_limiter "RedisRateLimiter_GetRateLimits lib now now'" for lib now now'
  by unfold_locales
     (auto simp: RedisRateLimiter_GetRateLimits_def split: sum.splits option.splits if_splits prod.splits)

section \<open>Properties\<close>



text \<open>
  C25. A client that keeps to the rate is never rejected: if the requests for an unused
  bucket are at least one emission interval apart, every one of them is accepted,
  however many there are and whenever Redis drops expired keys.
\<close>

theorem gcra_conforming_accepted:
  assumes "keeps_keys expired" "1 \<le> limit" "0 < period" "map_of db key = None"
    and "sorted_wrt (\<lambda>t t'. t + period / limit \<le> t') ts"
  shows "gcra_run expired key limit period ts db = replicate (length ts) True"
proof (cases ts)
  case (Cons t0 ts')
  have "0 < period / limit" using assms(2,3) by simp
  hence "t0 \<le> t" if "t \<in> set ts" for t using assms(5) that Cons by fastforce
  thus ?thesis using gcra_run_conforming [OF assms(1-3), of key db ts t0] assms(4,5)
    by (simp add: bucket_ok_def bucket_tat_def)
qed simp

theorem gcra_conforming_accepted_witness:
  "gcra_run (\<lambda>d t. d \<le> t) ''k'' 2 10 [0, 5, 12, 17] [] = [True, True, True, True]"
  using gcra_conforming_accepted [of "\<lambda>d t. d \<le> t" 2 10 "[]" "''k''" "[0, 5, 12, 17]"]
  by (simp add: eval_nat_numeral keeps_keys_def)

text \<open>
  C27. When the shared limiter cannot decide and the limit is not configured to
  fail open, the request does not reach the next handler: it is answered with status 500 and the
  limiter's error, and no request is reported as remaining.  This holds for the
  gubernator client and for the Redis client alike.
\<close>

theorem rate_limit_fails_closed:
  assumes "client = Client_GetRateLimits rpc \<or> client = RedisRateLimiter_GetRateLimits lib now now'"
    and "client req (service s) = (Some (rem, resetTime, Some (LimitError e)), c')" "\<not> failOpen req"
  shows "\<exists>w' s'. rateLimiter_Handler client n req nxt r w s = (Responded (PrometheusAPIError w' e 500), s')
           \<and> header_get (wheader w') ''X-RateLimit-Remaining'' = ''0''"
  using assms gub.fail_closed rds.fail_closed by metis

theorem rate_limit_fails_closed_witness:
  "\<exists>w' s'. rateLimiter_Handler (Client_GetRateLimits (\<lambda>q c. (Inl ''unavailable'', c))) 0 (sample_request 0 0)
       forward plain_request new_writer \<lparr>limitTracker = [], service = ()\<rparr>
         = (Responded (PrometheusAPIError w' ''unavailable'' 500), s')
     \<and> header_get (wheader w') ''X-RateLimit-Remaining'' = ''0''"
  by (rule rate_limit_fails_closed [where rpc = "\<lambda>q c. (Inl ''unavailable'', c)"])
     (simp_all add: Client_GetRateLimits_def sample_request_def)

end
