(* ===== verification/Probes_API.thy ===== *)
theory Probes_API
  imports Metrics_API
begin

text \<open>
  The probes API, \<open>api/probes/v1/http.go\<close>: a proxy to one host whose director writes the tenant into a header and, for a
  POST, into the labels of the JSON body.  Numbers of a body are read as floating-point numbers and printed
  again; this rounding is a parameter.  Time limits and TLS options are left out.
\<close>

section \<open>Definitions\<close>

record 's probes_handlerOptions =
  probes_tenantHeader :: string
  probes_readMiddlewares :: "'s middleware list"
  probes_writeMiddlewares :: "'s middleware list"

type_synonym 's probes_HandlerOption = "'s probes_handlerOptions \<Rightarrow> 's probes_handlerOptions"

definition Probes_WithTenantHeader :: "string \<Rightarrow> 's probes_HandlerOption" where
  "Probes_WithTenantHeader h opts = opts\<lparr>probes_tenantHeader := h\<rparr>"

definition Probes_WithReadMiddleware :: "'s middleware \<Rightarrow> 's probes_HandlerOption" where
  "Probes_WithReadMiddleware m opts = opts\<lparr>probes_readMiddlewares := probes_readMiddlewares opts @ [m]\<rparr>"

definition Probes_WithWriteMiddleware :: "'s middleware \<Rightarrow> 's probes_HandlerOption" where
  "Probes_WithWriteMiddleware m opts = opts\<lparr>probes_writeMiddlewares := probes_writeMiddlewares opts @ [m]\<rparr>"

text \<open>The director of \<open>httputil.NewSingleHostReverseProxy\<close>, for paths without a raw form.\<close>

definition singleJoiningSlash :: "string \<Rightarrow> string \<Rightarrow> string" where
  "singleJoiningSlash a b =
     (if suffix ''/'' a \<and> prefix ''/'' b then a @ tl b
      else if \<not> suffix ''/'' a \<and> \<not> prefix ''/'' b then a @ ''/'' @ b
      else a @ b)"

definition single_host_director :: "url \<Rightarrow> director" where
  "single_host_director target req =
     (let u = URL req;
          q = (if RawQuery target = [] \<or> RawQuery u = [] then RawQuery target @ RawQuery u
               else RawQuery target @ ''&'' @ RawQuery u)
      in req\<lparr>URL := u\<lparr>Scheme := Scheme target, Host := Host target, Path := singleJoiningSlash (Path target) (Path u), RawQuery := q\<rparr>\<rparr>)"

text \<open>
  Reading a JSON value into an empty interface and printing it: of several members with the same name the last one
  counts, members are printed in the order of their names, and numbers go through \<open>float\<close>, which fails
  out of range.
\<close>

definition last_members :: "(string \<times> 'a) list \<Rightarrow> (string \<times> 'a) list" where
  "last_members ms = map (\<lambda>k. (k, the (map_of (rev ms) k))) (sort (remdups (map fst ms)))"

fun go_value :: "(string \<Rightarrow> string option) \<Rightarrow> json \<Rightarrow> json option"
and go_values :: "(string \<Rightarrow> string option) \<Rightarrow> json list \<Rightarrow> json list option"
and go_members :: "(string \<Rightarrow> string option) \<Rightarrow> (string \<times> json) list \<Rightarrow> (string \<times> json) list option" where
  "go_value float (JNum n) = map_option JNum (float n)"
| "go_value float (JArr xs) = map_option JArr (go_values float xs)"
| "go_value float (JObj ms) = map_option (\<lambda>ms'. JObj (last_members ms')) (go_members float ms)"
| "go_value float JNull = Some JNull"
| "go_value float (JBool b) = Some (JBool b)"
| "go_value float (JStr s) = Some (JStr s)"
| "go_values float [] = Some []"
| "go_values float (x # xs) =
     (case (go_value float x, go_values float xs) of (Some y, Some ys) \<Rightarrow> Some (y # ys) | _ \<Rightarrow> None)"
| "go_members float [] = Some []"
| "go_members float ((k, x) # ms) =
     (case (go_value float x, go_members float ms) of (Some y, Some ys) \<Rightarrow> Some ((k, y) # ys) | _ \<Rightarrow> None)"

text \<open>The payload as a map: nil for \<open>null\<close>, an error for anything else that is not an object.\<close>

datatype payload = BadPayload | NilPayload | Payload "(string \<times> json) list"

definition unmarshal_payload :: "(string \<Rightarrow> string option) \<Rightarrow> string \<Rightarrow> payload" where
  "unmarshal_payload float b =
     (case json_parse b of
        Some JNull \<Rightarrow> NilPayload
      | Some (JObj ms) \<Rightarrow> (case go_members float ms of Some ms' \<Rightarrow> Payload (last_members ms') | None \<Rightarrow> BadPayload)
      | _ \<Rightarrow> BadPayload)"

definition with_tenant_label :: "string \<Rightarrow> (string \<times> json) list \<Rightarrow> (string \<times> json) list" where
  "with_tenant_label tenant payload =
     (let labels = (case map_of payload ''labels'' of Some (JObj ls) \<Rightarrow> ls | _ \<Rightarrow> [])
      in AList.update ''labels'' (JObj (AList.update ''tenant'' (JStr tenant) labels)) payload)"

text \<open>Maps are printed in the order of their keys.\<close>

definition marshal_payload :: "(string \<times> json) list \<Rightarrow> string" where
  "marshal_payload payload =
     (let sorted = (\<lambda>ms. sort_key fst ms)
      in json_print (JObj (sorted (map (\<lambda>(k, x). (k, case x of JObj ls \<Rightarrow> JObj (sorted ls) | _ \<Rightarrow> x)) payload))))"

text \<open>
  The director of the probes proxy, \<open>None\<close> for a panic: assigning to the nil map of a \<open>null\<close> body.  A body that cannot be
  read is replaced by what was read before the error, here nothing.
\<close>

definition probes_director :: "(string \<Rightarrow> string option) \<Rightarrow> url \<Rightarrow> string \<Rightarrow> request \<Rightarrow> request option" where
  "probes_director float downstream tenantHeader req0 =
     (let req = single_host_director downstream req0 in
      if tenantHeader = [] then Some req
      else (case GetTenant (Ctx req) of
        (tenant, ok) \<Rightarrow>
          if \<not> ok then Some req
          else
            (let req1 = with_header (header_set tenantHeader tenant) req in
             if Method req1 \<noteq> ''POST'' then Some req1
             else (case Body req1 of
               Body_err _ \<Rightarrow> Some (req1\<lparr>Body := Body_ok []\<rparr>)
             | Body_ok b \<Rightarrow>
                 (case unmarshal_payload float b of
                    BadPayload \<Rightarrow> Some req1
                  | NilPayload \<Rightarrow> None
                  | Payload ms \<Rightarrow>
                      (let b' = marshal_payload (with_tenant_label tenant ms)
                       in Some (with_header (header_set ''Content-Length'' (itoa_nat (length b')))
                                  (req1\<lparr>Body := Body_ok b', ContentLength := int (length b')\<rparr>))))))))"

definition probes_proxy :: "(string \<Rightarrow> string option) \<Rightarrow> url \<Rightarrow> string \<Rightarrow> 's handler" where
  "probes_proxy float downstream tenantHeader r w s =
     (case probes_director float downstream tenantHeader (proxy_clone r) of
        None \<Rightarrow> (Responded (send_reply Abort w), s)
      | Some r' \<Rightarrow> ReverseProxy (\<lambda>_. r') r w s)"

definition Probes_NewHandler :: "(string \<Rightarrow> string option) \<Rightarrow> url \<Rightarrow> 's probes_HandlerOption list \<Rightarrow> 's router" where
  "Probes_NewHandler float downstream opts =
     (let c = fold (\<lambda>opt c. opt c) opts \<lparr>probes_tenantHeader = [], probes_readMiddlewares = [], probes_writeMiddlewares = []\<rparr>;
          proxyHandler = probes_proxy float downstream (probes_tenantHeader c)
      in chi_Group [] (probes_readMiddlewares c) (chi_Method ''GET'' ''/*'' proxyHandler)
       @ chi_Group [] (probes_writeMiddlewares c)
           (chi_Method ''POST'' ''/*'' proxyHandler @ chi_Method ''PATCH'' ''/*'' proxyHandler @ chi_Method ''DELETE'' ''/*'' proxyHandler))"

end
