(* ===== verification/Startup.thy ===== *)
theory Startup
  imports Flags Authenticators Redis_Limit Probes_API
begin

text \<open>
  The first part of \<open>main\<close> in \<open>main.go\<close>: the tenants file after it has been decoded, the
  configuration of the tenants' authenticators and rate limits, the durations in that file, the accessor token
  of the Alertmanager and the choice of the rate limiter.  Decoding of YAML, regular expressions and number parsing are parameters.
\<close>

section \<open>Definitions\<close>

subsection \<open>Durations of the tenants file\<close>

text \<open>
  \<open>float_ns\<close> is the conversion of a JSON number to a 64-bit integer through a floating-point number;
  \<open>ParseDuration\<close> reads texts as \<open>5m\<close>.
\<close>

record duration_lib =
  float_ns :: "string \<Rightarrow> duration option"
  ParseDuration :: "string \<Rightarrow> string + duration"

definition duration_MarshalJSON :: "duration \<Rightarrow> string" where
  "duration_MarshalJSON d = json_print (JStr (duration_string (sint d)))"

definition duration_UnmarshalJSON :: "duration_lib \<Rightarrow> string \<Rightarrow> string + duration" where
  "duration_UnmarshalJSON lib b =
     (case json_parse b of
        None \<Rightarrow> Inl ''invalid JSON''
      | Some (JNum n) \<Rightarrow> (case float_ns lib n of None \<Rightarrow> Inl ''number out of range'' | Some d \<Rightarrow> Inr d)
      | Some (JStr s) \<Rightarrow> ParseDuration lib s
      | Some _ \<Rightarrow> Inl ''invalid duration'')"

subsection \<open>Tenants\<close>

record tenant_oidc =
  to_ClientID :: string
  to_ClientSecret :: string
  to_GroupClaim :: string
  to_IssuerRawCA :: "string option"
  to_IssuerCAPath :: string
  to_IssuerURL :: string
  to_RedirectURL :: string
  to_UsernameClaim :: string
  to_config :: config

record tenant_openshift =
  ts_KubeConfigPath :: string
  ts_ServiceAccount :: string
  ts_RedirectURL :: string
  ts_CookieSecret :: string
  ts_config :: config

text \<open>A missing configuration of an authenticator is nil.\<close>

record tenant_authenticator =
  ta_Type :: string
  ta_Config :: "config option"

record tenant_rate_limit =
  rl_Endpoint :: string
  rl_Limit :: int
  rl_Window :: duration
  rl_FailOpen :: bool
  rl_RetryAfterMin :: duration
  rl_RetryAfterMax :: duration

text \<open>The structs behind pointers are options; the configuration of \<open>mTLS\<close> is its only field.\<close>

record tenant =
  tn_Name :: string
  tn_ID :: string
  tn_OIDC :: "tenant_oidc option"
  tn_OpenShift :: "tenant_openshift option"
  tn_Authenticator :: "tenant_authenticator option"
  tn_MTLS :: "config option"
  tn_RateLimits :: "tenant_rate_limit option list"

text \<open>The exported fields as \<open>json.Marshal\<close> writes them, bytes in base64 and a nil slice as null.\<close>

definition oidc_json :: "tenant_oidc \<Rightarrow> json" where
  "oidc_json t =
     JObj [(''clientID'', JStr (to_ClientID t)), (''clientSecret'', JStr (to_ClientSecret t)), (''groupClaim'', JStr (to_GroupClaim t)),
           (''issuerCA'', (case to_IssuerRawCA t of None \<Rightarrow> JNull | Some b \<Rightarrow> JStr (b64_encode b))),
           (''issuerCAPath'', JStr (to_IssuerCAPath t)), (''issuerURL'', JStr (to_IssuerURL t)),
           (''redirectURL'', JStr (to_RedirectURL t)), (''usernameClaim'', JStr (to_UsernameClaim t))]"

definition openshift_json :: "tenant_openshift \<Rightarrow> json" where
  "openshift_json t =
     JObj [(''kubeconfig'', JStr (ts_KubeConfigPath t)), (''serviceAccount'', JStr (ts_ServiceAccount t)),
           (''redirectURL'', JStr (ts_RedirectURL t)), (''cookieSecret'', JStr (ts_CookieSecret t))]"

definition unmarshalLegacyAuthenticatorConfig :: "json \<Rightarrow> string + config" where
  "unmarshalLegacyAuthenticatorConfig v =
     (case json_parse (json_print v) of
        Some (JObj ms) \<Rightarrow> Inr (last_members ms)
      | Some JNull \<Rightarrow> Inr []
      | _ \<Rightarrow> Inl ''json: cannot unmarshal'')"

text \<open>
  The loop over the tenants, for one of them: \<open>None\<close> is the panic on a nil entry, \<open>Some None\<close> a tenant that is
  skipped because of its configuration.
\<close>

definition load_tenant :: "tenant option \<Rightarrow> tenant option option" where
  "load_tenant entry =
     (case entry of
        None \<Rightarrow> None
      | Some t \<Rightarrow>
          (case (case tn_OIDC t of
                   None \<Rightarrow> Inr t
                 | Some o' \<Rightarrow>
                     (case unmarshalLegacyAuthenticatorConfig (oidc_json o') of
                        Inl e \<Rightarrow> Inl e | Inr c \<Rightarrow> Inr (t\<lparr>tn_OIDC := Some (o'\<lparr>to_config := c\<rparr>)\<rparr>))) of
             Inl _ \<Rightarrow> Some None
           | Inr t1 \<Rightarrow>
               (let t2 = (case tn_MTLS t1 of None \<Rightarrow> t1 | Some _ \<Rightarrow> t1\<lparr>tn_MTLS := Some []\<rparr>) in
                case (case tn_OpenShift t2 of
                        None \<Rightarrow> Inr t2
                      | Some o' \<Rightarrow>
                          (case unmarshalLegacyAuthenticatorConfig (openshift_json o') of
                             Inl e \<Rightarrow> Inl e | Inr c \<Rightarrow> Inr (t2\<lparr>tn_OpenShift := Some (o'\<lparr>ts_config := c\<rparr>)\<rparr>))) of
                  Inl _ \<Rightarrow> Some None
                | Inr t3 \<Rightarrow>
                    (case tn_Authenticator t3 of
                       Some a \<Rightarrow> (if ta_Config a = None then Some None else Some (Some t3))
                     | None \<Rightarrow> Some (Some t3)))))"

fun load_tenants :: "tenant option list \<Rightarrow> tenant option list option" where
  "load_tenants [] = Some []"
| "load_tenants (t # ts) =
     (case load_tenant t of
        None \<Rightarrow> None
      | Some t' \<Rightarrow> (case load_tenants ts of None \<Rightarrow> None | Some ts' \<Rightarrow> Some (t' # ts')))"

definition tenantIDs :: "tenant option list \<Rightarrow> (string \<times> string) list" where
  "tenantIDs ts = fold (\<lambda>e m. case e of None \<Rightarrow> m | Some t \<Rightarrow> AList.update (tn_Name t) (tn_ID t) m) ts []"

subsection \<open>Authenticators and rate limits\<close>

definition tenantAuthenticatorConfig :: "(string \<Rightarrow> string) \<Rightarrow> tenant \<Rightarrow> string + config \<times> string" where
  "tenantAuthenticatorConfig showq t =
     (case tn_OIDC t of
        Some o' \<Rightarrow> Inr (to_config o', ''oidc'')
      | None \<Rightarrow>
          (case tn_OpenShift t of
             Some o' \<Rightarrow> Inr (ts_config o', ''openshift'')
           | None \<Rightarrow>
               (case tn_MTLS t of
                  Some c \<Rightarrow> Inr (c, ''mtls'')
                | None \<Rightarrow>
                    (case tn_Authenticator t of
                       Some a \<Rightarrow> Inr ((case ta_Config a of None \<Rightarrow> [] | Some c \<Rightarrow> c), ta_Type a)
                     | None \<Rightarrow>
                         Inl (''tenant '' @ showq (tn_Name t) @ '' must specify either an OIDC, mTLS, openshift or a supported authenticator configuration'')))))"

text \<open>A pattern that does not compile is only logged, and the limiter gets a nil matcher.\<close>

definition rate_limit_config :: "(string \<Rightarrow> (string \<Rightarrow> bool) option) \<Rightarrow> tenant \<Rightarrow> tenant_rate_limit option \<Rightarrow> Config option" where
  "rate_limit_config compile t entry =
     map_option (\<lambda>rl.
       \<lparr>cfg_Tenant = tn_Name t, cfg_Matcher = map_option (Pair (rl_Endpoint rl)) (compile (rl_Endpoint rl)), cfg_Limit = rl_Limit rl,
        cfg_Window = rl_Window rl, cfg_FailOpen = rl_FailOpen rl, cfg_RetryAfterMin = rl_RetryAfterMin rl,
        cfg_RetryAfterMax = rl_RetryAfterMax rl\<rparr>) entry"

fun rate_limit_configs ::
    "(string \<Rightarrow> (string \<Rightarrow> bool) option) \<Rightarrow> tenant \<Rightarrow> tenant_rate_limit option list \<Rightarrow> Config list option" where
  "rate_limit_configs compile t [] = Some []"
| "rate_limit_configs compile t (e # es) =
     (case rate_limit_config compile t e of
        None \<Rightarrow> None
      | Some c \<Rightarrow> (case rate_limit_configs compile t es of None \<Rightarrow> None | Some cs \<Rightarrow> Some (c # cs)))"

text \<open>
  The loop that adds the tenants: rate limits and the tasks that initialize their providers.  A nil rate limit panics, and
  a tenant without an authenticator ends the process.
\<close>

fun add_tenants ::
    "(string \<Rightarrow> string) \<Rightarrow> (string \<Rightarrow> (string \<Rightarrow> bool) option) \<Rightarrow> tenant option list \<Rightarrow> Config list \<Rightarrow> init_task list
     \<Rightarrow> start_error + Config list \<times> init_task list" where
  "add_tenants showq compile [] rateLimits tasks = Inr (rateLimits, tasks)"
| "add_tenants showq compile (None # ts) rateLimits tasks = add_tenants showq compile ts rateLimits tasks"
| "add_tenants showq compile (Some t # ts) rateLimits tasks =
     (case rate_limit_configs compile t (tn_RateLimits t) of
        None \<Rightarrow> Inl StartPanic
      | Some cs \<Rightarrow>
          (case tenantAuthenticatorConfig showq t of
             Inl err \<Rightarrow> Inl (ConfigError err)
           | Inr (cfg, ty) \<Rightarrow> add_tenants showq compile ts (rateLimits @ cs) (tasks @ [(cfg, tn_Name t, ty)])))"

subsection \<open>The accessor token and the rate limiter\<close>

definition accessor_token :: "(string \<Rightarrow> string + string) \<Rightarrow> alertmanagerConfig \<Rightarrow> start_error + string" where
  "accessor_token readFile cfg =
     (if isEnabled cfg \<and> am_accessorTokenFile cfg \<noteq> [] then
        (case readFile (am_accessorTokenFile cfg) of
           Inl err \<Rightarrow> Inl (ConfigError (''failed to read Alertmanager accessor token file: '' @ err))
         | Inr token \<Rightarrow>
             (if trim_space token = [] then Inl (ConfigError ''Alertmanager accessor token file is empty'')
              else Inr (trim_space token)))
      else Inr [])"

text \<open>\<open>dial\<close> and \<open>redis\<close> create the clients of the two services.\<close>

definition rate_limit_client ::
    "(string \<Rightarrow> string + 'c limiter_client) \<Rightarrow> (string list \<Rightarrow> string + 'c limiter_client) \<Rightarrow> middlewareConfig
     \<Rightarrow> start_error + 'c limiter_client option" where
  "rate_limit_client dial redis cfg =
     (if grpcRateLimiterAddress cfg \<noteq> [] then
        (case dial (grpcRateLimiterAddress cfg) of Inl err \<Rightarrow> Inl (ConfigError err) | Inr c \<Rightarrow> Inr (Some c))
      else if rateLimiterType cfg = ''redis'' then
        (case redis (rateLimiterAddress cfg) of Inl err \<Rightarrow> Inl (ConfigError err) | Inr c \<Rightarrow> Inr (Some c))
      else Inr None)"

text \<open>The health checks of the process need both or none of the client's certificate and key.\<close>

definition healthcheck_tls :: "tlsConfig \<Rightarrow> start_error + bool" where
  "healthcheck_tls cfg =
     (if healthchecksClientCertFile cfg \<noteq> [] \<and> healthchecksClientKeyFile cfg \<noteq> [] then Inr True
      else if healthchecksClientCertFile cfg \<noteq> [] \<or> healthchecksClientKeyFile cfg \<noteq> [] then
        Inl (ConfigError ''both --tls.healthchecks.client-cert-file and --tls.healthchecks.client-key-file must be set together'')
      else Inr False)"

section \<open>Lemmas\<close>

lemma map_of_rev_distinct: "distinct (map fst ms) \<Longrightarrow> map_of (rev ms) = map_of ms"
  using map_of_inject_set [of "rev ms" ms] by (simp add: rev_map [symmetric])

lemma last_members_distinct:
  assumes "distinct (map fst ms)"
  shows "map_of (last_members ms) = map_of ms"
proof
  fix k
  let ?ks = "sort (remdups (map fst ms))"
  have "map_of (map (\<lambda>k. (k, the (map_of (rev ms) k))) ks) k = (if k \<in> set ks then Some (the (map_of (rev ms) k)) else None)" for ks
    by (induction ks) auto
  from this [of ?ks] have "map_of (last_members ms) k = (if k \<in> fst ` set ms then Some (the (map_of (rev ms) k)) else None)"
    by (simp add: last_members_def)
  moreover have "map_of (rev ms) k = map_of ms k" using assms by (simp add: map_of_rev_distinct)
  moreover have "k \<in> fst ` set ms \<longleftrightarrow> map_of ms k \<noteq> None" by (simp add: map_of_eq_None_iff)
  ultimately show "map_of (last_members ms) k = map_of ms k" by auto
qed

lemma unmarshalLegacy_Inr:
  assumes "json_ok (JObj ms)" "distinct (map fst ms)"
  obtains c where "unmarshalLegacyAuthenticatorConfig (JObj ms) = Inr c" "map_of c = map_of ms"
  using that [of "last_members ms"] json_parse_print [OF assms(1)] last_members_distinct [OF assms(2)]
  by (simp add: unmarshalLegacyAuthenticatorConfig_def)

text \<open>The text fields of a tenant come from a YAML document, so they are valid UTF-8.\<close>

definition oidc_utf8 :: "tenant_oidc \<Rightarrow> bool" where
  "oidc_utf8 t \<longleftrightarrow> list_all utf8_valid [to_ClientID t, to_ClientSecret t, to_GroupClaim t, to_IssuerCAPath t, to_IssuerURL t, to_RedirectURL t,
     to_UsernameClaim t]"

definition openshift_utf8 :: "tenant_openshift \<Rightarrow> bool" where
  "openshift_utf8 t \<longleftrightarrow> list_all utf8_valid [ts_KubeConfigPath t, ts_ServiceAccount t, ts_RedirectURL t, ts_CookieSecret t]"

lemma b64_ascii: "\<forall>c \<in> set (b64_encode s). byte_of c < 0x80"
proof -
  have ch: "byte_of (b64_char n) < 0x80" if "n < 64" for n
  proof -
    have "length b64_alphabet = 64" "list_all (\<lambda>c. byte_of c < 0x80) b64_alphabet" by (simp_all add: b64_alphabet_def)
    thus ?thesis using that by (simp add: b64_char_def list_all_length)
  qed
  have x: "byte_of (b64_char (x div 262144)) < 0x80" "byte_of (b64_char (x div 4096 mod 64)) < 0x80"
      "byte_of (b64_char (x div 64 mod 64)) < 0x80" "byte_of (b64_char (x mod 64)) < 0x80" if "x < 16777216" for x
    using that by (auto intro!: ch)
  have b: "byte_of a * 65536 + byte_of b * 256 + byte_of c < 16777216" "byte_of a * 65536 + byte_of b * 256 < 16777216"
      "byte_of a * 65536 < 16777216" for a b c :: char
  proof -
    have "byte_of a < 256" "byte_of b < 256" "byte_of c < 256" by simp_all
    thus "byte_of a * 65536 + byte_of b * 256 + byte_of c < 16777216" "byte_of a * 65536 + byte_of b * 256 < 16777216"
      "byte_of a * 65536 < 16777216" by linarith+
  qed
  show ?thesis
  proof (induction s rule: b64_encode.induct)
    case (2 a)
    show ?case using x(1,2) [OF b(3) [of a]] by (simp only: b64_encode.simps Let_def) auto
  next
    case (3 a b)
    show ?case using x(1-3) [OF b(2) [of a b]] by (simp only: b64_encode.simps Let_def) auto
  next
    case (4 a b c s)
    show ?case using x [OF b(1) [of a b c]] 4 by (simp only: b64_encode.simps Let_def) auto
  qed simp
qed

lemma oidc_json_legacy:
  assumes "oidc_utf8 t"
  obtains c where "unmarshalLegacyAuthenticatorConfig (oidc_json t) = Inr c" "\<And>ms. oidc_json t = JObj ms \<Longrightarrow> map_of c = map_of ms"
proof -
  have ca: "utf8_valid (b64_encode b)" for b using b64_ascii by (simp add: utf8_valid_ascii list_all_iff)
  have ks: "list_all utf8_valid [''clientID'', ''clientSecret'', ''groupClaim'', ''issuerCA'', ''issuerCAPath'', ''issuerURL'', ''redirectURL'', ''usernameClaim'']"
    by code_simp
  define ms where "ms = (case oidc_json t of JObj ms \<Rightarrow> ms | _ \<Rightarrow> [])"
  have ms: "oidc_json t = JObj ms" by (simp add: ms_def oidc_json_def)
  have "json_ok (JObj ms)" using assms ca ks by (auto simp: ms_def oidc_json_def oidc_utf8_def simp del: utf8_valid.simps split: option.splits)
  moreover have "distinct (map fst ms)" by (simp add: ms_def oidc_json_def)
  ultimately show thesis using unmarshalLegacy_Inr ms that by (metis json.inject(5))
qed

lemma openshift_json_legacy:
  assumes "openshift_utf8 t"
  obtains c where "unmarshalLegacyAuthenticatorConfig (openshift_json t) = Inr c" "\<And>ms. openshift_json t = JObj ms \<Longrightarrow> map_of c = map_of ms"
proof -
  have ks: "list_all utf8_valid [''kubeconfig'', ''serviceAccount'', ''redirectURL'', ''cookieSecret'']" by code_simp
  define ms where "ms = (case openshift_json t of JObj ms \<Rightarrow> ms | _ \<Rightarrow> [])"
  have ms: "openshift_json t = JObj ms" by (simp add: ms_def openshift_json_def)
  have "json_ok (JObj ms)" using assms ks by (simp add: ms_def openshift_json_def openshift_utf8_def del: utf8_valid.simps)
  moreover have "distinct (map fst ms)" by (simp add: ms_def openshift_json_def)
  ultimately show thesis using unmarshalLegacy_Inr ms that by (metis json.inject(5))
qed

section \<open>Properties\<close>

text \<open>
  C13. A tenant of the tenants file with valid text is skipped exactly if it names an authenticator without a configuration.
  A tenant that is not skipped gets the provider that the file gives it, OIDC before OpenShift before mTLS before the generic
  authenticator, and the provider's configuration holds every field of the section of the file under its name in the file.
\<close>

theorem tenant_authenticator_loaded:
  fixes t :: tenant
  assumes "pred_option oidc_utf8 (tn_OIDC t)" "pred_option openshift_utf8 (tn_OpenShift t)"
  shows "load_tenant (Some t) \<noteq> None
    \<and> (load_tenant (Some t) = Some None \<longleftrightarrow> (\<exists>a. tn_Authenticator t = Some a \<and> ta_Config a = None))
    \<and> (\<forall>t'. load_tenant (Some t) = Some (Some t') \<longrightarrow>
         (case (tn_OIDC t, tn_OpenShift t, tn_MTLS t, tn_Authenticator t) of
            (Some s, _, _, _) \<Rightarrow>
              (\<exists>c. tenantAuthenticatorConfig showq t' = Inr (c, ''oidc'') \<and> (\<forall>ms. oidc_json s = JObj ms \<longrightarrow> map_of c = map_of ms))
          | (None, Some s, _, _) \<Rightarrow>
              (\<exists>c. tenantAuthenticatorConfig showq t' = Inr (c, ''openshift'') \<and> (\<forall>ms. openshift_json s = JObj ms \<longrightarrow> map_of c = map_of ms))
          | (None, None, Some _, _) \<Rightarrow> tenantAuthenticatorConfig showq t' = Inr ([], ''mtls'')
          | (None, None, None, Some a) \<Rightarrow> (\<exists>c. ta_Config a = Some c \<and> tenantAuthenticatorConfig showq t' = Inr (c, ta_Type a))
          | (None, None, None, None) \<Rightarrow> (\<exists>e. tenantAuthenticatorConfig showq t' = Inl e)))"
proof -
  have "\<exists>c. \<forall>s. tn_OIDC t = Some s \<longrightarrow> unmarshalLegacyAuthenticatorConfig (oidc_json s) = Inr c \<and> (\<forall>ms. oidc_json s = JObj ms \<longrightarrow> map_of c = map_of ms)"
  proof (cases "tn_OIDC t")
    case (Some s)
    with assms(1) have "oidc_utf8 s" by simp
    then obtain c where "unmarshalLegacyAuthenticatorConfig (oidc_json s) = Inr c" "\<And>ms. oidc_json s = JObj ms \<Longrightarrow> map_of c = map_of ms"
      by (rule oidc_json_legacy) metis
    thus ?thesis using Some by auto
  qed simp
  then obtain co where co: "\<And>s. tn_OIDC t = Some s \<Longrightarrow> unmarshalLegacyAuthenticatorConfig (oidc_json s) = Inr co \<and> (\<forall>ms. oidc_json s = JObj ms \<longrightarrow> map_of co = map_of ms)"
    by blast
  have "\<exists>c. \<forall>s. tn_OpenShift t = Some s \<longrightarrow> unmarshalLegacyAuthenticatorConfig (openshift_json s) = Inr c \<and> (\<forall>ms. openshift_json s = JObj ms \<longrightarrow> map_of c = map_of ms)"
  proof (cases "tn_OpenShift t")
    case (Some s)
    with assms(2) have "openshift_utf8 s" by simp
    then obtain c where "unmarshalLegacyAuthenticatorConfig (openshift_json s) = Inr c"
        "\<And>ms. openshift_json s = JObj ms \<Longrightarrow> map_of c = map_of ms"
      by (rule openshift_json_legacy) metis
    thus ?thesis using Some by auto
  qed simp
  then obtain cs where cs: "\<And>s. tn_OpenShift t = Some s \<Longrightarrow> unmarshalLegacyAuthenticatorConfig (openshift_json s) = Inr cs \<and> (\<forall>ms. openshift_json s = JObj ms \<longrightarrow> map_of cs = map_of ms)"
    by blast
  show ?thesis
    using co cs
    apply (cases "tn_OIDC t"; cases "tn_OpenShift t"; cases "tn_MTLS t"; cases "tn_Authenticator t")
    apply (auto simp: load_tenant_def Let_def tenantAuthenticatorConfig_def)
    done
qed

text \<open>A tenant with an OIDC section is kept, and its provider is the OIDC one.\<close>

definition sample_oidc :: tenant_oidc where
  "sample_oidc = \<lparr>to_ClientID = ''gateway'', to_ClientSecret = ''s3cret'', to_GroupClaim = [], to_IssuerRawCA = None, to_IssuerCAPath = [],
     to_IssuerURL = ''https://idp'', to_RedirectURL = ''https://gw/oidc/a/callback'', to_UsernameClaim = ''email'', to_config = []\<rparr>"

definition sample_tenant :: tenant where
  "sample_tenant = \<lparr>tn_Name = ''a'', tn_ID = ''1'', tn_OIDC = Some sample_oidc, tn_OpenShift = None, tn_Authenticator = None,
     tn_MTLS = Some [], tn_RateLimits = []\<rparr>"

lemma sample_oidc_utf8: "oidc_utf8 sample_oidc"
  by code_simp

theorem tenant_authenticator_loaded_witness:
  "tn_OIDC sample_tenant = Some sample_oidc \<and> oidc_utf8 sample_oidc
   \<and> (\<exists>t c. load_tenant (Some sample_tenant) = Some (Some t) \<and> tenantAuthenticatorConfig id t = Inr (c, ''oidc'')
        \<and> map_of c ''clientSecret'' = Some (JStr ''s3cret''))"
proof -
  obtain ms where ms: "oidc_json sample_oidc = JObj ms" "map_of ms ''clientSecret'' = Some (JStr ''s3cret'')"
    by (simp add: oidc_json_def sample_oidc_def)
  have t: "tn_OIDC sample_tenant = Some sample_oidc" "tn_OpenShift sample_tenant = None" "tn_Authenticator sample_tenant = None"
    by (simp_all add: sample_tenant_def)
  have "pred_option oidc_utf8 (tn_OIDC sample_tenant)" "pred_option openshift_utf8 (tn_OpenShift sample_tenant)"
    using t sample_oidc_utf8 by simp_all
  note l = tenant_authenticator_loaded [OF this, of id]
  have "load_tenant (Some sample_tenant) \<noteq> Some None" using conjunct1 [OF conjunct2 [OF l]] t(3) by simp
  with conjunct1 [OF l] obtain t' where t': "load_tenant (Some sample_tenant) = Some (Some t')" by (metis option.exhaust)
  obtain c where c: "tenantAuthenticatorConfig id t' = Inr (c, ''oidc'')" "\<And>ms. oidc_json sample_oidc = JObj ms \<Longrightarrow> map_of c = map_of ms"
    using conjunct2 [OF conjunct2 [OF l], rule_format, OF t'] t(1) by auto
  have "map_of c ''clientSecret'' = Some (JStr ''s3cret'')" using c(2) [OF ms(1)] ms(2) by simp
  thus ?thesis using t(1) sample_oidc_utf8 t' c(1) by blast
qed

end
