(* ===== verification/Alerts_API.thy ===== *)
theory Alerts_API
  imports Metrics_API MTLS
begin

text \<open>
  Writing alerts, \<open>api/alerts/v1/http.go\<close>: the middlewares that set the headers of the request and the route whose handler
  sends the alert to all Alertmanagers.  Of the client, only the choice of the trusted roots is modelled.
\<close>

section \<open>Definitions\<close>

definition alerts_route :: string where
  "alerts_route = ''/api/v2/alerts''"

record 's alerts_handlerConfiguration =
  alerts_writeMiddlewares :: "'s middleware list"

type_synonym 's alerts_HandlerOption = "'s alerts_handlerConfiguration \<Rightarrow> 's alerts_handlerConfiguration"

definition WriteMiddleware :: "'s middleware \<Rightarrow> 's alerts_HandlerOption" where
  "WriteMiddleware m h = h\<lparr>alerts_writeMiddlewares := alerts_writeMiddlewares h @ [m]\<rparr>"

definition accessor_token_check :: "string \<Rightarrow> request \<Rightarrow> reply + request" where
  "accessor_token_check token r = Inr (with_header (header_set ''Authorization'' (''Bearer '' @ token)) r)"

definition WithAccessorToken :: "string \<Rightarrow> 's alerts_HandlerOption" where
  "WithAccessorToken token h =
     (if token = [] then h
      else h\<lparr>alerts_writeMiddlewares := alerts_writeMiddlewares h @ [guard_mw (accessor_token_check token)]\<rparr>)"

text \<open>A tenant without an entry in the map has the empty string as its ID.\<close>

definition tenant_id :: "(string \<times> string) list \<Rightarrow> string \<Rightarrow> string" where
  "tenant_id tenantIDs tenant =
     (case map_of tenantIDs tenant of Some i \<Rightarrow> (if i \<noteq> [] then i else tenant) | None \<Rightarrow> tenant)"

definition tenant_id_check :: "string \<Rightarrow> (string \<times> string) list \<Rightarrow> request \<Rightarrow> reply + request" where
  "tenant_id_check header tenantIDs r =
     (case GetTenant (Ctx r) of
        (tenant, ok) \<Rightarrow>
          if \<not> ok \<or> tenant = [] then Inl (HttpError ''tenant not found'' 400)
          else Inr (with_header (header_set header (tenant_id tenantIDs tenant)) r))"

definition Alerts_WithTenantHeader :: "string \<Rightarrow> (string \<times> string) list \<Rightarrow> 's alerts_HandlerOption" where
  "Alerts_WithTenantHeader header tenantIDs h =
     (if header = [] then h
      else h\<lparr>alerts_writeMiddlewares := alerts_writeMiddlewares h @ [guard_mw (tenant_id_check header tenantIDs)]\<rparr>)"

text \<open>The roots for the connections to the Alertmanagers: \<open>None\<close> are those of the system.\<close>

definition loadCACertPool :: "(string \<Rightarrow> string + string) \<Rightarrow> (string \<Rightarrow> 'c list) \<Rightarrow> string \<Rightarrow> 'c list option" where
  "loadCACertPool readFile parsePEM caPath =
     (if caPath = [] then None
      else (case readFile caPath of
              Inl _ \<Rightarrow> None
            | Inr pem \<Rightarrow> (if parsePEM pem = [] then None else Some (parsePEM pem))))"

record 'c tls_client_config =
  ServerName :: string
  RootCAs :: "'c list option"

definition newHTTPClient :: "'c list option \<Rightarrow> string \<Rightarrow> 'c tls_client_config option" where
  "newHTTPClient caPool serverName =
     (if caPool \<noteq> None \<or> serverName \<noteq> [] then Some \<lparr>ServerName = serverName, RootCAs = caPool\<rparr> else None)"

text \<open>
  The handler of the fan-out with the number of endpoints that take the alert counted directly; the order in which the
  goroutines end plays no role, see \<open>alertFanout_any_order\<close>.
\<close>

definition alertFanout :: "fanout_client \<Rightarrow> url list \<Rightarrow> string \<Rightarrow> 's handler" where
  "alertFanout client endpoints routePath r w s =
     (case Body r of
        Body_err _ \<Rightarrow> (Responded (http_error w ''failed to read request body'' 500), s)
      | Body_ok b \<Rightarrow>
          if endpoints = [] then (Responded (http_error w ''fanout endpoints not loaded'' 400), s)
          else (Responded (fanout_reply (length (filter (fanout_success client routePath r b) endpoints)) w), s))"

definition Alerts_NewHandler :: "fanout_client \<Rightarrow> url list \<Rightarrow> 's alerts_HandlerOption list \<Rightarrow> 's router" where
  "Alerts_NewHandler client endpoints opts =
     (let c = fold (\<lambda>opt c. opt c) opts \<lparr>alerts_writeMiddlewares = []\<rparr>
      in chi_Group [] (alerts_writeMiddlewares c)
           (chi_Method ''POST'' alerts_route (alertFanout client endpoints alerts_route)))"

section \<open>Lemmas\<close>

text \<open>The counting handler is the fan-out of the goroutines: its response is the only one that any order of theirs can give.\<close>

lemma alertFanout_any_order:
  "alertFanout client endpoints routePath r w s = (Responded w', s) \<longleftrightarrow>
   FanoutRequestToEndpoints client endpoints routePath r w w'"
proof (cases "Body r")
  case (Body_ok b)
  let ?ok = "fanout_success client routePath r b"
  have "(\<exists>n. fanout_run ?ok (endpoints, 0) ([], n) \<and> w' = fanout_reply n w) \<longleftrightarrow> w' = fanout_reply (length (filter ?ok endpoints)) w"
  proof
    assume "w' = fanout_reply (length (filter ?ok endpoints)) w"
    moreover obtain n where "fanout_run ?ok (endpoints, 0) ([], n)" using fanout_terminates by blast
    moreover from fanout_run_count [OF this] have "n = length (filter ?ok endpoints)" by simp
    ultimately show "\<exists>n. fanout_run ?ok (endpoints, 0) ([], n) \<and> w' = fanout_reply n w" by blast
  qed (auto dest!: fanout_run_count)
  thus ?thesis using Body_ok by (auto simp: alertFanout_def FanoutRequestToEndpoints_def)
qed (auto simp: alertFanout_def FanoutRequestToEndpoints_def)

end
