(* ===== verification/TLS_Config.thy ===== *)
theory TLS_Config
  imports Http_Model
begin

text \<open>
  TLS settings: the server configuration of \<open>tls/config.go\<close>, the options for upstream connections of \<open>tls/options.go\<close> and the watcher
  of the CA file, \<open>tls/ca_watcher.go\<close>.  Reading files, loading key pairs, the list of cipher suites, hashing and parsing certificates
  are parameters; version and policy numbers are those of \<open>crypto/tls\<close>.
\<close>

section \<open>Definitions\<close>

subsection \<open>Names and numbers\<close>

definition parseTLSVersion :: "string \<Rightarrow> string + nat" where
  "parseTLSVersion v =
     (if v = ''VersionTLS10'' then Inr 0x0301
      else if v = ''VersionTLS11'' then Inr 0x0302
      else if v = ''VersionTLS12'' then Inr 0x0303
      else if v = ''VersionTLS13'' then Inr 0x0304
      else Inl (''unknown TLSVersion: '' @ v))"

datatype ClientAuthType =
  NoClientCert | RequestClientCert | RequireAnyClientCert | VerifyClientCertIfGiven | RequireAndVerifyClientCert

definition parseClientAuthType :: "string \<Rightarrow> string + ClientAuthType" where
  "parseClientAuthType t =
     (if t = ''NoClientCert'' then Inr NoClientCert
      else if t = ''RequestClientCert'' then Inr RequestClientCert
      else if t = ''RequireAnyClientCert'' then Inr RequireAnyClientCert
      else if t = ''VerifyClientCertIfGiven'' then Inr VerifyClientCertIfGiven
      else if t = ''RequireAndVerifyClientCert'' then Inr RequireAndVerifyClientCert
      else Inl (''unknown ClientAuthType: '' @ t))"

definition curveIDs :: "(string \<times> nat) list" where
  "curveIDs =
     [(''X25519'', 29), (''X25519MLKEM768'', 4588), (''SecP256r1MLKEM768'', 4587), (''SecP384r1MLKEM1024'', 4589),
      (''secp256r1'', 23), (''secp384r1'', 24), (''secp521r1'', 25),
      (''CurveP521'', 25), (''CurveP256'', 23), (''CurveP384'', 24)]"

definition tlsCipherSuites :: "(string \<times> nat) list \<Rightarrow> (string \<times> nat) list \<Rightarrow> (string \<times> nat) list" where
  "tlsCipherSuites secure insecure = fold (\<lambda>(n, i). AList.update n i) insecure (fold (\<lambda>(n, i). AList.update n i) secure [])"

definition map_names :: "string \<Rightarrow> (string \<times> nat) list \<Rightarrow> string list \<Rightarrow> string + nat list" where
  "map_names what table names =
     traverse (\<lambda>n. case map_of table n of None \<Rightarrow> Inl (what @ n) | Some i \<Rightarrow> Inr i) names"

text \<open>A nil list of names gives a nil list of numbers.\<close>

definition mapCipherNamesToIDs :: "(string \<times> nat) list \<times> (string \<times> nat) list \<Rightarrow> string list option \<Rightarrow> string + nat list option" where
  "mapCipherNamesToIDs suites names =
     (case names of None \<Rightarrow> Inr None | Some ns \<Rightarrow> map_sum id Some (map_names ''unknown TLSCipherSuite: '' (tlsCipherSuites (fst suites) (snd suites)) ns))"

definition mapCurveNamesToIDs :: "string list option \<Rightarrow> string + nat list option" where
  "mapCurveNamesToIDs names =
     (case names of None \<Rightarrow> Inr None | Some ns \<Rightarrow> map_sum id Some (map_names ''unknown TLSCurve: '' curveIDs ns))"

subsection \<open>The server\<close>

record tls_files =
  LoadX509KeyPair :: "string \<Rightarrow> string \<Rightarrow> string + string"
  ReadFile :: "string \<Rightarrow> string + string"
  parse_pem :: "string \<Rightarrow> string list"

record server_config =
  Certificates :: "string list"
  CipherSuites :: "nat list option"
  CurvePreferences :: "nat list option"
  ClientAuth :: ClientAuthType
  ClientCAs :: "string list option"
  MinVersion :: nat
  MaxVersion :: nat

definition verifies_clients :: "ClientAuthType \<Rightarrow> bool" where
  "verifies_clients t = (t = RequireAndVerifyClientCert \<or> t = VerifyClientCertIfGiven)"

definition load_client_CAs :: "tls_files \<Rightarrow> string \<Rightarrow> ClientAuthType \<Rightarrow> string + string list option" where
  "load_client_CAs files clientCAFile t =
     (if clientCAFile = [] \<or> \<not> verifies_clients t then Inr None
      else (case ReadFile files clientCAFile of
              Inl err \<Rightarrow> Inl (''failed to read client CA file: '' @ err)
            | Inr caCert \<Rightarrow>
                if parse_pem files caCert = [] then Inl (''failed to parse client CA certificate from '' @ clientCAFile)
                else Inr (Some (parse_pem files caCert))))"

definition NewServerConfig ::
    "tls_files \<Rightarrow> (string \<times> nat) list \<times> (string \<times> nat) list \<Rightarrow> string \<Rightarrow> string \<Rightarrow> string \<Rightarrow> string \<Rightarrow> string \<Rightarrow> string
     \<Rightarrow> string list option \<Rightarrow> string list option \<Rightarrow> string + server_config option" where
  "NewServerConfig files suites certFile keyFile clientCAFile minVersion maxVersion clientAuthType cipherSuites curvePreferences =
     (if certFile = [] \<and> keyFile = [] then Inr None
      else (case LoadX509KeyPair files certFile keyFile of
        Inl err \<Rightarrow> Inl (''server credentials: '' @ err)
      | Inr tlsCert \<Rightarrow>
      (case parseTLSVersion minVersion of
        Inl err \<Rightarrow> Inl (''cannot parse TLS Version: '' @ err)
      | Inr tlsMinVersion \<Rightarrow>
      (case parseTLSVersion maxVersion of
        Inl err \<Rightarrow> Inl (''cannot parse TLS Version: '' @ err)
      | Inr tlsMaxVersion \<Rightarrow>
      if tlsMinVersion > tlsMaxVersion then
        Inl (''TLS minimum version can not be greater than maximum version: '' @ itoa_nat tlsMinVersion @ '' > '' @ itoa_nat tlsMaxVersion)
      else (case mapCipherNamesToIDs suites cipherSuites of
        Inl err \<Rightarrow> Inl (''TLS cipher suite name to ID conversion: '' @ err)
      | Inr cipherSuiteIDs \<Rightarrow>
      (case mapCurveNamesToIDs curvePreferences of
        Inl err \<Rightarrow> Inl (''TLS curve preference name to ID conversion: '' @ err)
      | Inr curvePreferenceIDs \<Rightarrow>
      (case parseClientAuthType clientAuthType of
        Inl err \<Rightarrow> Inl (''can not parse TLS Client authentication policy: '' @ err)
      | Inr tlsClientAuthType \<Rightarrow>
      (case load_client_CAs files clientCAFile tlsClientAuthType of
        Inl err \<Rightarrow> Inl err
      | Inr clientCAs \<Rightarrow>
          Inr (Some \<lparr>Certificates = [tlsCert], CipherSuites = cipherSuiteIDs, CurvePreferences = curvePreferenceIDs,
                     ClientAuth = tlsClientAuthType, ClientCAs = clientCAs,
                     MinVersion = tlsMinVersion, MaxVersion = tlsMaxVersion\<rparr>)))))))))"

subsection \<open>The watcher of the CA file\<close>

text \<open>
  A pool is the list of its certificates.  The files at one moment are a function from paths to a content or an error; \<open>sha256\<close>
  is the digest in hexadecimal digits.
\<close>

type_synonym fs = "string \<Rightarrow> string + string"

record caCertificateWatcher =
  certPool :: "string list"
  fileHashContent :: string
  CAPath :: string
  watch_interval :: int

definition pool :: "caCertificateWatcher \<Rightarrow> string list" where
  "pool w = certPool w"

definition hashFile :: "(string \<Rightarrow> string) \<Rightarrow> fs \<Rightarrow> string \<Rightarrow> string + string" where
  "hashFile sha256 fs file = map_sum id sha256 (fs (path_clean file))"

definition add_certs :: "(string \<Rightarrow> string list) \<Rightarrow> string \<Rightarrow> string list \<Rightarrow> string list" where
  "add_certs parse pem p = p @ filter (\<lambda>c. c \<notin> set p) (remdups (parse pem))"

text \<open>
  One round: the hash is taken from a first reading of the file, the certificates from a second one.  The error that is
  returned for certificates that do not parse is the nil one of the reading.
\<close>

definition loadCA ::
    "(string \<Rightarrow> string) \<Rightarrow> (string \<Rightarrow> string list) \<Rightarrow> fs \<Rightarrow> fs \<Rightarrow> caCertificateWatcher
     \<Rightarrow> string option \<times> caCertificateWatcher" where
  "loadCA sha256 parse first second w =
     (case hashFile sha256 first (CAPath w) of
        Inl err \<Rightarrow> (Some err, w)
      | Inr hash \<Rightarrow>
          if fileHashContent w = hash then (None, w)
          else (case second (path_clean (CAPath w)) of
                  Inl err \<Rightarrow> (Some err, w)
                | Inr caPEM \<Rightarrow>
                    if parse caPEM = [] then (None, w)
                    else (None, w\<lparr>certPool := add_certs parse caPEM (certPool w), fileHashContent := hash\<rparr>)))"

definition newCACertificateWatcher ::
    "(string \<Rightarrow> string) \<Rightarrow> (string \<Rightarrow> string list) \<Rightarrow> fs \<Rightarrow> fs \<Rightarrow> string \<Rightarrow> int \<Rightarrow> string list
     \<Rightarrow> string option \<times> caCertificateWatcher" where
  "newCACertificateWatcher sha256 parse first second path interval p =
     loadCA sha256 parse first second \<lparr>certPool = p, fileHashContent = [], CAPath = path, watch_interval = interval\<rparr>"

text \<open>The loop, over the files that its rounds find; it ends with the first error or when it is cancelled.\<close>

fun Watch ::
    "(string \<Rightarrow> string) \<Rightarrow> (string \<Rightarrow> string list) \<Rightarrow> (fs \<times> fs) list \<Rightarrow> caCertificateWatcher
     \<Rightarrow> string option \<times> caCertificateWatcher" where
  "Watch sha256 parse [] w = (None, w)"
| "Watch sha256 parse ((f, s) # rounds) w =
     (case loadCA sha256 parse f s w of
        (Some err, w') \<Rightarrow> (Some err, w')
      | (None, w') \<Rightarrow> Watch sha256 parse rounds w')"

subsection \<open>Upstream connections\<close>

record UpstreamOptions =
  uo_cert :: "string option"
  uo_ca :: string
  uo_certReloader :: "string option"
  uo_caReloader :: "caCertificateWatcher option"

definition newNoWatchers :: "tls_files \<Rightarrow> string \<Rightarrow> string \<Rightarrow> string \<Rightarrow> string + UpstreamOptions" where
  "newNoWatchers files certFile keyFile caFile =
     (case (if certFile \<noteq> [] \<and> keyFile \<noteq> [] then map_sum id Some (LoadX509KeyPair files certFile keyFile) else Inr None) of
        Inl err \<Rightarrow> Inl err
      | Inr cert \<Rightarrow>
          (case (if caFile \<noteq> [] then ReadFile files caFile else Inr []) of
             Inl err \<Rightarrow> Inl err
           | Inr ca \<Rightarrow> Inr \<lparr>uo_cert = cert, uo_ca = ca, uo_certReloader = None, uo_caReloader = None\<rparr>))"

text \<open>The reloader of certificates is library code: \<open>new_reloader\<close>.\<close>

definition newWithWatchers ::
    "(string \<Rightarrow> string \<Rightarrow> string + string) \<Rightarrow> (string \<Rightarrow> string) \<Rightarrow> tls_files \<Rightarrow> string \<Rightarrow> string \<Rightarrow> string \<Rightarrow> int \<Rightarrow> string + UpstreamOptions" where
  "newWithWatchers new_reloader sha256 files certFile keyFile caFile interval =
     (case (if certFile \<noteq> [] \<and> keyFile \<noteq> [] then map_sum id Some (new_reloader certFile keyFile) else Inr None) of
        Inl err \<Rightarrow> Inl err
      | Inr reloader \<Rightarrow>
          (case (if caFile \<noteq> [] then
                   (case newCACertificateWatcher sha256 (parse_pem files) (ReadFile files) (ReadFile files) caFile interval [] of
                      (Some err, _) \<Rightarrow> Inl err | (None, watcher) \<Rightarrow> Inr (Some watcher))
                 else Inr None) of
             Inl err \<Rightarrow> Inl err
           | Inr watcher \<Rightarrow> Inr \<lparr>uo_cert = None, uo_ca = [], uo_certReloader = reloader, uo_caReloader = watcher\<rparr>))"

definition NewUpstreamOptions ::
    "(string \<Rightarrow> string \<Rightarrow> string + string) \<Rightarrow> (string \<Rightarrow> string) \<Rightarrow> tls_files \<Rightarrow> string \<Rightarrow> string \<Rightarrow> string \<Rightarrow> int option
     \<Rightarrow> string + UpstreamOptions" where
  "NewUpstreamOptions new_reloader sha256 files certFile keyFile caFile interval =
     (case interval of
        Some i \<Rightarrow> newWithWatchers new_reloader sha256 files certFile keyFile caFile i
      | None \<Rightarrow> newNoWatchers files certFile keyFile caFile)"

definition hasCA :: "UpstreamOptions \<Rightarrow> bool" where
  "hasCA uo = (uo_ca uo \<noteq> [] \<or> uo_caReloader uo \<noteq> None)"

definition hasUpstreamCerts :: "UpstreamOptions \<Rightarrow> bool" where
  "hasUpstreamCerts uo = (uo_cert uo \<noteq> None \<or> uo_certReloader uo \<noteq> None)"

definition isCAReloadEnabled :: "UpstreamOptions \<Rightarrow> bool" where
  "isCAReloadEnabled uo = (uo_caReloader uo \<noteq> None)"

definition isCertReloaderEnabled :: "UpstreamOptions \<Rightarrow> bool" where
  "isCertReloaderEnabled uo = (uo_certReloader uo \<noteq> None)"

record client_config =
  cl_Certificates :: "string list"
  cl_GetClientCertificate :: "string option"
  cl_RootCAs :: "string list"

definition NewClientConfig :: "tls_files \<Rightarrow> UpstreamOptions \<Rightarrow> client_config option" where
  "NewClientConfig files uo =
     (if \<not> hasCA uo then None
      else Some \<lparr>cl_Certificates = (if hasUpstreamCerts uo \<and> \<not> isCertReloaderEnabled uo
                                    then (case uo_cert uo of None \<Rightarrow> [] | Some c \<Rightarrow> [c]) else []),
                 cl_GetClientCertificate = (if hasUpstreamCerts uo \<and> isCertReloaderEnabled uo then uo_certReloader uo else None),
                 cl_RootCAs = (case uo_caReloader uo of
                                 Some watcher \<Rightarrow> pool watcher
                               | None \<Rightarrow> add_certs (parse_pem files) (uo_ca uo) [])\<rparr>)"

section \<open>Lemmas\<close>

lemma loadCA_pool: "set (certPool w) \<subseteq> set (certPool (snd (loadCA sha parse f s w)))"
  by (auto simp: loadCA_def add_certs_def split: sum.splits)

text \<open>The certificates in the CA file of a watcher.\<close>

definition file_certs :: "(string \<Rightarrow> string list) \<Rightarrow> string \<Rightarrow> fs \<Rightarrow> string set" where
  "file_certs parse path fs = (case fs (path_clean path) of Inl _ \<Rightarrow> {} | Inr pem \<Rightarrow> set (parse pem))"

lemma loadCA_new:
  "set (certPool (snd (loadCA sha parse f s w))) \<subseteq> set (certPool w) \<union> file_certs parse (CAPath w) s"
  by (auto simp: loadCA_def add_certs_def file_certs_def split: sum.splits)

lemma loadCA_path: "CAPath (snd (loadCA sha parse f s w)) = CAPath w"
  by (simp add: loadCA_def split: sum.splits)

lemma map_names_Inr: "map_names what table ns = Inr is \<Longrightarrow> set is \<subseteq> snd ` set table \<and> length is = length ns"
proof
  assume a: "map_names what table ns = Inr is"
  have "\<forall>i \<in> set is. i \<in> snd ` set table"
    using a unfolding map_names_def
    by (rule traverse_Inr_all) (force split: option.splits dest: map_of_SomeD)
  thus "set is \<subseteq> snd ` set table" by blast
  show "length is = length ns" using a unfolding map_names_def by (rule traverse_Inr_length)
qed

section \<open>Properties\<close>

text \<open>
  C31. Whatever server configuration comes out of \<open>NewServerConfig\<close>: its versions are TLS 1.0 to 1.3 and the minimum is not above the
  maximum, every cipher suite and curve is one of the known ones, and if a CA file for clients is given and clients are
  verified, then the pool they are verified against is the non-empty one of that file.
\<close>

theorem server_config_valid:
  assumes "NewServerConfig files suites certFile keyFile caFile minV maxV auth ciphers curves = Inr (Some cfg)"
  shows "0x0301 \<le> MinVersion cfg \<and> MinVersion cfg \<le> MaxVersion cfg \<and> MaxVersion cfg \<le> 0x0304
       \<and> (\<forall>is. CipherSuites cfg = Some is \<longrightarrow> set is \<subseteq> snd ` set (tlsCipherSuites (fst suites) (snd suites)))
       \<and> (\<forall>is. CurvePreferences cfg = Some is \<longrightarrow> set is \<subseteq> snd ` set curveIDs)
       \<and> (verifies_clients (ClientAuth cfg) \<and> caFile \<noteq> [] \<longrightarrow>
            (\<exists>pem. ReadFile files caFile = Inr pem \<and> ClientCAs cfg = Some (parse_pem files pem) \<and> parse_pem files pem \<noteq> []))"
proof -
  obtain cert lo hi cs cu t cas where e: "parseTLSVersion minV = Inr lo" "parseTLSVersion maxV = Inr hi" "\<not> lo > hi"
      "mapCipherNamesToIDs suites ciphers = Inr cs" "mapCurveNamesToIDs curves = Inr cu" "load_client_CAs files caFile t = Inr cas"
      "cfg = \<lparr>Certificates = [cert], CipherSuites = cs, CurvePreferences = cu, ClientAuth = t, ClientCAs = cas,
              MinVersion = lo, MaxVersion = hi\<rparr>"
    using assms by (auto simp: NewServerConfig_def split: sum.splits if_splits)
  have "0x0301 \<le> lo" "hi \<le> 0x0304"
    using e(1,2) by (auto simp: parseTLSVersion_def split: if_splits)
  moreover have "\<forall>is. cs = Some is \<longrightarrow> set is \<subseteq> snd ` set (tlsCipherSuites (fst suites) (snd suites))"
    using e(4) map_names_Inr by (fastforce simp: mapCipherNamesToIDs_def map_sum_def split: option.splits sum.splits)
  moreover have "\<forall>is. cu = Some is \<longrightarrow> set is \<subseteq> snd ` set curveIDs"
    using e(5) map_names_Inr by (fastforce simp: mapCurveNamesToIDs_def map_sum_def split: option.splits sum.splits)
  moreover have "verifies_clients t \<and> caFile \<noteq> [] \<longrightarrow>
      (\<exists>pem. ReadFile files caFile = Inr pem \<and> cas = Some (parse_pem files pem) \<and> parse_pem files pem \<noteq> [])"
    using e(6) by (auto simp: load_client_CAs_def split: sum.splits if_splits)
  ultimately show ?thesis using e(3,7) by simp
qed

definition sample_files :: tls_files where
  "sample_files = \<lparr>LoadX509KeyPair = (\<lambda>c k. Inr ''pair''), ReadFile = (\<lambda>_. Inr ''pem''), parse_pem = (\<lambda>s. [s])\<rparr>"

theorem server_config_valid_witness:
  "\<exists>cfg. NewServerConfig sample_files ([], []) ''c'' ''k'' ''ca'' ''VersionTLS12'' ''VersionTLS13'' ''RequireAndVerifyClientCert'' None (Some [''X25519''])
           = Inr (Some cfg) \<and> MinVersion cfg \<le> MaxVersion cfg \<and> ClientCAs cfg = Some [''pem'']"
proof -
  have "\<exists>cfg. NewServerConfig sample_files ([], []) ''c'' ''k'' ''ca'' ''VersionTLS12'' ''VersionTLS13'' ''RequireAndVerifyClientCert'' None (Some [''X25519''])
           = Inr (Some cfg) \<and> ClientAuth cfg = RequireAndVerifyClientCert"
    by (simp add: NewServerConfig_def sample_files_def parseTLSVersion_def mapCipherNamesToIDs_def mapCurveNamesToIDs_def
        map_names_def curveIDs_def parseClientAuthType_def load_client_CAs_def verifies_clients_def)
  then obtain cfg where c: "NewServerConfig sample_files ([], []) ''c'' ''k'' ''ca'' ''VersionTLS12'' ''VersionTLS13'' ''RequireAndVerifyClientCert'' None (Some [''X25519''])
           = Inr (Some cfg)" "ClientAuth cfg = RequireAndVerifyClientCert" by blast
  have f: "ReadFile sample_files ''ca'' = Inr ''pem''" "parse_pem sample_files ''pem'' = [''pem'']" by (simp_all add: sample_files_def)
  show ?thesis using server_config_valid [OF c(1)] c f by (auto simp: verifies_clients_def)
qed

text \<open>
  Whatever the watcher finds in its rounds: no certificate leaves its pool, also when it is removed from the
  CA file, and every certificate of the pool was there before or was in the CA file in one of the rounds.
\<close>

theorem ca_pool_grows_from_file:
  "set (certPool w) \<subseteq> set (certPool (snd (Watch sha256 parse rounds w)))
   \<and> set (certPool (snd (Watch sha256 parse rounds w)))
       \<subseteq> set (certPool w) \<union> \<Union> (file_certs parse (CAPath w) ` snd ` set rounds)"
proof (induction rounds arbitrary: w)
  case (Cons rd rounds)
  obtain f s where rd: "rd = (f, s)" by fastforce
  obtain e w' where l: "loadCA sha256 parse f s w = (e, w')" by fastforce
  have "set (certPool w) \<subseteq> set (certPool w')" "set (certPool w') \<subseteq> set (certPool w) \<union> file_certs parse (CAPath w) s"
    "CAPath w' = CAPath w"
    using loadCA_pool [of w sha256 parse f s] loadCA_new [of sha256 parse f s w] loadCA_path [of sha256 parse f s w] l by simp_all
  thus ?case using Cons.IH [of w'] rd l by (cases e) auto
qed simp

text \<open>
  A CA file without a certificate is not an error: options for an upstream are made from it all the same, with an empty pool,
  so that every connection to the upstream fails later instead of the start.
\<close>

theorem unparsable_ca_accepted:
  assumes "ReadFile files (path_clean caFile) = Inr pem" "parse_pem files pem = []" "caFile \<noteq> []"
  shows "\<exists>uo. NewUpstreamOptions new_reloader sha256 files [] [] caFile (Some i) = Inr uo
           \<and> map_option cl_RootCAs (NewClientConfig files uo) = Some []"
  using assms
  by (simp add: NewUpstreamOptions_def newWithWatchers_def newCACertificateWatcher_def loadCA_def hashFile_def
      NewClientConfig_def hasCA_def pool_def)

theorem unparsable_ca_accepted_witness:
  "\<exists>uo. NewUpstreamOptions (\<lambda>c k. Inl ''unused'') (\<lambda>s. ''h'') (sample_files\<lparr>parse_pem := (\<lambda>_. [])\<rparr>) [] [] ''ca'' (Some 60) = Inr uo
           \<and> map_option cl_RootCAs (NewClientConfig (sample_files\<lparr>parse_pem := (\<lambda>_. [])\<rparr>) uo) = Some []"
  by (rule unparsable_ca_accepted [where pem = "''pem''"]) (simp_all add: sample_files_def)

end
