(* ===== verification/Gateway.thy ===== *)
theory Gateway
  imports Startup Alerts_API TLS_Config Cookie_Cipher
begin

text \<open>
  The server that \<open>main\<close> in \<open>main.go\<close> builds: the rate limiter, the routers of the APIs with the middlewares they get, the router of
  the process, and the gRPC server.  The parts that come from libraries, and the clients of remote services, are one
  record; connections to the upstreams and their TLS options are left out.
\<close>

section \<open>Definitions\<close>

text \<open>
  \<open>genv_timeout\<close> is \<open>middleware.Timeout\<close> of chi, \<open>genv_root\<close> are the middlewares of the root router, \<open>genv_paths\<close> is the list of
  patterns that chi reports for the root router.
\<close>

record ('e, 'x, 'c) gateway_env =
  genv_metrics :: "('e, 'x, 'c limit_state) metrics_env"
  genv_logs :: logs_env
  genv_mime :: mime_parser
  genv_url :: url_lib
  genv_parse_uri :: "string \<Rightarrow> string + url"
  genv_float :: "string \<Rightarrow> string option"
  genv_fanout :: fanout_client
  genv_new_local :: "nat \<Rightarrow> int \<Rightarrow> duration \<Rightarrow> 'c limit_state middleware"
  genv_timeout :: "duration \<Rightarrow> 'c limit_state middleware"
  genv_instrument :: "'c limit_state handlerInstrumenter"
  genv_root :: "'c limit_state middleware list"
  genv_paths :: "string list"
  genv_openapi :: string

text \<open>\<open>client\<close> is the shared limiter, if one is configured.  A limiter whose pattern did not compile panics: \<open>None\<close>.\<close>

definition rateLimitMiddleware ::
    "(nat \<Rightarrow> int \<Rightarrow> duration \<Rightarrow> 'c limit_state middleware) \<Rightarrow> 'c limiter_client option \<Rightarrow> Config list
     \<Rightarrow> 'c limit_state middleware option" where
  "rateLimitMiddleware new_local client rateLimits =
     (case client of
        None \<Rightarrow> Some (WithLocalRateLimiter new_local rateLimits)
      | Some rateLimitClient \<Rightarrow> WithSharedRateLimiter rateLimitClient rateLimits)"

subsection \<open>The APIs\<close>

text \<open>\<open>WithTenantLabel\<close> panics on an empty name.\<close>

definition metricsReadMiddlewares ::
    "string \<Rightarrow> 's ProviderManager \<Rightarrow> string \<Rightarrow> 's middleware \<Rightarrow> 's middleware list option" where
  "metricsReadMiddlewares tenantHeader pm tenantLabel rateLimit =
     map_option (\<lambda>tl. [WithTenantFromHeader tenantHeader, WithTenantMiddlewares [Middlewares pm], tl, rateLimit])
       (WithTenantLabel tenantLabel)"

definition metricsHandlerOptions ::
    "('e, 'x, 'c) gateway_env \<Rightarrow> metricsConfig \<Rightarrow> 'c limit_state middleware \<Rightarrow> 'c limit_state middleware list
     \<Rightarrow> 'c limit_state metrics_HandlerOption list" where
  "metricsHandlerOptions env cfg rateLimit readMiddlewares =
     (let enforce = Metrics_WithEnforceAuthorizationLabels (env_promql (genv_metrics env)) (genv_mime env)
      in [Metrics_WithHandlerInstrumenter (genv_instrument env), Metrics_WithTenantLabel (metrics_label cfg),
          Metrics_WithWriteMiddleware (WithMTLSTenantExtraction (metrics_tenantHeader cfg)), Metrics_WithWriteMiddleware rateLimit,
          Metrics_WithGlobalMiddleware readMiddlewares, Metrics_WithQueryMiddleware enforce,
          Metrics_WithReadMiddleware enforce, Metrics_WithUIMiddleware enforce])"

definition alertmanager_api ::
    "('e, 'x, 'c) gateway_env \<Rightarrow> alertmanagerConfig \<Rightarrow> string \<Rightarrow> (string \<times> string) list \<Rightarrow> 'c limit_state middleware
     \<Rightarrow> 'c limit_state router" where
  "alertmanager_api env cfg token ids rateLimit =
     chi_Group [] [genv_timeout env (am_upstreamTimeout cfg)]
       (chi_Mount ''/api/alertmanager/v2''
          (Alerts_NewHandler (genv_fanout env) (am_endpoints cfg)
             [WriteMiddleware (WithMTLSTenantExtraction (am_tenantHeader cfg)),
              Alerts_WithTenantHeader (am_tenantHeader cfg) ids, WithAccessorToken token, WriteMiddleware rateLimit]))"

definition legacy_api ::
    "('e, 'x, 'c) gateway_env \<Rightarrow> metricsConfig \<Rightarrow> 'c limit_state middleware list \<Rightarrow> 'c limit_state router" where
  "legacy_api env cfg readMiddlewares =
     chi_Mount ''/api/v1''
       (Legacy_NewHandler (genv_url env) (metrics_readEndpoint cfg)
          [Legacy_WithHandlerInstrumenter (genv_instrument env), Legacy_WithGlobalMiddleware readMiddlewares,
           Legacy_WithGlobalMiddleware [Metrics_WithEnforceAuthorizationLabels (env_promql (genv_metrics env)) (genv_mime env)]])"

definition probes_api ::
    "('e, 'x, 'c) gateway_env \<Rightarrow> probesConfig \<Rightarrow> 'c limit_state ProviderManager \<Rightarrow> 'c limit_state middleware
     \<Rightarrow> 'c limit_state router" where
  "probes_api env cfg pm rateLimit =
     (if \<not> probes_enabled cfg then []
      else (case probes_endpoint cfg of
        None \<Rightarrow> []
      | Some u \<Rightarrow>
          chi_Mount ''/api/metrics/v1/probes''
            (Probes_NewHandler (genv_float env) u
               [Probes_WithTenantHeader (probes_header cfg),
                Probes_WithReadMiddleware (WithTenantFromHeader (probes_header cfg)),
                Probes_WithReadMiddleware (WithTenantMiddlewares [Middlewares pm]), Probes_WithReadMiddleware rateLimit,
                Probes_WithWriteMiddleware (WithTenantFromHeader (probes_header cfg)),
                Probes_WithWriteMiddleware (WithTenantMiddlewares [Middlewares pm]), Probes_WithWriteMiddleware rateLimit])))"

definition metrics_endpoints :: "metricsConfig \<Rightarrow> Endpoints" where
  "metrics_endpoints cfg =
     \<lparr>ReadEndpoint = metrics_readEndpoint cfg, WriteEndpoint = metrics_writeEndpoint cfg, RulesEndpoint = metrics_rulesEndpoint cfg,
      AlertmanagerEndpoint = metrics_alertmanagerEndpoint cfg\<rparr>"

text \<open>The legacy API and the probes share the group of the metrics API.\<close>

definition metrics_api ::
    "('e, 'x, 'c) gateway_env \<Rightarrow> metricsConfig \<Rightarrow> probesConfig \<Rightarrow> 'c limit_state ProviderManager \<Rightarrow> 'c limit_state middleware
     \<Rightarrow> 'c limit_state router option" where
  "metrics_api env cfg probes pm rateLimit =
     (case metricsReadMiddlewares (metrics_tenantHeader cfg) pm (metrics_label cfg) rateLimit of
        None \<Rightarrow> None
      | Some readMiddlewares \<Rightarrow>
          Some (chi_Group [] [genv_timeout env (metrics_upstreamWriteTimeout cfg)]
            (legacy_api env cfg readMiddlewares @ probes_api env probes pm rateLimit
           @ chi_Mount ''/api/metrics/v1''
               (Metrics_NewHandler (genv_metrics env) (metrics_endpoints cfg) (metricsHandlerOptions env cfg rateLimit readMiddlewares)))))"

definition logsHandlerOptions ::
    "('e, 'x, 'c) gateway_env \<Rightarrow> logsConfig \<Rightarrow> 'c limit_state ProviderManager \<Rightarrow> 'c limit_state middleware
     \<Rightarrow> 'c limit_state logs_HandlerOption list" where
  "logsHandlerOptions env cfg pm tenantLabel =
     [Logs_WithHandlerInstrumenter (genv_instrument env),
      Logs_WithWriteMiddleware (WithMTLSTenantExtraction (logs_tenantHeader cfg)),
      Logs_WithReadMiddleware (WithTenantFromHeader (logs_tenantHeader cfg)),
      Logs_WithReadMiddleware (WithTenantMiddlewares [Middlewares pm]), Logs_WithReadMiddleware tenantLabel,
      Logs_WithReadMiddleware (Logs_WithEnforceAuthorizationLabels (genv_logs env) (genv_mime env)),
      WithRulesReadMiddleware WithEnforceTenantAsRuleNamespace, WithRulesWriteMiddleware WithEnforceTenantAsRuleNamespace,
      WithRulesWriteMiddleware (WithEnforceRuleLabels (env_yaml (genv_metrics env)) (logs_tenantLabel cfg)),
      WithRulesLabelFilters (logs_labelFilters cfg)]"

definition logs_api ::
    "('e, 'x, 'c) gateway_env \<Rightarrow> logsConfig \<Rightarrow> 'c limit_state ProviderManager \<Rightarrow> 'c limit_state router option" where
  "logs_api env cfg pm =
     map_option (\<lambda>tenantLabel.
       chi_Group [] [genv_timeout env (logs_upstreamWriteTimeout cfg)]
         (chi_Mount ''/api/logs/v1''
            (Logs_NewHandler (logs_readEndpoint cfg) (logs_tailEndpoint cfg) (logs_writeEndpoint cfg) (logs_rulesEndpoint cfg)
               (logs_rulesReadOnly cfg) (logsHandlerOptions env cfg pm tenantLabel))))
       (WithTenantLabel (logs_tenantLabel cfg))"

definition tracesHandlerOptions ::
    "('e, 'x, 'c) gateway_env \<Rightarrow> tracesConfig \<Rightarrow> 'c limit_state ProviderManager \<Rightarrow> 'c limit_state traces_HandlerOption list" where
  "tracesHandlerOptions env cfg pm =
     [Traces_WithHandlerInstrumenter (genv_instrument env), WithSpanRoutePrefix ''/api/traces/v1'',
      Traces_WithWriteMiddleware (WithMTLSTenantExtraction (traces_tenantHeader cfg)),
      Traces_WithReadMiddleware (WithTenantFromHeader (traces_tenantHeader cfg)),
      Traces_WithReadMiddleware (WithTenantMiddlewares [Middlewares pm])]"

text \<open>There are no routes for traces, the write route included, without an endpoint to read from.\<close>

definition traces_api ::
    "('e, 'x, 'c) gateway_env \<Rightarrow> tracesConfig \<Rightarrow> 'c limit_state ProviderManager \<Rightarrow> 'c limit_state router option" where
  "traces_api env cfg pm =
     (if traces_enabled cfg \<and> (traces_readEndpoint cfg \<noteq> None \<or> traces_readTemplateEndpoint cfg \<noteq> [] \<or> traces_tempoEndpoint cfg \<noteq> None) then
        map_option (\<lambda>rs. chi_Group [] [genv_timeout env (traces_upstreamWriteTimeout cfg)] (chi_Mount ''/api/traces/v1'' rs))
          (NewV2Handler (genv_parse_uri env) (traces_readEndpoint cfg) (traces_readTemplateEndpoint cfg) (traces_tempoEndpoint cfg)
             (traces_writeOTLPHTTPEndpoint cfg) (tracesHandlerOptions env cfg pm))
      else Some [])"

subsection \<open>The server\<close>

text \<open>
  The routes of the providers, once they are initialized: each pattern is mounted once, whatever the number of its tenants.
\<close>

definition authn_routes :: "'s ProviderManager \<Rightarrow> 's router" where
  "authn_routes pm = concat (map (\<lambda>(pattern, _). chi_MountHandler pattern (PatternHandler pm pattern)) (patternHandlers pm))"

definition blockNonDefinedMethods :: "'s handler" where
  "blockNonDefinedMethods r w s = (Responded (write_header 405 w), s)"

definition openapi_handler :: "string \<Rightarrow> 's handler" where
  "openapi_handler spec r w s = (Responded (write_body spec w), s)"

definition api_routes ::
    "('e, 'x, 'c) gateway_env \<Rightarrow> gateway_config \<Rightarrow> 'c limiter_client option \<Rightarrow> string \<Rightarrow> (string \<times> string) list \<Rightarrow> Config list
     \<Rightarrow> 'c limit_state ProviderManager \<Rightarrow> 'c limit_state router option" where
  "api_routes env cfg client token ids rateLimits pm =
     (let rl = rateLimitMiddleware (genv_new_local env) client rateLimits;
          am = (if isEnabled (cfg_alertmanager cfg)
                then map_option (alertmanager_api env (cfg_alertmanager cfg) token ids) rl else Some []);
          metrics = (if metrics_enabled (cfg_metrics cfg)
                     then Option.bind rl (metrics_api env (cfg_metrics cfg) (cfg_probes cfg) pm) else Some []);
          logs = (if logs_enabled (cfg_logs cfg) then logs_api env (cfg_logs cfg) pm else Some []);
          traces = traces_api env (cfg_traces cfg) pm
      in case (am, metrics, logs, traces) of
           (Some a, Some m, Some l, Some t) \<Rightarrow> Some (authn_routes pm @ a @ m @ l @ t)
         | _ \<Rightarrow> None)"

definition gateway_routes ::
    "('e, 'x, 'c) gateway_env \<Rightarrow> gateway_config \<Rightarrow> 'c limiter_client option \<Rightarrow> string \<Rightarrow> (string \<times> string) list \<Rightarrow> Config list
     \<Rightarrow> 'c limit_state ProviderManager \<Rightarrow> 'c limit_state router option" where
  "gateway_routes env cfg client token ids rateLimits pm =
     map_option (\<lambda>rs. chi_Group [] [WithAccessToken] rs
                   @ chi_Method ''GET'' ''/openapi.yaml'' (openapi_handler (genv_openapi env))
                   @ chi_Method ''GET'' ''/'' (PathsHandlerFunc (genv_paths env)))
       (api_routes env cfg client token ids rateLimits pm)"

definition gateway_ServeHTTP :: "('e, 'x, 'c) gateway_env \<Rightarrow> chi_finder \<Rightarrow> 'c limit_state router \<Rightarrow> 'c limit_state handler" where
  "gateway_ServeHTTP env finder routes =
     chain (genv_root env) (router_ServeHTTP finder (WithAccessToken blockNonDefinedMethods) routes)"

text \<open>
  The start of the process up to the router, once the flags are parsed and the tenants file is decoded: the accessor token, the
  tenants, the client of the rate limiter, the TLS files of the health check, and then the loop over the tenants, which
  gives the rate limits and the tasks that initialize the providers.
\<close>

record 'c start_env =
  st_readFile :: "string \<Rightarrow> string + string"
  st_compile :: "string \<Rightarrow> (string \<Rightarrow> bool) option"
  st_showq :: "string \<Rightarrow> string"
  st_dial :: "string \<Rightarrow> string + 'c limiter_client"
  st_redis :: "string list \<Rightarrow> string + 'c limiter_client"

record 'c started =
  sd_token :: string
  sd_ids :: "(string \<times> string) list"
  sd_client :: "'c limiter_client option"
  sd_rateLimits :: "Config list"
  sd_tasks :: "init_task list"

definition gateway_start :: "'c start_env \<Rightarrow> gateway_config \<Rightarrow> tenant option list \<Rightarrow> start_error + 'c started" where
  "gateway_start se cfg tenants =
     (if \<not> something_enabled cfg then
        Inl (ConfigError ''Neither logging, metrics, traces, probes, nor alertmanager endpoints are enabled. Specifying at least one endpoint is mandatory'')
      else case accessor_token (st_readFile se) (cfg_alertmanager cfg) of
        Inl e \<Rightarrow> Inl e
      | Inr token \<Rightarrow>
          (case load_tenants tenants of
             None \<Rightarrow> Inl StartPanic
           | Some ts \<Rightarrow>
               (case rate_limit_client (st_dial se) (st_redis se) (cfg_middleware cfg) of
                  Inl e \<Rightarrow> Inl e
                | Inr client \<Rightarrow>
                    (case (if healthcheckURL (cfg_server cfg) \<noteq> [] then healthcheck_tls (cfg_tls cfg) else Inr False) of
                       Inl e \<Rightarrow> Inl e
                     | Inr _ \<Rightarrow>
                         (case add_tenants (st_showq se) (st_compile se) ts [] [] of
                            Inl e \<Rightarrow> Inl e
                          | Inr (rateLimits, tasks) \<Rightarrow>
                              Inr \<lparr>sd_token = token, sd_ids = tenantIDs ts, sd_client = client, sd_rateLimits = rateLimits, sd_tasks = tasks\<rparr>)))))"

definition started_routes ::
    "('e, 'x, 'c) gateway_env \<Rightarrow> gateway_config \<Rightarrow> 'c started \<Rightarrow> 'c limit_state ProviderManager \<Rightarrow> 'c limit_state router option" where
  "started_routes env cfg sd pm = gateway_routes env cfg (sd_client sd) (sd_token sd) (sd_ids sd) (sd_rateLimits sd) pm"

subsection \<open>The gRPC server\<close>

text \<open>Only one method is proxied; the metadata of a call, the tenant among them, goes on to the collector.\<close>

datatype 'conn proxied = Proxied 'conn "(string \<times> string list) list" | NotProxied grpc_code string

definition grpc_director :: "(string \<times> 'conn) list \<Rightarrow> string \<Rightarrow> stream \<Rightarrow> 'conn proxied" where
  "grpc_director proxiedServers fullMethodName ss =
     (case map_of proxiedServers fullMethodName of
        Some conn \<Rightarrow> Proxied conn (case smd ss of None \<Rightarrow> [] | Some md \<Rightarrow> md)
      | None \<Rightarrow> NotProxied Unimplemented ''Unknown method'')"

definition grpc_call :: "string \<Rightarrow> 'conn \<Rightarrow> string \<Rightarrow> stream \<Rightarrow> 'conn proxied option" where
  "grpc_call tenantHeader connOtel fullMethodName ss =
     (case WithGRPCMTLSTenantExtraction tenantHeader Handled ss of
        Handled ss' \<Rightarrow> Some (grpc_director [(TraceRoute, connOtel)] fullMethodName ss')
      | _ \<Rightarrow> None)"

end
