(* ===== verification/Gateway_Contracts.thy ===== *)
theory Gateway_Contracts
  imports Gateway
begin

text \<open>
  What every route of the gateway guarantees of the requests it sends to an upstream.  The locale \<open>transparent_parts\<close> is the contract
  of the library middlewares; each router of an API is shown to meet its part of the guarantee, and the router of
  the process all of it.
\<close>

named_theorems keeping

section \<open>Contracts of the middlewares\<close>

text \<open>A middleware that keeps the identity of a request: its subject, its tenant and its connection.\<close>

definition keeps :: "request \<Rightarrow> request \<Rightarrow> bool" where
  "keeps r r' \<longleftrightarrow> subjectKey (Ctx r') = subjectKey (Ctx r) \<and> tenantKey (Ctx r') = tenantKey (Ctx r) \<and> TLS r' = TLS r"

lemma keeps_refl [simp]: "keeps r r"
  by (simp add: keeps_def)

lemma keeps_trans [trans]: "keeps r r1 \<Longrightarrow> keeps r1 r2 \<Longrightarrow> keeps r r2"
  by (simp add: keeps_def)

lemma enforces_mono: "enforces Q mw \<Longrightarrow> (\<And>r r'. Q r r' \<Longrightarrow> P r r') \<Longrightarrow> enforces P mw"
  by (rule middleware_contract.weaken [OF middleware_contract.intro])

lemma enforces_eq_keeps: "enforces (\<lambda>r r'. r' = r) mw \<Longrightarrow> enforces keeps mw"
  by (erule enforces_mono) simp

lemma StripPrefix_keeps [keeping]: "p \<noteq> [] \<Longrightarrow> enforces keeps (StripPrefix p)"
  by (rule enforces_mono [OF StripPrefix_enforces]) (auto simp: keeps_def)

lemma tenant_label_keeps [keeping]: "enforces keeps (guard_mw (tenant_label_check label))"
  by (rule guard_mw_enforces)
     (auto simp: tenant_label_check_def keeps_def WithData_def Let_def split: prod.splits if_splits sum.splits)

lemma enforceRequestQueryLabels_identity:
  "enforceRequestQueryLabels pq mime ms p r = Inr r' \<Longrightarrow> Ctx r' = Ctx r \<and> TLS r' = TLS r \<and> Method r' = Method r \<and> Path (URL r') = Path (URL r)"
  by (auto simp: enforceRequestQueryLabels_def enforce_url_def enforce_body_def Let_def split: sum.splits if_splits option.splits prod.splits)

lemma metrics_authz_keeps [keeping]: "enforces keeps (Metrics_WithEnforceAuthorizationLabels pq mime)"
  unfolding Metrics_WithEnforceAuthorizationLabels_def
  by (rule guard_mw_enforces)
     (auto simp: metrics_authz_check_def keeps_def split: prod.splits if_splits option.splits dest!: enforceRequestQueryLabels_identity)

lemma enforceRequestLogQL_identity:
  "enforceRequestLogQL env mime d r = Inr r' \<Longrightarrow> Ctx r' = Ctx r \<and> TLS r' = TLS r \<and> Method r' = Method r \<and> Path (URL r') = Path (URL r)"
  by (auto simp: enforceRequestLogQL_def Let_def split: sum.splits if_splits)

lemma logs_authz_keeps [keeping]: "enforces keeps (Logs_WithEnforceAuthorizationLabels env mime)"
  unfolding Logs_WithEnforceAuthorizationLabels_def
  by (rule guard_mw_enforces)
     (auto simp: logs_authz_check_def keeps_def split: prod.splits if_splits option.splits sum.splits dest!: enforceRequestLogQL_identity)

lemma alertmanager_keeps [keeping]:
  "enforces keeps (WithEnforceTenancyOnFilter parse str label)"
  "enforces keeps (WithEnforceTenancyOnSilenceMatchers codec label)"
  "enforces keeps (WithEnforceTenancyOnSilenceID store label)"
proof -
  show "enforces keeps (WithEnforceTenancyOnFilter parse str label)"
    unfolding WithEnforceTenancyOnFilter_def
    by (rule guard_mw_enforces) (auto simp: filter_check_def keeps_def Let_def split: prod.splits if_splits option.splits)
  show "enforces keeps (WithEnforceTenancyOnSilenceMatchers codec label)"
    unfolding WithEnforceTenancyOnSilenceMatchers_def
    by (rule guard_mw_enforces) (auto simp: silence_check_def keeps_def Let_def split: prod.splits if_splits option.splits sum.splits)
  show "enforces keeps (WithEnforceTenancyOnSilenceID store label)"
    unfolding WithEnforceTenancyOnSilenceID_def
    by (rule guard_mw_enforces)
       (auto simp: silence_id_check_def keeps_def Let_def split: prod.splits if_splits option.splits sum.splits silence_error.splits bool.splits)
qed

lemma rules_keep [keeping]:
  "enforces keeps WithEnforceTenantAsRuleNamespace" "enforces keeps (WithEnforceRuleLabels yaml label)"
proof -
  show "enforces keeps WithEnforceTenantAsRuleNamespace"
    unfolding WithEnforceTenantAsRuleNamespace_def
    by (rule guard_mw_enforces) (auto simp: rule_namespace_check_def keeps_def Let_def split: prod.splits if_splits)
  show "enforces keeps (WithEnforceRuleLabels yaml label)"
    unfolding WithEnforceRuleLabels_def
    by (rule guard_mw_enforces) (auto simp: rule_labels_check_def keeps_def split: prod.splits if_splits sum.splits)
qed

text \<open>The rate limiters call the next handler with the request they got.\<close>

lemma rateLimiter_Handler_enforces: "enforces (\<lambda>r r'. r' = r) (rateLimiter_Handler client n req)"
proof (rule enforcesI)
  fix nxt :: "'a limit_state handler" and r :: request and w s
  show "(\<exists>w' s'. rateLimiter_Handler client n req nxt r w s = (Responded w', s'))
      \<or> (\<exists>r' w' s'. r' = r \<and> rateLimiter_Handler client n req nxt r w s = nxt r' w' s')"
    unfolding rateLimiter_Handler_def Let_def case_prod_unfold
    by (cases "fst (client req (service s))"; cases "snd (snd (the (fst (client req (service s)))))") auto
qed

lemma shared_limiter_enforces: "WithSharedRateLimiter client configs = Some rl \<Longrightarrow> enforces (\<lambda>r r'. r' = r) rl"
proof -
  assume "WithSharedRateLimiter client configs = Some rl"
  then obtain mws where mws: "shared_middlewares client 0 configs [] = Some mws" "rl = combine mws"
    by (auto simp: WithSharedRateLimiter_def)
  have "enforces (\<lambda>r r'. r' = r) h" if "map_of mws t = Some ms" "(m, h) \<in> set ms" for t ms m h
    using that shared_middlewares_lookup [OF mws(1), of t] rateLimiter_Handler_enforces
    by (auto simp: limiter_of_def split: if_splits)
  thus ?thesis unfolding mws(2) by (rule combine_enforces)
qed

lemma local_middlewares:
  assumes "\<And>t ms m h. map_of mws t = Some ms \<Longrightarrow> (m, h) \<in> set ms \<Longrightarrow> P h" "\<And>n l d. P (new_local n l d)"
    and "map_of (fold (\<lambda>(n, c) mws. append_middleware (cfg_Tenant c) (cfg_Matcher c, new_local n (cfg_Limit c) (cfg_Window c)) mws)
           ncs mws) t = Some ms" "(m, h) \<in> set ms"
  shows "P h"
  using assms(1,3,4)
proof (induction ncs arbitrary: mws)
  case (Cons nc ncs)
  obtain n c where nc: "nc = (n, c)" by fastforce
  let ?mws = "append_middleware (cfg_Tenant c) (cfg_Matcher c, new_local n (cfg_Limit c) (cfg_Window c)) mws"
  have "P h" if "map_of ?mws t = Some ms" "(m, h) \<in> set ms" for t ms m h
    using that Cons.prems(1) assms(2) by (fastforce simp: append_middleware_lookup split: if_splits option.splits)
  from Cons.IH [OF this] Cons.prems(2,3) show ?case by (simp add: nc)
next
  case Nil
  from Nil(2) have "map_of mws t = Some ms" by simp
  from Nil(1) [OF this Nil(3)] show ?case .
qed

lemma rateLimitMiddleware_enforces:
  assumes "rateLimitMiddleware new_local client configs = Some rl" "\<And>n l d. enforces (\<lambda>r r'. r' = r) (new_local n l d)"
  shows "enforces (\<lambda>r r'. r' = r) rl"
proof (cases client)
  case None
  hence "rl = WithLocalRateLimiter new_local configs" using assms(1) by (simp add: rateLimitMiddleware_def)
  moreover have "enforces (\<lambda>r r'. r' = r) (WithLocalRateLimiter new_local configs)"
    unfolding WithLocalRateLimiter_def
  proof (rule combine_enforces)
    fix t ms m h
    assume "map_of (fold (\<lambda>(n, c) mws. append_middleware (cfg_Tenant c) (cfg_Matcher c, new_local n (cfg_Limit c) (cfg_Window c)) mws)
           (enumerate 0 configs) []) t = Some ms" "(m, h) \<in> set ms"
    thus "enforces (\<lambda>r r'. r' = r) h"
      by (rule local_middlewares [where P = "enforces (\<lambda>r r'. r' = r)", rotated 2]) (simp_all add: assms(2))
  qed
  ultimately show ?thesis by simp
next
  case (Some cl)
  thus ?thesis using assms(1) by (auto simp: rateLimitMiddleware_def intro: shared_limiter_enforces)
qed

text \<open>
  \<open>identified r r'\<close>: the request \<open>r'\<close> has a subject, or it is for the tenant that the client certificate of \<open>r\<close> names.
\<close>

definition identified :: "request \<Rightarrow> request \<Rightarrow> bool" where
  "identified r r' \<longleftrightarrow> subjectKey (Ctx r') \<noteq> None \<or> (\<exists>t. cert_tenant (TLS r) = Some t \<and> tenantKey (Ctx r') = Some t)"

lemma identified_keeps: "identified r r1 \<Longrightarrow> keeps r1 r' \<Longrightarrow> identified r r'"
  by (auto simp: identified_def keeps_def)

lemma keeps_identified: "TLS r1 = TLS r \<Longrightarrow> identified r1 r' \<Longrightarrow> identified r r'"
  by (auto simp: identified_def)

lemma mtls_identified: "enforces identified (WithMTLSTenantExtraction h)"
  by (rule enforces_mono [OF mtls_tenant.contract]) (auto simp: identified_def set_tenant_def)

lemma manager_identified: "manager_ok pm \<Longrightarrow> enforces identified (WithTenantMiddlewares [Middlewares pm])"
  by (rule enforces_mono [OF manager_authenticates(1)]) (auto simp: identified_def authenticated_def)

lemma header_same_connection: "enforces (\<lambda>r r'. TLS r' = TLS r) (WithTenantFromHeader h)"
  by (rule enforces_mono [OF tenant_header.contract]) (auto simp: set_tenant_def)

text \<open>A chain that identifies the request at its head, or after the tenant header, and keeps the identity from there on.\<close>

lemma chain_keeps: "(\<And>m. m \<in> set mws \<Longrightarrow> enforces keeps m) \<Longrightarrow> enforces keeps (chain mws)"
  by (rule chain_enforces) (auto intro: keeps_trans)

lemma chain_identified:
  assumes "enforces identified m" "\<And>m. m \<in> set mws \<Longrightarrow> enforces keeps m"
  shows "enforces identified (chain (m # mws))" "enforces identified (chain (WithTenantFromHeader h # m # mws))"
proof -
  have c: "enforces identified (m \<circ> chain mws)"
    by (rule enforces_mono [OF enforces_comp [OF assms(1) chain_keeps]]) (auto intro: assms(2) identified_keeps)
  thus "enforces identified (chain (m # mws))" by simp
  have "enforces identified (WithTenantFromHeader h \<circ> (m \<circ> chain mws))"
    by (rule enforces_mono [OF enforces_comp [OF header_same_connection c]]) (auto intro: keeps_identified)
  thus "enforces identified (chain (WithTenantFromHeader h # m # mws))" by simp
qed

section \<open>Contracts of the proxies\<close>

lemma upstream_keeps [keeping]: "keeps r (outgoing (upstream_director u) r)"
  by (simp add: keeps_def outgoing_def)

lemma routes_keep_proxy [keeping]:
  "routes_forward (\<lambda>_. keeps) (chi_Handle pat (ReverseProxy (upstream_director u)))"
  "routes_forward (\<lambda>_. keeps) (chi_Method m pat (ReverseProxy (upstream_director u)))"
  "routes_forward (\<lambda>_. keeps) (chi_MountHandler pat (ReverseProxy (upstream_director u)))"
  by (auto simp: chi_MountHandler_def intro!: routes_forward_proxy upstream_keeps)

section \<open>Contracts of the routers\<close>

text \<open>
  The library middlewares pass requests on unchanged, as far as the model has them: time limits, instrumentation, the local rate
  limiter and the middlewares of the root router (request IDs, recovery from panics, throttling, logging).
\<close>

locale transparent_parts =
  fixes env :: "('e, 'x, 'c) gateway_env"
  assumes local_limiter: "\<And>n l d. enforces (\<lambda>r r'. r' = r) (genv_new_local env n l d)"
    and timeout: "\<And>d. enforces (\<lambda>r r'. r' = r) (genv_timeout env d)"
    and instrument: "\<And>ls. enforces (\<lambda>r r'. r' = r) (genv_instrument env ls)"
    and root: "\<And>m. m \<in> set (genv_root env) \<Longrightarrow> enforces (\<lambda>r r'. r' = r) m"

lemma enforces_eq_chain:
  "(\<And>m. m \<in> set mws \<Longrightarrow> enforces (\<lambda>r r'. r' = r) m) \<Longrightarrow> enforces (\<lambda>r r'. r' = r) (chain mws)"
  by (rule chain_enforces) auto

lemma routes_forward_transparent:
  assumes "routes_forward P rs" "\<And>m. m \<in> set mws \<Longrightarrow> enforces (\<lambda>r r'. r' = r) m"
  shows "routes_forward P (chi_Group ls mws rs)"
  by (rule routes_forward_Group [OF assms(1) enforces_eq_chain]) (use assms(2) in auto)

lemma routes_identified_Group:
  assumes "routes_forward (\<lambda>_. keeps) rs" "enforces identified (chain mws)"
  shows "routes_forward (\<lambda>_. identified) (chi_Group ls mws rs)"
  by (rule routes_forward_Group [OF assms]) (rule identified_keeps)

lemma routes_forward_concat: "(\<And>x. x \<in> set xs \<Longrightarrow> routes_forward P (f x)) \<Longrightarrow> routes_forward P (concat (map f xs))"
  by (induction xs) auto

subsection \<open>Metrics\<close>

lemma metrics_configuration:
  fixes env :: "('e, 'x, 'c) gateway_env"
  defines "enforce \<equiv> Metrics_WithEnforceAuthorizationLabels (env_promql (genv_metrics env)) (genv_mime env) :: 'c limit_state middleware"
  shows "fold (\<lambda>opt c. opt c) (metricsHandlerOptions env cfg rl mws) metrics_defaults =
     \<lparr>metrics_instrument = genv_instrument env, metrics_tenantLabel = metrics_label cfg, metrics_queryMiddlewares = mws @ [enforce],
      metrics_readMiddlewares = mws @ [enforce], metrics_uiMiddlewares = mws @ [enforce],
      metrics_writeMiddlewares = [WithMTLSTenantExtraction (metrics_tenantHeader cfg), rl],
      metrics_alertmanagerMiddleware =
        \<lparr>alertsReadMiddlewares = mws, silenceReadMiddlewares = mws, silenceWriteMiddlewares = mws, silenceIDReadMiddlewares = mws,
         silenceIDWriteMiddlewares = mws\<rparr>\<rparr>"
  by (simp add: metricsHandlerOptions_def Let_def metrics_defaults_def Metrics_WithHandlerInstrumenter_def Metrics_WithTenantLabel_def
      Metrics_WithWriteMiddleware_def Metrics_WithGlobalMiddleware_def Metrics_WithQueryMiddleware_def Metrics_WithReadMiddleware_def
      Metrics_WithUIMiddleware_def with_alertmanager_def enforce_def)

text \<open>The router meets what its groups of routes meet.\<close>

lemma routes_forward_Metrics:
  assumes "fold (\<lambda>opt c. opt c) opts metrics_defaults = c" "enforces (\<lambda>r r'. r' = r) (metrics_instrument c None)"
    and "\<And>u. ReadEndpoint eps = Some u \<Longrightarrow> routes_forward P (metrics_read_routes c u)"
    and "\<And>u. WriteEndpoint eps = Some u \<Longrightarrow> routes_forward P (metrics_write_routes c u)"
    and "\<And>cl. routes_forward P (metrics_rules_routes env c cl)"
    and "\<And>u. AlertmanagerEndpoint eps = Some u \<Longrightarrow> routes_forward P (metrics_alertmanager_routes env c u)"
  shows "routes_forward P (Metrics_NewHandler env eps opts)"
  unfolding Metrics_NewHandler_def Let_def assms(1)
  by (rule routes_forward_transparent) (use assms(2-6) in \<open>auto split: option.splits sum.splits\<close>)

lemma rulesHandler_never:
  "rulesHandler_get pq yaml client l r w s \<noteq> (Forwarded r' w', s')" "rulesHandler_put pq yaml client l r w s \<noteq> (Forwarded r' w', s')"
  by (auto simp: rulesHandler_get_def rulesHandler_put_def Let_def
      split: prod.splits if_splits option.splits sum.splits body.splits)

lemma legacyProxy_keeps: "routes_forward (\<lambda>_. keeps) (chi_Handle pat (legacyProxy u))"
  by (auto simp: routes_forward_def handler_forwards_def chi_Handle_def legacyProxy_def keeps_def proxy_Middlewares_def
      MiddlewareSetUpstream_def outgoing_def split: option.splits dest!: ReverseProxy_forwarded)

lemma probes_director_keeps: "probes_director float u h r = Some r' \<Longrightarrow> keeps r r'"
  by (auto simp: probes_director_def Let_def keeps_def single_host_director_def split: prod.splits if_splits body.splits payload.splits)

lemma probes_proxy_keeps: "routes_forward (\<lambda>_. keeps) (chi_Method m pat (probes_proxy float u h))"
proof -
  have "keeps r r'" if f: "probes_proxy float u h r w s = (Forwarded r' w', s')" for r w s r' w' s'
  proof -
    from f obtain r1 where r1: "probes_director float u h (proxy_clone r) = Some r1" "r' = outgoing (\<lambda>_. r1) r"
      by (auto simp: probes_proxy_def split: option.splits dest!: ReverseProxy_forwarded)
    have "keeps r (proxy_clone r)" by (simp add: keeps_def)
    also have "keeps (proxy_clone r) r1" using r1(1) by (rule probes_director_keeps)
    finally have "keeps r r1" .
    thus ?thesis by (simp add: r1(2) keeps_def outgoing_def)
  qed
  thus ?thesis by (auto simp: routes_forward_def handler_forwards_def chi_Method_def)
qed

lemma read_chain_identified:
  assumes "metricsReadMiddlewares hdr pm label rl = Some mws" "manager_ok pm" "enforces (\<lambda>r r'. r' = r) rl"
    and "\<And>m. m \<in> set ms \<Longrightarrow> enforces keeps m"
  shows "enforces identified (chain (mws @ ms))"
proof -
  have mws: "mws = [WithTenantFromHeader hdr, WithTenantMiddlewares [Middlewares pm], guard_mw (tenant_label_check label), rl]"
    using assms(1) by (auto simp: metricsReadMiddlewares_def WithTenantLabel_def split: if_splits)
  have "enforces identified (chain (WithTenantFromHeader hdr # WithTenantMiddlewares [Middlewares pm] # guard_mw (tenant_label_check label) # rl # ms))"
    using chain_identified(2) [OF manager_identified [OF assms(2)], of "guard_mw (tenant_label_check label) # rl # ms"] assms(3,4)
    by (auto intro: keeping enforces_eq_keeps)
  thus ?thesis by (simp add: mws o_assoc)
qed

context transparent_parts
begin

lemma metrics_routes_identified:
  assumes "metricsReadMiddlewares hdr pm label rl = Some mws" "manager_ok pm" "enforces (\<lambda>r r'. r' = r) rl"
  shows "routes_forward (\<lambda>_. identified) (Metrics_NewHandler (genv_metrics env) eps (metricsHandlerOptions env cfg rl mws))"
proof -
  let ?c = "fold (\<lambda>opt c. opt c) (metricsHandlerOptions env cfg rl mws) metrics_defaults"
  note chains = read_chain_identified [OF assms] and c = metrics_configuration [of env cfg rl mws]
  have wr: "enforces identified (chain (WithMTLSTenantExtraction (metrics_tenantHeader cfg) # rl # ms))"
    if "\<And>m. m \<in> set ms \<Longrightarrow> enforces keeps m" for ms
    using chain_identified(1) [OF mtls_identified, of "rl # ms"] that assms(3) by (auto intro: keeping enforces_eq_keeps)
  have "routes_forward (\<lambda>_. identified) (metrics_read_routes ?c u)" for u
    by (auto simp: metrics_read_routes_def Let_def c simp del: chain_simps intro!: routes_identified_Group chains keeping)
  moreover have "routes_forward (\<lambda>_. identified) (metrics_write_routes ?c u)" for u
    by (auto simp: metrics_write_routes_def c simp del: chain_simps intro!: routes_identified_Group wr keeping)
  moreover have "routes_forward (\<lambda>_. identified) (metrics_rules_routes (genv_metrics env) ?c cl)" for cl
    by (auto simp: metrics_rules_routes_def Let_def c simp del: chain_simps
        intro!: routes_identified_Group chains wr keeping routes_forward_never rulesHandler_never)
  moreover have "routes_forward (\<lambda>_. identified) (metrics_alertmanager_routes (genv_metrics env) ?c u)" for u
    by (auto simp: metrics_alertmanager_routes_def Let_def c simp del: chain_simps
        intro!: routes_identified_Group chains keeping)
  ultimately show ?thesis
    by (intro routes_forward_Metrics [OF refl]) (simp_all add: c instrument)
qed

lemma legacy_routes_identified:
  assumes "metricsReadMiddlewares hdr pm label rl = Some mws" "manager_ok pm" "enforces (\<lambda>r r'. r' = r) rl"
  shows "routes_forward (\<lambda>_. identified) (legacy_api env cfg mws)"
proof -
  let ?enforce = "Metrics_WithEnforceAuthorizationLabels (env_promql (genv_metrics env)) (genv_mime env) :: 'c limit_state middleware"
  have c: "fold (\<lambda>opt c. opt c) [Legacy_WithHandlerInstrumenter (genv_instrument env), Legacy_WithGlobalMiddleware mws,
      Legacy_WithGlobalMiddleware [?enforce]] \<lparr>legacy_instrument = nopInstrumentHandler, legacy_queryMiddlewares = [], legacy_uiMiddlewares = []\<rparr>
    = \<lparr>legacy_instrument = genv_instrument env, legacy_queryMiddlewares = mws @ [?enforce], legacy_uiMiddlewares = mws @ [?enforce]\<rparr>"
    by (simp add: Legacy_WithHandlerInstrumenter_def Legacy_WithGlobalMiddleware_def)
  have ch: "enforces identified (chain (mws @ [?enforce]))"
    by (rule read_chain_identified [OF assms]) (auto intro: keeping)
  have g: "routes_forward (\<lambda>_. keeps) (chi_Handle pat (legacy_graph lib))" for pat lib
    by (rule routes_forward_never) (simp add: legacy_graph_def Let_def)
  show ?thesis
    unfolding legacy_api_def Legacy_NewHandler_def Let_def c
    by (rule routes_forward_Mount, rule routes_forward_transparent)
       (simp_all add: routes_identified_Group [OF legacyProxy_keeps ch] routes_identified_Group [OF g ch] instrument del: chain_simps)
qed

lemma probes_routes_identified:
  assumes "manager_ok pm" "enforces (\<lambda>r r'. r' = r) rl"
  shows "routes_forward (\<lambda>_. identified) (probes_api env cfg pm rl)"
proof -
  have c: "enforces identified (chain [WithTenantFromHeader h, WithTenantMiddlewares [Middlewares pm], rl])" for h
    using chain_identified(2) [OF manager_identified [OF assms(1)], of "[rl]"] assms(2) by (auto intro: enforces_eq_keeps)
  show ?thesis
    unfolding probes_api_def Probes_NewHandler_def Let_def
    by (auto simp: Probes_WithTenantHeader_def Probes_WithReadMiddleware_def Probes_WithWriteMiddleware_def simp del: chain_simps
        split: option.splits intro!: routes_forward_Mount routes_identified_Group c probes_proxy_keeps)
qed

end

subsection \<open>Logs\<close>

lemma logs_configuration:
  "fold (\<lambda>opt c. opt c) (logsHandlerOptions env cfg pm tlab) logs_defaults =
     \<lparr>logs_instrument = genv_instrument env, logs_rulesLabelFilters = logs_labelFilters cfg,
      logs_readMiddlewares = [WithTenantFromHeader (logs_tenantHeader cfg), WithTenantMiddlewares [Middlewares pm], tlab,
        Logs_WithEnforceAuthorizationLabels (genv_logs env) (genv_mime env)],
      logs_writeMiddlewares = [WithMTLSTenantExtraction (logs_tenantHeader cfg)],
      logs_rulesReadMiddlewares = [WithEnforceTenantAsRuleNamespace],
      logs_rulesWriteMiddlewares = [WithEnforceTenantAsRuleNamespace, WithEnforceRuleLabels (env_yaml (genv_metrics env)) (logs_tenantLabel cfg)]\<rparr>"
  by (simp add: logsHandlerOptions_def logs_defaults_def Logs_WithHandlerInstrumenter_def Logs_WithWriteMiddleware_def
      Logs_WithReadMiddleware_def WithRulesReadMiddleware_def WithRulesWriteMiddleware_def WithRulesLabelFilters_def)

lemma routes_forward_Logs:
  assumes "fold (\<lambda>opt c. opt c) opts logs_defaults = c"
    and "\<And>u. read = Some u \<Longrightarrow> routes_forward P (logs_read_routes c u)" "\<And>u. tail = Some u \<Longrightarrow> routes_forward P (logs_tail_routes c u)"
    and "\<And>u. write = Some u \<Longrightarrow> routes_forward P (logs_write_routes c u)"
    and "\<And>u. rules = Some u \<Longrightarrow> routes_forward P (logs_rules_read_routes c u) \<and> routes_forward P (logs_rules_write_routes c u)"
  shows "routes_forward P (Logs_NewHandler read tail write rules ro opts)"
  unfolding Logs_NewHandler_def Let_def assms(1) using assms(2-5) by (auto split: option.splits)

context transparent_parts
begin

lemma routes_forward_instrumented:
  "routes_forward P (reg pat h) \<Longrightarrow> routes_forward P (instrumented (genv_instrument env) grp reg pat handler h)"
  unfolding instrumented_def Let_def by (rule routes_forward_transparent) (use instrument in auto)

text \<open>A group of instrumented proxies behind a chain that identifies the request.\<close>

lemma routes_identified_instrumented:
  assumes "enforces identified (chain mws)"
  shows "routes_forward (\<lambda>_. identified) (chi_Group ls mws (concat (map (\<lambda>(pat, handler).
      instrumented (genv_instrument env) grp chi_Handle pat handler (ReverseProxy (upstream_director u))) xs)))"
    and "routes_forward (\<lambda>_. identified) (chi_Group ls mws (concat (map (\<lambda>(pat, handler).
      instrumented (genv_instrument env) grp (chi_Method m) pat handler (ReverseProxy (upstream_director u))) xs)))"
    and "routes_forward (\<lambda>_. identified) (chi_Group ls mws (concat (map (\<lambda>(m, pat).
      instrumented (genv_instrument env) grp (chi_Method m) pat handler (ReverseProxy (upstream_director u))) xs)))"
  by (rule routes_identified_Group [OF routes_forward_concat assms], clarify, rule routes_forward_instrumented, rule keeping)+

lemma logs_routes_identified:
  assumes "logs_api env cfg pm = Some rs" "manager_ok pm"
  shows "routes_forward (\<lambda>_. identified) rs"
proof -
  define tlab :: "'c limit_state middleware" where "tlab = guard_mw (tenant_label_check (logs_tenantLabel cfg))"
  have tlab: "enforces keeps tlab" unfolding tlab_def by (rule tenant_label_keeps)
  define c where "c = fold (\<lambda>opt c. opt c) (logsHandlerOptions env cfg pm tlab) logs_defaults"
  note c = logs_configuration [of env cfg pm tlab, folded c_def]
  have rd: "enforces identified (chain (logs_readMiddlewares c @ ms))" if "\<And>m. m \<in> set ms \<Longrightarrow> enforces keeps m" for ms
    using chain_identified(2) [OF manager_identified [OF assms(2)],
        of "tlab # Logs_WithEnforceAuthorizationLabels (genv_logs env) (genv_mime env) # ms"] that tlab
    unfolding c by (auto intro: keeping simp del: chain_simps)
  have wr: "enforces identified (chain (logs_writeMiddlewares c @ ms))" if "\<And>m. m \<in> set ms \<Longrightarrow> enforces keeps m" for ms
    using chain_identified(1) [OF mtls_identified, of ms] that unfolding c by (auto simp del: chain_simps)
  have i: "logs_instrument c = genv_instrument env" by (simp add: c)
  have strip: "enforces keeps m" if "m \<in> set [StripPrefix ''/api/logs/v1'']" for m :: "'c limit_state middleware"
    using that by (auto intro: keeping)
  have rules: "enforces keeps m" if "m \<in> set (logs_rulesReadMiddlewares c) \<union> set (logs_rulesWriteMiddlewares c)" for m
    using that by (auto simp: c intro: keeping)
  have "routes_forward (\<lambda>_. identified) (logs_read_routes c u)" for u
    unfolding logs_read_routes_def i by (rule routes_identified_instrumented rd strip)+
  moreover have "routes_forward (\<lambda>_. identified) (logs_tail_routes c u)" for u
    unfolding logs_tail_routes_def i
    by (rule routes_identified_Group) (auto simp del: chain_simps intro!: rd strip routes_forward_instrumented keeping)
  moreover have "routes_forward (\<lambda>_. identified) (logs_write_routes c u)" for u
    unfolding logs_write_routes_def i
    by (rule routes_identified_Group) (auto simp del: chain_simps intro!: wr strip routes_forward_instrumented keeping)
  moreover have "routes_forward (\<lambda>_. identified) (logs_rules_read_routes c u)" for u
    unfolding logs_rules_read_routes_def i by (rule routes_identified_instrumented, rule rd) (use strip rules in auto)
  moreover have "routes_forward (\<lambda>_. identified) (logs_rules_write_routes c u)" for u
    unfolding logs_rules_write_routes_def i by (rule routes_identified_instrumented, rule wr) (use rules in auto)
  ultimately have "routes_forward (\<lambda>_. identified) (Logs_NewHandler (logs_readEndpoint cfg) (logs_tailEndpoint cfg) (logs_writeEndpoint cfg)
      (logs_rulesEndpoint cfg) (logs_rulesReadOnly cfg) (logsHandlerOptions env cfg pm tlab))"
    by (intro routes_forward_Logs [OF c_def [symmetric]]) auto
  thus ?thesis
    using assms(1) timeout
    by (auto simp: logs_api_def WithTenantLabel_def tlab_def split: if_splits intro!: routes_forward_transparent routes_forward_Mount)
qed

end

subsection \<open>Traces\<close>

lemma traces_proxyRead_keeps: "routes_forward (\<lambda>_. keeps) (chi_Method m pat (traces_proxyRead parse read tmpl))"
proof -
  have "keeps r r'" if f: "traces_proxyRead parse read tmpl r w s = (Forwarded r' w', s')" for r w s r' w' s'
  proof -
    from f obtain u where "r' = with_header (header_del ''Accept-Encoding'') (outgoing (upstream_director u) r)"
      by (auto simp: traces_proxyRead_def decompressingTransport_def middlewareSetTemplatedUpstream_def
          split: option.splits prod.splits outcome.splits dest!: ReverseProxy_forwarded)
    thus ?thesis using upstream_keeps [of r u] by (simp add: keeps_def)
  qed
  thus ?thesis by (auto simp: routes_forward_def handler_forwards_def chi_Method_def)
qed

context transparent_parts
begin

lemma traces_configuration:
  "fold (\<lambda>opt c. opt c) (tracesHandlerOptions env cfg pm) traces_defaults =
     \<lparr>traces_instrument = genv_instrument env, traces_spanRoutePrefix = ''/api/traces/v1'',
      traces_readMiddlewares = [WithTenantFromHeader (traces_tenantHeader cfg), WithTenantMiddlewares [Middlewares pm]],
      traces_writeMiddlewares = [WithMTLSTenantExtraction (traces_tenantHeader cfg)], traces_tempoMiddlewares = []\<rparr>"
  by (simp add: tracesHandlerOptions_def traces_defaults_def Traces_WithHandlerInstrumenter_def WithSpanRoutePrefix_def
      Traces_WithWriteMiddleware_def Traces_WithReadMiddleware_def)

lemma traces_routes_identified:
  assumes "traces_api env cfg pm = Some rs" "manager_ok pm" "traces_tempoEndpoint cfg = None"
  shows "routes_forward (\<lambda>_. identified) rs"
proof -
  define c where "c = fold (\<lambda>opt c. opt c) (tracesHandlerOptions env cfg pm) traces_defaults"
  note c = traces_configuration [of cfg pm, folded c_def]
  have rd: "enforces identified (chain (traces_readMiddlewares c))"
    using chain_identified(2) [OF manager_identified [OF assms(2)], of "[]"] unfolding c by simp
  have wr: "enforces identified (chain (traces_writeMiddlewares c))"
    using chain_identified(1) [OF mtls_identified, of "[]"] unfolding c by simp
  have i: "traces_instrument c = genv_instrument env" by (simp add: c)
  have "routes_forward (\<lambda>_. identified) (traces_read_routes (genv_parse_uri env) c read tmpl)" for read tmpl
    unfolding traces_read_routes_def i
    by (rule routes_identified_Group [OF routes_forward_concat rd], clarify, rule routes_forward_instrumented, rule traces_proxyRead_keeps)
  moreover have "routes_forward (\<lambda>_. identified) (traces_write_routes c u)" for u
    unfolding traces_write_routes_def i
    by (rule routes_identified_Group [OF routes_forward_instrumented wr]) (rule keeping)
  ultimately have "routes_forward (\<lambda>_. identified) rs'" 
    if "NewV2Handler (genv_parse_uri env) (traces_readEndpoint cfg) (traces_readTemplateEndpoint cfg) None
      (traces_writeOTLPHTTPEndpoint cfg) (tracesHandlerOptions env cfg pm) = Some rs'" for rs'
    using that by (auto simp: NewV2Handler_def c_def [symmetric] split: if_splits option.splits)
  thus ?thesis
    using assms(1,3) timeout
    by (auto simp: traces_api_def split: if_splits intro!: routes_forward_transparent routes_forward_Mount)
qed

end

subsection \<open>The server\<close>

text \<open>Requests from the network carry no tenant in their context, so the login routes answer by themselves.\<close>

lemma authn_routes_forward: "routes_forward (\<lambda>_ r r'. tenantKey (Ctx r) \<noteq> None) (authn_routes pm)"
  unfolding authn_routes_def
  by (rule routes_forward_concat)
     (auto simp: chi_MountHandler_def chi_Handle_def routes_forward_def handler_forwards_def PatternHandler_def GetTenant_def split: option.splits)

lemma routes_forward_Group_never:
  assumes "routes_forward (\<lambda>_ _ _. False) rs" "\<And>m. m \<in> set mws \<Longrightarrow> enforces (\<lambda>_ _. True) m"
  shows "routes_forward P (chi_Group ls mws rs)"
proof -
  have "enforces (\<lambda>_ _. True) (chain mws)" by (rule chain_enforces) (auto intro: assms(2))
  from routes_forward_Group [OF assms(1) this] show ?thesis by blast
qed

context transparent_parts
begin

lemma alertmanager_routes:
  assumes "enforces (\<lambda>r r'. r' = r) rl"
  shows "routes_forward P (alertmanager_api env cfg token ids rl)"
proof -
  have "routes_forward (\<lambda>_ _ _. False) (chi_Method m pat (alertFanout cl eps p))" for m pat cl eps p
    by (rule routes_forward_never) (auto simp: alertFanout_def split: body.splits)
  moreover have "enforces (\<lambda>_ _. True) (guard_mw chk)" for chk by (rule guard_mw_enforces) simp
  moreover have "enforces (\<lambda>_ _. True) rl" by (rule enforces_mono [OF assms]) simp
  ultimately show ?thesis
    unfolding alertmanager_api_def Alerts_NewHandler_def Let_def
    by (intro routes_forward_transparent routes_forward_Mount routes_forward_Group_never)
       (auto simp: WriteMiddleware_def Alerts_WithTenantHeader_def WithAccessorToken_def WithMTLSTenantExtraction_def
         split: if_splits intro: timeout)
qed

lemma api_routes_identified:
  assumes "api_routes env cfg client token ids limits pm = Some rs" "manager_ok pm" "traces_tempoEndpoint (cfg_traces cfg) = None"
  shows "routes_forward (\<lambda>_ r r'. tenantKey (Ctx r) = None \<longrightarrow> identified r r') rs"
proof -
  let ?P = "\<lambda>_ r r'. tenantKey (Ctx r) = None \<longrightarrow> identified r r'"
  have id: "routes_forward (\<lambda>_. identified) rs \<Longrightarrow> routes_forward ?P rs" for rs :: "'c limit_state router"
    by (erule routes_forward_mono) simp
  have "routes_forward ?P (authn_routes pm)" by (rule routes_forward_mono [OF authn_routes_forward]) auto
  moreover have "routes_forward ?P m"
    if "rateLimitMiddleware (genv_new_local env) client limits = Some rl" "metrics_api env mc pc pm rl = Some m" for m rl mc pc
  proof (rule id)
    note l = rateLimitMiddleware_enforces [OF that(1) local_limiter]
    from that(2) obtain mws where mws: "metricsReadMiddlewares (metrics_tenantHeader mc) pm (metrics_label mc) rl = Some mws"
      and m: "m = chi_Group [] [genv_timeout env (metrics_upstreamWriteTimeout mc)] (legacy_api env mc mws @ probes_api env pc pm rl
         @ chi_Mount ''/api/metrics/v1'' (Metrics_NewHandler (genv_metrics env) (metrics_endpoints mc) (metricsHandlerOptions env mc rl mws)))"
      by (auto simp: metrics_api_def split: option.splits)
    show "routes_forward (\<lambda>_. identified) m"
      unfolding m
      by (rule routes_forward_transparent)
         (auto simp: timeout legacy_routes_identified [OF mws assms(2) l] probes_routes_identified [OF assms(2) l]
           intro!: routes_forward_Mount metrics_routes_identified [OF mws assms(2) l])
  qed
  moreover have "routes_forward ?P (alertmanager_api env ac token ids rl)"
    if "rateLimitMiddleware (genv_new_local env) client limits = Some rl" for rl ac
    by (rule alertmanager_routes [OF rateLimitMiddleware_enforces [OF that local_limiter]])
  moreover have "routes_forward ?P l" if "logs_api env lc pm = Some l" for l lc
    by (rule id [OF logs_routes_identified [OF that assms(2)]])
  moreover have "routes_forward ?P t" if "traces_api env (cfg_traces cfg) pm = Some t" for t
    by (rule id [OF traces_routes_identified [OF that assms(2,3)]])
  ultimately show ?thesis
    using assms(1)
    by (auto simp: api_routes_def Let_def bind_eq_Some_conv split: option.splits if_splits)
qed

end

text \<open>Chi only chooses routes that exist.\<close>

definition finder_ok :: "chi_finder \<Rightarrow> bool" where
  "finder_ok finder \<longleftrightarrow> (\<forall>ks r i ps. finder ks r = Chosen i ps \<longrightarrow> i < length ks)"

lemma WithAccessToken_keeps: "enforces keeps WithAccessToken"
  by (rule enforces_pass, unfold WithAccessToken_def Let_def, rule refl) (simp add: keeps_def)

context transparent_parts
begin

lemma gateway_routes_identified:
  assumes "gateway_routes env cfg client token ids limits pm = Some rs" "manager_ok pm" "traces_tempoEndpoint (cfg_traces cfg) = None"
  shows "routes_forward (\<lambda>_ r r'. tenantKey (Ctx r) = None \<longrightarrow> identified r r') rs"
proof -
  from assms(1) obtain rs' where rs': "api_routes env cfg client token ids limits pm = Some rs'"
    and rs: "rs = chi_Group [] [WithAccessToken] rs' @ chi_Method ''GET'' ''/openapi.yaml'' (openapi_handler (genv_openapi env))
                   @ chi_Method ''GET'' ''/'' (PathsHandlerFunc (genv_paths env))"
    by (auto simp: gateway_routes_def)
  have "enforces keeps (chain [WithAccessToken :: 'c limit_state middleware])" by (simp add: WithAccessToken_keeps)
  from routes_forward_Group [OF api_routes_identified [OF rs' assms(2,3)] this]
  have "routes_forward (\<lambda>_ r r'. tenantKey (Ctx r) = None \<longrightarrow> identified r r') (chi_Group [] [WithAccessToken] rs')"
    by (auto simp: keeps_def identified_def)
  thus ?thesis unfolding rs by (auto simp: openapi_handler_def PathsHandlerFunc_def intro!: routes_forward_never)
qed

text \<open>The handler of the server: what it forwards was sent by one of its routes.\<close>

lemma gateway_forwarded:
  assumes "gateway_ServeHTTP env finder rs r w s = (Forwarded r' w', s')" "routes_forward P rs"
    and "finder_ok finder"
  obtains i ps where "finder (route_keys rs) r = Chosen i ps" "i < length rs" "P (rpattern (rs ! i)) (with_params ps r) r'"
proof -
  have "enforces (\<lambda>r r'. r' = r) (chain (genv_root env))" by (rule enforces_eq_chain) (rule root)
  from enforces_call [OF this assms(1) [unfolded gateway_ServeHTTP_def]]
  obtain w1 s1 where f: "router_ServeHTTP finder (WithAccessToken blockNonDefinedMethods) rs r w1 s1 = (Forwarded r' w', s')" by metis
  have "i < length rs" if "finder (route_keys rs) r = Chosen i ps" for i ps
    using assms(3) that unfolding finder_ok_def by (metis length_map route_keys_def)
  thus thesis
    by (rule router_forwarded [OF assms(2) f])
       (use that in \<open>auto simp: WithAccessToken_def blockNonDefinedMethods_def Let_def\<close>)
qed

end

end
