(* ===== verification/Gateway_Tenancy.thy ===== *)
theory Gateway_Tenancy
  imports Gateway_Contracts
begin

text \<open>
  Tenancy of the routes, up to the request that leaves the gateway: the tenant header of writes, and the selectors of metric queries as the
  upstream reads them, for the path it is asked for.
\<close>

section \<open>Paths\<close>

text \<open>A path whose last element is an ordinary name keeps it when it is joined to the path of an upstream.\<close>

lemma split_on_last: "c \<notin> set x \<Longrightarrow> split_on c (a @ c # x) = split_on c a @ [x]"
proof (induction a)
  case (Cons y a)
  then show ?case by (cases "split_on c a") auto
qed (simp add: split_on_no_sep)

lemma join_snoc: "join sep (ys @ [x]) = (if ys = [] then x else join sep ys @ sep @ x)"
proof (induction ys)
  case (Cons y ys)
  then show ?case by (cases ys) (auto simp: join_Cons)
qed simp

definition ordinary_name :: "string \<Rightarrow> bool" where
  "ordinary_name x \<longleftrightarrow> CHR ''/'' \<notin> set x \<and> x \<noteq> [] \<and> x \<noteq> ''.'' \<and> x \<noteq> ''..''"

lemma clean_parts_last: "ordinary_name x \<Longrightarrow> clean_parts rooted acc (ps @ [x]) = clean_parts rooted acc ps @ [x]"
  by (induction rooted acc ps rule: clean_parts.induct) (auto simp: ordinary_name_def split: list.splits)

lemma path_clean_last:
  assumes "ordinary_name x" "prefix ''/'' (a @ ''/'' @ x)"
  shows "\<exists>b. path_clean (a @ ''/'' @ x) = b @ ''/'' @ x"
proof -
  have "split_on (CHR ''/'') (a @ ''/'' @ x) = split_on (CHR ''/'') a @ [x]"
    using assms(1) by (simp add: split_on_last ordinary_name_def)
  hence "path_clean (a @ ''/'' @ x) = ''/'' @ join ''/'' (clean_parts True [] (split_on (CHR ''/'') a) @ [x])"
    using assms by (simp add: path_clean_def Let_def clean_parts_last)
  thus ?thesis by (auto simp: join_snoc)
qed

lemma path_join_last:
  assumes "ordinary_name x" "prefix ''/'' (a @ ''/'' @ x)" "up = [] \<or> prefix ''/'' up"
  shows "\<exists>b. path_join [up, a @ ''/'' @ x] = b @ ''/'' @ x"
proof (cases "up = []")
  case True
  thus ?thesis using path_clean_last [OF assms(1,2)] by (simp add: path_join_def)
next
  case False
  hence "prefix ''/'' ((up @ ''/'' @ a) @ ''/'' @ x)" using assms(3) by auto
  from path_clean_last [OF assms(1) this] show ?thesis using False by (simp add: path_join_def)
qed

lemma suffix_last: "CHR ''/'' \<notin> set x \<Longrightarrow> CHR ''/'' \<notin> set y \<Longrightarrow> suffix (''/'' @ y) (b @ ''/'' @ x) \<longleftrightarrow> x = y"
  by (auto simp: suffix_def append_eq_append_conv2 append_eq_Cons_conv Cons_eq_append_conv)

lemma metricSelectorParam_last:
  "CHR ''/'' \<notin> set x \<Longrightarrow> metricSelectorParam (b @ ''/'' @ x) =
     (if x \<in> set [''series'', ''labels'', ''values'', ''rules'', ''federate''] then ''match[]'' else ''query'')"
  using suffix_last [of x "''series''" b] suffix_last [of x "''labels''" b] suffix_last [of x "''values''" b] suffix_last [of x "''rules''" b]
    suffix_last [of x "''federate''" b]
  by (simp add: metricSelectorParam_def)

text \<open>The enforcer looks at the path of the request, the upstream at its own: both name the same parameter.\<close>

lemma metricSelectorParam_proxied:
  assumes "prefix (p @ ''/'') path" "path = a @ ''/'' @ x" "ordinary_name x" "up = [] \<or> prefix ''/'' up"
  shows "metricSelectorParam (path_join [up, drop (length p) path]) = metricSelectorParam path"
proof -
  from assms(1) obtain q where q: "path = p @ ''/'' @ q" by (auto simp: prefix_def)
  have "\<exists>a'. drop (length p) path = a' @ ''/'' @ x"
  proof (cases "length p \<le> length a")
    case True
    thus ?thesis by (simp add: assms(2))
  next
    case False
    then obtain x' where "p = a @ ''/'' @ x'" 
      using q assms(2) by (auto simp: append_eq_append_conv2 Cons_eq_append_conv)
    hence "x = x' @ ''/'' @ q" using q assms(2) by simp
    thus ?thesis using assms(3) by (simp add: ordinary_name_def)
  qed
  then obtain a' where a': "drop (length p) path = a' @ ''/'' @ x" by blast
  moreover have "prefix ''/'' (drop (length p) path)" by (simp add: q)
  ultimately obtain b where "path_join [up, drop (length p) path] = b @ ''/'' @ x"
    using path_join_last [OF assms(3) _ assms(4), of a'] by auto
  thus ?thesis using assms(2,3) metricSelectorParam_last [of x b] metricSelectorParam_last [of x a] by (simp add: ordinary_name_def)
qed

section \<open>Writes\<close>

text \<open>A header that the proxy does not treat itself: neither a hop-by-hop header nor the one that announces the prefix.\<close>

definition proper_header :: "string \<Rightarrow> bool" where
  "proper_header k \<longleftrightarrow> canonical_key k \<notin> set (canonical_key PrefixHeader # map canonical_key hopHeaders)"

lemma hopHeaders_canonical: "map canonical_key hopHeaders = hopHeaders"
  unfolding hopHeaders_def by code_simp

lemma proper_headerD:
  "proper_header k \<Longrightarrow> canonical_key k \<noteq> canonical_key PrefixHeader" "proper_header k \<Longrightarrow> canonical_key k \<notin> set hopHeaders"
  "proper_header k \<Longrightarrow> canonical_key k \<noteq> canonical_key ''Connection''"
  using hop_keys by (auto simp: proper_header_def hopHeaders_canonical)

lemma passes_proxy_cong: "header_values h ''Connection'' = header_values h' ''Connection'' \<Longrightarrow> passes_proxy h k = passes_proxy h' k"
  by (simp add: passes_proxy_def connection_options_def header_tokens_def)

lemma header_values_upstream:
  assumes "proper_header k"
  shows "header_values (Header (outgoing (upstream_director u) r)) k = (if passes_proxy (Header r) k then header_values (Header r) k else [])"
proof (cases "passes_proxy (Header r) k")
  case True
  thus ?thesis using header_values_proxied proper_headerD(1) [OF assms] by simp
next
  case False
  hence "canonical_key k \<in> canonical_key ` set (connection_options (Header r))"
    using assms by (auto simp: passes_proxy_def proper_header_def)
  hence "canonical_key k \<in> canonical_key ` set (connection_options (Header (upstream_director u (proxy_clone r))))"
    by (simp add: connection_options_director)
  from header_values_outgoing_dropped [OF this proper_headerD(2) [OF assms]] show ?thesis using False by (simp add: outgoing_def)
qed

text \<open>
  \<open>written h r r'\<close>: the certificate of \<open>r\<close> names a tenant, and the header \<open>h\<close> of the outgoing request \<open>r'\<close> has exactly this tenant
  as its value, unless the client has asked the proxy to drop the header.
\<close>

definition written :: "string \<Rightarrow> request \<Rightarrow> request \<Rightarrow> bool" where
  "written h r r' \<longleftrightarrow>
     (\<exists>t. cert_tenant (TLS r) = Some t \<and> header_values (Header r') h = (if passes_proxy (Header r) h then [t] else []))"

definition same_headers :: "string \<Rightarrow> request \<Rightarrow> request \<Rightarrow> bool" where
  "same_headers h r r' \<longleftrightarrow> header_values (Header r') h = header_values (Header r) h
     \<and> header_values (Header r') ''Connection'' = header_values (Header r) ''Connection''"

lemma chain_written:
  assumes "proper_header h" "\<And>m. m \<in> set mws \<Longrightarrow> enforces (same_headers h) m"
    and "routes_forward (\<lambda>_ r r'. \<exists>u. r' = outgoing (upstream_director u) r) rs"
  shows "routes_forward (\<lambda>_. written h) (chi_Group ls (WithMTLSTenantExtraction h # mws) rs)"
proof -
  have "enforces (same_headers h) (chain mws)" by (rule chain_enforces) (auto intro: assms(2) simp: same_headers_def)
  note c = enforces_comp [OF mtls_tenant.contract this]
  show ?thesis
  proof (rule routes_forward_Group [OF assms(3)])
    show "enforces (\<lambda>r r'. \<exists>r1. (\<exists>t. cert_tenant (TLS r) = Some t \<and> r1 = set_tenant t (with_header (header_set h t) r)) \<and> same_headers h r1 r')
        (chain (WithMTLSTenantExtraction h # mws))" using c by simp
  next
    fix p r r1 r'
    assume "\<exists>r2. (\<exists>t. cert_tenant (TLS r) = Some t \<and> r2 = set_tenant t (with_header (header_set h t) r)) \<and> same_headers h r2 r1"
      and "\<exists>u. r' = outgoing (upstream_director u) r1"
    then obtain t u where t: "cert_tenant (TLS r) = Some t" "same_headers h (set_tenant t (with_header (header_set h t) r)) r1"
      "r' = outgoing (upstream_director u) r1" by blast
    have "header_values (Header r1) h = [t]" "header_values (Header r1) ''Connection'' = header_values (Header r) ''Connection''"
      using t(2) proper_headerD(3) [OF assms(1)] by (simp_all add: same_headers_def set_tenant_def)
    from this(1) passes_proxy_cong [OF this(2)] show "written h r r'"
      using t(1) header_values_upstream [OF assms(1), of u r1] by (simp add: written_def t(3))
  qed
qed

lemma routes_upstream:
  "routes_forward (\<lambda>_ r r'. \<exists>u. r' = outgoing (upstream_director u) r) (chi_Handle pat (ReverseProxy (upstream_director u)))"
  "routes_forward (\<lambda>_ r r'. \<exists>u. r' = outgoing (upstream_director u) r) (chi_Method m pat (ReverseProxy (upstream_director u)))"
  by (rule routes_forward_proxy, blast)+

lemma same_headers_intros:
  "enforces (\<lambda>r r'. r' = r) m \<Longrightarrow> enforces (same_headers h) m" "p \<noteq> [] \<Longrightarrow> enforces (same_headers h) (StripPrefix p)"
  by (erule enforces_mono, simp add: same_headers_def) (rule enforces_mono [OF StripPrefix_enforces], auto simp: same_headers_def)

context transparent_parts
begin

text \<open>The three routers that take writes.\<close>

lemma write_routes_written:
  assumes "enforces (\<lambda>r r'. r' = r) rl"
  shows "proper_header (metrics_tenantHeader mc) \<Longrightarrow>
      routes_forward (\<lambda>_. written (metrics_tenantHeader mc)) (metrics_write_routes (fold (\<lambda>opt c. opt c) (metricsHandlerOptions env mc rl mws) metrics_defaults) u)"
    and "proper_header (logs_tenantHeader lc) \<Longrightarrow>
      routes_forward (\<lambda>_. written (logs_tenantHeader lc)) (logs_write_routes (fold (\<lambda>opt c. opt c) (logsHandlerOptions env lc pm tlab) logs_defaults) u)"
    and "proper_header (traces_tenantHeader tc) \<Longrightarrow>
      routes_forward (\<lambda>_. written (traces_tenantHeader tc)) (traces_write_routes (fold (\<lambda>opt c. opt c) (tracesHandlerOptions env tc pm) traces_defaults) u)"
  unfolding metrics_write_routes_def logs_write_routes_def traces_write_routes_def metrics_configuration logs_configuration
    traces_configuration
  by (auto intro!: chain_written same_headers_intros(2) same_headers_intros(1) [OF assms] routes_upstream routes_forward_instrumented)

end

section \<open>Metric queries\<close>

text \<open>
  What the upstream reads of a parameter: the values of the body only if the request is announced as a form, then those of the query
  string.
\<close>

definition form_type :: string where
  "form_type = ''application/x-www-form-urlencoded''"

definition backend_values :: "mime_parser \<Rightarrow> request \<Rightarrow> string \<Rightarrow> string list" where
  "backend_values mime r k =
     (if Method r = ''POST'' \<and> fst (mime (header_get (Header r) ''Content-Type'')) = form_type then body_values r k else [])
     @ values_of (url_query (URL r)) k"

lemma backend_received: "set (backend_values mime r k) \<subseteq> set (received_values r k)"
  by (auto simp: backend_values_def received_values_def)

text \<open>The parameter is in the query string, or in a body that is announced as a form.\<close>

definition announced :: "request \<Rightarrow> string \<Rightarrow> bool" where
  "announced r k \<longleftrightarrow> values_of (url_query (URL r)) k \<noteq> []
     \<or> Method r = ''POST'' \<and> header_get (Header r) ''Content-Type'' = form_type \<and> body_values r k \<noteq> [] \<and> ContentLength r \<noteq> 0"

lemma form_keys:
  "canonical_key ''Content-Type'' \<noteq> canonical_key ''Connection''" "canonical_key ''Content-Length'' \<noteq> canonical_key ''Connection''"
  "canonical_key ''Authorization'' \<noteq> canonical_key ''Connection''" "proper_header ''Content-Type''"
  unfolding proper_header_def PrefixHeader_def hopHeaders_def by code_simp+

lemma enforceRequestQueryLabels_connection:
  "enforceRequestQueryLabels pq mime ms p r = Inr r' \<Longrightarrow> header_values (Header r') ''Connection'' = header_values (Header r) ''Connection''"
  using form_keys
  by (auto simp: enforceRequestQueryLabels_def enforce_url_def enforce_body_def Let_def set_body_def split: sum.splits if_splits option.splits prod.splits)

context promql_enforcer
begin

lemma enforceRequestQueryLabels_announced:
  assumes "matcher_names_distinct ms" "enforceRequestQueryLabels pq mime ms p r = Inr r'"
  shows "announced r' p"
proof -
  have url: "announced r' p" if "enforce_url pq ms p r1 = Inr r'" for r1
    using enforce_url_safe(2) [OF assms(1) that] by (simp add: announced_def)
  have body: "announced r' p" if b: "enforce_body pq ms p pf r1 = Inr r'" "Method r1 = ''POST''" for pf r1
  proof -
    obtain q where "r' = set_raw_query (values_encode (values_del p (url_query (URL r1))))
        (with_header (header_set ''Content-Type'' ''application/x-www-form-urlencoded'') (set_body q r1))"
      using b(1) by (auto simp: enforce_body_def Let_def split: sum.splits if_splits)
    hence h: "header_get (Header r') ''Content-Type'' = form_type" "ContentLength r' = int (length q)" "Body r' = Body_ok q"
      by (simp_all add: form_type_def set_raw_query_def)
    have "body_values r' p \<noteq> []" "Method r' = ''POST''" using enforce_body_safe(2,3) [OF assms(1) b(1)] b(2) by simp_all
    moreover from this(1) have "q \<noteq> []" using h(3) by (auto simp: body_values_def parse_query_def parse_setting_def)
    ultimately show ?thesis using h by (simp add: announced_def)
  qed
  show ?thesis
    using assms(2) url body
    by (auto simp: enforceRequestQueryLabels_def Let_def split: if_splits sum.splits)
qed

end

text \<open>A value of a selector parameter that selects only series of some tenants, and what the chain of the read path ensures of it.\<close>

definition confined_to :: "regex \<Rightarrow> 'e promql \<Rightarrow> ('e \<Rightarrow> matcher list list) \<Rightarrow> string \<Rightarrow> string list \<Rightarrow> string \<Rightarrow> bool" where
  "confined_to rx pq selectors label ts v \<longleftrightarrow>
     (\<forall>e sel ls. pq_parse pq v = Inr e \<longrightarrow> sel \<in> set (selectors e) \<longrightarrow> selects rx sel ls \<longrightarrow> ls label \<in> set ts)"

definition metrics_ready :: "(string list \<Rightarrow> string \<Rightarrow> bool) \<Rightarrow> string \<Rightarrow> request \<Rightarrow> request \<Rightarrow> bool" where
  "metrics_ready conf hdr r r' \<longleftrightarrow>
     subjectKey (Ctx r') \<noteq> None \<and> Path (URL r') = Path (URL r)
     \<and> header_values (Header r') ''Connection'' = header_values (Header r) ''Connection''
     \<and> announced r' (metricSelectorParam (Path (URL r)))
     \<and> (\<forall>v \<in> set (received_values r' (metricSelectorParam (Path (URL r)))). conf (collect_tenants (header_values (Header r) hdr)) v)"

lemma read_checks_ready:
  assumes "regex_engine rx" "promql_enforcer pq selectors" "utf8_valid label"
    and "tenant_from_header hdr r = Inr r1" "authenticated r1 r2" "tenant_label_check label r2 = Inr r3"
    and "metrics_authz_check pq mime r3 = Inr r'"
  shows "metrics_ready (confined_to rx pq selectors label) hdr r r'"
proof -
  define ts where "ts = collect_tenants (header_values (Header r) hdr)"
  obtain t where t: "tenant_list t ts" "r1 = set_tenant t r" using assms(4) by (auto simp: tenant_from_header_Inr ts_def)
  have r2: "tenantKey (Ctx r2) = Some t" "URL r2 = URL r" "subjectKey (Ctx r2) \<noteq> None" "Header r2 = Header r"
    using assms(5) by (simp_all add: authenticated_def t(2) set_tenant_def)
  let ?ms = "tenant_matchers label t (map quote_meta ts)"
  obtain data where data: "r3 = with_ctx (\<lambda>c. WithData c data) r2" "unmarshal_authz data = Some \<lparr>Matchers = ?ms, MatcherOp = []\<rparr>"
    using tenant_label_validated [OF t(1) r2(1) assms(3)] assms(6) by auto
  have "unmarshal_authz [] = None" by code_simp
  hence "data \<noteq> []" using data(2) by auto
  hence enf: "enforceRequestQueryLabels pq mime ?ms (metricSelectorParam (Path (URL r))) r3 = Inr r'"
    using assms(7) data r2(2) by (simp add: metrics_authz_check_def GetData_def WithData_def)
  have d: "matcher_names_distinct ?ms" by (simp add: matcher_names_distinct_def tenant_matchers_def)
  note safe = promql_enforcer.enforceRequestQueryLabels_safe [OF assms(2) d enf, unfolded promql_enforcer.safe_def [OF assms(2)]]
  have "selects rx sel ls \<Longrightarrow> set ?ms \<subseteq> set sel \<Longrightarrow> ls label \<in> set ts" for sel ls
    using regex_engine.tenant_matchers_select [OF assms(1) t(1), of label ls] by (auto simp: selects_def list_all_iff)
  hence "\<forall>v \<in> set (received_values r' (metricSelectorParam (Path (URL r)))). confined_to rx pq selectors label ts v"
    using safe(1) unfolding confined_to_def by blast
  moreover have "subjectKey (Ctx r') \<noteq> None" "Path (URL r') = Path (URL r)"
    "header_values (Header r') ''Connection'' = header_values (Header r) ''Connection''"
    using enforceRequestQueryLabels_identity [OF enf] enforceRequestQueryLabels_connection [OF enf] r2
    by (simp_all add: data(1) WithData_def)
  ultimately show ?thesis
    using promql_enforcer.enforceRequestQueryLabels_announced [OF assms(2) d enf] by (simp add: metrics_ready_def ts_def)
qed

lemma read_chain_checks:
  assumes "metricsReadMiddlewares hdr pm label rl = Some mws" "manager_ok pm" "enforces (\<lambda>r r'. r' = r) rl"
  shows "enforces (\<lambda>r r'. \<exists>r1 r2 r3. tenant_from_header hdr r = Inr r1 \<and> authenticated r1 r2 \<and> tenant_label_check label r2 = Inr r3
     \<and> metrics_authz_check pq mime r3 = Inr r') (chain (mws @ [Metrics_WithEnforceAuthorizationLabels pq mime]))"
proof -
  have mws: "mws = [WithTenantFromHeader hdr, WithTenantMiddlewares [Middlewares pm], guard_mw (tenant_label_check label), rl]"
    using assms(1) by (auto simp: metricsReadMiddlewares_def WithTenantLabel_def split: if_splits)
  have guard: "enforces (\<lambda>r r'. chk r = Inr r') (guard_mw chk)" for chk by (rule guard_mw_enforces)
  note all = enforces_comp [OF guard enforces_comp [OF manager_authenticates(1) [OF assms(2)]
        enforces_comp [OF guard enforces_comp [OF assms(3) guard]]]]
  have eq: "chain (mws @ [Metrics_WithEnforceAuthorizationLabels pq mime]) = guard_mw (tenant_from_header hdr) \<circ> (WithTenantMiddlewares [Middlewares pm] \<circ>
      (guard_mw (tenant_label_check label) \<circ> (rl \<circ> guard_mw (metrics_authz_check pq mime))))"
    by (simp add: mws WithTenantFromHeader_def Metrics_WithEnforceAuthorizationLabels_def o_assoc)
  show ?thesis
    unfolding eq by (rule enforces_mono [OF all]) blast
qed

lemma read_chain_ready:
  assumes "metricsReadMiddlewares hdr pm label rl = Some mws" "manager_ok pm" "enforces (\<lambda>r r'. r' = r) rl"
    and "regex_engine rx" "promql_enforcer pq selectors" "utf8_valid label"
  shows "enforces (metrics_ready (confined_to rx pq selectors label) hdr) (chain (mws @ [Metrics_WithEnforceAuthorizationLabels pq mime]))"
  by (rule enforces_mono [OF read_chain_checks [OF assms(1-3)]]) (use read_checks_ready [OF assms(4-6)] in blast)

text \<open>
  \<open>metrics_confined conf mime hdr r r'\<close>: the request \<open>r'\<close> to the upstream has a subject; if the path of \<open>r\<close> ends in an ordinary name,
  every value that the upstream reads for the selector parameter of the path it is asked for is confined to the tenants of the header of
  \<open>r\<close>, and if the client does not ask the proxy to drop the content type, there is such a value.
\<close>

definition metrics_confined :: "(string list \<Rightarrow> string \<Rightarrow> bool) \<Rightarrow> mime_parser \<Rightarrow> string \<Rightarrow> request \<Rightarrow> request \<Rightarrow> bool" where
  "metrics_confined conf mime hdr r r' \<longleftrightarrow>
     subjectKey (Ctx r') \<noteq> None
     \<and> (\<forall>a x. prefix ''/api/metrics/v1/'' (Path (URL r)) \<longrightarrow> Path (URL r) = a @ ''/'' @ x \<longrightarrow> ordinary_name x \<longrightarrow>
         (let vs = backend_values mime r' (metricSelectorParam (Path (URL r'))) in
          (\<forall>v \<in> set vs. conf (collect_tenants (header_values (Header r) hdr)) v)
          \<and> (passes_proxy (Header r) ''Content-Type'' \<longrightarrow> vs \<noteq> [])))"

lemma body_values_clone:
  "body_values (proxy_clone r) k = (if ContentLength r = 0 then [] else body_values r k)"
  by (simp add: body_values_def proxy_clone_def parse_query_def parse_setting_def)

lemma received_values_upstream:
  "set (received_values (outgoing (upstream_director u) (stripped p r)) k) \<subseteq> set (received_values r k)"
proof -
  have "body_values (outgoing (upstream_director u) (stripped p r)) k = body_values (proxy_clone (stripped p r)) k"
    by (simp add: body_values_def)
  moreover have "body_values (stripped p r) k = body_values r k" by (simp add: body_values_def)
  ultimately show ?thesis by (auto simp: received_values_def url_query_def body_values_clone split: if_splits)
qed

lemma backend_values_upstream:
  assumes "announced r k" "passes_proxy (Header r) ''Content-Type''" "fst (mime form_type) = form_type"
  shows "backend_values mime (outgoing (upstream_director u) (stripped p r)) k \<noteq> []"
proof -
  let ?r' = "outgoing (upstream_director u) (stripped p r)"
  have "header_get (Header ?r') ''Content-Type'' = header_get (Header r) ''Content-Type''"
    using header_values_upstream [OF form_keys(4), of u "stripped p r"] assms(2) by (simp add: header_get_def)
  moreover have "body_values ?r' k = body_values (proxy_clone (stripped p r)) k" "body_values (stripped p r) k = body_values r k"
    by (simp_all add: body_values_def)
  ultimately show ?thesis
    using assms(1,3) by (auto simp: announced_def backend_values_def body_values_clone url_query_def)
qed

lemma ready_confined:
  assumes "metrics_ready conf hdr r r1" "up = [] \<or> prefix ''/'' up" "up = Path u" "fst (mime form_type) = form_type"
  shows "metrics_confined conf mime hdr r (outgoing (upstream_director u) (stripped ''/api/metrics/v1'' r1))"
  unfolding metrics_confined_def Let_def
proof (intro conjI allI impI)
  let ?r' = "outgoing (upstream_director u) (stripped ''/api/metrics/v1'' r1)"
  note rd = assms(1) [unfolded metrics_ready_def]
  show "subjectKey (Ctx ?r') \<noteq> None" using rd by simp
  fix a x
  assume p: "prefix ''/api/metrics/v1/'' (Path (URL r))" "Path (URL r) = a @ ''/'' @ x" "ordinary_name x"
  have k: "metricSelectorParam (Path (URL ?r')) = metricSelectorParam (Path (URL r))"
    using metricSelectorParam_proxied [of "''/api/metrics/v1''" "Path (URL r)" a x up] p assms(2) rd by (simp add: assms(3))
  show "\<forall>v \<in> set (backend_values mime ?r' (metricSelectorParam (Path (URL ?r')))). conf (collect_tenants (header_values (Header r) hdr)) v"
    unfolding k using rd backend_received received_values_upstream by blast
  assume "passes_proxy (Header r) ''Content-Type''"
  hence "passes_proxy (Header r1) ''Content-Type''" using passes_proxy_cong [of "Header r1" "Header r"] rd by simp
  thus "backend_values mime ?r' (metricSelectorParam (Path (URL ?r'))) \<noteq> []"
    unfolding k using backend_values_upstream [where mime = mime, OF _ _ assms(4)] rd by blast
qed

section \<open>The routes by their patterns\<close>

text \<open>The patterns of the routes that take writes, with the tenant header of their API, and those that read metrics.\<close>

definition write_header_of :: "gateway_config \<Rightarrow> string \<Rightarrow> string option" where
  "write_header_of cfg p =
     (if p = ''/api/metrics/v1/api/v1/receive'' then Some (metrics_tenantHeader (cfg_metrics cfg))
      else if p \<in> set [''/api/logs/v1/loki/api/v1/push'', ''/api/logs/v1/otlp/v1/logs''] then Some (logs_tenantHeader (cfg_logs cfg))
      else if p = ''/api/traces/v1/v1/traces'' then Some (traces_tenantHeader (cfg_traces cfg))
      else None)"

definition metrics_read_patterns :: "string list" where
  "metrics_read_patterns = map ((@) ''/api/metrics/v1'')
     [''/api/v1/query'', ''/api/v1/query_range'', ''/api/v1/series'', ''/api/v1/labels'', ''/api/v1/label/{label_name}/values'',
      ''/api/v1/rules'', ''/*'']"

definition route_tenancy ::
    "(string list \<Rightarrow> string \<Rightarrow> bool) \<Rightarrow> mime_parser \<Rightarrow> gateway_config \<Rightarrow> string \<Rightarrow> request \<Rightarrow> request \<Rightarrow> bool" where
  "route_tenancy conf mime cfg p r r' \<longleftrightarrow>
     (\<forall>h. write_header_of cfg p = Some h \<longrightarrow> proper_header h \<longrightarrow> written h r r')
     \<and> (p \<in> set metrics_read_patterns \<longrightarrow> metrics_confined conf mime (metrics_tenantHeader (cfg_metrics cfg)) r r')"

lemma route_patterns [simp]:
  "rpattern ` set (chi_Group ls mws rs) = rpattern ` set rs" "rpattern ` set (chi_Mount b rs) = (@) b ` rpattern ` set rs"
  "rpattern ` set (chi_Handle p h) = {p}" "rpattern ` set (chi_Method m p h) = {p}"
  by (auto simp: chi_Group_def chi_Mount_def chi_Handle_def chi_Method_def image_iff)

lemma instrumented_patterns [simp]:
  "rpattern ` set (instrumented i grp chi_Handle p hdl h) = {p}" "rpattern ` set (instrumented i grp (chi_Method m) p hdl h) = {p}"
  by (simp_all add: instrumented_def Let_def)

lemma instrumented_patternD [dest!]:
  "rt \<in> set (instrumented i grp chi_Handle p hdl h) \<Longrightarrow> rpattern rt = p" "rt \<in> set (instrumented i grp (chi_Method m) p hdl h) \<Longrightarrow> rpattern rt = p"
  by (auto simp: instrumented_def chi_Group_def chi_Handle_def chi_Method_def Let_def)

lemma routes_other:
  assumes "\<And>p. p \<in> rpattern ` set rs \<Longrightarrow> write_header_of cfg (base @ p) = None \<and> base @ p \<notin> set metrics_read_patterns"
  shows "routes_forward (\<lambda>p. route_tenancy conf mime cfg (base @ p)) rs"
  using assms by (auto simp: routes_forward_def handler_forwards_def route_tenancy_def)

lemma routes_written:
  assumes "routes_forward (\<lambda>_. written h) rs"
    and "\<And>p. p \<in> rpattern ` set rs \<Longrightarrow> write_header_of cfg (base @ p) = Some h \<and> base @ p \<notin> set metrics_read_patterns"
  shows "routes_forward (\<lambda>p. route_tenancy conf mime cfg (base @ p)) rs"
  using assms by (auto simp: routes_forward_def handler_forwards_def route_tenancy_def)

lemma routes_confined:
  assumes "routes_forward (\<lambda>_. metrics_confined conf mime (metrics_tenantHeader (cfg_metrics cfg))) rs"
    and "\<And>p. p \<in> rpattern ` set rs \<Longrightarrow> write_header_of cfg (base @ p) = None"
  shows "routes_forward (\<lambda>p. route_tenancy conf mime cfg (base @ p)) rs"
  using assms by (auto simp: routes_forward_def handler_forwards_def route_tenancy_def)

context transparent_parts
begin

lemma metrics_routes_tenancy:
  assumes "metricsReadMiddlewares (metrics_tenantHeader (cfg_metrics cfg)) pm (metrics_label (cfg_metrics cfg)) rl = Some mws" "manager_ok pm"
    and "enforces (\<lambda>r r'. r' = r) rl" "regex_engine rx" "promql_enforcer (env_promql (genv_metrics env)) selectors"
    and "utf8_valid (metrics_label (cfg_metrics cfg))" "fst (genv_mime env form_type) = form_type"
    and "\<And>u. metrics_readEndpoint (cfg_metrics cfg) = Some u \<Longrightarrow> Path u = [] \<or> prefix ''/'' (Path u)"
    and "proper_header (metrics_tenantHeader (cfg_metrics cfg))"
  shows "routes_forward (\<lambda>p. route_tenancy (confined_to rx (env_promql (genv_metrics env)) selectors (metrics_label (cfg_metrics cfg)))
     (genv_mime env) cfg (''/api/metrics/v1'' @ p))
     (Metrics_NewHandler (genv_metrics env) (metrics_endpoints (cfg_metrics cfg)) (metricsHandlerOptions env (cfg_metrics cfg) rl mws))"
proof -
  let ?conf = "confined_to rx (env_promql (genv_metrics env)) selectors (metrics_label (cfg_metrics cfg))"
  let ?enforce = "Metrics_WithEnforceAuthorizationLabels (env_promql (genv_metrics env)) (genv_mime env) :: 'c limit_state middleware"
  let ?hdr = "metrics_tenantHeader (cfg_metrics cfg)"
  let ?P = "\<lambda>p. route_tenancy ?conf (genv_mime env) cfg (''/api/metrics/v1'' @ p)"
  define c where "c = fold (\<lambda>opt c. opt c) (metricsHandlerOptions env (cfg_metrics cfg) rl mws) metrics_defaults"
  note c = metrics_configuration [of env "cfg_metrics cfg" rl mws, folded c_def]
  have ch: "enforces (\<lambda>r r2. \<exists>r1. metrics_ready ?conf ?hdr r r1 \<and> r2 = stripped ''/api/metrics/v1'' r1)
      (chain ((mws @ [?enforce]) @ [StripPrefix ''/api/metrics/v1'']))"
  proof -
    have "enforces (\<lambda>r r'. r' = stripped ''/api/metrics/v1'' r) (StripPrefix ''/api/metrics/v1'' :: 'c limit_state middleware)"
      by (rule enforces_mono [OF StripPrefix_enforces]) simp_all
    from enforces_comp [OF read_chain_ready [OF assms(1-6), where mime = "genv_mime env"] this] show ?thesis by (simp add: o_assoc)
  qed
  have proxied: "routes_forward (\<lambda>_ r r'. r' = outgoing (upstream_director u) r) (chi_Handle pat (ReverseProxy (upstream_director u)))"
      "routes_forward (\<lambda>_ r r'. r' = outgoing (upstream_director u) r) (chi_MountHandler pat (ReverseProxy (upstream_director u)))" for u pat
    by (auto simp: chi_MountHandler_def intro!: routes_forward_proxy)
  have grp: "routes_forward (\<lambda>_. metrics_confined ?conf (genv_mime env) ?hdr) (chi_Group ls (mws @ [?enforce, StripPrefix ''/api/metrics/v1'']) rs)"
    if "routes_forward (\<lambda>_ r r'. r' = outgoing (upstream_director u) r) rs" "metrics_readEndpoint (cfg_metrics cfg) = Some u" for u rs ls
    by (rule routes_forward_Group [OF that(1)], rule ch [unfolded append_assoc append.simps])
       (use ready_confined [where mime = "genv_mime env" and u = u, OF _ assms(8) [OF that(2)] refl] assms(7) in auto)
  have "routes_forward (\<lambda>_. metrics_confined ?conf (genv_mime env) ?hdr) (metrics_read_routes c u)"
    if "metrics_readEndpoint (cfg_metrics cfg) = Some u" for u
    unfolding metrics_read_routes_def Let_def using grp [OF proxied(1) that] grp [OF proxied(2) that] by (simp add: c)
  hence "routes_forward ?P (metrics_read_routes c u)" if "metrics_readEndpoint (cfg_metrics cfg) = Some u" for u
    using that
    by (intro routes_confined)
       (auto simp: metrics_read_routes_def Let_def image_Un chi_MountHandler_def metrics_route_defs write_header_of_def)
  moreover have "routes_forward ?P (metrics_write_routes c u)" for u
    using write_routes_written(1) [OF assms(3,9), of mws u, folded c_def]
    by (rule routes_written) (auto simp: metrics_write_routes_def metrics_route_defs write_header_of_def metrics_read_patterns_def)
  moreover have "routes_forward ?P (metrics_rules_routes (genv_metrics env) c cl)" for cl
    by (rule routes_other)
       (auto simp: metrics_rules_routes_def Let_def image_Un metrics_route_defs write_header_of_def metrics_read_patterns_def)
  moreover have "routes_forward ?P (metrics_alertmanager_routes (genv_metrics env) c u)" for u
    by (rule routes_other)
       (auto simp: metrics_alertmanager_routes_def Let_def image_Un metrics_route_defs write_header_of_def metrics_read_patterns_def)
  ultimately show ?thesis
    by (intro routes_forward_Metrics [OF c_def [symmetric]]) (simp_all add: c instrument metrics_endpoints_def)
qed

lemmas logs_route_defs = rulesRoute_def rulesPerNamespaceRoute_def rulesPerGroupNameRoute_def promRulesRoute_def
  promRulesPerNamespaceRoute_def promRulesPerGroupNameRoute_def prometheusRulesRoute_def prometheusAlertsRoute_def tailRoute_def
  promTailRoute_def otlpRoute_def pushRoute_def

lemma logs_routes_tenancy:
  assumes "logs_api env (cfg_logs cfg) pm = Some rs" "proper_header (logs_tenantHeader (cfg_logs cfg))"
  shows "routes_forward (route_tenancy conf mime cfg) rs"
proof -
  define tlab :: "'c limit_state middleware" where "tlab = guard_mw (tenant_label_check (logs_tenantLabel (cfg_logs cfg)))"
  let ?P = "\<lambda>p. route_tenancy conf mime cfg (''/api/logs/v1'' @ p)"
  define c where "c = fold (\<lambda>opt c. opt c) (logsHandlerOptions env (cfg_logs cfg) pm tlab) logs_defaults"
  note other = write_header_of_def metrics_read_patterns_def
  have "routes_forward ?P (logs_read_routes c u)" for u
    by (rule routes_other) (auto simp: logs_read_routes_def logs_read_patterns_def other)
  moreover have "routes_forward ?P (logs_tail_routes c u)" for u
    by (rule routes_other) (auto simp: logs_tail_routes_def image_Un logs_route_defs other)
  moreover have "routes_forward ?P (logs_rules_read_routes c u)" "routes_forward ?P (logs_rules_write_routes c u)" for u
    by (rule routes_other; auto simp: logs_rules_read_routes_def logs_rules_write_routes_def logs_route_defs other)+
  moreover have "routes_forward ?P (logs_write_routes c u)" for u
    using write_routes_written(2) [OF enforces_id assms(2), of pm tlab u, folded c_def]
    by (rule routes_written) (auto simp: logs_write_routes_def image_Un logs_route_defs other)
  ultimately have "routes_forward ?P (Logs_NewHandler (logs_readEndpoint lc) (logs_tailEndpoint lc) (logs_writeEndpoint lc)
      (logs_rulesEndpoint lc) (logs_rulesReadOnly lc) (logsHandlerOptions env (cfg_logs cfg) pm tlab))" for lc
    by (intro routes_forward_Logs [OF c_def [symmetric]]) auto
  thus ?thesis
    using assms(1) timeout
    by (auto simp: logs_api_def WithTenantLabel_def tlab_def split: if_splits intro!: routes_forward_transparent routes_forward_Mount)
qed

lemma traces_routes_tenancy:
  assumes "traces_api env (cfg_traces cfg) pm = Some rs" "proper_header (traces_tenantHeader (cfg_traces cfg))"
  shows "routes_forward (route_tenancy conf mime cfg) rs"
proof -
  let ?P = "\<lambda>p. route_tenancy conf mime cfg (''/api/traces/v1'' @ p)"
  define c where "c = fold (\<lambda>opt c. opt c) (tracesHandlerOptions env (cfg_traces cfg) pm) traces_defaults"
  note other = write_header_of_def metrics_read_patterns_def
  have "routes_forward ?P (traces_read_routes parse c read tmpl)" for parse read tmpl
    by (rule routes_other) (auto simp: traces_read_routes_def traces_read_patterns_def other)
  moreover have "routes_forward ?P (traces_tempo_routes c u)" for u
    by (rule routes_other) (auto simp: traces_tempo_routes_def other)
  moreover have "routes_forward ?P (traces_write_routes c u)" for u
    using write_routes_written(3) [OF enforces_id assms(2), of pm u, folded c_def]
    by (rule routes_written) (auto simp: traces_write_routes_def other)
  ultimately have "routes_forward ?P rs'"
    if "NewV2Handler parse read tmpl tempo write (tracesHandlerOptions env (cfg_traces cfg) pm) = Some rs'" for rs' parse read tmpl tempo "write"
    using that by (auto simp: NewV2Handler_def c_def [symmetric] Let_def split: if_splits option.splits)
  thus ?thesis
    using assms(1) timeout
    by (auto simp: traces_api_def split: if_splits intro!: routes_forward_transparent routes_forward_Mount)
qed

end

text \<open>What is asked of the configuration and of the libraries for the tenancy of the routes.\<close>

definition tenancy_config :: "gateway_config \<Rightarrow> bool" where
  "tenancy_config cfg \<longleftrightarrow>
     proper_header (metrics_tenantHeader (cfg_metrics cfg)) \<and> proper_header (logs_tenantHeader (cfg_logs cfg))
     \<and> proper_header (traces_tenantHeader (cfg_traces cfg)) \<and> utf8_valid (metrics_label (cfg_metrics cfg))
     \<and> (case metrics_readEndpoint (cfg_metrics cfg) of None \<Rightarrow> True | Some u \<Rightarrow> Path u = [] \<or> prefix ''/'' (Path u))"

locale tenancy_parts = transparent_parts env
  for env :: "('e, 'x, 'c) gateway_env" +
  fixes rx :: regex and selectors :: "'e \<Rightarrow> matcher list list"
  assumes engine: "regex_engine rx"
    and enforcer: "promql_enforcer (env_promql (genv_metrics env)) selectors"
    and mime: "fst (genv_mime env form_type) = form_type"
begin

lemma api_routes_tenancy:
  assumes "api_routes env cfg client token ids limits pm = Some rs" "manager_ok pm" "tenancy_config cfg"
  shows "routes_forward (\<lambda>p r r'. tenantKey (Ctx r) = None \<longrightarrow>
     route_tenancy (confined_to rx (env_promql (genv_metrics env)) selectors (metrics_label (cfg_metrics cfg))) (genv_mime env) cfg p r r') rs"
proof -
  let ?T = "route_tenancy (confined_to rx (env_promql (genv_metrics env)) selectors (metrics_label (cfg_metrics cfg))) (genv_mime env) cfg"
  let ?P = "\<lambda>p r r'. tenantKey (Ctx r) = None \<longrightarrow> ?T p r r'"
  note cfg = assms(3) [unfolded tenancy_config_def]
  have id: "routes_forward ?T rs \<Longrightarrow> routes_forward ?P rs" for rs :: "'c limit_state router"
    by (erule routes_forward_mono) simp
  have "routes_forward ?P (authn_routes pm)" by (rule routes_forward_mono [OF authn_routes_forward]) auto
  moreover have "routes_forward ?P m"
    if "rateLimitMiddleware (genv_new_local env) client limits = Some rl" "metrics_api env (cfg_metrics cfg) pc pm rl = Some m" for m rl pc
  proof (rule id)
    note l = rateLimitMiddleware_enforces [OF that(1) local_limiter]
    from that(2) obtain mws where mws: "metricsReadMiddlewares (metrics_tenantHeader (cfg_metrics cfg)) pm (metrics_label (cfg_metrics cfg)) rl = Some mws"
      and m: "m = chi_Group [] [genv_timeout env (metrics_upstreamWriteTimeout (cfg_metrics cfg))] (legacy_api env (cfg_metrics cfg) mws
         @ probes_api env pc pm rl
         @ chi_Mount ''/api/metrics/v1'' (Metrics_NewHandler (genv_metrics env) (metrics_endpoints (cfg_metrics cfg)) (metricsHandlerOptions env (cfg_metrics cfg) rl mws)))"
      by (auto simp: metrics_api_def split: option.splits)
    have ep: "Path u = [] \<or> prefix ''/'' (Path u)" if "metrics_readEndpoint (cfg_metrics cfg) = Some u" for u using cfg that by auto
    have "routes_forward ?T (legacy_api env (cfg_metrics cfg) mws)"
      unfolding legacy_api_def
      by (rule routes_forward_Mount, rule routes_other)
         (auto simp: Legacy_NewHandler_def Let_def image_Un metrics_route_defs write_header_of_def metrics_read_patterns_def)
    moreover have "routes_forward ?T (probes_api env pc pm rl)"
      unfolding probes_api_def
      by (auto intro!: routes_forward_Mount routes_other split: option.splits
          simp: Probes_NewHandler_def Let_def image_Un write_header_of_def metrics_read_patterns_def)
    moreover have "routes_forward ?T (chi_Mount ''/api/metrics/v1'' (Metrics_NewHandler (genv_metrics env) (metrics_endpoints (cfg_metrics cfg))
        (metricsHandlerOptions env (cfg_metrics cfg) rl mws)))"
      by (rule routes_forward_Mount, rule metrics_routes_tenancy [OF mws assms(2) l engine enforcer])
         (use cfg mime ep in auto)
    ultimately show "routes_forward ?T m" unfolding m by (intro routes_forward_transparent) (simp_all add: timeout)
  qed
  moreover have "routes_forward ?P (alertmanager_api env ac token ids rl)"
    if "rateLimitMiddleware (genv_new_local env) client limits = Some rl" for rl ac
    by (rule alertmanager_routes [OF rateLimitMiddleware_enforces [OF that local_limiter]])
  moreover have "routes_forward ?P l" if "logs_api env (cfg_logs cfg) pm = Some l" for l
    by (rule id [OF logs_routes_tenancy [OF that]]) (use cfg in simp)
  moreover have "routes_forward ?P t" if "traces_api env (cfg_traces cfg) pm = Some t" for t
    by (rule id [OF traces_routes_tenancy [OF that]]) (use cfg in simp)
  ultimately show ?thesis
    using assms(1)
    by (auto simp: api_routes_def Let_def bind_eq_Some_conv split: option.splits if_splits)
qed

end

text \<open>The access token in front of the routes changes nothing that the tenancy of a route depends on.\<close>

lemma route_tenancy_access:
  assumes "keeps r r1" "URL r1 = URL r" "\<And>k. canonical_key k \<noteq> canonical_key ''Authorization'' \<Longrightarrow> header_values (Header r1) k = header_values (Header r) k"
    and "canonical_key (metrics_tenantHeader (cfg_metrics cfg)) \<noteq> canonical_key ''Authorization''"
    and "route_tenancy conf mime cfg p r1 r'"
  shows "route_tenancy conf mime cfg p r r'"
proof -
  have "header_values (Header r1) ''Connection'' = header_values (Header r) ''Connection''" using assms(3) form_keys(3) by metis
  note pp = passes_proxy_cong [OF this]
  have "header_values (Header r1) (metrics_tenantHeader (cfg_metrics cfg)) = header_values (Header r) (metrics_tenantHeader (cfg_metrics cfg))"
    using assms(3,4) by blast
  thus ?thesis
    using assms(1,2,5) unfolding route_tenancy_def written_def metrics_confined_def keeps_def pp by simp
qed

lemma WithAccessToken_shape:
  "enforces (\<lambda>r r1. keeps r r1 \<and> URL r1 = URL r \<and> (\<forall>k. canonical_key k \<noteq> canonical_key ''Authorization'' \<longrightarrow>
     header_values (Header r1) k = header_values (Header r) k)) WithAccessToken"
  by (rule enforces_pass, unfold WithAccessToken_def Let_def, rule refl) (simp add: keeps_def)

context tenancy_parts
begin

lemma gateway_routes_tenancy:
  assumes "gateway_routes env cfg client token ids limits pm = Some rs" "manager_ok pm" "tenancy_config cfg"
    and "canonical_key (metrics_tenantHeader (cfg_metrics cfg)) \<noteq> canonical_key ''Authorization''"
  shows "routes_forward (\<lambda>p r r'. tenantKey (Ctx r) = None \<longrightarrow>
     route_tenancy (confined_to rx (env_promql (genv_metrics env)) selectors (metrics_label (cfg_metrics cfg))) (genv_mime env) cfg p r r') rs"
proof -
  from assms(1) obtain rs' where rs': "api_routes env cfg client token ids limits pm = Some rs'"
    and rs: "rs = chi_Group [] [WithAccessToken] rs' @ chi_Method ''GET'' ''/openapi.yaml'' (openapi_handler (genv_openapi env))
                   @ chi_Method ''GET'' ''/'' (PathsHandlerFunc (genv_paths env))"
    by (auto simp: gateway_routes_def)
  have "routes_forward (\<lambda>p r r'. tenantKey (Ctx r) = None \<longrightarrow>
     route_tenancy (confined_to rx (env_promql (genv_metrics env)) selectors (metrics_label (cfg_metrics cfg))) (genv_mime env) cfg p r r')
     (chi_Group [] [WithAccessToken] rs')"
  proof (rule routes_forward_Group [OF api_routes_tenancy [OF rs' assms(2,3)]])
    show "enforces (\<lambda>r r1. keeps r r1 \<and> URL r1 = URL r \<and> (\<forall>k. canonical_key k \<noteq> canonical_key ''Authorization'' \<longrightarrow>
        header_values (Header r1) k = header_values (Header r) k)) (chain [WithAccessToken :: 'c limit_state middleware])"
      using WithAccessToken_shape by simp
  next
    fix p r r1 r'
    assume k: "keeps r r1 \<and> URL r1 = URL r \<and> (\<forall>k. canonical_key k \<noteq> canonical_key ''Authorization'' \<longrightarrow>
        header_values (Header r1) k = header_values (Header r) k)"
    assume t: "tenantKey (Ctx r1) = None \<longrightarrow>
      route_tenancy (confined_to rx (env_promql (genv_metrics env)) selectors (metrics_label (cfg_metrics cfg))) (genv_mime env) cfg p r1 r'"
    show "tenantKey (Ctx r) = None \<longrightarrow>
      route_tenancy (confined_to rx (env_promql (genv_metrics env)) selectors (metrics_label (cfg_metrics cfg))) (genv_mime env) cfg p r r'"
      using k t by (intro impI route_tenancy_access [of r r1]) (auto simp: keeps_def assms(4))
  qed
  thus ?thesis unfolding rs by (auto simp: openapi_handler_def PathsHandlerFunc_def intro!: routes_forward_never)
qed

end

end
