(* ===== verification/Gateway_Example.thy ===== *)
theory Gateway_Example
  imports Gateway_Tenancy
begin

text \<open>
  A gateway with concrete libraries, on which the properties of the whole server are applied to requests: libraries that pass requests on, the selector fragment of PromQL, and the configuration of the defaults with endpoints for
  metrics, logs and traces; \<open>finder_for\<close> takes the route with a given pattern.
\<close>

definition sample_gateway_env :: "(matcher list list, unit, unit) gateway_env" where
  "sample_gateway_env =
     \<lparr>genv_metrics =
        \<lparr>env_promql = sel_promql,
         env_yaml = \<lparr>Unmarshal_Rules = \<lambda>_. Inl ''no yaml'', Marshal_Rules = \<lambda>_. Inl ''no yaml'',
                     Unmarshal_RuleGroup = \<lambda>_. Inl ''no yaml'', Marshal_RuleGroup = \<lambda>_. Inl ''no yaml''\<rparr>,
         env_rules_client = \<lambda>_. Inl ''no client'', env_am_parse = \<lambda>_. None, env_am_print = mname,
         env_silence_codec = \<lparr>sil_decode = \<lambda>_. Inl ''no codec'', sil_encode = \<lambda>_. Inl ''no codec''\<rparr>,
         env_silences = \<lambda>_ _. Inl SilenceNotFound\<rparr>,
      genv_logs = sample_env, genv_mime = \<lambda>ct. (ct, None), genv_url = \<lparr>url_Parse = \<lambda>_. Inl ''no parser'', url_String = Path\<rparr>,
      genv_parse_uri = \<lambda>_. Inl ''no parser'', genv_float = Some, genv_fanout = \<lparr>reparse = Inr, Do = (\<lambda>_. Inl ''refused'')\<rparr>,
      genv_new_local = \<lambda>n l d nxt. nxt, genv_timeout = \<lambda>d nxt. nxt, genv_instrument = nopInstrumentHandler, genv_root = [],
      genv_paths = [], genv_openapi = []\<rparr>"

interpretation sample: tenancy_parts sample_gateway_env literal_regex "\<lambda>e. e"
proof (rule tenancy_parts.intro, rule transparent_parts.intro)
  have pass: "enforces (\<lambda>r r'. r' = r) (\<lambda>nxt. nxt)" by (rule enforces_pass) auto
  show "enforces (\<lambda>r r'. r' = r) (genv_new_local sample_gateway_env n l d)" "enforces (\<lambda>r r'. r' = r) (genv_timeout sample_gateway_env d)" for n l d
    using pass by (simp_all add: sample_gateway_env_def)
  show "enforces (\<lambda>r r'. r' = r) (genv_instrument sample_gateway_env ls)" for ls
    using pass by (simp add: sample_gateway_env_def nopInstrumentHandler_def [abs_def])
  show "m \<in> set (genv_root sample_gateway_env) \<Longrightarrow> enforces (\<lambda>r r'. r' = r) m" for m by (simp add: sample_gateway_env_def)
  show "tenancy_parts_axioms sample_gateway_env literal_regex (\<lambda>e. e)"
    by (rule tenancy_parts_axioms.intro)
       (simp_all add: sample_gateway_env_def literal.regex_engine_axioms sel_enforcer.promql_enforcer_axioms)
qed

definition sample_upstream :: "string \<Rightarrow> url" where
  "sample_upstream host = \<lparr>Scheme = ''http'', Host = host, Path = [], RawQuery = []\<rparr>"

definition sample_config :: gateway_config where
  "sample_config =
     (let c = flag_config sample_flag_lib []
      in c\<lparr>cfg_metrics := (cfg_metrics c)\<lparr>metrics_enabled := True, metrics_readEndpoint := Some (sample_upstream ''thanos''),
                             metrics_writeEndpoint := Some (sample_upstream ''receive'')\<rparr>,
           cfg_traces := (cfg_traces c)\<lparr>traces_enabled := True, traces_readEndpoint := Some (sample_upstream ''jaeger'')\<rparr>\<rparr>)"

definition sample_tenant_a :: tenant where
  "sample_tenant_a = \<lparr>tn_Name = ''team-a'', tn_ID = [], tn_OIDC = None, tn_OpenShift = None, tn_Authenticator = None, tn_MTLS = Some [], tn_RateLimits = []\<rparr>"

definition sample_start_env :: "unit start_env" where
  "sample_start_env = \<lparr>st_readFile = \<lambda>_. Inl ''no file'', st_compile = \<lambda>_. None, st_showq = id, st_dial = \<lambda>_. Inl ''refused'', st_redis = \<lambda>_. Inl ''refused''\<rparr>"

definition sample_started :: "unit started" where
  "sample_started = \<lparr>sd_token = [], sd_ids = [(''team-a'', [])], sd_client = None, sd_rateLimits = [], sd_tasks = [([], ''team-a'', ''mtls'')]\<rparr>"

definition sample_manager :: "unit limit_state ProviderManager" where
  "sample_manager = register_provider ''team-a'' mtls_provider NewProviderManager"

definition finder_for :: "string \<Rightarrow> chi_finder" where
  "finder_for p ks r =
     (let i = length (takeWhile (\<lambda>k. snd k \<noteq> p) ks) in if i < length ks then Chosen i [] else NoRoute)"

lemma finder_for_ok: "finder_ok (finder_for p)"
  by (auto simp: finder_ok_def finder_for_def Let_def split: if_splits)

lemma finder_for_pattern:
  assumes "p \<in> set (map rpattern rs)"
  obtains i where "finder_for p (route_keys rs) r = Chosen i []" "rpattern (rs ! i) = p"
proof -
  let ?i = "length (takeWhile (\<lambda>k. snd k \<noteq> p) (route_keys rs))"
  have "p \<in> set (map snd ks) \<Longrightarrow> length (takeWhile (\<lambda>k. snd k \<noteq> p) ks) < length ks" for ks :: "(string option \<times> string) list"
    by (induction ks) auto
  moreover have "map snd (route_keys rs) = map rpattern rs" by (simp add: route_keys_def)
  ultimately have i: "?i < length (route_keys rs)" using assms by metis
  moreover have "snd (route_keys rs ! ?i) = p" using nth_length_takeWhile [OF i] by simp
  ultimately show thesis using that [of ?i] by (simp add: finder_for_def Let_def route_keys_def)
qed

lemmas sample_flag_defs = flag_config_def server_flags_def logs_flags_def metrics_flags_def traces_flags_def probes_flags_def
  tls_flags_def middleware_flags_def alertmanager_flags_def flag_str_def flag_bool_def flag_int_def flag_duration_def flag_multi_def

lemma sample_starts: "gateway_start sample_start_env sample_config [Some sample_tenant_a] = Inr sample_started"
proof -
  have "load_tenants [Some sample_tenant_a] = Some [Some sample_tenant_a]"
    by (simp add: load_tenant_def sample_tenant_a_def Let_def)
  moreover have "something_enabled sample_config" "accessor_token rf (cfg_alertmanager sample_config) = Inr []"
      "rate_limit_client dial redis (cfg_middleware sample_config) = Inr None" "healthcheck_tls (cfg_tls sample_config) = Inr False"
    for rf and dial :: "string \<Rightarrow> string + unit limiter_client" and redis
    by (simp_all add: something_enabled_def sample_config_def Let_def accessor_token_def isEnabled_def sample_flag_defs rate_limit_client_def
        healthcheck_tls_def)
  moreover have "add_tenants showq comp [Some sample_tenant_a] [] [] = Inr ([], [([], ''team-a'', ''mtls'')])" for showq comp
    by (simp add: sample_tenant_a_def tenantAuthenticatorConfig_def)
  moreover have "tenantIDs [Some sample_tenant_a] = [(''team-a'', [])]" by (simp add: tenantIDs_def sample_tenant_a_def)
  ultimately show ?thesis by (simp add: gateway_start_def sample_started_def del: load_tenants.simps add_tenants.simps)
qed

lemma sample_manager_run:
  "init_run (providerFactories json_print sample_oidc_env sample_openshift_env forward)
     (sd_tasks sample_started, NewProviderManager) ([], sample_manager)"
proof -
  have "init_step (providerFactories json_print sample_oidc_env sample_openshift_env forward)
      ([] @ ([], ''team-a'', ''mtls'') # [], NewProviderManager) ([] @ [], sample_manager)"
    unfolding sample_manager_def
    by (rule run_task [where x = "Some mtls_provider"])
       (simp add: InitializeProvider_def getProviderFactory_def newMTLSAuthenticator_def
          providerFactories_def onboardNewProvider_def)
  thus ?thesis by (simp add: sample_started_def) (rule init_trans, assumption, rule init_refl)
qed

lemma sample_tenancy_config: "tenancy_config sample_config"
  by code_simp

definition sample_routes :: "unit limit_state router" where
  "sample_routes = the (started_routes sample_gateway_env sample_config sample_started sample_manager)"

lemma sample_routes_started: "started_routes sample_gateway_env sample_config sample_started sample_manager = Some sample_routes"
proof -
  have "started_routes sample_gateway_env sample_config sample_started sample_manager \<noteq> None" by code_simp
  thus ?thesis by (simp add: sample_routes_def)
qed

definition sample_write :: request where
  "sample_write = plain_request\<lparr>Method := ''POST'', URL := (URL plain_request)\<lparr>Path := ''/api/metrics/v1/api/v1/receive''\<rparr>,
     TLS := Some [sample_cert]\<rparr>"

lemma sample_write_forwarded:
  "\<exists>r'. gateway_ServeHTTP sample_gateway_env (finder_for ''/api/metrics/v1/api/v1/receive'') sample_routes sample_write new_writer
     \<lparr>limitTracker = [], service = ()\<rparr> = (Forwarded r' new_writer, \<lparr>limitTracker = [], service = ()\<rparr>)"
proof -
  have "case gateway_ServeHTTP sample_gateway_env (finder_for ''/api/metrics/v1/api/v1/receive'') sample_routes sample_write new_writer
     \<lparr>limitTracker = [], service = ()\<rparr> of (Forwarded r' w', s') \<Rightarrow> w' = new_writer \<and> limitTracker s' = [] | _ \<Rightarrow> False"
    by code_simp
  thus ?thesis by (auto split: prod.splits outcome.splits)
qed


definition sample_query :: request where
  "sample_query =
     plain_request\<lparr>URL := (URL plain_request)\<lparr>Path := ''/api/metrics/v1/api/v1/series''\<rparr>, Header := [(''Thanos-Tenant'', [''team-a''])],
       TLS := Some [sample_cert]\<rparr>"

lemma sample_query_forwarded:
  "\<exists>r'. gateway_ServeHTTP sample_gateway_env (finder_for ''/api/metrics/v1/api/v1/series'') sample_routes sample_query new_writer
     \<lparr>limitTracker = [], service = ()\<rparr> = (Forwarded r' new_writer, \<lparr>limitTracker = [], service = ()\<rparr>)"
proof -
  have "case gateway_ServeHTTP sample_gateway_env (finder_for ''/api/metrics/v1/api/v1/series'') sample_routes sample_query new_writer
     \<lparr>limitTracker = [], service = ()\<rparr> of (Forwarded r' w', s') \<Rightarrow> w' = new_writer \<and> limitTracker s' = [] | _ \<Rightarrow> False"
    by code_simp
  thus ?thesis by (auto split: prod.splits outcome.splits)
qed

lemma sample_patterns:
  "''/api/metrics/v1/api/v1/receive'' \<in> set (map rpattern sample_routes)" "''/api/metrics/v1/api/v1/series'' \<in> set (map rpattern sample_routes)"
  by code_simp+

lemma sample_configured:
  "metrics_label (cfg_metrics sample_config) = ''tenant_id''" "metrics_tenantHeader (cfg_metrics sample_config) = ''THANOS-TENANT''"
  "traces_tempoEndpoint (cfg_traces sample_config) = None" "canonical_key ''THANOS-TENANT'' \<noteq> canonical_key ''Authorization''"
  by code_simp+

end
