(* ===== verification/Gateway_Gaps.thy ===== *)
theory Gateway_Gaps
  imports Gateway_Example
begin

text \<open>
  Where the routes of the server fall short of what the rest of them guarantees: a route without authentication, login routes that cannot work,
  and two ways around the enforcement of labels on metric queries.
\<close>

section \<open>Lemmas\<close>

lemma header_values_tempo_director:
  "canonical_key k \<noteq> canonical_key PrefixHeader \<Longrightarrow> header_values (Header (tempo_director u r)) k = header_values (Header r) k"
  by (simp add: tempo_director_def proxy_Middlewares_def MiddlewareSetUpstream_def MiddlewareRemoveURLPrefix_def MiddlewareSetPrefixHeader_def
        set_path_def
        split: prod.splits)

lemma upgradeType_tempo: "upgradeType (Header (tempo_director u r)) = upgradeType (Header r)"
proof -
  have "canonical_key ''Upgrade'' \<noteq> canonical_key PrefixHeader" unfolding PrefixHeader_def by code_simp
  thus ?thesis
    using connection_prefix_keys by (simp add: upgradeType_def contains_token_def header_get_def header_values_tempo_director)
qed

lemma tempo_director_simps: "Host (URL (tempo_director u r)) = Host u" "Ctx (tempo_director u r) = Ctx r"
  by (simp_all add: tempo_director_def proxy_Middlewares_def MiddlewareSetUpstream_def MiddlewareRemoveURLPrefix_def MiddlewareSetPrefixHeader_def
        set_path_def
        split: prod.splits)

text \<open>What a read route of metrics sends to the upstream, in terms of the checks in front of it.\<close>

lemma read_route_checks:
  assumes "metricsReadMiddlewares hdr pm label rl = Some mws" "manager_ok pm" "enforces (\<lambda>r r'. r' = r) rl"
    and "chain (mws @ [Metrics_WithEnforceAuthorizationLabels pq mime, StripPrefix ''/api/metrics/v1'']) (ReverseProxy (upstream_director u)) r w s
      = (Forwarded r' w', s')" "utf8_valid label"
  obtains r3 r4 ms where "enforceRequestQueryLabels pq mime ms (metricSelectorParam (Path (URL r))) r3 = Inr r4"
    "matcher_names_distinct ms" "URL r3 = URL r" "Method r3 = Method r" "Header r3 = Header r" "r' = outgoing (upstream_director u) (stripped ''/api/metrics/v1'' r4)"
proof -
  have "enforces (\<lambda>r r'. r' = stripped ''/api/metrics/v1'' r) (StripPrefix ''/api/metrics/v1'' :: 'a middleware)"
    by (rule enforces_mono [OF StripPrefix_enforces]) simp_all
  note c = enforces_comp [OF read_chain_checks [OF assms(1-3), of pq mime] this]
  have "(chain (mws @ [Metrics_WithEnforceAuthorizationLabels pq mime]) \<circ> StripPrefix ''/api/metrics/v1'') (ReverseProxy (upstream_director u)) r w s
      = (Forwarded r' w', s')" using assms(4) by (simp add: o_assoc)
  from enforces_proxied [OF c this] obtain r1 r2 r3 r4 where st: "tenant_from_header hdr r = Inr r1" "authenticated r1 r2"
      "tenant_label_check label r2 = Inr r3" "metrics_authz_check pq mime r3 = Inr r4"
    and r': "r' = outgoing (upstream_director u) (stripped ''/api/metrics/v1'' r4)" by metis
  define ts where "ts = collect_tenants (header_values (Header r) hdr)"
  obtain t where t: "tenant_list t ts" "r1 = set_tenant t r" using st(1) by (auto simp: tenant_from_header_Inr ts_def)
  have r2: "tenantKey (Ctx r2) = Some t" "URL r2 = URL r" "Method r2 = Method r" "Header r2 = Header r"
    using st(2) by (simp_all add: authenticated_def t(2) set_tenant_def)
  let ?ms = "tenant_matchers label t (map quote_meta ts)"
  obtain data where data: "r3 = with_ctx (\<lambda>c. WithData c data) r2" "unmarshal_authz data = Some \<lparr>Matchers = ?ms, MatcherOp = []\<rparr>"
    using tenant_label_validated [OF t(1) r2(1) assms(5)] st(3) by auto
  have "unmarshal_authz [] = None" by code_simp
  hence "data \<noteq> []" using data(2) by auto
  hence "enforceRequestQueryLabels pq mime ?ms (metricSelectorParam (Path (URL r))) r3 = Inr r4"
    using st(4) data r2(2) by (simp add: metrics_authz_check_def GetData_def WithData_def)
  thus thesis by (rule that) (simp_all add: data(1) r2 r' matcher_names_distinct_def tenant_matchers_def)
qed

text \<open>The middlewares and the handler of a read route of the example.\<close>

definition sample_read_middlewares :: "unit limit_state middleware list" where
  "sample_read_middlewares = [WithTenantFromHeader ''THANOS-TENANT'', WithTenantMiddlewares [Middlewares sample_manager],
     guard_mw (tenant_label_check ''tenant_id''), \<lambda>nxt. nxt]"

definition sample_read_handler :: "unit limit_state handler" where
  "sample_read_handler = chain (sample_read_middlewares @ [Metrics_WithEnforceAuthorizationLabels sel_promql (\<lambda>ct. (ct, None)), StripPrefix ''/api/metrics/v1''])
     (ReverseProxy (upstream_director (sample_upstream ''thanos'')))"

lemma sample_read:
  "metricsReadMiddlewares ''THANOS-TENANT'' sample_manager ''tenant_id'' (\<lambda>nxt. nxt) = Some sample_read_middlewares"
  "manager_ok sample_manager" "enforces (\<lambda>r r'. r' = r) (\<lambda>nxt. nxt)" "utf8_valid ''tenant_id''" "Path (sample_upstream ''thanos'') = []"
proof -
  show "metricsReadMiddlewares ''THANOS-TENANT'' sample_manager ''tenant_id'' (\<lambda>nxt. nxt) = Some sample_read_middlewares"
    by (simp add: metricsReadMiddlewares_def WithTenantLabel_def sample_read_middlewares_def)
  show "manager_ok sample_manager" using init_run_manager_ok [OF sample_manager_run factories_ok_registered] manager_ok_new by simp
  show "enforces (\<lambda>r r'. r' = r) (\<lambda>nxt. nxt)" by (rule enforces_pass) auto
  show "utf8_valid ''tenant_id''" by code_simp
  show "Path (sample_upstream ''thanos'') = []" by (simp add: sample_upstream_def)
qed

section \<open>Properties\<close>

text \<open>
  C35. The route to Tempo has no middleware of its own: with an endpoint of Tempo, there is a route that sends every GET
  request on to Tempo as it came, without a tenant, a certificate or any authentication.
\<close>

theorem tempo_route_unauthenticated:
  fixes env :: "('e, 'x, 'c) gateway_env"
  assumes "traces_api env cfg pm = Some rs" "traces_enabled cfg" "traces_tempoEndpoint cfg = Some u"
    and "genv_timeout env (traces_upstreamWriteTimeout cfg) = (\<lambda>nxt. nxt)" "genv_instrument env = nopInstrumentHandler"
  shows "\<exists>rt \<in> set rs. rmethod rt = Some ''GET'' \<and> rpattern rt = ''/api/traces/v1/tempo/api*''
    \<and> (\<forall>r w s. upgradeType (Header r) = [] \<longrightarrow>
         (\<exists>r'. rhandler rt r w s = (Forwarded r' w, s) \<and> Host (URL r') = Host u \<and> Ctx r' = Ctx r))"
proof -
  define c where "c = fold (\<lambda>opt c. opt c) (tracesHandlerOptions env cfg pm) traces_defaults"
  have c: "traces_tempoMiddlewares c = []" "traces_instrument c = nopInstrumentHandler"
    using assms(5) by (simp_all add: c_def tracesHandlerOptions_def traces_defaults_def Traces_WithHandlerInstrumenter_def WithSpanRoutePrefix_def
        Traces_WithWriteMiddleware_def Traces_WithReadMiddleware_def)
  obtain rs' where n: "NewV2Handler (genv_parse_uri env) (traces_readEndpoint cfg) (traces_readTemplateEndpoint cfg) (Some u)
      (traces_writeOTLPHTTPEndpoint cfg) (tracesHandlerOptions env cfg pm) = Some rs'"
    and rs: "rs = chi_Group [] [\<lambda>nxt. nxt] (chi_Mount ''/api/traces/v1'' rs')"
    using assms(1-4) by (auto simp: traces_api_def)
  from n have sub: "set (traces_tempo_routes c u) \<subseteq> set rs'" by (auto simp: NewV2Handler_def Let_def c_def)
  define rt :: "'c limit_state route" where
    "rt = \<lparr>rmethod = Some ''GET'', rpattern = ''/tempo/api*'', rlabels = [(''group'', ''tracesv1api''), (''handler'', ''traces'')],
      rhandler = ReverseProxy (tempo_director u)\<rparr>"
  have "rt \<in> set (traces_tempo_routes c u)"
    by (simp add: rt_def traces_tempo_routes_def c instrumented_def Let_def chi_Group_def chi_Method_def nopInstrumentHandler_def)
  with sub have "rt \<in> set rs'" by blast
  hence m: "rt\<lparr>rpattern := ''/api/traces/v1'' @ rpattern rt\<rparr>\<lparr>rlabels := [] @ rlabels rt, rhandler := chain [\<lambda>nxt. nxt] (rhandler rt)\<rparr> \<in> set rs"
    unfolding rs chi_Group_def chi_Mount_def by (auto intro!: image_eqI [OF _ image_eqI])
  moreover have "\<exists>r'. ReverseProxy (tempo_director u) r w s = (Forwarded r' w, s) \<and> Host (URL r') = Host u \<and> Ctx r' = Ctx r"
    if "upgradeType (Header r) = []" for r :: request and w and s :: "'c limit_state"
    using that by (simp add: ReverseProxy_def upgradeType_tempo ascii_print_def tempo_director_simps)
  ultimately show ?thesis by (intro bexI [OF _ m]) (simp add: rt_def)
qed

definition tempo_config :: tracesConfig where
  "tempo_config = (cfg_traces sample_config)\<lparr>traces_tempoEndpoint := Some (sample_upstream ''tempo'')\<rparr>"

theorem tempo_route_unauthenticated_witness:
  "\<exists>rs rt r'. traces_api sample_gateway_env tempo_config NewProviderManager = Some rs \<and> rt \<in> set rs
     \<and> rhandler rt plain_request new_writer \<lparr>limitTracker = [], service = ()\<rparr> = (Forwarded r' new_writer, \<lparr>limitTracker = [], service = ()\<rparr>)
     \<and> Host (URL r') = ''tempo'' \<and> tenantKey (Ctx r') = None \<and> subjectKey (Ctx r') = None"
proof -
  have "traces_api sample_gateway_env tempo_config NewProviderManager \<noteq> None" by code_simp
  then obtain rs where rs: "traces_api sample_gateway_env tempo_config NewProviderManager = Some rs" by blast
  have c: "traces_enabled tempo_config" "traces_tempoEndpoint tempo_config = Some (sample_upstream ''tempo'')" "Host (sample_upstream ''tempo'') = ''tempo''"
    by code_simp+
  have e: "genv_timeout sample_gateway_env d = (\<lambda>nxt. nxt)" "genv_instrument sample_gateway_env = nopInstrumentHandler" for d
    by (simp_all add: sample_gateway_env_def)
  have p: "upgradeType (Header plain_request) = []" "tenantKey (Ctx plain_request) = None" "subjectKey (Ctx plain_request) = None" by code_simp+
  from tempo_route_unauthenticated [OF rs c(1,2) e(1) e(2)] obtain rt where rt: "rt \<in> set rs"
    "\<And>r w s. upgradeType (Header r) = [] \<Longrightarrow> \<exists>r'. rhandler rt r w s = (Forwarded r' w, s) \<and> Host (URL r') = Host (sample_upstream ''tempo'') \<and> Ctx r' = Ctx r"
    by blast
  from rt(2) [OF p(1), of new_writer "\<lparr>limitTracker = [], service = ()\<rparr>"] obtain r' where
    "rhandler rt plain_request new_writer \<lparr>limitTracker = [], service = ()\<rparr> = (Forwarded r' new_writer, \<lparr>limitTracker = [], service = ()\<rparr>)"
    "Host (URL r') = ''tempo''" "Ctx r' = Ctx plain_request" using c(3) by auto
  thus ?thesis using rs rt(1) p(2,3) by auto
qed

text \<open>
  C36. The login routes of the providers never log anybody in: no middleware in front of them puts the tenant of the path into the
  context, so that whatever the route and the tenant, the answer is an internal server error.
\<close>

theorem login_routes_always_fail:
  assumes "rt \<in> set (chi_Group [] [WithAccessToken] (authn_routes pm))" "tenantKey (Ctx r) = None" "wstatus w = None"
  shows "\<exists>w'. rhandler rt r w s = (Responded w', s) \<and> final_status w' = 500"
proof -
  obtain p where p: "rhandler rt = WithAccessToken (PatternHandler pm p)"
    using assms(1) by (auto simp: chi_Group_def authn_routes_def chi_MountHandler_def chi_Handle_def)
  show ?thesis
    using assms(2,3) by (simp add: p WithAccessToken_def Let_def PatternHandler_def GetTenant_def PrometheusAPIError_status final_status_def)
qed

theorem login_routes_always_fail_witness:
  "let pm = register_provider ''a'' (mtls_provider\<lparr>provider_Handler := (''/oidc/{tenant}'', Some forward)\<rparr>) NewProviderManager in
   \<exists>rt w'. rt \<in> set (chi_Group [] [WithAccessToken] (authn_routes pm)) \<and> rpattern rt = ''/oidc/{tenant}/*''
     \<and> rhandler rt (set_path ''/oidc/a/login'' plain_request) new_writer () = (Responded w', ()) \<and> final_status w' = 500"
proof -
  define pm :: "unit ProviderManager"
    where "pm = register_provider ''a'' (mtls_provider\<lparr>provider_Handler := (''/oidc/{tenant}'', Some forward)\<rparr>) NewProviderManager"
  define rt :: "unit route" where "rt = \<lparr>rmethod = None, rpattern = ''/oidc/{tenant}/*'', rlabels = [], rhandler = WithAccessToken (PatternHandler pm ''/oidc/{tenant}'')\<rparr>"
  have rt: "rt \<in> set (chi_Group [] [WithAccessToken] (authn_routes pm))"
    by (simp add: rt_def pm_def register_provider_def NewProviderManager_def authn_routes_def chi_MountHandler_def chi_Handle_def chi_Group_def suffix_def)
  have "tenantKey (Ctx (set_path ''/oidc/a/login'' plain_request)) = None" "wstatus new_writer = None" by code_simp+
  from login_routes_always_fail [OF rt this, of "()"] rt show ?thesis
    unfolding Let_def pm_def [symmetric] by (auto simp: rt_def)
qed

text \<open>
  C33. A trailing slash switches the enforcement to the wrong parameter.  The enforcer looks at the end of the path to decide which
  parameter holds the selectors; for \<open>/api/v1/series/\<close> it takes \<open>query\<close>.  The path is cleaned on the way to the upstream, which is asked
  for \<open>/api/v1/series\<close> and gets the client's \<open>match[]\<close> parameters as they came.
\<close>

theorem trailing_slash_bypasses_enforcement:
  assumes "metricsReadMiddlewares hdr pm label rl = Some mws" "manager_ok pm" "enforces (\<lambda>r r'. r' = r) rl" "utf8_valid label"
    and "promql_enforcer pq selectors" "Path u = []" "Path (URL r) = ''/api/metrics/v1/api/v1/series/''" "Method r = ''GET''"
    and "chain (mws @ [Metrics_WithEnforceAuthorizationLabels pq mime, StripPrefix ''/api/metrics/v1'']) (ReverseProxy (upstream_director u)) r w s
      = (Forwarded r' w', s')"
  shows "Path (URL r') = ''/api/v1/series''
    \<and> values_of (url_query (URL r')) ''match[]'' = values_of (url_query (URL r)) ''match[]''"
proof -
  obtain r3 r4 ms where c: "enforceRequestQueryLabels pq mime ms (metricSelectorParam (Path (URL r))) r3 = Inr r4" "matcher_names_distinct ms"
    "URL r3 = URL r" "Method r3 = Method r" "Header r3 = Header r" "r' = outgoing (upstream_director u) (stripped ''/api/metrics/v1'' r4)"
    using read_route_checks [OF assms(1-3,9,4)] .
  have k: "metricSelectorParam (Path (URL r)) = ''query''" unfolding assms(7) by code_simp
  have "enforce_url pq ms ''query'' r3 = Inr r4" using c(1,4) assms(8) by (simp add: enforceRequestQueryLabels_def k)
  then obtain q where q: "enforceQueryValues pq ms ''query'' (url_query (URL r)) = Inr (q, True)" "r4 = set_raw_query q r3"
    using c(3) by (auto simp: enforce_url_def split: sum.splits if_splits)
  obtain v where v: "q = values_encode v" "\<And>k. k \<noteq> ''query'' \<Longrightarrow> values_of v k = values_of (url_query (URL r)) k"
    using promql_enforcer.enforceQueryValues_safe [OF assms(5) c(2) q(1)] by blast
  have "path_join [[], ''/api/v1/series/''] = ''/api/v1/series''" by code_simp
  hence "Path (URL r') = ''/api/v1/series''" using assms(6,7) c(3) by (simp add: c(6) q(2) set_raw_query_def)
  moreover have "url_query (URL r') = fst (parse_query (values_encode v))" by (simp add: c(6) q(2) url_query_def v(1))
  ultimately show ?thesis using v(2) [of "''match[]''"] by simp
qed

theorem trailing_slash_bypasses_enforcement_witness:
  "let r = sample_query\<lparr>URL := (URL sample_query)\<lparr>Path := ''/api/metrics/v1/api/v1/series/'', RawQuery := values_encode [(''match[]'', [''up''])]\<rparr>\<rparr> in
   \<exists>r' w' s'. sample_read_handler r new_writer \<lparr>limitTracker = [], service = ()\<rparr> = (Forwarded r' w', s')
     \<and> Path (URL r') = ''/api/v1/series'' \<and> values_of (url_query (URL r')) ''match[]'' = [''up'']"
proof -
  define r where "r = sample_query\<lparr>URL := (URL sample_query)\<lparr>Path := ''/api/metrics/v1/api/v1/series/'', RawQuery := values_encode [(''match[]'', [''up''])]\<rparr>\<rparr>"
  have "case sample_read_handler r new_writer \<lparr>limitTracker = [], service = ()\<rparr> of (Forwarded r' w', s') \<Rightarrow> True | _ \<Rightarrow> False"
    unfolding r_def by code_simp
  then obtain r' w' s' where f: "sample_read_handler r new_writer \<lparr>limitTracker = [], service = ()\<rparr> = (Forwarded r' w', s')"
    by (auto split: prod.splits outcome.splits)
  have p: "Path (URL r) = ''/api/metrics/v1/api/v1/series/''" "Method r = ''GET''" "values_of (url_query (URL r)) ''match[]'' = [''up'']"
    unfolding r_def by code_simp+
  show ?thesis
    using trailing_slash_bypasses_enforcement [OF sample_read(1-4) sel_enforcer.promql_enforcer_axioms sample_read(5) p(1,2) f [unfolded sample_read_handler_def]]
      f p(3) unfolding r_def [symmetric] Let_def by auto
qed

text \<open>
  C34. A client can hide the enforced selector from the upstream.  The selector of a form is in the body, which the enforcer
  announces in \<open>Content-Type\<close>; the proxy removes this header at the end if the client lists it in \<open>Connection\<close>.  The upstream
  then reads no selector at all, so that a route that works without one, as the label names, answers for all tenants.
\<close>

theorem dropped_content_type_hides_selector:
  assumes "metricsReadMiddlewares hdr pm label rl = Some mws" "manager_ok pm" "enforces (\<lambda>r r'. r' = r) rl" "utf8_valid label"
    and "fst (mime []) \<noteq> form_type" "\<not> passes_proxy (Header r) ''Content-Type''" "Method r = ''POST''"
    and "values_of (url_query (URL r)) (metricSelectorParam (Path (URL r))) = []"
    and "chain (mws @ [Metrics_WithEnforceAuthorizationLabels pq mime, StripPrefix ''/api/metrics/v1'']) (ReverseProxy (upstream_director u)) r w s
      = (Forwarded r' w', s')"
  shows "backend_values mime r' (metricSelectorParam (Path (URL r))) = []"
proof -
  let ?k = "metricSelectorParam (Path (URL r))"
  obtain r3 r4 ms where c: "enforceRequestQueryLabels pq mime ms ?k r3 = Inr r4" "matcher_names_distinct ms"
    "URL r3 = URL r" "Method r3 = Method r" "Header r3 = Header r" "r' = outgoing (upstream_director u) (stripped ''/api/metrics/v1'' r4)"
    using read_route_checks [OF assms(1-3,9,4)] .
  obtain pf where "enforce_body pq ms ?k pf r3 = Inr r4"
    using c(1,3,4) assms(7,8) by (auto simp: enforceRequestQueryLabels_def Let_def split: sum.splits)
  then obtain q where q: "r4 = set_raw_query (values_encode (values_del ?k (url_query (URL r3))))
       (with_header (header_set ''Content-Type'' ''application/x-www-form-urlencoded'') (set_body q r3))"
    by (auto simp: enforce_body_def Let_def split: sum.splits if_splits)
  have "passes_proxy (Header r4) ''Content-Type'' = passes_proxy (Header r) ''Content-Type''"
    by (rule passes_proxy_cong) (use enforceRequestQueryLabels_connection [OF c(1)] c(5) in simp)
  hence "header_get (Header r') ''Content-Type'' = []"
    using header_values_upstream [OF form_keys(4), of u "stripped ''/api/metrics/v1'' r4"] assms(6) by (simp add: c(6) header_get_def)
  moreover have "values_of (url_query (URL r')) ?k = []" by (simp add: c(6) q url_query_def)
  ultimately show ?thesis using assms(5) by (simp add: backend_values_def)
qed

theorem dropped_content_type_hides_selector_witness:
  "let r = sample_query\<lparr>Method := ''POST'', URL := (URL sample_query)\<lparr>Path := ''/api/metrics/v1/api/v1/labels''\<rparr>,
             Header := [(''Thanos-Tenant'', [''team-a'']), (''Connection'', [''Content-Type''])]\<rparr> in
   \<exists>r' w' s'. sample_read_handler r new_writer \<lparr>limitTracker = [], service = ()\<rparr> = (Forwarded r' w', s')
     \<and> backend_values (\<lambda>ct. (ct, None)) r' ''match[]'' = []"
proof -
  define r where "r = sample_query\<lparr>Method := ''POST'', URL := (URL sample_query)\<lparr>Path := ''/api/metrics/v1/api/v1/labels''\<rparr>,
             Header := [(''Thanos-Tenant'', [''team-a'']), (''Connection'', [''Content-Type''])]\<rparr>"
  have "case sample_read_handler r new_writer \<lparr>limitTracker = [], service = ()\<rparr> of (Forwarded r' w', s') \<Rightarrow> True | _ \<Rightarrow> False"
    unfolding r_def by code_simp
  then obtain r' w' s' where f: "sample_read_handler r new_writer \<lparr>limitTracker = [], service = ()\<rparr> = (Forwarded r' w', s')"
    by (auto split: prod.splits outcome.splits)
  have p: "fst (([]::string), None :: string option) \<noteq> form_type" "\<not> passes_proxy (Header r) ''Content-Type''" "Method r = ''POST''"
      "values_of (url_query (URL r)) (metricSelectorParam (Path (URL r))) = []" "metricSelectorParam (Path (URL r)) = ''match[]''"
    unfolding r_def by code_simp+
  show ?thesis
    using dropped_content_type_hides_selector [OF sample_read(1-4) p(1-4) f [unfolded sample_read_handler_def]]
      f p(5) unfolding r_def [symmetric] Let_def by auto
qed

end
