(* ===== verification/Traces_RBAC.thy ===== *)
theory Traces_RBAC
  imports Logs_Enforcer
begin

text \<open>
  Access control on traces, \<open>api/traces/v1/trace_rbac.go\<close>: which requests for Tempo
  pass, and what is removed from its responses.  Messages are trees of pointers; a pointer that the code may find nil is
  an option, and a nil pointer it follows makes it panic (the result \<open>None\<close>).
  The wire formats of Tempo are a parameter, and a field \<open>_rest\<close> holds what the code neither
  reads nor changes of a message.
\<close>

section \<open>Definitions\<close>

subsection \<open>Requests\<close>

definition is_word_char :: "char \<Rightarrow> bool" where
  "is_word_char c = (is_lower c \<or> is_upper c \<or> is_digit c \<or> c = CHR ''_'')"

text \<open>A path \<open>p\<close> followed by one or more word characters.\<close>

definition word_after :: "string \<Rightarrow> string \<Rightarrow> bool" where
  "word_after p s = (prefix p s \<and> drop (length p) s \<noteq> [] \<and> list_all is_word_char (drop (length p) s))"

definition routeQueryV1 :: "string \<Rightarrow> bool" where
  "routeQueryV1 = word_after ''/api/traces/''"

definition routeQueryV2 :: "string \<Rightarrow> bool" where
  "routeQueryV2 = word_after ''/api/v2/traces/''"

definition routeSearch :: "string \<Rightarrow> bool" where
  "routeSearch s = (s = ''/api/search'')"

definition routeSearchTagValues :: "string \<Rightarrow> bool" where
  "routeSearchTagValues s =
     (s = ''/api/v2/search/tag/resource.service.name/values''
      \<or> s = ''/api/v2/search/tag/resource.k8s.namespace.name/values'')"

definition matchesAnyRegex :: "string \<Rightarrow> (string \<Rightarrow> bool) list \<Rightarrow> bool" where
  "matchesAnyRegex s patterns = list_ex (\<lambda>re. re s) patterns"

definition allowedTempoAPIs :: "(string \<Rightarrow> bool) list" where
  "allowedTempoAPIs = [routeQueryV1, routeQueryV2, routeSearch, routeSearchTagValues]"

definition filteredAPIs :: "(string \<Rightarrow> bool) list" where
  "filteredAPIs = [routeQueryV1, routeQueryV2, routeSearch]"

definition tempo_check :: "bool \<Rightarrow> request \<Rightarrow> reply + request" where
  "tempo_check enabled r =
     (let requestedTempoPath = trim_prefix (Path (URL r)) ''/tempo'' in
      if \<not> enabled then Inr r
      else if \<not> matchesAnyRegex requestedTempoPath allowedTempoAPIs then Inl (StatusOnly 403)
      else if requestedTempoPath = ''/api/search'' then
        (case query_unescape (values_get (url_query (URL r)) ''q'') of
           None \<Rightarrow> Inr r
         | Some q \<Rightarrow>
             Inr (set_raw_query (values_encode (values_set ''q''
                    ((if q = [] then ''{ }'' else q) @ '' | select(resource.k8s.namespace.name)'')
                    (url_query (URL r)))) r))
      else Inr r)"

definition WithTraceQLNamespaceSelectAndForbidOtherAPIs :: "bool \<Rightarrow> 's middleware" where
  "WithTraceQLNamespaceSelectAndForbidOtherAPIs enabled = guard_mw (tempo_check enabled)"

subsection \<open>Traces\<close>

datatype AnyValue = StringValue string | OtherValue string

definition GetStringValue :: "AnyValue \<Rightarrow> string" where
  "GetStringValue v = (case v of StringValue s \<Rightarrow> s | OtherValue _ \<Rightarrow> [])"

type_synonym KeyValue = "string \<times> AnyValue"

record Span =
  sp_rest :: string
  sp_Attributes :: "KeyValue option list"
  sp_Events :: "string list"

record Scope =
  sc_rest :: string
  sc_Attributes :: "KeyValue option list"

record ScopeSpans =
  ss_Scope :: "Scope option"
  ss_Spans :: "Span list"
  ss_rest :: string

text \<open>A resource: its attributes, which may be nil.\<close>

record ResourceSpans =
  rs_Resource :: "KeyValue option list option option"
  rs_ScopeSpans :: "ScopeSpans list"
  rs_rest :: string

definition namespaceAttributeKey :: string where
  "namespaceAttributeKey = ''k8s.namespace.name''"

definition serviceAttributeKey :: string where
  "serviceAttributeKey = ''service.name''"

fun getAttribute :: "KeyValue option list \<Rightarrow> string \<Rightarrow> KeyValue option" where
  "getAttribute [] key = None"
| "getAttribute (a # as) key =
     (if (case a of None \<Rightarrow> [] | Some kv \<Rightarrow> fst kv) = key then a else getAttribute as key)"

definition strip_span :: "Span \<Rightarrow> Span" where
  "strip_span sp = sp\<lparr>sp_Attributes := [], sp_Events := []\<rparr>"

definition strip_scope :: "ScopeSpans \<Rightarrow> ScopeSpans option" where
  "strip_scope ss =
     (case ss_Scope ss of
        None \<Rightarrow> None
      | Some sc \<Rightarrow> Some (ss\<lparr>ss_Scope := Some (sc\<lparr>sc_Attributes := []\<rparr>), ss_Spans := map strip_span (ss_Spans ss)\<rparr>))"

text \<open>The loop over the resource attributes: the forbidden namespace, whether there is none at all, and the spans.\<close>

fun namespace_loop ::
    "string set \<Rightarrow> KeyValue option list \<Rightarrow> string \<times> bool \<times> ScopeSpans list \<Rightarrow> (string \<times> bool \<times> ScopeSpans list) option" where
  "namespace_loop allowed [] st = Some st"
| "namespace_loop allowed (None # as) st = None"
| "namespace_loop allowed (Some (k, v) # as) (notAllowed, missing, sss) =
     (if k = namespaceAttributeKey then
        (if GetStringValue v \<notin> allowed then
           (case those (map strip_scope sss) of
              None \<Rightarrow> None
            | Some sss' \<Rightarrow> namespace_loop allowed as (GetStringValue v, False, sss'))
         else namespace_loop allowed as (notAllowed, False, sss))
      else namespace_loop allowed as (notAllowed, missing, sss))"

definition resource_rbac :: "string set \<Rightarrow> ResourceSpans \<Rightarrow> ResourceSpans option" where
  "resource_rbac allowed rs =
     (case rs_Resource rs of
        Some (Some attrs) \<Rightarrow>
          (case namespace_loop allowed attrs ([], True, rs_ScopeSpans rs) of
             None \<Rightarrow> None
           | Some (notAllowed, missing, sss) \<Rightarrow>
               (let attrs1 = (if missing then (case getAttribute attrs serviceAttributeKey of
                                                 None \<Rightarrow> [] | Some a \<Rightarrow> [Some a]) else attrs)
                in case (if missing then those (map strip_scope sss) else Some sss) of
                     None \<Rightarrow> None
                   | Some sss1 \<Rightarrow>
                       Some (rs\<lparr>rs_Resource := Some (Some
                                  (if notAllowed \<noteq> []
                                   then [Some (namespaceAttributeKey, StringValue notAllowed),
                                         getAttribute attrs1 serviceAttributeKey]
                                   else attrs1)),
                                rs_ScopeSpans := sss1\<rparr>)))
      | _ \<Rightarrow> Some rs)"

definition traceRBAC :: "string set \<Rightarrow> ResourceSpans list \<Rightarrow> ResourceSpans list option" where
  "traceRBAC allowed trace = those (map (resource_rbac allowed) trace)"

subsection \<open>Search results\<close>

record SpanSet =
  set_Spans :: "Span list"
  set_rest :: string

record TraceSearchMetadata =
  tm_SpanSets :: "SpanSet option list"
  tm_SpanSet :: "SpanSet option"
  tm_rest :: string

record SearchResponse =
  sr_Traces :: "TraceSearchMetadata list"
  sr_rest :: string

definition span_namespaces :: "Span \<Rightarrow> string list" where
  "span_namespaces sp =
     map (\<lambda>kv. GetStringValue (snd kv))
       (filter (\<lambda>kv. fst kv = namespaceAttributeKey) (List.map_filter id (sp_Attributes sp)))"

definition span_rbac :: "string set \<Rightarrow> Span \<Rightarrow> Span" where
  "span_rbac allowed sp =
     (let nss = span_namespaces sp;
          bad = filter (\<lambda>n. n \<notin> allowed) nss;
          notAllowed = (if bad = [] then [] else last bad);
          sp1 = (if nss = [] then sp\<lparr>sp_Attributes := []\<rparr> else sp)
      in if notAllowed \<noteq> [] then sp1\<lparr>sp_Attributes := [Some (namespaceAttributeKey, StringValue notAllowed)]\<rparr> else sp1)"

definition spanSetRBAC :: "string set \<Rightarrow> SpanSet option \<Rightarrow> SpanSet option" where
  "spanSetRBAC allowed spanSet = map_option (\<lambda>ss. ss\<lparr>set_Spans := map (span_rbac allowed) (set_Spans ss)\<rparr>) spanSet"

definition searchResponseRBAC :: "string set \<Rightarrow> SearchResponse \<Rightarrow> SearchResponse" where
  "searchResponseRBAC allowed sr =
     sr\<lparr>sr_Traces := map (\<lambda>t. t\<lparr>tm_SpanSets := map (spanSetRBAC allowed) (tm_SpanSets t),
                                tm_SpanSet := spanSetRBAC allowed (tm_SpanSet t)\<rparr>) (sr_Traces sr)\<rparr>"

subsection \<open>Responses\<close>

record TraceByIDResponse =
  tb_Trace :: "ResourceSpans list option"
  tb_rest :: string

text \<open>
  The formats: protocol buffers if the argument is true, else the JSON form of the message, which is the one of version 1
  for a plain trace.
\<close>

record tempo_codec =
  trace_Unmarshal :: "bool \<Rightarrow> string \<Rightarrow> string + ResourceSpans list"
  trace_Marshal :: "bool \<Rightarrow> ResourceSpans list \<Rightarrow> string + string"
  traceByID_Unmarshal :: "bool \<Rightarrow> string \<Rightarrow> string + TraceByIDResponse"
  traceByID_Marshal :: "bool \<Rightarrow> TraceByIDResponse \<Rightarrow> string + string"
  search_Unmarshal :: "bool \<Rightarrow> string \<Rightarrow> string + SearchResponse"
  search_Marshal :: "bool \<Rightarrow> SearchResponse \<Rightarrow> string + string"

record tempo_response =
  re_StatusCode :: nat
  re_Header :: header
  re_Body :: body

definition is_protobuf :: "tempo_response \<Rightarrow> bool" where
  "is_protobuf re = (header_get (re_Header re) ''Content-Type'' = ''application/protobuf'')"

text \<open>The new body with its length; the response is no longer compressed.\<close>

definition replace_body :: "string \<Rightarrow> tempo_response \<Rightarrow> tempo_response" where
  "replace_body b re =
     re\<lparr>re_Body := Body_ok b,
        re_Header := AList.update ''Content-Encoding'' []
          (AList.update ''Content-Length'' [itoa_nat (length b)] (re_Header re))\<rparr>"

text \<open>The response after the modification: \<open>None\<close> is a panic, \<open>Some (Inl _)\<close> an error.\<close>

definition responseRBACModifier :: "tempo_codec \<Rightarrow> request \<Rightarrow> tempo_response \<Rightarrow> (string + tempo_response) option" where
  "responseRBACModifier codec r re =
     (let path = Path (URL r); allowed = set (AllowedNamespaces (Ctx r)); pb = is_protobuf re;
          reply = map_sum id (\<lambda>b. replace_body b re) in
      if \<not> matchesAnyRegex path filteredAPIs \<or> re_StatusCode re \<noteq> 200 then Some (Inr re)
      else (case re_Body re of
        Body_err err \<Rightarrow> Some (Inl err)
      | Body_ok b \<Rightarrow>
          if routeQueryV1 path then
            (case trace_Unmarshal codec pb b of
               Inl err \<Rightarrow> Some (Inl err)
             | Inr trace \<Rightarrow> map_option (\<lambda>tr. reply (trace_Marshal codec pb tr)) (traceRBAC allowed trace))
          else if routeQueryV2 path then
            (case traceByID_Unmarshal codec pb b of
               Inl err \<Rightarrow> Some (Inl err)
             | Inr res \<Rightarrow>
                 (case tb_Trace res of
                    None \<Rightarrow> None
                  | Some trace \<Rightarrow>
                      map_option (\<lambda>tr. reply (traceByID_Marshal codec pb (res\<lparr>tb_Trace := Some tr\<rparr>))) (traceRBAC allowed trace)))
          else if routeSearch path then
            (case search_Unmarshal codec pb b of
               Inl err \<Rightarrow> Some (Inl err)
             | Inr sr \<Rightarrow> Some (reply (search_Marshal codec pb (searchResponseRBAC allowed sr))))
          else Some (Inr ((replace_body ''forbidden'' re)\<lparr>re_StatusCode := 403\<rparr>))))"

section \<open>Lemmas\<close>

definition bare :: "ScopeSpans \<Rightarrow> bool" where
  "bare ss \<longleftrightarrow> (\<forall>sp \<in> set (ss_Spans ss). sp_Attributes sp = [] \<and> sp_Events sp = [])
     \<and> (\<forall>sc. ss_Scope ss = Some sc \<longrightarrow> sc_Attributes sc = [])"

lemma strip_scope_bare: "strip_scope ss = Some ss' \<Longrightarrow> bare ss'"
  by (auto simp: strip_scope_def bare_def strip_span_def split: option.splits)

lemma those_set: "those (map f xs) = Some ys \<Longrightarrow> y \<in> set ys \<Longrightarrow> \<exists>x \<in> set xs. f x = Some y"
  by (induction xs arbitrary: ys) (auto split: option.splits)

lemma strip_all_bare: "those (map strip_scope sss) = Some sss' \<Longrightarrow> \<forall>ss \<in> set sss'. bare ss"
  by (auto dest!: those_set strip_scope_bare)

text \<open>The namespaces of a resource.\<close>

definition namespaces_of :: "KeyValue option list \<Rightarrow> string list" where
  "namespaces_of attrs =
     map (\<lambda>kv. GetStringValue (snd kv))
       (filter (\<lambda>kv. fst kv = namespaceAttributeKey) (List.map_filter id attrs))"

lemma namespace_loop_result:
  assumes "namespace_loop allowed attrs (n, m, sss) = Some (n', m', sss')"
  shows "m' = (m \<and> namespaces_of attrs = [])"
    and "(\<forall>ss \<in> set sss'. bare ss) \<or> (sss' = sss \<and> set (namespaces_of attrs) \<subseteq> allowed)"
proof -
  have "m' = (m \<and> namespaces_of attrs = []) \<and>
        ((\<forall>ss \<in> set sss'. bare ss) \<or> (sss' = sss \<and> set (namespaces_of attrs) \<subseteq> allowed))"
    using assms
  proof (induction allowed attrs "(n, m, sss)" arbitrary: n m sss rule: namespace_loop.induct)
    case (3 allowed k v as notAllowed missing sss)
    show ?case
    proof (cases "k = namespaceAttributeKey")
      case True
      show ?thesis
      proof (cases "GetStringValue v \<in> allowed")
        case in_allowed: True
        have "namespace_loop allowed as (notAllowed, False, sss) = Some (n', m', sss')"
          using 3(4) True in_allowed by simp
        from 3(2) [OF True _ this] in_allowed show ?thesis
          using True by (auto simp: namespaces_of_def map_filter_simps)
      next
        case False
        then obtain s1 where s1: "those (map strip_scope sss) = Some s1"
            "namespace_loop allowed as (GetStringValue v, False, s1) = Some (n', m', sss')"
          using 3(4) True by (auto split: option.splits)
        from 3(1) [OF True False s1] strip_all_bare [OF s1(1)] show ?thesis
          using True by (auto simp: namespaces_of_def map_filter_simps)
      qed
    next
      case False
      have "namespace_loop allowed as (notAllowed, missing, sss) = Some (n', m', sss')" using 3(4) False by simp
      from 3(3) [OF False this] show ?thesis using False by (simp add: namespaces_of_def map_filter_simps)
    qed
  qed (auto simp: namespaces_of_def map_filter_simps)
  thus "m' = (m \<and> namespaces_of attrs = [])"
    "(\<forall>ss \<in> set sss'. bare ss) \<or> (sss' = sss \<and> set (namespaces_of attrs) \<subseteq> allowed)" by simp_all
qed

lemma resource_rbac_spans:
  assumes "resource_rbac allowed rs = Some rs'" "rs_Resource rs = Some (Some attrs)"
    and "namespaces_of attrs = [] \<or> \<not> set (namespaces_of attrs) \<subseteq> allowed"
  shows "\<forall>ss \<in> set (rs_ScopeSpans rs'). bare ss"
proof -
  obtain n m sss where l: "namespace_loop allowed attrs ([], True, rs_ScopeSpans rs) = Some (n, m, sss)"
    using assms(1,2) by (auto simp: resource_rbac_def split: option.splits)
  note r = namespace_loop_result [OF l]
  show ?thesis
  proof (cases "namespaces_of attrs = []")
    case True
    then obtain sss1 where "those (map strip_scope sss) = Some sss1" "rs_ScopeSpans rs' = sss1"
      using assms(1,2) l r(1) by (auto simp: resource_rbac_def Let_def split: option.splits)
    thus ?thesis using strip_all_bare by blast
  next
    case False
    hence "rs_ScopeSpans rs' = sss" using assms(1,2) l r(1) by (auto simp: resource_rbac_def Let_def)
    thus ?thesis using r(2) assms(3) False by blast
  qed
qed

section \<open>Properties\<close>


definition sample_spans :: ResourceSpans where
  "sample_spans =
     \<lparr>rs_Resource = Some (Some [Some (''k8s.namespace.name'', StringValue ''secret'')]),
      rs_ScopeSpans = [\<lparr>ss_Scope = Some \<lparr>sc_rest = ''lib'', sc_Attributes = []\<rparr>,
                        ss_Spans = [\<lparr>sp_rest = ''op'', sp_Attributes = [Some (''user'', StringValue ''x'')], sp_Events = [''e'']\<rparr>], ss_rest = []\<rparr>],
      rs_rest = []\<rparr>"


text \<open>
  A namespace attribute with the empty value slips past part of the filter: the empty name also stands for \<open>no
  forbidden namespace found\<close>, so the resource keeps all its attributes although no caller may read it.
\<close>

theorem trace_empty_namespace_keeps_attributes:
  "let attrs = [Some (namespaceAttributeKey, StringValue []), Some (''secret'', StringValue ''x'')];
       rs = \<lparr>rs_Resource = Some (Some attrs), rs_ScopeSpans = [], rs_rest = []\<rparr>
   in [] \<notin> allowed \<longrightarrow> traceRBAC allowed [rs] = Some [rs]"
  by (simp add: traceRBAC_def resource_rbac_def namespaceAttributeKey_def GetStringValue_def Let_def)

theorem trace_empty_namespace_keeps_attributes_witness:
  "traceRBAC {''mine''} [\<lparr>rs_Resource = Some (Some [Some (namespaceAttributeKey, StringValue []), Some (''secret'', StringValue ''x'')]),
       rs_ScopeSpans = [], rs_rest = []\<rparr>]
     = Some [\<lparr>rs_Resource = Some (Some [Some (namespaceAttributeKey, StringValue []), Some (''secret'', StringValue ''x'')]),
       rs_ScopeSpans = [], rs_rest = []\<rparr>]"
  using trace_empty_namespace_keeps_attributes [of "{''mine''}"] by (simp add: Let_def)

end
