(* ===== verification/Leaky_Bucket.thy ===== *)
theory Leaky_Bucket
  imports Redis_Limit
begin

text \<open>
  What the Redis rate limiter promises: a bucket that leaks at a constant rate and refuses what would make it overflow.  The script
  \<open>ratelimit/gcra_rate_limit.lua\<close>, which stores one point in time instead of a level and lets Redis forget it, is a refinement of this
  specification.
\<close>

section \<open>The specification\<close>

text \<open>The level of the bucket in requests, and the time at which it was measured.\<close>

record leaky_bucket =
  level :: rat
  measured :: rat

definition leak :: "rat \<Rightarrow> rat \<Rightarrow> rat \<Rightarrow> leaky_bucket \<Rightarrow> leaky_bucket" where
  "leak limit period now b = \<lparr>level = max 0 (level b - (now - measured b) * limit / period), measured = now\<rparr>"

text \<open>
  A request adds one to the level if there is room for it.  The reply has the whole requests there is room for, the time until there is room for
  one and the time until the bucket is empty.
\<close>

definition pour :: "rat \<Rightarrow> rat \<Rightarrow> rat \<Rightarrow> leaky_bucket \<Rightarrow> gcra_reply \<times> leaky_bucket" where
  "pour limit period now b =
     (let b' = leak limit period now b; l = level b'; interval = period / limit in
      if l + 1 \<le> limit then
        (\<lparr>limited = False, remaining = \<lfloor>limit - (l + 1)\<rfloor>, retry_in = 0, reset_in = \<lceil>(l + 1) * interval\<rceil>\<rparr>, b'\<lparr>level := l + 1\<rparr>)
      else
        (\<lparr>limited = True, remaining = \<lfloor>limit - l\<rfloor>, retry_in = \<lceil>(l + 1 - limit) * interval\<rceil>, reset_in = \<lceil>l * interval\<rceil>\<rparr>, b'))"

fun pour_run :: "rat \<Rightarrow> rat \<Rightarrow> rat list \<Rightarrow> leaky_bucket \<Rightarrow> gcra_reply list" where
  "pour_run limit period [] b = []"
| "pour_run limit period (now # ts) b =
     (case pour limit period now b of (reply, b') \<Rightarrow> reply # pour_run limit period ts b')"

text \<open>The replies of the script to requests at the given times.\<close>

fun script_run :: "(rat \<Rightarrow> rat \<Rightarrow> bool) \<Rightarrow> string \<Rightarrow> rat \<Rightarrow> rat \<Rightarrow> rat list \<Rightarrow> redis_db \<Rightarrow> gcra_reply list" where
  "script_run expired key limit period [] db = []"
| "script_run expired key limit period (now # ts) db =
     (case gcra_script expired key now limit limit period 1 db of (reply, db') \<Rightarrow> reply # script_run expired key limit period ts db')"

section \<open>The refinement\<close>

text \<open>
  The abstraction of the keys of Redis at the time \<open>t\<close>: the time until the stored point, in requests.  A key that is missing, or that Redis may
  have dropped, stands for an empty bucket.
\<close>

definition bucket_abs :: "string \<Rightarrow> rat \<Rightarrow> rat \<Rightarrow> rat \<Rightarrow> redis_db \<Rightarrow> leaky_bucket" where
  "bucket_abs key limit period t db = \<lparr>level = max 0 ((bucket_tat key t db - t) * limit / period), measured = t\<rparr>"

lemma leak_abs:
  assumes "0 < limit" "0 < period" "t \<le> now"
  shows "leak limit period now (bucket_abs key limit period t db) =
    \<lparr>level = (max (bucket_tat key now db) now - now) / (period / limit), measured = now\<rparr>"
proof -
  define r where "r = limit / period"
  have r: "0 < r" "x * limit / period = x * r" "x / (period / limit) = x * r" for x using assms by (auto simp: r_def)
  have le: "(now - t) * r \<ge> 0" using assms(3) r(1) by simp
  have "max 0 (max 0 ((v - t) * r) - (now - t) * r) = (max v now - now) * r" for v
  proof (cases "now \<le> v")
    case True
    hence "(now - t) * r \<le> (v - t) * r" using r(1) by simp
    moreover have "(v - t) * r - (now - t) * r = (v - now) * r" by (simp add: left_diff_distrib)
    ultimately show ?thesis using True le by (simp add: max_def)
  next
    case False
    hence "(v - t) * r \<le> (now - t) * r" using r(1) by simp
    thus ?thesis using False le by (simp add: max_def)
  qed
  moreover have "max 0 (- ((now - t) * r)) = 0" using le by simp
  ultimately show ?thesis using assms(3)
    by (simp add: leak_def bucket_abs_def r bucket_tat_def split: option.splits)
qed

lemma script_refines_pour:
  assumes "keeps_keys expired" and pos: "0 < limit" "0 < period" and "bucket_ok key db" "t \<le> now"
    and "gcra_script expired key now limit limit period 1 db = (reply, db')"
  shows "pour limit period now (bucket_abs key limit period t db) = (reply, bucket_abs key limit period now db')"
proof -
  define e where "e = period / limit"
  define tat where "tat = max (bucket_tat key now db) now"
  define l where "l = (tat - now) / e"
  have e: "0 < e" "e * limit = period" "x * limit / period = x / e" for x using pos by (auto simp: e_def)
  have l: "tat = now + l * e" "0 \<le> l" using e(1) by (auto simp: l_def tat_def)
  have leak: "leak limit period now (bucket_abs key limit period t db) = \<lparr>level = l, measured = now\<rparr>"
    using leak_abs [OF pos assms(5)] by (simp add: l_def tat_def e_def)
  note script = gcra_script_eq [OF assms(1-4) order_refl [of now], folded tat_def e_def]
  have period: "period = limit * e" using e(2) by (simp add: mult.commute)
  have room: "tat + e > now + period \<longleftrightarrow> \<not> l + 1 \<le> limit"
  proof -
    have "tat + e > now + period \<longleftrightarrow> (l + 1) * e > limit * e" by (simp add: l(1) period distrib_right)
    thus ?thesis using e(1) by (simp add: not_le)
  qed
  have rem: "(now - (tat - period)) / e = limit - l" "(now - (tat + e - period)) / e = limit - (l + 1)"
    using e(1) by (simp_all add: l(1) period field_simps)
  have times: "- (now - (tat + e - period)) = (l + 1 - limit) * e" "tat - now = l * e" "tat + e - now = (l + 1) * e"
    by (simp_all add: l(1) period algebra_simps)
  have "bucket_tat key now (AList.update key (tat + e, d) db) = tat + e" for d
    by (simp add: bucket_tat_def update_conv')
  hence "bucket_abs key limit period now (AList.update key (tat + e, d) db) = \<lparr>level = l + 1, measured = now\<rparr>" for d
    using l(2) e(1) by (simp add: bucket_abs_def e(3) times(3))
  moreover have "bucket_abs key limit period now db = \<lparr>level = l, measured = now\<rparr>"
    using e(1) by (simp add: bucket_abs_def e(3) l_def tat_def max_def divide_le_0_iff zero_le_divide_iff)
  ultimately show ?thesis
    using assms(6) unfolding script room rem times pour_def leak Let_def e_def [symmetric] by (auto split: if_splits)
qed

section \<open>Property\<close>



end
