(* ===== verification/Text_Scanner.thy ===== *)
theory Text_Scanner
  imports Go_Format
begin

text \<open>
  The scanner of the Go library, \<open>text/scanner\<close>, in the mode the lexer of LogQL uses it in, for Go tokens with comments skipped.  It reads its
  input through a buffer of 1024 bytes.  A copy of a scanner has its own buffer but shares the reader behind it, and
  the list of errors, with the original: this matters, since the lexer looks ahead on copies.
\<close>

section \<open>Definitions\<close>

text \<open>
  A rune is given by its bytes; a byte that does not start an encoding is a rune of its own, which the scanner takes for U+FFFD.  \<open>None\<close> is the end of the
  input.  The tables of letters, digits and numbers beyond ASCII are parameters.
\<close>

type_synonym rune = "string option"

record unicode_tables =
  uni_letter :: "string \<Rightarrow> bool"
  uni_digit :: "string \<Rightarrow> bool"
  uni_number :: "string \<Rightarrow> bool"

definition is_space :: "rune \<Rightarrow> bool" where
  "is_space r = (case r of None \<Rightarrow> False | Some bs \<Rightarrow> bs \<in> set space_encodings)"

definition ascii_letter :: "char \<Rightarrow> bool" where
  "ascii_letter c \<longleftrightarrow> is_lower c \<or> is_upper c"

definition is_letter :: "unicode_tables \<Rightarrow> string \<Rightarrow> bool" where
  "is_letter u bs = (case bs of [c] \<Rightarrow> ascii_letter c | _ \<Rightarrow> uni_letter u bs)"

definition is_uni_digit :: "unicode_tables \<Rightarrow> string \<Rightarrow> bool" where
  "is_uni_digit u bs = (case bs of [c] \<Rightarrow> is_digit c | _ \<Rightarrow> uni_digit u bs)"

definition is_number :: "unicode_tables \<Rightarrow> string \<Rightarrow> bool" where
  "is_number u bs = (case bs of [c] \<Rightarrow> is_digit c | _ \<Rightarrow> uni_number u bs)"

text \<open>How \<open>strings.Builder\<close> writes a rune, the end of the input included.\<close>

definition rune_error :: string where
  "rune_error = [CHR 0xEF, CHR 0xBF, CHR 0xBD]"

definition write_rune :: "rune \<Rightarrow> string" where
  "write_rune r = (case r of None \<Rightarrow> rune_error | Some bs \<Rightarrow> if utf8_len bs = 0 then rune_error else bs)"

subsection \<open>Reading\<close>

text \<open>\<open>sc_ch\<close> is the rune after the ones consumed, \<open>sc_tok\<close> the text consumed since the start of the token.\<close>

record scanner =
  sc_ch :: rune
  sc_buf :: string
  sc_reader :: string
  sc_errs :: "string list"
  sc_tok :: string

definition sc_error :: "string \<Rightarrow> scanner \<Rightarrow> scanner" where
  "sc_error msg s = s\<lparr>sc_errs := sc_errs s @ [msg]\<rparr>"

text \<open>\<open>utf8.FullRune\<close>: whether the bytes start with a whole encoding, or with something that is none.\<close>

definition full_rune :: "string \<Rightarrow> bool" where
  "full_rune bs =
     (case bs of
        [] \<Rightarrow> False
      | a # s \<Rightarrow>
          (case utf8_head a of
             None \<Rightarrow> True
           | Some (k, lo, hi) \<Rightarrow>
               k \<le> length s \<or> (s \<noteq> [] \<and> \<not> between lo hi (hd s)) \<or> (length s > 1 \<and> \<not> between 0x80 0xBF (s ! 1))))"

definition bufLen :: nat where
  "bufLen = 1024"

definition refill :: "scanner \<Rightarrow> scanner" where
  "refill s =
     (if full_rune (sc_buf s) then s
      else (let n = bufLen - length (sc_buf s)
            in s\<lparr>sc_buf := sc_buf s @ take n (sc_reader s), sc_reader := drop n (sc_reader s)\<rparr>))"

text \<open>The method \<open>next\<close> of the library, which consumes the current rune and reads the one after it.\<close>

definition advance :: "scanner \<Rightarrow> scanner" where
  "advance s0 =
     (let s = refill (s0\<lparr>sc_tok := sc_tok s0 @ (case sc_ch s0 of None \<Rightarrow> [] | Some bs \<Rightarrow> bs)\<rparr>);
          n = utf8_len (sc_buf s)
      in if sc_buf s = [] then s\<lparr>sc_ch := None\<rparr>
         else if n = 0 then
           sc_error ''invalid UTF-8 encoding'' (s\<lparr>sc_ch := Some (take 1 (sc_buf s)), sc_buf := drop 1 (sc_buf s)\<rparr>)
         else
           (let s' = s\<lparr>sc_ch := Some (take n (sc_buf s)), sc_buf := drop n (sc_buf s)\<rparr>
            in if take n (sc_buf s) = [CHR 0x00] then sc_error ''invalid character NUL'' s' else s'))"

text \<open>\<open>Init\<close> with the first rune read; a byte order mark at the start is skipped.\<close>

definition scanner_init :: "string \<Rightarrow> scanner" where
  "scanner_init input =
     (let s = advance \<lparr>sc_ch = None, sc_buf = [], sc_reader = input, sc_errs = [], sc_tok = []\<rparr>
      in if sc_ch s = Some [CHR 0xEF, CHR 0xBB, CHR 0xBF] then advance s else s)"

definition Peek :: "scanner \<Rightarrow> rune" where
  "Peek s = sc_ch s"

definition Next :: "scanner \<Rightarrow> rune \<times> scanner" where
  "Next s = (sc_ch s, if sc_ch s = None then s else advance s)"

text \<open>What is left to read; every \<open>advance\<close> in front of the end makes it smaller.\<close>

definition sc_left :: "scanner \<Rightarrow> nat" where
  "sc_left s = length (sc_buf s) + length (sc_reader s) + (if sc_ch s = None then 0 else 1)"

definition ch_is :: "string \<Rightarrow> scanner \<Rightarrow> bool" where
  "ch_is bs s \<longleftrightarrow> sc_ch s = Some bs"

definition ch_sat :: "(char \<Rightarrow> bool) \<Rightarrow> scanner \<Rightarrow> bool" where
  "ch_sat p s = (case sc_ch s of Some [c] \<Rightarrow> p c | _ \<Rightarrow> False)"

lemma refill_length: "length (sc_buf (refill s)) + length (sc_reader (refill s)) = length (sc_buf s) + length (sc_reader s)"
  by (auto simp: refill_def Let_def min_def)

lemma refill_more [simp]: "sc_ch (refill s) = sc_ch s" "sc_errs (refill s) = sc_errs s" "sc_tok (refill s) = sc_tok s"
  by (simp_all add: refill_def Let_def)

lemma sc_left_error [simp]: "sc_left (sc_error msg s) = sc_left s"
  by (simp add: sc_left_def sc_error_def)

lemma advance_left:
  assumes "sc_ch s \<noteq> None"
  shows "sc_left (advance s) < sc_left s"
proof -
  define t where "t = refill (s\<lparr>sc_tok := sc_tok s @ (case sc_ch s of None \<Rightarrow> [] | Some bs \<Rightarrow> bs)\<rparr>)"
  have len: "length (sc_buf t) + length (sc_reader t) = length (sc_buf s) + length (sc_reader s)"
    unfolding t_def refill_length by simp
  show ?thesis
  proof (cases "sc_buf t = []")
    case True
    thus ?thesis using len assms unfolding advance_def t_def [symmetric] Let_def by (simp add: sc_left_def)
  next
    case False
    then obtain c cs where "sc_buf t = c # cs" by (cases "sc_buf t") auto
    thus ?thesis using len assms utf8_len_le [of "sc_buf t"]
      unfolding advance_def t_def [symmetric] Let_def by (auto simp: sc_left_def sc_error_def)
  qed
qed

lemma ch_sat_not_None [dest]: "ch_sat p s \<Longrightarrow> sc_ch s \<noteq> None"
  by (auto simp: ch_sat_def split: option.splits)

lemma ch_is_not_None [dest]: "ch_is bs s \<Longrightarrow> sc_ch s \<noteq> None"
  by (auto simp: ch_is_def)

lemma Next_left: "(Some bs, s') = Next s \<Longrightarrow> sc_left s' < sc_left s"
  by (auto simp: Next_def intro!: advance_left split: if_splits)

subsection \<open>Tokens\<close>

function skip_while :: "(scanner \<Rightarrow> bool) \<Rightarrow> scanner \<Rightarrow> scanner" where
  "skip_while p s = (if sc_ch s \<noteq> None \<and> p s then skip_while p (advance s) else s)"
  by pat_completeness auto
termination by (relation "measure (\<lambda>(p, s). sc_left s)") (auto simp: advance_left)

declare skip_while.simps [simp del]

definition is_ident_rune :: "unicode_tables \<Rightarrow> bool \<Rightarrow> scanner \<Rightarrow> bool" where
  "is_ident_rune u first s =
     (case sc_ch s of None \<Rightarrow> False | Some bs \<Rightarrow> bs = ''_'' \<or> is_letter u bs \<or> (is_uni_digit u bs \<and> \<not> first))"

definition is_hex :: "char \<Rightarrow> bool" where
  "is_hex c \<longleftrightarrow> is_digit c \<or> between 0x61 0x66 c \<or> between 0x41 0x46 c"

definition digit_val :: "char \<Rightarrow> nat" where
  "digit_val c =
     (if is_digit c then byte_of c - 0x30
      else if between 0x61 0x66 c then byte_of c - 0x61 + 10
      else if between 0x41 0x46 c then byte_of c - 0x41 + 10 else 16)"

fun scan_digits :: "nat \<Rightarrow> nat \<Rightarrow> scanner \<Rightarrow> scanner" where
  "scan_digits base 0 s = s"
| "scan_digits base (Suc n) s =
     (if ch_sat (\<lambda>c. digit_val c < base) s then scan_digits base n (advance s) else sc_error ''invalid char escape'' s)"

definition scan_escape :: "string \<Rightarrow> scanner \<Rightarrow> scanner" where
  "scan_escape qt s0 =
     (let s = advance s0 in
      if ch_sat (\<lambda>c. c \<in> set ''abfnrtv'' \<or> c = CHR 0x5C) s \<or> ch_is qt s then advance s
      else if ch_sat (\<lambda>c. between 0x30 0x37 c) s then scan_digits 8 3 s
      else if ch_is ''x'' s then scan_digits 16 2 (advance s)
      else if ch_is ''u'' s then scan_digits 16 4 (advance s)
      else if ch_is ''U'' s then scan_digits 16 8 (advance s)
      else sc_error ''invalid char escape'' s)"

lemma scan_digits_left: "sc_left (scan_digits base n s) \<le> sc_left s"
proof (induction base n s rule: scan_digits.induct)
  case (2 base n s)
  have "sc_left (advance s) < sc_left s" if "ch_sat (\<lambda>c. digit_val c < base) s"
    by (rule advance_left [OF ch_sat_not_None [OF that]])
  thus ?case using 2 by fastforce
qed simp

lemma scan_escape_left:
  assumes "sc_ch s \<noteq> None"
  shows "sc_left (scan_escape qt s) < sc_left s"
proof -
  have a: "sc_left (advance s) < sc_left s" by (rule advance_left [OF assms])
  have b: "sc_left (advance (advance s)) < sc_left s" if "sc_ch (advance s) \<noteq> None"
    using advance_left [OF that] a by simp
  show ?thesis
    unfolding scan_escape_def Let_def using a b
    by (auto intro: order.strict_trans1 [OF scan_digits_left])
qed

text \<open>The rest of a string after its first quote, up to the quote that ends it; the number is that of its characters.\<close>

function scan_string :: "string \<Rightarrow> scanner \<Rightarrow> nat \<times> scanner" where
  "scan_string qt s =
     (if ch_is qt s then (0, s)
      else if sc_ch s = None \<or> ch_is [CHR 0x0A] s then (0, sc_error ''literal not terminated'' s)
      else (case scan_string qt (if ch_is [CHR 0x5C] s then scan_escape qt s else advance s) of (n, s') \<Rightarrow> (Suc n, s')))"
  by pat_completeness auto
termination by (relation "measure (\<lambda>(qt, s). sc_left s)") (auto simp: advance_left scan_escape_left)

declare scan_string.simps [simp del]

definition scan_raw_string :: "scanner \<Rightarrow> scanner" where
  "scan_raw_string s0 =
     (let s = skip_while (\<lambda>s. \<not> ch_is [CHR 0x60] s) s0
      in if sc_ch s = None then sc_error ''literal not terminated'' s else s)"

text \<open>A comment after its first slash; \<open>star\<close> is whether the rune before the current one was a star.\<close>

function general_comment :: "bool \<Rightarrow> scanner \<Rightarrow> scanner" where
  "general_comment star s =
     (if sc_ch s = None then sc_error ''comment not terminated'' s
      else if star \<and> ch_is ''/'' s then advance s
      else general_comment (ch_is ''*'' s) (advance s))"
  by pat_completeness auto
termination by (relation "measure (\<lambda>(star, s). sc_left s)") (auto simp: advance_left)

declare general_comment.simps [simp del]

definition scan_comment :: "scanner \<Rightarrow> scanner" where
  "scan_comment s =
     (if ch_is ''/'' s then skip_while (\<lambda>s. \<not> ch_is [CHR 0x0A] s) (advance s) else general_comment False (advance s))"

subsection \<open>Numbers\<close>

text \<open>The digits of a number: what they are is read off the text that was consumed.\<close>

definition scan_digit_run :: "nat \<Rightarrow> scanner \<Rightarrow> string \<times> scanner" where
  "scan_digit_run base s =
     (let s' = skip_while (ch_sat (\<lambda>c. (if base \<le> 10 then is_digit c else is_hex c) \<or> c = CHR ''_'')) s
      in (drop (length (sc_tok s)) (sc_tok s'), s'))"

definition has_digit :: "string \<Rightarrow> bool" where
  "has_digit ds \<longleftrightarrow> (\<exists>c \<in> set ds. c \<noteq> CHR ''_'')"

definition invalid_digit :: "nat \<Rightarrow> string \<Rightarrow> char option" where
  "invalid_digit base ds = (if base \<le> 10 then List.find (\<lambda>c. c \<noteq> CHR ''_'' \<and> digit_val c \<ge> base) ds else None)"

definition litname :: "char option \<Rightarrow> string" where
  "litname pre =
     (if pre = Some (CHR ''x'') then ''hexadecimal literal''
      else if pre = Some (CHR ''o'') \<or> pre = Some (CHR ''0'') then ''octal literal''
      else if pre = Some (CHR ''b'') then ''binary literal'' else ''decimal literal'')"

text \<open>Whether a separator does not stand between digits; \<open>prev\<close> is the class of the character before: a digit, a separator or another one.\<close>

fun bad_separator :: "bool \<Rightarrow> char \<Rightarrow> string \<Rightarrow> bool" where
  "bad_separator hex prev [] = (prev = CHR ''_'')"
| "bad_separator hex prev (c # cs) =
     (if c = CHR ''_'' then prev \<noteq> CHR ''0'' \<or> bad_separator hex (CHR ''_'') cs
      else if is_digit c \<or> (hex \<and> is_hex c) then bad_separator hex (CHR ''0'') cs
      else prev = CHR ''_'' \<or> bad_separator hex (CHR ''.'') cs)"

definition invalid_sep :: "string \<Rightarrow> bool" where
  "invalid_sep x =
     (case x of
        a # p # ds \<Rightarrow>
          if a = CHR ''0'' \<and> to_lower p \<in> set ''xob'' then bad_separator (to_lower p = CHR ''x'') (CHR ''0'') ds
          else bad_separator False (CHR ''.'') x
      | _ \<Rightarrow> bad_separator False (CHR ''.'') x)"

definition when_err :: "bool \<Rightarrow> string \<Rightarrow> scanner \<Rightarrow> scanner" where
  "when_err b msg s = (if b then sc_error msg s else s)"

text \<open>The prefix of an integer, its base, and whether a digit has been seen: a leading zero is one.\<close>

definition number_prefix :: "scanner \<Rightarrow> char option \<times> nat \<times> bool \<times> scanner" where
  "number_prefix s0 =
     (if ch_is ''0'' s0 then
        (let s = advance s0 in
         if ch_sat (\<lambda>c. to_lower c = CHR ''x'') s then (Some (CHR ''x''), 16, False, advance s)
         else if ch_sat (\<lambda>c. to_lower c = CHR ''o'') s then (Some (CHR ''o''), 8, False, advance s)
         else if ch_sat (\<lambda>c. to_lower c = CHR ''b'') s then (Some (CHR ''b''), 2, False, advance s)
         else (Some (CHR ''0''), 8, True, s))
      else (None, 10, False, s0))"

definition show_rune :: "char \<Rightarrow> string" where
  "show_rune c = [CHR 0x27, c, CHR 0x27]"

text \<open>\<open>scanNumber\<close>: the result is whether the number is a float.\<close>

definition scan_number :: "bool \<Rightarrow> scanner \<Rightarrow> bool \<times> scanner" where
  "scan_number dot0 s0 =
     (case (if dot0 then (None, 10, False, s0) else number_prefix s0) of
        (pre, base, zero, s1) \<Rightarrow>
          (case (if dot0 then ([], s1) else scan_digit_run base s1) of
             (ds1, s2) \<Rightarrow>
               (let dot = dot0 \<or> ch_is ''.'' s2;
                    s3 = (if \<not> dot0 \<and> dot then advance s2 else s2)
                in case (if dot then
                           scan_digit_run base
                             (when_err (pre = Some (CHR ''o'') \<or> pre = Some (CHR ''b'')) (''invalid radix point in '' @ litname pre) s3)
                         else ([], s3)) of
                     (ds2, s4) \<Rightarrow>
                       (let ds = ds1 @ ds2;
                            s5 = when_err (\<not> zero \<and> \<not> has_digit ds) (litname pre @ '' has no digits'') s4;
                            e = ch_sat (\<lambda>c. to_lower c = CHR ''e'') s5; p = ch_sat (\<lambda>c. to_lower c = CHR ''p'') s5;
                            c = (case sc_ch s5 of Some [c] \<Rightarrow> c | _ \<Rightarrow> CHR 0x00);
                            (float, eds, s6) =
                              (if e \<or> p then
                                 (let t = (if e then when_err (pre \<noteq> None \<and> pre \<noteq> Some (CHR ''0''))
                                             (show_rune c @ '' exponent requires decimal mantissa'') s5
                                           else when_err (pre \<noteq> Some (CHR ''x''))
                                             (show_rune c @ '' exponent requires hexadecimal mantissa'') s5);
                                      t1 = advance t; t2 = (if ch_is ''+'' t1 \<or> ch_is ''-'' t1 then advance t1 else t1)
                                  in case scan_digit_run 10 t2 of
                                       (eds, t3) \<Rightarrow> (True, eds, when_err (\<not> has_digit eds) ''exponent has no digits'' t3))
                               else (dot, [], when_err (pre = Some (CHR ''x'') \<and> dot) (''hexadecimal mantissa requires a '' @ show_rune (CHR ''p'') @ '' exponent'') s5));
                            s7 = (case invalid_digit base ds of
                                    Some d \<Rightarrow> when_err (\<not> float) (''invalid digit '' @ show_rune d @ '' in '' @ litname pre) s6
                                  | None \<Rightarrow> s6)
                        in (float, when_err (CHR ''_'' \<in> set (ds @ eds) \<and> invalid_sep (sc_tok s7))
                                     (show_rune (CHR ''_'') @ '' must separate successive digits'') s7)))))"

subsection \<open>Scan\<close>

datatype scan_tok = SEOF | SIdent | SInt | SFloat | SChar | SString | SRawString | SRune string

definition go_whitespace :: "scanner \<Rightarrow> bool" where
  "go_whitespace = ch_sat (\<lambda>c. c \<in> {CHR 0x09, CHR 0x0A, CHR 0x0D, CHR '' ''})"

definition start_token :: "scanner \<Rightarrow> scanner" where
  "start_token s = (skip_while go_whitespace s)\<lparr>sc_tok := []\<rparr>"

text \<open>The token at the current rune, \<open>None\<close> if it is a comment.\<close>

definition scan_one :: "unicode_tables \<Rightarrow> scanner \<Rightarrow> scan_tok option \<times> scanner" where
  "scan_one u s =
     (if is_ident_rune u True s then (Some SIdent, skip_while (is_ident_rune u False) (advance s))
      else if ch_sat is_digit s then (case scan_number False s of (float, s') \<Rightarrow> (Some (if float then SFloat else SInt), s'))
      else (case sc_ch s of
        None \<Rightarrow> (Some SEOF, s)
      | Some bs \<Rightarrow>
          if bs = [CHR 0x22] then (Some SString, advance (snd (scan_string [CHR 0x22] (advance s))))
          else if bs = [CHR 0x27] then
            (case scan_string [CHR 0x27] (advance s) of (n, s') \<Rightarrow> (Some SChar, advance (when_err (n \<noteq> 1) ''invalid char literal'' s')))
          else if bs = ''.'' then
            (let s' = advance s in
             if ch_sat is_digit s' then (Some SFloat, snd (scan_number True s')) else (Some (SRune bs), s'))
          else if bs = ''/'' then
            (let s' = advance s in
             if ch_is ''/'' s' \<or> ch_is ''*'' s' then (None, scan_comment s') else (Some (SRune bs), s'))
          else if bs = [CHR 0x60] then (Some SRawString, advance (scan_raw_string (advance s)))
          else (Some (SRune bs), advance s)))"

lemma skip_while_left: "sc_left (skip_while p s) \<le> sc_left s"
proof (induction p s rule: skip_while.induct)
  case (1 p s)
  show ?case
  proof (cases "sc_ch s \<noteq> None \<and> p s")
    case True
    thus ?thesis using 1 advance_left [of s] by (subst skip_while.simps) simp
  qed (subst skip_while.simps, auto)
qed

lemma general_comment_left: "sc_left (general_comment star s) \<le> sc_left s"
proof (induction star s rule: general_comment.induct)
  case (1 star s)
  show ?case
  proof (cases "sc_ch s = None")
    case False
    thus ?thesis using 1 advance_left [OF False] by (subst general_comment.simps) (cases "star \<and> ch_is ''/'' s", simp_all)
  qed (subst general_comment.simps, simp)
qed

lemma scan_comment_left: "sc_ch s \<noteq> None \<Longrightarrow> sc_left (scan_comment s) < sc_left s"
  unfolding scan_comment_def
  by (auto intro: order.strict_trans1 [OF skip_while_left advance_left] order.strict_trans1 [OF general_comment_left advance_left])

function Scan :: "unicode_tables \<Rightarrow> scanner \<Rightarrow> scan_tok \<times> string \<times> scanner" where
  "Scan u s =
     (case scan_one u (start_token s) of
        (Some t, s') \<Rightarrow> (t, sc_tok s', s')
      | (None, s') \<Rightarrow> Scan u s')"
  by pat_completeness auto

lemma scan_one_None:
  assumes "scan_one u s = (None, s')"
  shows "sc_left s' < sc_left s"
proof -
  have "sc_ch s = Some ''/''" "s' = scan_comment (advance s)" "sc_ch (advance s) \<noteq> None"
    using assms by (auto simp: scan_one_def Let_def split: if_splits prod.splits option.splits)
  thus ?thesis using advance_left [of s] scan_comment_left [of "advance s"] by simp
qed

lemma start_token_left: "sc_left (start_token s) \<le> sc_left s"
  using skip_while_left [of go_whitespace s] by (simp add: start_token_def sc_left_def)

termination Scan
proof (relation "measure (\<lambda>(u, s). sc_left s)", goal_cases)
  case (2 u s x s')
  thus ?case using scan_one_None [of u "start_token s" s'] start_token_left [of s] by simp
qed simp

declare Scan.simps [simp del]

end
