(* ===== verification/LogQL_Lexer.thy ===== *)
theory LogQL_Lexer
  imports Text_Scanner LogQL
begin

text \<open>
  The lexer of LogQL, \<open>logql/v2/lexer.go\<close>, on the scanner of \<open>Text_Scanner\<close>, and \<open>ParseExpr\<close> of \<open>parser.go\<close>, which
  runs the generated parser on it.  A lexer that does not return is the value \<open>None\<close>.  The positions in error messages are left out.
\<close>

section \<open>Definitions\<close>

subsection \<open>Tokens\<close>

text \<open>The tokens of \<open>expr.y\<close>: those with a value that the lexer stores, and the others by their names.\<close>

datatype token =
    TEOF | IDENTIFIER string | STRING string | RANGE string | NUMBER string | DURATION int
  | LOGFMTSTRICT string | LOGFMTKEEPEMPTY string | TOK string

definition tokens :: "(string \<times> token) list" where
  "tokens =
     [('','', TOK ''COMMA''), (''.'', TOK ''DOT''), (''{'', TOK ''OPEN_BRACE''), (''}'', TOK ''CLOSE_BRACE''),
      (''('', TOK ''OPEN_PARENTHESIS''), ('')'', TOK ''CLOSE_PARENTHESIS''), (''='', TOK ''EQ''), (''!='', TOK ''NEQ''),
      (''=~'', TOK ''RE''), (''!~'', TOK ''NRE''), (''|'', TOK ''PIPE''), (''|='', TOK ''PIPE_EXACT''),
      (''|~'', TOK ''PIPE_MATCH''), (''|>'', TOK ''PIPE_MATCH_PATTERN''), (''!>'', TOK ''PIPE_NOT_MATCH_PATTERN''),
      (''decolorize'', TOK ''DECOLORIZE''), (''drop'', TOK ''DROP''), (''keep'', TOK ''KEEP''), (''by'', TOK ''BY''),
      (''without'', TOK ''WITHOUT''), (''on'', TOK ''ON''), (''ignoring'', TOK ''IGNORING''),
      (''group_left'', TOK ''GROUP_LEFT''), (''group_right'', TOK ''GROUP_RIGHT''), (''logfmt'', TOK ''LOGFMT''),
      (''json'', TOK ''JSON''), (''regexp'', TOK ''REGEXP''), (''unpack'', TOK ''UNPACK''), (''unwrap'', TOK ''UNWRAP''),
      (''offset'', TOK ''OFFSET''), (''pattern'', TOK ''PATTERN''), (''line_format'', TOK ''LINE_FMT''),
      (''label_format'', TOK ''LABEL_FMT''), (''=='', TOK ''CMP_EQ''), (''>'', TOK ''GT''), (''>='', TOK ''GTE''),
      (''<'', TOK ''LT''), (''<='', TOK ''LTE''), (''or'', TOK ''OR''), (''and'', TOK ''AND''), (''unless'', TOK ''UNLESS''),
      (''+'', TOK ''ADD''), (''-'', TOK ''SUB''), (''*'', TOK ''MUL''), (''/'', TOK ''DIV''), (''%'', TOK ''MOD''),
      (''^'', TOK ''POW''), (''bytes'', TOK ''BYTES_CONV''), (''duration'', TOK ''DURATION_CONV''),
      (''duration_seconds'', TOK ''DURATION_SECONDS_CONV''), (''--strict'', LOGFMTSTRICT ''--strict''),
      (''--keep-empty'', LOGFMTKEEPEMPTY ''--keep-empty'')]"

definition funcTokens :: "(string \<times> token) list" where
  "funcTokens =
     [(''rate'', TOK ''RATE''), (''count_over_time'', TOK ''COUNT_OVER_TIME''), (''bytes_rate'', TOK ''BYTES_RATE''),
      (''bytes_over_time'', TOK ''BYTES_OVER_TIME''), (''avg_over_time'', TOK ''AVG_OVER_TIME''),
      (''sum_over_time'', TOK ''SUM_OVER_TIME''), (''min_over_time'', TOK ''MIN_OVER_TIME''),
      (''max_over_time'', TOK ''MAX_OVER_TIME''), (''stdvar_over_time'', TOK ''STDVAR_OVER_TIME''),
      (''stddev_over_time'', TOK ''STDDEV_OVER_TIME''), (''quantile_over_time'', TOK ''QUANTILE_OVER_TIME''),
      (''first_over_time'', TOK ''FIRST_OVER_TIME''), (''last_over_time'', TOK ''LAST_OVER_TIME''),
      (''absent_over_time'', TOK ''ABSENT_OVER_TIME''), (''rate_counter'', TOK ''RATE_COUNTER''),
      (''vector'', TOK ''VECTOR''), (''sum'', TOK ''SUM''), (''avg'', TOK ''AVG''), (''max'', TOK ''MAX''),
      (''min'', TOK ''MIN''), (''count'', TOK ''COUNT''), (''stddev'', TOK ''STDDEV''), (''stdvar'', TOK ''STDVAR''),
      (''bottomk'', TOK ''BOTTOMK''), (''topk'', TOK ''TOPK''), (''sort'', TOK ''SORT''), (''sort_desc'', TOK ''SORT_DESC''),
      (''label_replace'', TOK ''LABEL_REPLACE''), (''ip'', TOK ''IP'')]"

text \<open>
  Library code behind the lexer: the tables of Unicode, the two parsers of durations, and \<open>strutil.Unquote\<close> of Prometheus.
\<close>

record lexer_lib =
  lx_unicode :: unicode_tables
  prometheus_duration :: "string \<Rightarrow> string + int"
  time_duration :: "string \<Rightarrow> string + int"
  Unquote :: "string \<Rightarrow> string + string"

subsection \<open>Looking ahead\<close>

text \<open>What a copy of a scanner leaves behind in the original: the reader and the errors.\<close>

definition after_copy :: "scanner \<Rightarrow> scanner \<Rightarrow> scanner" where
  "after_copy copy l = l\<lparr>sc_reader := sc_reader copy, sc_errs := sc_errs copy\<rparr>"

definition trimSpace :: "scanner \<Rightarrow> scanner" where
  "trimSpace s = skip_while (\<lambda>s. is_space (Peek s)) s"

function isFunc_loop :: "string \<Rightarrow> scanner \<Rightarrow> bool \<times> scanner" where
  "isFunc_loop sb s =
     (case Next s of
        (None, s') \<Rightarrow> (False, s')
      | (Some bs, s') \<Rightarrow>
          (let sb' = sb @ write_rune (Some bs) in
           if sb' = ''('' then (True, s')
           else if sb' = ''by'' \<or> sb' = ''without'' then
             (case Next (trimSpace s') of (r, s'') \<Rightarrow> (r = Some ''('', s''))
           else isFunc_loop sb' s'))"
  by pat_completeness auto
termination
  by (relation "measure (\<lambda>(sb, s). sc_left s)") (auto simp: Next_left)

declare isFunc_loop.simps [simp del]

definition isFunc :: "scanner \<Rightarrow> bool \<times> scanner" where
  "isFunc sc = isFunc_loop [] (trimSpace sc)"

subsection \<open>Durations\<close>

definition isDurationRune :: "string \<Rightarrow> bool" where
  "isDurationRune bs \<longleftrightarrow> bs \<in> {''n'', ''u'', [CHR 0xC2, CHR 0xB5], ''m'', ''s'', ''h'', ''d'', ''w'', ''y''}"

definition parseDuration :: "lexer_lib \<Rightarrow> string \<Rightarrow> string + int" where
  "parseDuration lib d =
     (case prometheus_duration lib d of Inr x \<Rightarrow> Inr x | Inl _ \<Rightarrow> time_duration lib d)"

definition duration_rune :: "lexer_lib \<Rightarrow> scanner \<Rightarrow> bool" where
  "duration_rune lib s =
     (case Peek s of
        None \<Rightarrow> False
      | Some bs \<Rightarrow> \<not> is_space (Some bs) \<and> (is_number (lx_unicode lib) bs \<or> isDurationRune bs \<or> bs = ''.''))"

text \<open>The text that could belong to a duration, the number of its runes, and the copy of the scanner behind it.\<close>

function duration_text :: "lexer_lib \<Rightarrow> scanner \<Rightarrow> string \<times> nat \<times> scanner" where
  "duration_text lib s =
     (if duration_rune lib s then
        (case duration_text lib (snd (Next s)) of (t, n, s') \<Rightarrow> (write_rune (Peek s) @ t, Suc n, s'))
      else ([], 0, s))"
  by pat_completeness auto
termination
  by (relation "measure (\<lambda>(lib, s). sc_left s)") (auto simp: Next_def duration_rune_def Peek_def advance_left split: option.splits)

declare duration_text.simps [simp del]

definition tryScanDuration :: "lexer_lib \<Rightarrow> string \<Rightarrow> scanner \<Rightarrow> int option \<times> scanner" where
  "tryScanDuration lib number l =
     (case duration_text lib l of
        (t, consumed, s) \<Rightarrow>
          (let l' = after_copy s l in
           if consumed = 0 then (None, l')
           else (case parseDuration lib (number @ t) of
                   Inl _ \<Rightarrow> (None, l')
                 | Inr d \<Rightarrow> (Some d, ((\<lambda>l. snd (Next l)) ^^ consumed) l'))))"

subsection \<open>Lex\<close>

text \<open>The comment after a hash: the line is read to its end, which is consumed.\<close>

function skip_line :: "scanner \<Rightarrow> scanner" where
  "skip_line s =
     (case Next s of
        (None, s') \<Rightarrow> s'
      | (Some bs, s') \<Rightarrow> if bs = [CHR 0x0A] then s' else skip_line s')"
  by pat_completeness auto
termination
  by (relation "measure sc_left") (auto simp: Next_left)

declare skip_line.simps [simp del]

definition hash_comment :: "scanner \<Rightarrow> scanner" where
  "hash_comment s = (if Peek s = None \<or> Peek s = Some [CHR 0x0A] then s else skip_line s)"

text \<open>The word after a dash, up to the next space.  The end of the input is not a space, and the loop goes on there.\<close>

partial_function (option) dash_word :: "string \<Rightarrow> scanner \<Rightarrow> (string \<times> scanner) option" where
  "dash_word b s =
     (case Next s of (r, s') \<Rightarrow> if is_space r then Some (b, s') else dash_word (b @ write_rune r) s')"

declare dash_word.simps [code]

definition dash_token :: "string \<Rightarrow> token" where
  "dash_token b =
     (if b = ''--strict'' then LOGFMTSTRICT b else if b = ''--keep-empty'' then LOGFMTKEEPEMPTY b else TEOF)"

function range_text :: "string \<Rightarrow> scanner \<Rightarrow> string option \<times> scanner" where
  "range_text b s =
     (case Next s of
        (None, s') \<Rightarrow> (None, s')
      | (Some bs, s') \<Rightarrow> if bs = '']'' then (Some b, s') else range_text (b @ write_rune (Some bs)) s')"
  by pat_completeness auto
termination
  by (relation "measure (\<lambda>(b, s). sc_left s)") (auto simp: Next_left)

declare range_text.simps [simp del]

text \<open>The words and operators; the first two lookups read ahead on a copy.\<close>

definition keyword :: "string \<Rightarrow> scanner \<Rightarrow> token \<times> scanner" where
  "keyword tokenText l =
     (let tokenNext = tokenText @ write_rune (Peek l);
          (found, l1) = (case map_of funcTokens tokenNext of
                           None \<Rightarrow> (None, l)
                         | Some tok \<Rightarrow>
                             (case isFunc (snd (Next l)) of
                                (True, sc) \<Rightarrow> (Some tok, snd (Next (after_copy sc l)))
                              | (False, sc) \<Rightarrow> (None, after_copy sc l)))
      in case found of
           Some tok \<Rightarrow> (tok, l1)
         | None \<Rightarrow>
             (let (found, l2) = (case map_of funcTokens tokenText of
                                   None \<Rightarrow> (None, l1)
                                 | Some tok \<Rightarrow> (case isFunc l1 of (ok, sc) \<Rightarrow> (if ok then Some tok else None, after_copy sc l1)))
              in case found of
                   Some tok \<Rightarrow> (tok, l2)
                 | None \<Rightarrow>
                     (case map_of tokens tokenNext of
                        Some tok \<Rightarrow> (tok, snd (Next l2))
                      | None \<Rightarrow> (case map_of tokens tokenText of Some tok \<Rightarrow> (tok, l2) | None \<Rightarrow> (IDENTIFIER tokenText, l2)))))"

definition bracket_or_keyword :: "scan_tok \<Rightarrow> string \<Rightarrow> scanner \<Rightarrow> token \<times> scanner" where
  "bracket_or_keyword r tokenText l =
     (if r = SRune ''['' then
        (case range_text [] l of
           (Some b, l') \<Rightarrow> (RANGE (''['' @ b @ '']''), l')
         | (None, l') \<Rightarrow> (TEOF, sc_error ''missing closing ']' in duration'' l'))
      else keyword tokenText l)"

definition string_token :: "lexer_lib \<Rightarrow> string \<Rightarrow> scanner \<Rightarrow> token \<times> scanner" where
  "string_token lib tokenText l =
     (if \<not> utf8_valid tokenText then (TEOF, sc_error ''invalid UTF-8 rune'' l)
      else (case Unquote lib tokenText of Inl err \<Rightarrow> (TEOF, sc_error err l) | Inr str \<Rightarrow> (STRING str, l)))"

lemma skip_line_left: "sc_left (skip_line s) \<le> sc_left s"
proof (induction s rule: skip_line.induct)
  case (1 s)
  show ?case
  proof (cases "fst (Next s)")
    case None
    thus ?thesis by (subst skip_line.simps) (auto simp: Next_def)
  next
    case (Some bs)
    then obtain s' where n: "Next s = (Some bs, s')" by (cases "Next s") simp
    show ?thesis using 1 [OF n [symmetric] refl] Next_left [OF n [symmetric]] by (subst skip_line.simps) (auto simp: n)
  qed
qed

lemma hash_comment_left: "sc_left (hash_comment s) \<le> sc_left s"
  by (simp add: hash_comment_def skip_line_left)

text \<open>Every token takes at least one rune.\<close>

lemma scan_one_rune: "scan_one u s = (Some (SRune bs), s') \<Longrightarrow> sc_ch s = Some bs \<and> s' = advance s"
  by (auto simp: scan_one_def Let_def split: if_splits prod.splits option.splits)

lemma Scan_rune:
  assumes "Scan u s = (SRune bs, t, s')"
  shows "sc_left s' < sc_left s \<and> (\<exists>s1. sc_ch s1 = Some bs \<and> s' = advance s1)"
  using assms
proof (induction u s rule: Scan.induct)
  case (1 u s)
  show ?case
  proof (cases "scan_one u (start_token s)")
    case (Pair k s1)
    show ?thesis
    proof (cases k)
      case None
      hence "Scan u s1 = (SRune bs, t, s')" using "1.prems" Pair by (subst (asm) Scan.simps) simp
      moreover have "sc_left s1 < sc_left s"
        using scan_one_None [of u "start_token s" s1] Pair None start_token_left [of s] by simp
      ultimately show ?thesis using "1.IH" [OF Pair [symmetric] None] by auto
    next
      case (Some x)
      hence *: "x = SRune bs" "s' = s1" using "1.prems" Pair by (auto simp: Scan.simps [of u s])
      hence "sc_ch (start_token s) = Some bs" "s1 = advance (start_token s)" using scan_one_rune Pair Some by auto
      thus ?thesis using * advance_left [of "start_token s"] start_token_left [of s] by fastforce
    qed
  qed
qed

function Lex :: "lexer_lib \<Rightarrow> scanner \<Rightarrow> (token \<times> scanner) option" where
  "Lex lib s =
     (case Scan (lx_unicode lib) s of
        (r, tokenText, l) \<Rightarrow>
          if r = SRune ''#'' then Lex lib (hash_comment l)
          else if r = SRune ''-'' then
            (if Peek l = Some ''-'' then map_option (\<lambda>(b, l'). (dash_token b, l')) (dash_word ''-'' l)
             else (case tryScanDuration lib tokenText l of
                     (Some d, l') \<Rightarrow> Some (DURATION d, l')
                   | (None, l') \<Rightarrow> Some (bracket_or_keyword r tokenText l')))
          else if r = SEOF then Some (TEOF, l)
          else if r = SInt \<or> r = SFloat then
            (case tryScanDuration lib tokenText l of
               (Some d, l') \<Rightarrow> Some (DURATION d, l')
             | (None, l') \<Rightarrow> Some (NUMBER tokenText, l'))
          else if r = SString \<or> r = SRawString then Some (string_token lib tokenText l)
          else Some (bracket_or_keyword r tokenText l))"
  by pat_completeness auto
termination
proof (relation "measure (\<lambda>(lib, s). sc_left s)", goal_cases)
  case (2 lib s r y tokenText l)
  hence "sc_left l < sc_left s" using Scan_rune by (metis (no_types))
  thus ?case using hash_comment_left [of l] by simp
qed simp

declare Lex.simps [simp del]

subsection \<open>ParseExpr\<close>

text \<open>
  The generated parser asks for tokens one by one.  \<open>wants\<close> is whether it reads another one after those it has, and \<open>outcome\<close> what it makes of all:
  the expression, or the message of its syntax error.
\<close>

record yacc =
  wants :: "token list \<Rightarrow> bool"
  outcome :: "token list \<Rightarrow> string + expr"

partial_function (option) read_tokens ::
    "lexer_lib \<Rightarrow> yacc \<Rightarrow> token list \<Rightarrow> scanner \<Rightarrow> (token list \<times> scanner) option" where
  "read_tokens lib y toks s =
     (if \<not> wants y toks then Some (toks, s)
      else (case Lex lib s of
              None \<Rightarrow> None
            | Some (t, s') \<Rightarrow> if t = TEOF then Some (toks @ [t], s') else read_tokens lib y (toks @ [t]) s'))"

declare read_tokens.simps [code]

text \<open>An error of the lexer or of the parser makes the call fail with the first message.\<close>

definition lexer_ParseExpr :: "lexer_lib \<Rightarrow> yacc \<Rightarrow> string \<Rightarrow> (string + expr) option" where
  "lexer_ParseExpr lib y input =
     map_option (\<lambda>(toks, s).
       case (sc_errs s, outcome y toks) of
         ([], Inr e) \<Rightarrow> Inr e
       | ([], Inl err) \<Rightarrow> Inl err
       | (err # _, _) \<Rightarrow> Inl err)
       (read_tokens lib y [] (scanner_init input))"

section \<open>Lemmas\<close>

text \<open>Whether there is a space at or after the current rune.\<close>

definition space_ahead :: "scanner \<Rightarrow> bool" where
  "space_ahead s = is_space (Peek (skip_while (\<lambda>s. \<not> is_space (Peek s)) s))"

lemma space_ahead_step:
  "space_ahead s = (is_space (Peek s) \<or> (Peek s \<noteq> None \<and> space_ahead (snd (Next s))))"
  unfolding space_ahead_def by (subst skip_while.simps) (auto simp: Peek_def Next_def is_space_def)

text \<open>The loop on the word after a dash ends exactly if there is a space ahead.\<close>

lemma dash_word_ends:
  assumes "dash_word b s = Some y"
  shows "space_ahead s"
proof (rule dash_word.raw_induct [OF _ assms])
  fix f b s and y :: "string \<times> scanner"
  assume 1: "\<And>b s y. f b s = Some y \<Longrightarrow> space_ahead s"
    "(case Next s of (r, s') \<Rightarrow> if is_space r then Some (b, s') else f (b @ write_rune r) s') = Some y"
  obtain r s' where n: "Next s = (r, s')" by fastforce
  show "space_ahead s"
  proof (cases "is_space r")
    case True
    thus ?thesis using n unfolding space_ahead_step [of s] by (auto simp: Next_def Peek_def)
  next
    case False
    hence "space_ahead s'" using 1 n by simp
    moreover have "Peek s \<noteq> None \<or> s' = s" using n unfolding Next_def Peek_def by (metis prod.inject)
    ultimately show ?thesis using n by (metis space_ahead_step snd_conv)
  qed
qed

lemma dash_word_returns: "space_ahead s \<Longrightarrow> \<exists>y. dash_word b s = Some y"
proof (induction "sc_left s" arbitrary: b s rule: less_induct)
  case less
  obtain r s' where n: "Next s = (r, s')" by fastforce
  show ?case
  proof (cases "is_space r")
    case True
    thus ?thesis by (subst dash_word.simps) (simp add: n)
  next
    case False
    hence "Peek s \<noteq> None" "space_ahead s'"
      using less.prems n unfolding space_ahead_step [of s] by (auto simp: Next_def Peek_def)
    hence "\<exists>y. dash_word (b @ write_rune r) s' = Some y"
      using less.hyps n Next_left [of _ s' s] by (auto simp: Next_def Peek_def)
    thus ?thesis using False by (subst dash_word.simps) (simp add: n)
  qed
qed

lemma dash_word_None: "dash_word b s = None \<longleftrightarrow> \<not> space_ahead s"
  using dash_word_ends dash_word_returns by (metis not_None_eq)

text \<open>The scanner after some calls of the lexer, with the tokens they gave.\<close>

fun lex_steps :: "lexer_lib \<Rightarrow> nat \<Rightarrow> scanner \<Rightarrow> (token list \<times> scanner) option" where
  "lex_steps lib 0 s = Some ([], s)"
| "lex_steps lib (Suc n) s =
     (case Lex lib s of
        None \<Rightarrow> None
      | Some (t, s') \<Rightarrow> (case lex_steps lib n s' of None \<Rightarrow> None | Some (ts, s'') \<Rightarrow> Some (t # ts, s'')))"

lemma lex_steps_length: "lex_steps lib n s = Some (ts, s') \<Longrightarrow> length ts = n"
  by (induction n arbitrary: s ts) (auto split: option.splits)

lemma read_tokens_steps:
  assumes "lex_steps lib n s = Some (ts, s')" "TEOF \<notin> set ts" "\<And>k. k \<le> n \<Longrightarrow> wants y (toks @ take k ts)"
  shows "read_tokens lib y toks s = read_tokens lib y (toks @ ts) s'"
  using assms
proof (induction n arbitrary: s ts toks)
  case (Suc n)
  obtain t s1 ts1 where l: "Lex lib s = Some (t, s1)" "lex_steps lib n s1 = Some (ts1, s')" "ts = t # ts1"
    using Suc.prems(1) by (auto split: option.splits)
  have "wants y toks" using Suc.prems(3) [of 0] by simp
  moreover have "wants y ((toks @ [t]) @ take k ts1)" if "k \<le> n" for k using Suc.prems(3) [of "Suc k"] that l(3) by simp
  ultimately show ?case
    using Suc.IH [of s1 ts1 "toks @ [t]"] Suc.prems(2) l by (subst read_tokens.simps) auto
qed simp

section \<open>Properties\<close>

text \<open>
  C32. A query can keep the gateway busy for ever.  If the parser, having read some tokens, asks for another one, and two dashes stand there with no
  space anywhere behind them, the lexer does not return, since the end of the input is not a space, and neither does
  \<open>ParseExpr\<close>.  A query that ends in the flag of a parser, as \<open>| logfmt --strict\<close>, is of this kind.
\<close>

theorem trailing_flag_never_returns:
  assumes "lex_steps lib n (scanner_init input) = Some (ts, s)" "TEOF \<notin> set ts" "\<And>k. k \<le> n \<Longrightarrow> wants y (take k ts)"
    and "Scan (lx_unicode lib) s = (SRune ''-'', t, l)" "Peek l = Some ''-''" "\<not> space_ahead l"
  shows "lexer_ParseExpr lib y input = None"
proof -
  have w: "wants y ts" using assms(3) [of n] lex_steps_length [OF assms(1)] by simp
  have "dash_word ''-'' l = None" using assms(6) by (simp add: dash_word_None)
  hence "Lex lib s = None" using assms(4,5) by (subst Lex.simps) simp
  hence "read_tokens lib y ts s = None" using w by (subst read_tokens.simps) simp
  thus ?thesis using read_tokens_steps [OF assms(1,2), of y "[]"] assms(3) by (simp add: lexer_ParseExpr_def)
qed

text \<open>A lexer for ASCII text, in which one duration is known and strings have no escapes.\<close>

definition sample_lexer_lib :: lexer_lib where
  "sample_lexer_lib =
     \<lparr>lx_unicode = \<lparr>uni_letter = (\<lambda>_. False), uni_digit = (\<lambda>_. False), uni_number = (\<lambda>_. False)\<rparr>,
      prometheus_duration = (\<lambda>s. if s = ''5m'' then Inr 300000000000 else Inl ''not a valid duration''),
      time_duration = (\<lambda>_. Inl ''invalid duration''),
      Unquote = (\<lambda>s. if CHR 0x5C \<in> set s then Inl ''invalid syntax'' else Inr (butlast (tl s)))\<rparr>"

definition flag_query :: string where
  "flag_query = ''{app='' @ [CHR 0x22] @ ''x'' @ [CHR 0x22] @ ''} | logfmt --strict''"

theorem trailing_flag_never_returns_witness:
  "lexer_ParseExpr sample_lexer_lib \<lparr>wants = (\<lambda>_. True), outcome = (\<lambda>_. Inl ''syntax error'')\<rparr> flag_query = None"
proof -
  let ?s = "lex_steps sample_lexer_lib 7 (scanner_init flag_query)"
  have 1: "case ?s of None \<Rightarrow> False | Some (ts, s) \<Rightarrow> TEOF \<notin> set ts
    \<and> (case Scan (lx_unicode sample_lexer_lib) s of (r, t, l) \<Rightarrow> r = SRune ''-'' \<and> Peek l = Some ''-'' \<and> \<not> space_ahead l)"
    by code_simp
  then obtain ts s where 2: "?s = Some (ts, s)" by (auto split: option.splits)
  obtain t l where "Scan (lx_unicode sample_lexer_lib) s = (SRune ''-'', t, l)" "Peek l = Some ''-''" "\<not> space_ahead l" "TEOF \<notin> set ts"
    using 1 2 by (auto split: prod.splits)
  thus ?thesis using trailing_flag_never_returns [OF 2, of "\<lparr>wants = (\<lambda>_. True), outcome = (\<lambda>_. Inl ''syntax error'')\<rparr>"] by simp
qed

end
