(* ===== verification/Spec2Isabelle.thy ===== *)
theory Spec2Isabelle
  imports Gateway_Gaps Traces_RBAC Leaky_Bucket LogQL_Lexer
begin

text \<open>
  A verification development for the MCOA gateway, a reverse proxy that
  authenticates requests, finds the tenant they are for and restricts the queries
  they carry to the data of that tenant.

  The gateway is a chain of HTTP middlewares.  A middleware is modelled as a function from
  handlers to handlers (\<open>Http_Model\<close>); a handler takes a request, the response
  written so far and the state, and either has responded or has forwarded the request.  The
  contract of a middleware is \<open>enforces Q mw\<close>: it responds itself or calls the
  next handler with a request related to its own by \<open>Q\<close>.  Contracts compose
  along a chain.

  Theories, in the order of the data flow:
  \<^item> \<open>Gateway_Prelude\<close>, \<open>Go_Strings\<close>, \<open>Go_JSON\<close>, \<open>Net_URL\<close>, \<open>Http_Model\<close>,
    \<open>Http_Form\<close>: the parts of the Go library that the code uses, with the round
    trips of JSON and of query strings.
  \<^item> \<open>Label_Matchers\<close>: label matchers and their encoding in the authorization data.
  \<^item> \<open>Tenant_Header\<close>: \<open>authentication/tenant_header.go\<close> and \<open>http.go\<close>.
  \<^item> \<open>Grpc_Model\<close>, \<open>MTLS\<close>: \<open>authentication/grpc.go\<close>, \<open>mtls.go\<close>, \<open>mtls_tenant.go\<close>,
    \<open>mtls_grpc.go\<close>.
  \<^item> \<open>Providers\<close>: the provider manager of \<open>authentication/authentication.go\<close>; its
    goroutines are interleaved steps.
  \<^item> \<open>OIDC\<close>, \<open>OpenShift\<close>, \<open>Authenticators\<close>: \<open>authentication/oidc.go\<close>, \<open>openshift.go\<close>
    and \<open>openshift/discovery.go\<close>; \<open>Cookie_Cipher\<close>: \<open>openshift/cookie.go\<close>;
    \<open>Login_Flow\<close>: the login and callback handlers of the two providers.
  \<^item> \<open>Tenant_Label\<close>: \<open>authorization/tenant.go\<close>, from the tenant to label matchers.
  \<^item> \<open>Metrics_Enforcer\<close>, \<open>Alertmanager\<close>: \<open>labels_enforcer.go\<close> and
    \<open>alertmanager_enforcer.go\<close> of \<open>api/metrics/v1\<close>.
  \<^item> \<open>Go_Format\<close>, \<open>LogQL\<close>, \<open>Logs_Enforcer\<close>: the syntax trees of \<open>logql/v2/ast.go\<close> with their
    text form, and \<open>api/logs/v1/labels_enforcer.go\<close>.
  \<^item> \<open>Text_Scanner\<close>, \<open>LogQL_Lexer\<close>: \<open>text/scanner\<close> of the Go library, and the lexer \<open>logql/v2/lexer.go\<close> with \<open>ParseExpr\<close> of \<open>parser.go\<close>.
  \<^item> \<open>Rate_Limit\<close>, \<open>Redis_Limit\<close>: \<open>ratelimit/http.go\<close>, \<open>client.go\<close>, \<open>redis.go\<close> and the script
    \<open>gcra_rate_limit.lua\<close>; \<open>Leaky_Bucket\<close>: the specification that the script refines.
  \<^item> \<open>Rule_Files\<close>, \<open>Logs_Rules\<close>: the types of \<open>rules\<close>, \<open>rules.go\<close> of \<open>api/metrics/v1\<close> and \<open>api/logs/v1\<close>, and the two
    rule enforcers of \<open>api/logs/v1\<close>.
  \<^item> \<open>Traces_RBAC\<close>: \<open>api/traces/v1/trace_rbac.go\<close>.
  \<^item> \<open>Proxy\<close>: \<open>proxy/proxy.go\<close>, \<open>proxy/fanout_proxy.go\<close> and \<open>server/paths.go\<close>; \<open>Reverse_Proxy\<close> and \<open>Routes\<close>: what the code uses of
    \<open>httputil.ReverseProxy\<close> and of the chi router.
  \<^item> \<open>TLS_Config\<close>: the directory \<open>tls\<close>.
  \<^item> \<open>Metrics_API\<close>, \<open>Logs_API\<close>, \<open>Alerts_API\<close>, \<open>Traces_API\<close>, \<open>Probes_API\<close>: the \<open>http.go\<close> files of \<open>api\<close>, the legacy metrics API
    included.  A handler option is a function on the record of the configuration, a router is the list of its routes, each with
    its method, its pattern and the handler with all middlewares around it.
  \<^item> \<open>Flags\<close>, \<open>Startup\<close>: of \<open>main.go\<close>, \<open>parseFlags\<close> and the part of \<open>main\<close> that reads the tenants file and prepares authenticators and
    rate limits.  A start that ends the process is an error value.
  \<^item> \<open>Gateway\<close>: of \<open>main.go\<close>, the routers with the middlewares they get, the root router and the gRPC server.
  \<^item> \<open>Gateway_Contracts\<close>, \<open>Gateway_Tenancy\<close>: what all routes of the gateway guarantee, by the contracts of their middlewares; the
    libraries in between are an interface (\<open>transparent_parts\<close>, \<open>tenancy_parts\<close>).  \<open>Gateway_Example\<close> is a gateway with concrete libraries,
    flags, tenants and requests, on which the interface is interpreted and the properties of the whole server are evaluated.
    \<open>Gateway_Gaps\<close>: where the server lets through more or less than it should.
  \<^item> This theory: the properties of the whole server, from the flags and tenants to the request that leaves for an upstream.

  What the lemmas show: on every route of the server, a request is forwarded only with an authenticated subject or the tenant of a client
  certificate, reads of metrics are confined to the tenants of the request, and writes carry the tenant of the certificate.
  Below that, the middlewares of the read paths of metrics and logs add the tenant's matchers to every selector;
  rules, silences and alert filters of a tenant get its label; authentication sets a subject, in whatever order the
  providers come up, and the sessions that the callbacks issue are the ones the middlewares accept; the shared
  rate limiter lets through no more than its limit and what is refilled over time, and fails closed unless it is configured otherwise;
  flags give well-formed configurations; traces, rule responses, TLS settings and the fan-out of alerts
  are filtered, checked and answered as described at the properties.  Properties of kind error state what the code does
  where it falls short of that.

  Bounds and fuel: the JSON parser takes fuel from the length of its input, which the round
  trip shows to be enough for what the printer writes; the expansion of replacement texts takes fuel from the length of the text, which every
  step shortens.  The retry loops that contact an issuer or read credentials may run forever; they are partial functions, and
  termination is shown from the first successful attempt.  The lexer of LogQL is a partial function too, since it does not return on some queries.

  Parameters of the model are code that is not part of the repository: regular
  expressions, the PromQL parser, MIME types, token verification and signing, the OAuth2 client, the AES
  block function, YAML, the wire formats of Tempo and of Prometheus responses, the local rate limiter, chi's choice of a route and its
  middlewares, and remote services; and of
  the Go library the parsers of URLs, numbers and durations, the parser of certificates, the list of cipher suites and the SHA-256 digest.  The generated
  parser of LogQL is in the repository (\<open>logql/v2\<close>), but is a parameter too: what the properties on log queries need
  of it, that printed queries are read back, is a hypothesis there.

  Not modelled: logging, metrics and tracing; the transports of the proxies, TLS options of upstreams in \<open>main.go\<close>, health checks, listening and
  shutting down; \<open>authorization/query.go\<close>, which only its test
  calls; \<open>authentication/openshift/options.go\<close>; generated code; the registration of the TLS watchers with the process group;
  the raw path of URLs; the limits of the Go library on the nesting of JSON values and on the number of form parameters.
\<close>

section \<open>The whole server\<close>

text \<open>
  A server is started from a configuration and a list of tenants; its routes are those of the moment at which the providers of
  \<open>pm\<close> are up.  A request from the network has no tenant in its context.  \<open>finder\<close> is chi's choice of a route.
\<close>





text \<open>
  C3. A write carries the tenant of the client's certificate and no other.  On the routes that take metrics, logs and traces, a request leaves
  for the upstream only if the certificate names a tenant, and the tenant header of the API then has this tenant as its only
  value, whatever the client has put there.  The one exception is a client that lists the tenant header in \<open>Connection\<close>: the proxy then
  drops the header, and the write leaves without a tenant.
\<close>

theorem gateway_writes_carry_tenant:
  assumes "gateway_start se cfg tenants = Inr sd"
    and "init_run (providerFactories fmt_v oenv osenv h) (sd_tasks sd, NewProviderManager) (pending, pm)"
    and "started_routes env cfg sd pm = Some rs" "tenancy_parts env rx selectors" "tenancy_config cfg"
    and "canonical_key (metrics_tenantHeader (cfg_metrics cfg)) \<noteq> canonical_key ''Authorization''"
    and "finder_ok finder" "tenantKey (Ctx r) = None"
    and "gateway_ServeHTTP env finder rs r w s = (Forwarded r' w', s')"
    and "finder (route_keys rs) r = Chosen i ps" "write_header_of cfg (rpattern (rs ! i)) = Some hdr"
  shows "\<exists>t. cert_tenant (TLS r) = Some t \<and> header_values (Header r') hdr = (if passes_proxy (Header r) hdr then [t] else [])"
proof -
  have pm: "manager_ok pm" using init_run_manager_ok [OF assms(2) factories_ok_registered] manager_ok_new by simp
  have t: "transparent_parts env" using assms(4) by (rule tenancy_parts.axioms)
  have hdr: "proper_header hdr" using assms(5,11) by (auto simp: tenancy_config_def write_header_of_def split: if_splits)
  obtain j qs where j: "finder (route_keys rs) r = Chosen j qs"
    "tenantKey (Ctx (with_params qs r)) = None \<longrightarrow> route_tenancy
        (confined_to rx (env_promql (genv_metrics env)) selectors (metrics_label (cfg_metrics cfg))) (genv_mime env) cfg (rpattern (rs ! j)) (with_params qs r) r'"
    by (rule transparent_parts.gateway_forwarded [OF t assms(9)
          tenancy_parts.gateway_routes_tenancy [OF assms(4) assms(3) [unfolded started_routes_def] pm assms(5,6)] assms(7)])
  hence "written hdr (with_params ps r) r'" using assms(8,10,11) hdr by (simp add: route_tenancy_def with_params_def)
  thus ?thesis by (simp add: written_def with_params_def)
qed

theorem gateway_writes_carry_tenant_witness:
  "\<exists>r' w' s'. gateway_ServeHTTP sample_gateway_env (finder_for ''/api/metrics/v1/api/v1/receive'') sample_routes sample_write new_writer
       \<lparr>limitTracker = [], service = ()\<rparr> = (Forwarded r' w', s')
     \<and> header_values (Header r') ''THANOS-TENANT'' = [''team-a'']"
proof -
  obtain r' where f: "gateway_ServeHTTP sample_gateway_env (finder_for ''/api/metrics/v1/api/v1/receive'') sample_routes sample_write new_writer
     \<lparr>limitTracker = [], service = ()\<rparr> = (Forwarded r' new_writer, \<lparr>limitTracker = [], service = ()\<rparr>)"
    using sample_write_forwarded by blast
  obtain i where i: "finder_for ''/api/metrics/v1/api/v1/receive'' (route_keys sample_routes) sample_write = Chosen i []"
      "rpattern (sample_routes ! i) = ''/api/metrics/v1/api/v1/receive''"
    using finder_for_pattern [OF sample_patterns(1)] .
  have r: "tenantKey (Ctx sample_write) = None" "cert_tenant (TLS sample_write) = Some ''team-a''" "passes_proxy (Header sample_write) ''THANOS-TENANT''"
    by code_simp+
  have k: "canonical_key (metrics_tenantHeader (cfg_metrics sample_config)) \<noteq> canonical_key ''Authorization''"
    using sample_configured(2,4) by simp
  have hd: "write_header_of sample_config (rpattern (sample_routes ! i)) = Some ''THANOS-TENANT''"
    by (simp add: i(2) write_header_of_def sample_configured)
  show ?thesis
    using gateway_writes_carry_tenant [OF sample_starts sample_manager_run sample_routes_started sample.tenancy_parts_axioms
        sample_tenancy_config k finder_for_ok r(1) f i(1) hd] f r(2,3) by auto
qed

end
